(* ===== verification/Prelude.thy ===== *)
theory Prelude
  imports Main "HOL-Library.AList" "HOL-Library.State_Monad" "HOL-Library.Word" "HOL-Library.Multiset"
begin

text \<open>
  The shared vocabulary of the development: the Go built-in types and the functions of Go's
  standard library that the operator uses (maps, strings, decimal and quoted formatting), and the
  generic lemmas about them.

  A Go map is an association list. The list order stands for the order in which a \<open>range\<close> loop
  happens to visit the entries, which Go leaves open; \<open>map_of\<close> abstracts from it. Every map of the
  program has distinct keys, which is the invariant \<open>gomap\<close> below. A Go string is a \<open>string\<close>:
  both are sequences of bytes.
\<close>

section \<open>Collections of rewrite rules\<close>

named_theorems go_const \<open>values of the named constants of the Go source\<close>
named_theorems go_def \<open>definitions of small Go functions, unfolded together\<close>

section \<open>Machine integers\<close>

type_synonym int32 = "32 word"
type_synonym int64 = "64 word"

section \<open>Go maps\<close>

type_synonym ('k, 'v) gomap = "('k \<times> 'v) list"
type_synonym strmap = "(string, string) gomap"

definition gomap :: "('k, 'v) gomap \<Rightarrow> bool" where
  "gomap m \<longleftrightarrow> distinct (map fst m)"

definition mget :: "('k, 'v) gomap \<Rightarrow> 'k \<Rightarrow> 'v option" where
  "mget m k = map_of m k"

text \<open>Reading a missing key of a \<open>map[string]string\<close> gives the empty string.\<close>

definition mget0 :: "('k, string) gomap \<Rightarrow> 'k \<Rightarrow> string" where
  "mget0 m k = (case map_of m k of None \<Rightarrow> [] | Some v \<Rightarrow> v)"

definition mset_key :: "'k \<Rightarrow> 'v \<Rightarrow> ('k, 'v) gomap \<Rightarrow> ('k, 'v) gomap" where
  "mset_key k v m = AList.update k v m"

definition mdelete :: "'k \<Rightarrow> ('k, 'v) gomap \<Rightarrow> ('k, 'v) gomap" where
  "mdelete k m = AList.delete k m"

definition mkeys :: "('k, 'v) gomap \<Rightarrow> 'k set" where
  "mkeys m = fst ` set m"

text \<open>\<open>maps.Equal\<close>: the same number of entries, and each entry of the first is in the second.\<close>

definition maps_Equal :: "('k, 'v) gomap \<Rightarrow> ('k, 'v) gomap \<Rightarrow> bool" where
  "maps_Equal m1 m2 \<longleftrightarrow>
     length m1 = length m2 \<and> list_all (\<lambda>(k, v). map_of m2 k = Some v) m1"

text \<open>\<open>maps.Copy(dst, src)\<close>: every entry of \<open>src\<close> is stored in \<open>dst\<close>.\<close>

definition maps_Copy :: "('k, 'v) gomap \<Rightarrow> ('k, 'v) gomap \<Rightarrow> ('k, 'v) gomap" where
  "maps_Copy dst src = foldl (\<lambda>m (k, v). mset_key k v m) dst src"

text \<open>A map that may be \<open>nil\<close>: reading it is reading the empty map.\<close>

definition nilmap :: "('k, 'v) gomap option \<Rightarrow> ('k, 'v) gomap" where
  "nilmap m = (case m of None \<Rightarrow> [] | Some x \<Rightarrow> x)"

section \<open>Results with an error\<close>

text \<open>\<open>if err := f(); err != nil { return err }\<close> before the rest.\<close>

fun andThen :: "'e + 'a \<Rightarrow> ('a \<Rightarrow> 'e + 'b) \<Rightarrow> 'e + 'b" where
  "andThen (Inl e) k = Inl e"
| "andThen (Inr x) k = k x"

section \<open>Go strings\<close>

definition ascii_upper :: "char \<Rightarrow> bool" where
  "ascii_upper c \<longleftrightarrow> 65 \<le> (of_char c :: nat) \<and> (of_char c :: nat) \<le> 90"

definition lower_char :: "char \<Rightarrow> char" where
  "lower_char c = (if ascii_upper c then char_of ((of_char c :: nat) + 32) else c)"

text \<open>\<open>strings.ToLower\<close> on ASCII; bytes outside ASCII are kept.\<close>

definition ToLower :: "string \<Rightarrow> string" where
  "ToLower s = map lower_char s"

definition is_space :: "char \<Rightarrow> bool" where
  "is_space c \<longleftrightarrow> (of_char c :: nat) \<in> {9, 10, 11, 12, 13, 32}"

text \<open>\<open>strings.TrimSpace\<close> on ASCII white space, and \<open>strings.Trim\<close> with a one-byte cut set.\<close>

definition trim_by :: "(char \<Rightarrow> bool) \<Rightarrow> string \<Rightarrow> string" where
  "trim_by p s = rev (dropWhile p (rev (dropWhile p s)))"

definition TrimSpace :: "string \<Rightarrow> string" where
  "TrimSpace s = trim_by is_space s"

text \<open>\<open>strings.Split(s, sep)\<close> for a one-byte separator: always at least one piece.\<close>

fun Split :: "char \<Rightarrow> string \<Rightarrow> string list" where
  "Split sep [] = [[]]"
| "Split sep (c # cs) =
     (if c = sep then [] # Split sep cs
      else (case Split sep cs of [] \<Rightarrow> [[c]] | p # ps \<Rightarrow> (c # p) # ps))"

text \<open>\<open>strings.Join(parts, sep)\<close>.\<close>

fun Join :: "string \<Rightarrow> string list \<Rightarrow> string" where
  "Join sep [] = []"
| "Join sep [p] = p"
| "Join sep (p # q # ps) = p @ sep @ Join sep (q # ps)"

text \<open>\<open>strings.HasPrefix\<close>.\<close>

fun HasPrefix :: "string \<Rightarrow> string \<Rightarrow> bool" where
  "HasPrefix s [] = True"
| "HasPrefix [] (p # ps) = False"
| "HasPrefix (c # cs) (p # ps) = (c = p \<and> HasPrefix cs ps)"

text \<open>The verb \<open>%d\<close>.\<close>

definition digit_char :: "nat \<Rightarrow> char" where
  "digit_char d = char_of (48 + d)"

fun show_nat :: "nat \<Rightarrow> string" where
  "show_nat n = (if n < 10 then [digit_char n] else show_nat (n div 10) @ [digit_char (n mod 10)])"

declare show_nat.simps [simp del]

definition show_int :: "int \<Rightarrow> string" where
  "show_int i = (if i < 0 then ''-'' @ show_nat (nat (- i)) else show_nat (nat i))"

text \<open>The verb \<open>%v\<close> of a boolean.\<close>

definition show_bool :: "bool \<Rightarrow> string" where
  "show_bool b = (if b then ''true'' else ''false'')"

text \<open>The verb \<open>%q\<close> (\<open>strconv.Quote\<close>) on ASCII; bytes outside ASCII are kept.\<close>

definition hex_char :: "nat \<Rightarrow> char" where
  "hex_char d = (if d < 10 then char_of (48 + d) else char_of (87 + d))"

definition quote_char :: "char \<Rightarrow> string" where
  "quote_char c = (let n = (of_char c :: nat) in
     if n = 34 then [char_of (92::nat), char_of (34::nat)]
     else if n = 92 then [char_of (92::nat), char_of (92::nat)]
     else if n = 7 then char_of (92::nat) # ''a''
     else if n = 8 then char_of (92::nat) # ''b''
     else if n = 9 then char_of (92::nat) # ''t''
     else if n = 10 then char_of (92::nat) # ''n''
     else if n = 11 then char_of (92::nat) # ''v''
     else if n = 12 then char_of (92::nat) # ''f''
     else if n = 13 then char_of (92::nat) # ''r''
     else if n < 32 \<or> n = 127 then char_of (92::nat) # ''x'' @ [hex_char (n div 16), hex_char (n mod 16)]
     else [c])"

definition Quote :: "string \<Rightarrow> string" where
  "Quote s = [char_of (34::nat)] @ concat (map quote_char s) @ [char_of (34::nat)]"

section \<open>Lemmas on maps\<close>

lemma gomap_Nil [simp]: "gomap []"
  by (simp add: gomap_def)

lemma gomap_mset_key [simp]: "gomap m \<Longrightarrow> gomap (mset_key k v m)"
  by (simp add: gomap_def mset_key_def distinct_update)

lemma gomap_mdelete [simp]: "gomap m \<Longrightarrow> gomap (mdelete k m)"
  by (simp add: gomap_def mdelete_def distinct_delete)

lemma mget_Nil [simp]: "mget [] k = None"
  by (simp add: mget_def)

lemma mget_Cons: "mget ((a, b) # m) k = (if k = a then Some b else mget m k)"
  by (simp add: mget_def)

lemma mget_mset_key [simp]: "mget (mset_key k v m) = (mget m)(k \<mapsto> v)"
  by (rule ext) (simp add: mget_def mset_key_def update_conv')

lemma mget_mdelete [simp]: "mget (mdelete k m) = (mget m)(k := None)"
  by (rule ext) (simp add: mget_def mdelete_def delete_conv')

lemma mset_key_nonempty [simp]: "mset_key k v m \<noteq> []"
  by (simp add: mset_key_def)

lemma set_mset_key: "set (mset_key k v m) \<subseteq> insert (k, v) (set m)"
  unfolding mset_key_def by (induction m) auto

lemma mset_key_twice [simp]: "mset_key k v (mset_key k v' m) = mset_key k v m"
  by (simp add: mset_key_def)

lemma mget_conv_map_of: "mget m = map_of m"
  by (rule ext) (simp add: mget_def)

lemma mkeys_mget: "mkeys m = dom (mget m)"
  by (simp add: mkeys_def mget_conv_map_of dom_map_of_conv_image_fst)

lemma gomap_filter [simp]: "gomap m \<Longrightarrow> gomap (filter P m)"
  by (simp add: gomap_def distinct_map_filter)

lemma mget_filter:
  assumes "gomap m"
  shows "mget (filter (\<lambda>(k, v). P k v) m) k =
           (case mget m k of None \<Rightarrow> None | Some v \<Rightarrow> if P k v then Some v else None)"
  using assms
proof (induction m)
  case Nil
  then show ?case by simp
next
  case (Cons a m)
  then have "fst a = k \<Longrightarrow> mget m k = None"
    by (auto simp: gomap_def mget_def map_of_eq_None_iff)
  with Cons show ?case
    by (cases a) (auto simp: gomap_def mget_def split: option.splits)
qed

text \<open>\<open>maps.Equal\<close> decides equality of the maps as functions, whatever the iteration orders.\<close>

lemma maps_Equal_iff:
  assumes "gomap m1" and "gomap m2"
  shows "maps_Equal m1 m2 \<longleftrightarrow> mget m1 = mget m2"
proof
  assume eq: "maps_Equal m1 m2"
  have sub: "map_of m1 \<subseteq>\<^sub>m map_of m2"
  proof (unfold map_le_def, intro ballI)
    fix k
    assume "k \<in> dom (map_of m1)"
    then obtain v where v: "map_of m1 k = Some v" by auto
    then have "(k, v) \<in> set m1" by (rule map_of_SomeD)
    with eq have "map_of m2 k = Some v"
      by (auto simp: maps_Equal_def list_all_iff)
    with v show "map_of m1 k = map_of m2 k" by simp
  qed
  have "card (dom (map_of m1)) = card (dom (map_of m2))"
  proof -
    have "card (dom (map_of m)) = length m" if "gomap m" for m :: "('a \<times> 'b) list"
    proof -
      have "card (fst ` set m) = card (set (map fst m))" by simp
      also have "\<dots> = length m"
        using that distinct_card [of "map fst m"] by (simp add: gomap_def)
      finally show ?thesis by (simp add: dom_map_of_conv_image_fst)
    qed
    with assms eq show ?thesis by (simp add: maps_Equal_def)
  qed
  then have "dom (map_of m1) = dom (map_of m2)"
    using sub by (intro card_subset_eq) (auto simp: finite_dom_map_of dest: map_le_implies_dom_le)
  then have "map_of m1 = map_of m2"
    using sub by (metis map_le_antisym map_le_def)
  then show "mget m1 = mget m2" by (simp add: mget_conv_map_of)
next
  assume eq: "mget m1 = mget m2"
  then have eq': "map_of m1 = map_of m2" by (simp add: mget_conv_map_of)
  then have "mset m1 = mset m2"
    using assms by (metis gomap_def map_of_inject_set distinct_map set_eq_iff_mset_eq_distinct)
  then have "length m1 = length m2" by (rule mset_eq_length)
  moreover have "list_all (\<lambda>(k, v). map_of m2 k = Some v) m1"
    using assms(1) by (auto simp: list_all_iff gomap_def eq' [symmetric])
  ultimately show "maps_Equal m1 m2" by (simp add: maps_Equal_def)
qed

lemma maps_Equal_refl [simp]: "gomap m \<Longrightarrow> maps_Equal m m"
  by (simp add: maps_Equal_iff)

lemma gomap_maps_Copy [simp]: "gomap dst \<Longrightarrow> gomap (maps_Copy dst src)"
  unfolding maps_Copy_def by (induction src arbitrary: dst) auto

lemma mget_maps_Copy:
  assumes "gomap src"
  shows "mget (maps_Copy dst src) k = (case mget src k of None \<Rightarrow> mget dst k | Some v \<Rightarrow> Some v)"
  using assms
proof (induction src arbitrary: dst)
  case Nil
  then show ?case by (simp add: maps_Copy_def)
next
  case (Cons a src)
  obtain k' v' where a: "a = (k', v')" by (cases a)
  from Cons.prems have g: "gomap src" and notin: "mget src k' = None"
    by (auto simp: gomap_def a mget_def map_of_eq_None_iff)
  have "mget (maps_Copy dst (a # src)) k = mget (maps_Copy (mset_key k' v' dst) src) k"
    by (simp add: maps_Copy_def a)
  also have "\<dots> = (case mget src k of None \<Rightarrow> mget (mset_key k' v' dst) k | Some v \<Rightarrow> Some v)"
    using g by (rule Cons.IH)
  finally show ?case
    using notin by (auto simp: a mget_def split: option.splits)
qed

section \<open>Lemmas on strings\<close>

lemma Split_nonempty [simp]: "Split sep s \<noteq> []"
  by (induction s) (auto split: list.splits)

lemma Split_no_sep: "sep \<notin> set p" if "p \<in> set (Split sep s)"
  using that by (induction s arbitrary: p) (fastforce split: list.splits if_splits)+

lemma Split_append: "sep \<notin> set p \<Longrightarrow> Split sep (p @ sep # s) = p # Split sep s"
  by (induction p) auto

lemma Split_one: "sep \<notin> set p \<Longrightarrow> Split sep p = [p]"
  by (induction p) auto

lemma Split_Join: "ps \<noteq> [] \<Longrightarrow> \<forall>p \<in> set ps. sep \<notin> set p \<Longrightarrow> Split sep (Join [sep] ps) = ps"
  by (induction "[sep]" ps rule: Join.induct) (auto simp: Split_append Split_one)

lemma Join_Split: "Join [sep] (Split sep s) = s"
proof (induction s)
  case Nil
  then show ?case by simp
next
  case (Cons c cs)
  obtain p ps where ps: "Split sep cs = p # ps"
    by (metis Split_nonempty neq_Nil_conv)
  show ?case
  proof (cases "c = sep")
    case True
    with Cons ps show ?thesis by simp
  next
    case False
    with Cons ps show ?thesis by (cases ps) auto
  qed
qed

lemma HasPrefix_iff: "HasPrefix s p \<longleftrightarrow> (\<exists>t. s = p @ t)"
  by (induction s p rule: HasPrefix.induct) auto

lemma length_ToLower [simp]: "length (ToLower s) = length s"
  by (simp add: ToLower_def)

lemma ToLower_eq_Nil [simp]: "ToLower s = [] \<longleftrightarrow> s = []"
  by (simp add: ToLower_def)

lemma lower_char_not_upper [simp]: "\<not> ascii_upper (lower_char c)"
  by (auto simp: lower_char_def ascii_upper_def)

lemma lower_char_idem [simp]: "lower_char (lower_char c) = lower_char c"
  by (metis lower_char_def lower_char_not_upper)

lemma ToLower_idem [simp]: "ToLower (ToLower s) = ToLower s"
  by (simp add: ToLower_def)

lemma set_trim_by: "set (trim_by p s) \<subseteq> set s"
  unfolding trim_by_def using set_dropWhileD by (metis set_rev subsetI)

text \<open>What \<open>Trim\<close> leaves neither starts nor ends with a byte of the cut set.\<close>

lemma trim_by_ends:
  assumes "trim_by p s \<noteq> []"
  shows "\<not> p (hd (trim_by p s))" and "\<not> p (last (trim_by p s))"
proof -
  let ?m = "dropWhile p s"
  have m: "?m \<noteq> []" using assms by (intro notI) (simp add: trim_by_def)
  then have hd_m: "\<not> p (hd ?m)" by (rule hd_dropWhile)
  have ne: "dropWhile p (rev ?m) \<noteq> []" using assms by (simp add: trim_by_def)
  then have "\<not> p (hd (dropWhile p (rev ?m)))" by (rule hd_dropWhile)
  then show "\<not> p (last (trim_by p s))"
    using ne by (simp add: trim_by_def last_rev)
  obtain pre where pre: "rev ?m = pre @ dropWhile p (rev ?m)"
    by (metis takeWhile_dropWhile_id)
  then have "?m = trim_by p s @ rev pre"
    by (metis rev_append rev_rev_ident trim_by_def)
  then have "hd (trim_by p s) = hd ?m"
    using assms by (metis hd_append2)
  with hd_m show "\<not> p (hd (trim_by p s))" by simp
qed

end
