(* ===== verification/ApiTypes.thy ===== *)
theory ApiTypes
  imports Prelude
begin

text \<open>
  The API types of \<^verbatim>\<open>api/v1alpha2\<close>, with their methods \<open>RequiresDeployment\<close>,
  \<open>RequiresStatefulSet\<close>, \<open>ProvisioningSecret.String\<close> and \<open>GetSecretVolumeName\<close>. A struct is a
  \<open>record\<close>, an embedded struct is the record it extends, a pointer is an \<open>option\<close>, and a field that
  only travels through the operator (a struct of another package of which no field is read) is a
  \<open>json\<close> value. Field names carry the type's name where Go's field names repeat.
\<close>

section \<open>Values of other packages\<close>

datatype json =
    JNull | JBool bool | JNum int | JStr string | JArr "json list" | JObj "(string \<times> json) list"

type_synonym quantity = string

record object_meta =
  Name :: string
  Namespace :: string
  Generation :: int64
  ResourceVersion :: string
  Labels :: "strmap option"
  Annotations :: "strmap option"
  DeletionTimestamp :: "int option"
  Finalizers :: "string list"
  OwnerReferences :: "json list"

record condition =
  Cond_Type :: string
  Cond_Status :: string
  Cond_Reason :: string
  Cond_Message :: string
  Cond_LastTransitionTime :: int
  Cond_ObservedGeneration :: int64

record label_selector =
  MatchLabels :: "strmap option"
  MatchExpressions :: "json list"

record http_get =
  HTTPGet_Path :: string
  HTTPGet_Port :: int32
  HTTPGet_Scheme :: string

record probe =
  Probe_HTTPGet :: "http_get option"
  Probe_InitialDelaySeconds :: int32
  Probe_TimeoutSeconds :: int32
  Probe_PeriodSeconds :: int32
  Probe_SuccessThreshold :: int32
  Probe_FailureThreshold :: int32
  Probe_Rest :: json

record pod_security_context =
  PSC_FSGroup :: "int64 option"
  PSC_SeccompProfile :: "string option"
  PSC_Rest :: json

record security_context =
  SC_AllowPrivilegeEscalation :: "bool option"
  SC_RunAsUser :: "int64 option"
  SC_Capabilities_Drop :: "string list"
  SC_Rest :: json

record config_map_volume_source =
  CMVS_Name :: string
  CMVS_DefaultMode :: "int32 option"
  CMVS_Rest :: json

record key_to_path =
  KTP_Key :: string
  KTP_Path :: string

record secret_volume_source =
  SVS_SecretName :: string
  SVS_Items :: "key_to_path list"
  SVS_DefaultMode :: "int32 option"
  SVS_Rest :: json

record volume_source =
  VS_ConfigMap :: "config_map_volume_source option"
  VS_Secret :: "secret_volume_source option"
  VS_EmptyDir :: "json option"
  VS_PVC_ClaimName :: "string option"
  VS_Rest :: json

record volume =
  Volume_Name :: string
  Volume_Source :: volume_source

record volume_mount =
  Mount_Name :: string
  Mount_ReadOnly :: bool
  Mount_MountPath :: string
  Mount_SubPath :: string
  Mount_Rest :: json

record pvc_spec =
  PVC_AccessModes :: "string list option"
  PVC_StorageClassName :: "string option"
  PVC_Requests :: "(string, quantity) gomap option"
  PVC_Rest :: json

section \<open>Secret sources\<close>

definition SecretSourceTypeSecret :: string where "SecretSourceTypeSecret = ''secret''"
definition SecretSourceTypeConfigMap :: string where "SecretSourceTypeConfigMap = ''configmap''"
definition SecretSourceTypeFile :: string where "SecretSourceTypeFile = ''file''"

record secret_source =
  Source_Type :: string
  Source_Name :: "string option"
  Source_Namespace :: "string option"

record basic_auth = secret_source +
  Username :: string
  PasswordPath :: string

record oauth = secret_source +
  ClientIDPath :: "string option"
  ClientSecretPath :: "string option"
  TokenURL :: string
  Scopes :: "string list"
  EndpointParams :: "(string, string list) gomap"
  AuthStyle :: "int32 option"

record certificate = secret_source +
  CertPath :: string
  PrivateKeyPath :: "string option"

record tls =
  TLS_Enable :: "bool option"
  TLS_CaCert :: "certificate option"
  TLS_UserCert :: "certificate option"
  TLS_InsecureSkipVerify :: "bool option"

record kubernetes_auth =
  KubernetesAuth_Enable :: "bool option"

record client =
  Client_BasicAuth :: "basic_auth option"
  Client_OAuth :: "oauth option"
  Client_TLS :: "tls option"
  Client_KubernetesAuth :: "kubernetes_auth option"

section \<open>Perses\<close>

record metadata =
  Metadata_Labels :: "strmap option"
  Metadata_Annotations :: "strmap option"

record perses_service =
  Service_Name :: "string option"
  Service_Annotations :: "strmap option"

record storage_configuration =
  Storage_EmptyDir :: "json option"
  Storage_PersistentVolumeClaimTemplate :: "pvc_spec option"

record provisioning_secret =
  SecretKey_Name :: string
  SecretKey_Key :: string

record provisioning =
  SecretRefs :: "provisioning_secret list"

record secret_version =
  SecretVersion_Name :: string
  SecretVersion_Version :: string

record perses_config =
  Config_APIPrefix :: string
  Config_Database_SQL :: "json option"
  Config_Database_File :: "json option"
  Config_Rest :: json

record perses_spec =
  Spec_Metadata :: "metadata option"
  Spec_Client :: "client option"
  Spec_Config :: perses_config
  Spec_Args :: "string list"
  Spec_ContainerPort :: "int32 option"
  Spec_Replicas :: "int32 option"
  Spec_Resources :: "json option"
  Spec_NodeSelector :: "strmap option"
  Spec_Tolerations :: "json list"
  Spec_Affinity :: "json option"
  Spec_PriorityClassName :: "string option"
  Spec_Image :: "string option"
  Spec_Service :: "perses_service option"
  Spec_LivenessProbe :: "probe option"
  Spec_ReadinessProbe :: "probe option"
  Spec_TLS :: "tls option"
  Spec_Storage :: "storage_configuration option"
  Spec_ServiceAccountName :: "string option"
  Spec_PodSecurityContext :: "pod_security_context option"
  Spec_ContainerSecurityContext :: "security_context option"
  Spec_LogLevel :: "string option"
  Spec_LogMethodTrace :: "bool option"
  Spec_Provisioning :: "provisioning option"
  Spec_Volumes :: "volume list"
  Spec_VolumeMounts :: "volume_mount list"
  Spec_Env :: "json list"
  Spec_EnvFrom :: "json list"

record perses_status =
  Status_Conditions :: "condition list"
  Status_Provisioning :: "secret_version list option"

record perses = object_meta +
  Spec :: perses_spec
  Status :: perses_status

definition RequiresDeployment :: "perses \<Rightarrow> bool" where
  "RequiresDeployment p =
     (let usesSQLDatabase = Config_Database_SQL (Spec_Config (Spec p)) \<noteq> None;
          usesFileWithEmptyDir =
            Config_Database_File (Spec_Config (Spec p)) \<noteq> None \<and>
            (case Spec_Storage (Spec p) of None \<Rightarrow> False | Some st \<Rightarrow> Storage_EmptyDir st \<noteq> None)
      in usesSQLDatabase \<or> usesFileWithEmptyDir)"

definition RequiresStatefulSet :: "perses \<Rightarrow> bool" where
  "RequiresStatefulSet p \<longleftrightarrow>
     Config_Database_File (Spec_Config (Spec p)) \<noteq> None \<and>
     (case Spec_Storage (Spec p) of None \<Rightarrow> True | Some st \<Rightarrow> Storage_EmptyDir st = None)"

section \<open>Dashboards and datasources\<close>

record persesdashboard_spec =
  Dashboard_Config :: json
  Dashboard_InstanceSelector :: "label_selector option"

record persesdashboard_status =
  Dashboard_Conditions :: "condition list"

record persesdashboard = object_meta +
  Dashboard_Spec :: persesdashboard_spec
  Dashboard_Status :: persesdashboard_status

record datasource_spec =
  Datasource_Config :: json
  Datasource_Client :: "client option"
  Datasource_InstanceSelector :: "label_selector option"

record persesdatasource_status =
  Datasource_Conditions :: "condition list"

record persesdatasource = object_meta +
  Datasource_Spec :: datasource_spec
  Datasource_Status :: persesdatasource_status

record persesglobaldatasource_status =
  GlobalDatasource_Conditions :: "condition list"

record persesglobaldatasource = object_meta +
  GlobalDatasource_Spec :: datasource_spec
  GlobalDatasource_Status :: persesglobaldatasource_status

section \<open>Provisioning secrets\<close>

definition provisioningSecretPrefix :: string where
  "provisioningSecretPrefix = ''provisioning-''"

definition ProvisioningSecret_String :: "provisioning_secret \<Rightarrow> string" where
  "ProvisioningSecret_String p = SecretKey_Name p @ ''-'' @ SecretKey_Key p"

definition alnum_lower :: "char \<Rightarrow> bool" where
  "alnum_lower c \<longleftrightarrow>
     (97 \<le> (of_char c :: nat) \<and> (of_char c :: nat) \<le> 122) \<or>
     (48 \<le> (of_char c :: nat) \<and> (of_char c :: nat) \<le> 57)"

text \<open>
  \<open>regexp.MustCompile("[^a-z0-9]+").ReplaceAllString(s, "-")\<close>: each maximal run of bytes outside
  the class becomes one hyphen. The flag says whether the byte before was part of such a run.
\<close>

fun volumeNameRegex_replace :: "bool \<Rightarrow> string \<Rightarrow> string" where
  "volumeNameRegex_replace in_run [] = []"
| "volumeNameRegex_replace in_run (c # cs) =
     (if alnum_lower c then c # volumeNameRegex_replace False cs
      else if in_run then volumeNameRegex_replace True cs
      else CHR ''-'' # volumeNameRegex_replace True cs)"

definition GetSecretVolumeName :: "provisioning_secret \<Rightarrow> string" where
  "GetSecretVolumeName p =
     (let name = ToLower (ProvisioningSecret_String p);
          name = volumeNameRegex_replace False name;
          name = trim_by (\<lambda>c. c = CHR ''-'') name
      in provisioningSecretPrefix @ name)"

lemmas api_consts [go_const] =
  SecretSourceTypeSecret_def SecretSourceTypeConfigMap_def SecretSourceTypeFile_def
  provisioningSecretPrefix_def

end
