(* ===== verification/GoErrors.thy ===== *)
theory GoErrors
  imports Prelude
begin

text \<open>
  Go error values and the error helpers of \<^verbatim>\<open>internal/perses/common/constants.go\<close>:
  \<open>ReasonError\<close>, \<open>NewReasonError\<close>, \<open>ExtractReason\<close> and \<open>IsClientError\<close>, with the parts of Go's
  \<open>errors.As\<close> they use (a walk along the chain of \<open>Unwrap\<close>). Errors made outside this repository
  are \<open>Foreign\<close>, \<open>StatusError\<close> (an error of the Kubernetes API, with its reason) or
  \<open>RequestError\<close> (an error of the Perses HTTP client, with its status code).
\<close>

datatype error =
    Foreign string
  | StatusError string string
  | RequestError int string
  | Errorf string "error option"
  | ReasonError error string

text \<open>The method \<open>Error()\<close>.\<close>

fun Error :: "error \<Rightarrow> string" where
  "Error (Foreign s) = s"
| "Error (StatusError reason msg) = msg"
| "Error (RequestError code msg) = msg"
| "Error (Errorf msg wrapped) = msg"
| "Error (ReasonError e reason) = Error e"

text \<open>\<open>fmt.Errorf\<close> without and with the verb \<open>%w\<close>.\<close>

definition errorf :: "string \<Rightarrow> error" where
  "errorf msg = Errorf msg None"

definition errorf_w :: "string \<Rightarrow> error \<Rightarrow> error" where
  "errorf_w prefix e = Errorf (prefix @ Error e) (Some e)"

text \<open>The method \<open>Unwrap()\<close> and \<open>errors.As\<close> for the two pointer types the source asks for.\<close>

fun Unwrap :: "error \<Rightarrow> error option" where
  "Unwrap (Errorf msg wrapped) = wrapped"
| "Unwrap (ReasonError e reason) = Some e"
| "Unwrap _ = None"

fun as_ReasonError :: "error \<Rightarrow> string option" where
  "as_ReasonError (ReasonError e reason) = Some reason"
| "as_ReasonError (Errorf msg (Some e)) = as_ReasonError e"
| "as_ReasonError _ = None"

fun as_RequestError :: "error \<Rightarrow> int option" where
  "as_RequestError (RequestError code msg) = Some code"
| "as_RequestError (Errorf msg (Some e)) = as_RequestError e"
| "as_RequestError (ReasonError e reason) = as_RequestError e"
| "as_RequestError _ = None"

definition NewReasonError :: "error \<Rightarrow> string \<Rightarrow> error" where
  "NewReasonError err reason = ReasonError err reason"

definition ExtractReason :: "error option \<Rightarrow> string \<Rightarrow> string" where
  "ExtractReason err fallback =
     (case err of None \<Rightarrow> fallback
      | Some e \<Rightarrow> (case as_ReasonError e of Some r \<Rightarrow> r | None \<Rightarrow> fallback))"

definition ReasonMissingPerses :: string where "ReasonMissingPerses = ''PersesMissing''"
definition ReasonConnectionFailed :: string where "ReasonConnectionFailed = ''PersesConnectionFailed''"
definition ReasonInvalidConfiguration :: string where
  "ReasonInvalidConfiguration = ''InvalidConfiguration''"
definition ReasonMissingResource :: string where "ReasonMissingResource = ''MissingResource''"
definition ReasonValidationFailed :: string where "ReasonValidationFailed = ''ValidationFailed''"
definition ReasonBackendError :: string where "ReasonBackendError = ''PersesBackendError''"

definition IsClientError :: "error \<Rightarrow> bool" where
  "IsClientError err =
     (case as_RequestError err of
        Some code \<Rightarrow> 400 \<le> code \<and> code < 500
      | None \<Rightarrow> False)"

lemmas reason_consts [go_const] =
  ReasonMissingPerses_def ReasonConnectionFailed_def ReasonInvalidConfiguration_def
  ReasonMissingResource_def ReasonValidationFailed_def ReasonBackendError_def

section \<open>Lemmas\<close>

text \<open>The reason survives any number of \<open>%w\<close> wrappings.\<close>

lemma ExtractReason_errorf_w [simp]:
  "ExtractReason (Some (errorf_w s e)) fb = ExtractReason (Some e) fb"
  by (simp add: ExtractReason_def errorf_w_def)

lemma ExtractReason_NewReasonError [simp]:
  "ExtractReason (Some (NewReasonError e r)) fb = r"
  by (simp add: ExtractReason_def NewReasonError_def)

lemma IsClientError_errorf_w [simp]: "IsClientError (errorf_w s e) = IsClientError e"
  by (simp add: IsClientError_def errorf_w_def)

lemma IsClientError_NewReasonError [simp]: "IsClientError (NewReasonError e r) = IsClientError e"
  by (simp add: IsClientError_def NewReasonError_def)

lemma IsClientError_RequestError [simp]:
  "IsClientError (RequestError code msg) \<longleftrightarrow> 400 \<le> code \<and> code < 500"
  by (simp add: IsClientError_def)

end
