(* ===== verification/KubeTypes.thy ===== *)
theory KubeTypes
  imports ApiTypes GoErrors
begin

text \<open>
  The values the operator exchanges with its two services. With the Kubernetes API: the workload
  objects it writes (only the fields it sets or reads). With the Perses API: the entities, projects
  and secrets it writes, and the REST client it writes them through.
\<close>

section \<open>Names and results\<close>

record namespaced_name =
  NN_Namespace :: string
  NN_Name :: string

record ctrl_result =
  RequeueAfter :: int

datatype selector =
    Everything
  | SelectorOf label_selector
  | SelectorFromSet strmap
  | ParsedSelector string

section \<open>Kubernetes objects\<close>

record k8s_secret = object_meta +
  Secret_Data :: strmap

record config_map = object_meta +
  ConfigMap_Data :: "strmap option"

record service_port =
  Port_Name :: string
  Port_Port :: int32
  Port_Protocol :: string
  Port_TargetPort :: int32

record service_spec =
  ServiceSpec_Type :: string
  ServiceSpec_Ports :: "service_port list"
  ServiceSpec_Selector :: "strmap option"

record service = object_meta +
  Service_Spec :: service_spec

record container =
  Container_Image :: string
  Container_Name :: string
  Container_ImagePullPolicy :: string
  Container_SecurityContext :: "security_context option"
  Container_Ports :: "(int32 \<times> string) list"
  Container_VolumeMounts :: "volume_mount list"
  Container_Args :: "string list"
  Container_Env :: "json list"
  Container_EnvFrom :: "json list"
  Container_LivenessProbe :: "probe option"
  Container_ReadinessProbe :: "probe option"
  Container_Resources :: json

record pod_spec =
  Pod_NodeSelector :: "strmap option"
  Pod_Tolerations :: "json list"
  Pod_Affinity :: "json option"
  Pod_SecurityContext :: "pod_security_context option"
  Pod_Containers :: "container list"
  Pod_Volumes :: "volume list"
  Pod_RestartPolicy :: string
  Pod_DNSPolicy :: string
  Pod_ServiceAccountName :: string
  Pod_PriorityClassName :: string

record pod_template =
  Template_Annotations :: "strmap option"
  Template_Labels :: "strmap option"
  Template_Spec :: pod_spec

record deployment_spec =
  Deployment_Selector :: strmap
  Deployment_Replicas :: "int32 option"
  Deployment_Template :: pod_template
  Deployment_StrategyType :: string
  Deployment_MaxUnavailable :: string
  Deployment_MaxSurge :: string

record deployment = object_meta +
  Deployment_Spec :: deployment_spec

record claim_template =
  Claim_Name :: string
  Claim_Spec :: pvc_spec

record statefulset_spec =
  StatefulSet_Selector :: strmap
  StatefulSet_Replicas :: "int32 option"
  StatefulSet_Template :: pod_template
  StatefulSet_VolumeClaimTemplates :: "claim_template list"

record statefulset = object_meta +
  StatefulSet_Spec :: statefulset_spec

datatype kind =
    PersesKind | DashboardKind | DatasourceKind | GlobalDatasourceKind
  | SecretKind | ConfigMapKind | ServiceKind | DeploymentKind | StatefulSetKind

datatype kobj =
    KPerses perses
  | KDashboard persesdashboard
  | KDatasource persesdatasource
  | KGlobalDatasource persesglobaldatasource
  | KConfigMap config_map
  | KService service
  | KDeployment deployment
  | KStatefulSet statefulset

section \<open>Perses objects\<close>

record p_entity =
  Entity_Kind :: string
  Entity_Name :: string
  Entity_Tags :: "string set option"
  Entity_Spec :: json

record p_project =
  Project_Kind :: string
  Project_Name :: string
  Project_Display_Name :: string

record p_basic_auth =
  PB_Username :: string
  PB_Password :: string
  PB_PasswordFile :: string

record p_oauth =
  PO_ClientID :: string
  PO_ClientSecret :: string
  PO_ClientSecretFile :: string
  PO_TokenURL :: string
  PO_Scopes :: "string list"
  PO_EndpointParams :: "(string, string list) gomap"
  PO_AuthStyle :: int64

record p_tls_config =
  PT_CA :: string
  PT_CAFile :: string
  PT_Cert :: string
  PT_CertFile :: string
  PT_Key :: string
  PT_KeyFile :: string
  PT_InsecureSkipVerify :: bool

record p_secret =
  PSecret_Kind :: string
  PSecret_Name :: string
  PSecret_BasicAuth :: "p_basic_auth option"
  PSecret_OAuth :: "p_oauth option"
  PSecret_TLSConfig :: "p_tls_config option"

datatype pkind = PProject | PDashboard | PDatasource | PGlobalDatasource | PSecret | PGlobalSecret

datatype pobj = ObjProject p_project | ObjEntity p_entity | ObjSecret p_secret

section \<open>The REST client\<close>

record rest_config =
  Rest_URL :: string
  Rest_Headers :: strmap
  Rest_TLSConfig :: "p_tls_config option"
  Rest_OAuth :: "p_oauth option"

record rest_client =
  RestClient_Config :: rest_config
  RestClient_HasHTTP :: bool

text \<open>A value of \<open>v1.ClientInterface\<close>, seen through its method \<open>RESTClient()\<close>.\<close>

datatype v1_client = V1Client (RESTClient: "rest_client option")

end
