(* ===== verification/Metrics.thy ===== *)
theory Metrics
  imports Prelude
begin

text \<open>
  \<^verbatim>\<open>internal/metrics/metrics.go\<close>: the table of managed resources that the operator
  reports, one map from object keys to counts for every resource, state and namespace. The
  Prometheus counters and gauges themselves belong to another package; setting them is an
  external call (theory \<open>World\<close>). The locale \<open>keyed_counts\<close> is the contract of such a table.
\<close>

section \<open>Vectors and their labels\<close>

text \<open>
  The counters and gauges of \<open>NewMetrics\<close>: a vector of Prometheus has a name, a help text and the names
  of its variable labels. A member of it is chosen by giving each label a value.
\<close>

datatype prom_metric = ReconcileOperations | ReconcileErrors | PersesInstances | Ready

datatype prom_type = PromCounter | PromGauge

record prom_desc =
  desc_name :: string
  desc_help :: string
  desc_labels :: "string list"

fun vec_type :: "prom_metric \<Rightarrow> prom_type" where
  "vec_type ReconcileOperations = PromCounter"
| "vec_type ReconcileErrors = PromCounter"
| "vec_type PersesInstances = PromGauge"
| "vec_type Ready = PromGauge"

fun vec_desc :: "prom_metric \<Rightarrow> prom_desc" where
  "vec_desc ReconcileOperations =
     \<lparr>desc_name = ''perses_operator_reconcile_operations_total'',
      desc_help = ''Total number of reconciliation operations by controller'', desc_labels = [''controller'']\<rparr>"
| "vec_desc ReconcileErrors =
     \<lparr>desc_name = ''perses_operator_reconcile_errors_total'',
      desc_help = ''Total number of reconciliation errors by controller and reason'', desc_labels = [''controller'', ''reason'']\<rparr>"
| "vec_desc PersesInstances =
     \<lparr>desc_name = ''perses_operator_managed_perses_instances'',
      desc_help = ''Number of Perses instances managed by the operator'', desc_labels = [''resource_namespace'', ''resource_name'']\<rparr>"
| "vec_desc Ready =
     \<lparr>desc_name = ''perses_operator_ready'',
      desc_help = ''Whether the operator is ready (1=yes, 0=no)'', desc_labels = [''controller'']\<rparr>"

definition resourcesDesc :: prom_desc where
  "resourcesDesc =
     \<lparr>desc_name = ''perses_operator_managed_resources'',
      desc_help = ''Number of resources managed by the operator per state (synced/failed)'',
      desc_labels = [''resource'', ''state'', ''resource_namespace'']\<rparr>"

definition Metrics_Describe :: "prom_desc list" where
  "Metrics_Describe = [resourcesDesc]"

text \<open>
  The member of a vector with the given labels, as the values in the order of the vector's labels. The
  library panics (\<open>None\<close>) when the names are not those of the vector, each once.
\<close>

definition With :: "prom_metric \<Rightarrow> (string \<times> string) list \<Rightarrow> string list option" where
  "With v labels =
     (if distinct (map fst labels) \<and> set (map fst labels) = set (desc_labels (vec_desc v))
      then Some (map (\<lambda>l. the (map_of labels l)) (desc_labels (vec_desc v))) else None)"

definition Metrics_ReconcileOperations :: "string \<Rightarrow> string list option" where
  "Metrics_ReconcileOperations controller = With ReconcileOperations [(''controller'', controller)]"

definition Metrics_ReconcileErrors :: "string \<Rightarrow> string \<Rightarrow> string list option" where
  "Metrics_ReconcileErrors controller reason = With ReconcileErrors [(''controller'', controller), (''reason'', reason)]"

definition Metrics_PersesInstances :: "string \<Rightarrow> string \<Rightarrow> string list option" where
  "Metrics_PersesInstances namespace name = With PersesInstances [(''resource_namespace'', namespace), (''resource_name'', name)]"

definition Metrics_Ready :: "string \<Rightarrow> string list option" where
  "Metrics_Ready controller = With Ready [(''controller'', controller)]"

text \<open>\<open>DeleteLabelValues\<close> takes the values in the order of the labels.\<close>

definition Metrics_DeletePersesInstance :: "string \<Rightarrow> string \<Rightarrow> string list" where
  "Metrics_DeletePersesInstance namespace name = [namespace, name]"

text \<open>What \<open>NewMetrics\<close> registers: the vectors, and the table as a collector of its own.\<close>

definition registered_descs :: "prom_desc list" where
  "registered_descs = map vec_desc [ReconcileOperations, ReconcileErrors, PersesInstances, Ready] @ Metrics_Describe"

lemma members:
  "Metrics_ReconcileOperations c = Some [c]" "Metrics_ReconcileErrors c r = Some [c, r]"
  "Metrics_PersesInstances ns n = Some [ns, n]" "Metrics_Ready c = Some [c]"
  by (auto simp: Metrics_ReconcileOperations_def Metrics_ReconcileErrors_def Metrics_PersesInstances_def Metrics_Ready_def With_def)

text \<open>One value for each label.\<close>

lemma members_length [simp]:
  "length (the (Metrics_ReconcileOperations c)) = 1" "length (the (Metrics_ReconcileErrors c r)) = 2"
  "length (the (Metrics_PersesInstances ns n)) = 2" "length (Metrics_DeletePersesInstance ns n) = 2"
  by (simp_all add: members Metrics_DeletePersesInstance_def)

section \<open>The table\<close>

datatype resource_state = synced | failed

fun resource_state_String :: "resource_state \<Rightarrow> string" where
  "resource_state_String synced = ''synced''"
| "resource_state_String failed = ''failed''"

record resource_key =
  RKey_resource :: string
  RKey_state :: resource_state
  RKey_namespace :: string

record metrics =
  resources :: "(resource_key, (string, int) gomap) gomap"

definition NewMetrics :: metrics where
  "NewMetrics = \<lparr>resources = []\<rparr>"

definition setResources :: "string \<Rightarrow> resource_key \<Rightarrow> int \<Rightarrow> metrics \<Rightarrow> metrics" where
  "setResources objKey resKey v m =
     (let rs = (case mget (resources m) resKey of
                  None \<Rightarrow> mset_key resKey [] (resources m)
                | Some _ \<Rightarrow> resources m)
      in m\<lparr>resources := mset_key resKey (mset_key objKey v (nilmap (mget rs resKey))) rs\<rparr>)"

definition SetSyncedResources :: "string \<Rightarrow> string \<Rightarrow> string \<Rightarrow> int \<Rightarrow> metrics \<Rightarrow> metrics" where
  "SetSyncedResources objKey resource namespace v m =
     setResources objKey
       \<lparr>RKey_resource = resource, RKey_state = synced, RKey_namespace = namespace\<rparr> v m"

definition SetFailedResources :: "string \<Rightarrow> string \<Rightarrow> string \<Rightarrow> int \<Rightarrow> metrics \<Rightarrow> metrics" where
  "SetFailedResources objKey resource namespace v m =
     setResources objKey
       \<lparr>RKey_resource = resource, RKey_state = failed, RKey_namespace = namespace\<rparr> v m"

text \<open>
  The loop of \<open>ForgetObject\<close>: for each key the inner entry is deleted, and the outer one with it
  when the inner map has become empty. Go allows deleting the current entry while ranging.
\<close>

fun forget_loop :: "string \<Rightarrow> (resource_key, (string, int) gomap) gomap \<Rightarrow>
    (resource_key, (string, int) gomap) gomap" where
  "forget_loop objKey [] = []"
| "forget_loop objKey ((rKey, inner) # rest) =
     (let inner' = mdelete objKey inner
      in if inner' = [] then forget_loop objKey rest
         else (rKey, inner') # forget_loop objKey rest)"

definition Metrics_ForgetObject :: "string \<Rightarrow> metrics \<Rightarrow> metrics" where
  "Metrics_ForgetObject objKey m = m\<lparr>resources := forget_loop objKey (resources m)\<rparr>"

text \<open>
  \<open>Collect\<close>: one sample (resource, state name, namespace, total) for each key. The totals are
  machine integers in Go; here they are unbounded, which agrees while they stay below $2^{63}$.
\<close>

fun sum_values :: "(string, int) gomap \<Rightarrow> int" where
  "sum_values [] = 0"
| "sum_values ((_, v) # rest) = v + sum_values rest"

definition Metrics_Collect :: "metrics \<Rightarrow> (string \<times> string \<times> string \<times> int) list" where
  "Metrics_Collect m =
     map (\<lambda>(rKey, inner). (RKey_resource rKey, resource_state_String (RKey_state rKey),
            RKey_namespace rKey, sum_values inner)) (resources m)"

section \<open>The abstract table\<close>

text \<open>The abstraction: which count is stored for a resource key and an object key.\<close>

definition count_of :: "metrics \<Rightarrow> resource_key \<Rightarrow> string \<Rightarrow> int option" where
  "count_of m rk obj = (case mget (resources m) rk of None \<Rightarrow> None | Some inner \<Rightarrow> mget inner obj)"

definition metrics_inv :: "metrics \<Rightarrow> bool" where
  "metrics_inv m \<longleftrightarrow>
     gomap (resources m) \<and> list_all (\<lambda>(rk, inner). gomap inner \<and> inner \<noteq> []) (resources m)"

text \<open>
  What the controllers rely on in a table of counts per object: storing a count for an object
  changes that count only, and forgetting an object removes every count of it and no other.
\<close>

locale keyed_counts =
  fixes inv :: "'t \<Rightarrow> bool"
    and count :: "'t \<Rightarrow> 'r \<Rightarrow> 'o \<Rightarrow> int option"
    and store :: "'o \<Rightarrow> 'r \<Rightarrow> int \<Rightarrow> 't \<Rightarrow> 't"
    and forget :: "'o \<Rightarrow> 't \<Rightarrow> 't"
  assumes inv_store: "inv t \<Longrightarrow> inv (store ob r v t)"
    and inv_forget: "inv t \<Longrightarrow> inv (forget ob t)"
    and count_store: "inv t \<Longrightarrow>
          count (store ob r v t) r' ob' = (if r' = r \<and> ob' = ob then Some v else count t r' ob')"
    and count_forget: "inv t \<Longrightarrow> count (forget ob t) r ob' = (if ob' = ob then None else count t r ob')"
begin

lemma forget_after_store:
  "inv t \<Longrightarrow> count (forget ob (store ob r v t)) r' ob' = count (forget ob t) r' ob'"
  by (simp add: count_forget count_store inv_store)

lemma store_commute:
  assumes "inv t" and "(ob, r) \<noteq> (ob', r')"
  shows "count (store ob r v (store ob' r' v' t)) = count (store ob' r' v' (store ob r v t))"
  using assms by (intro ext) (auto simp: count_store inv_store)

lemma stale_entry_kept:
  assumes "inv t" and "r \<noteq> r'" and "count t r ob = Some v"
  shows "count (store ob r' v' t) r ob = Some v"
  using assms by (simp add: count_store)

end

section \<open>The table implements the contract\<close>

lemma forget_loop_keys: "fst ` set (forget_loop ob rs) \<subseteq> fst ` set rs"
  by (induction ob rs rule: forget_loop.induct) (force simp: Let_def split: if_splits)+

lemma mget_forget_loop:
  assumes "gomap rs" and "list_all (\<lambda>(rk, inner). gomap inner) rs"
  shows "(case mget (forget_loop ob rs) rk of None \<Rightarrow> None | Some inner \<Rightarrow> mget inner ob') =
         (if ob' = ob then None
          else case mget rs rk of None \<Rightarrow> None | Some inner \<Rightarrow> mget inner ob')"
  using assms
proof (induction ob rs rule: forget_loop.induct)
  case (1 ob)
  then show ?case by simp
next
  case (2 ob rKey inner rest)
  have g: "gomap rest" and l: "list_all (\<lambda>(rk, inner). gomap inner) rest"
    and fresh: "mget rest rKey = None"
    using 2 by (auto simp: gomap_def mget_def map_of_eq_None_iff)
  have gone: "mget (forget_loop ob rest) rKey = None"
    using forget_loop_keys [of ob rest] fresh by (auto simp: mget_def map_of_eq_None_iff)
  have IH: "(case mget (forget_loop ob rest) rk of None \<Rightarrow> None | Some inner \<Rightarrow> mget inner ob') =
         (if ob' = ob then None
          else case mget rest rk of None \<Rightarrow> None | Some inner \<Rightarrow> mget inner ob')"
    using 2 g l by (cases "mdelete ob inner = []") auto
  have del: "mget (mdelete ob inner) ob' = (if ob' = ob then None else mget inner ob')"
    by simp
  have emptied: "mget inner ob' = None" if "mdelete ob inner = []" and "ob' \<noteq> ob"
    using del that by simp
  show ?case
  proof (cases "rk = rKey")
    case True
    then show ?thesis
      using gone emptied by (auto simp: Let_def mget_def mdelete_def delete_conv' split: if_splits)
  next
    case False
    then show ?thesis
      using IH by (auto simp: Let_def mget_def split: if_splits)
  qed
qed

lemma forget_loop_inv:
  assumes "gomap rs" and "list_all (\<lambda>(rk, inner). gomap inner) rs"
  shows "gomap (forget_loop ob rs) \<and>
    list_all (\<lambda>(rk, inner). gomap inner \<and> inner \<noteq> []) (forget_loop ob rs)"
  using assms
proof (induction ob rs rule: forget_loop.induct)
  case (2 ob rKey inner rest)
  have "rKey \<notin> fst ` set (forget_loop ob rest)"
    using 2 forget_loop_keys [of ob rest] by (auto simp: gomap_def)
  then show ?case
    using 2 by (auto simp: gomap_def Let_def mdelete_def distinct_delete)
qed simp

lemma count_of_setResources:
  "count_of (setResources ob r v m) r' ob' =
     (if r' = r \<and> ob' = ob then Some v else count_of m r' ob')"
  by (auto simp: count_of_def setResources_def Let_def nilmap_def split: option.splits)

lemma metrics_inv_setResources:
  assumes "metrics_inv m"
  shows "metrics_inv (setResources ob r v m)"
proof -
  have inner: "gomap i" if "mget (resources m) r = Some i" for i
    using assms that by (auto simp: metrics_inv_def list_all_iff mget_def dest!: map_of_SomeD)
  let ?inner = "case mget (resources m) r of None \<Rightarrow> mset_key ob v [] | Some i \<Rightarrow> mset_key ob v i"
  have eq: "resources (setResources ob r v m) =
      (case mget (resources m) r of
         None \<Rightarrow> mset_key r ?inner (mset_key r [] (resources m))
       | Some _ \<Rightarrow> mset_key r ?inner (resources m))"
    by (auto simp: setResources_def Let_def nilmap_def split: option.splits)
  have eq': "resources (setResources ob r v m) = mset_key r ?inner (resources m)"
    using eq by (auto split: option.splits)
  have "gomap ?inner \<and> ?inner \<noteq> []"
    using inner by (auto split: option.splits)
  then show ?thesis
    using assms set_mset_key [of r ?inner "resources m"]
    unfolding metrics_inv_def eq' by (auto simp: list_all_iff)
qed

lemma metrics_inv_ForgetObject:
  assumes "metrics_inv m"
  shows "metrics_inv (Metrics_ForgetObject ob m)"
proof -
  have "gomap (resources m)" and "list_all (\<lambda>(rk, inner). gomap inner) (resources m)"
    using assms by (auto simp: metrics_inv_def list_all_iff)
  from forget_loop_inv [OF this, of ob] show ?thesis
    by (simp add: metrics_inv_def Metrics_ForgetObject_def)
qed

lemma metrics_inv_NewMetrics [simp]: "metrics_inv NewMetrics"
  by (simp add: metrics_inv_def NewMetrics_def)

interpretation mt: keyed_counts metrics_inv count_of setResources Metrics_ForgetObject
proof
  fix t :: metrics and ob ob' :: string and r r' :: resource_key and v :: int
  assume inv: "metrics_inv t"
  then show "metrics_inv (setResources ob r v t)" by (rule metrics_inv_setResources)
  from inv show "metrics_inv (Metrics_ForgetObject ob t)" by (rule metrics_inv_ForgetObject)
  show "count_of (setResources ob r v t) r' ob' =
      (if r' = r \<and> ob' = ob then Some v else count_of t r' ob')"
    by (rule count_of_setResources)
  show "count_of (Metrics_ForgetObject ob t) r ob' = (if ob' = ob then None else count_of t r ob')"
  proof -
    have "gomap (resources t)" and "list_all (\<lambda>(rk, inner). gomap inner) (resources t)"
      using inv by (auto simp: metrics_inv_def list_all_iff)
    from mget_forget_loop [OF this] show ?thesis
      by (simp add: count_of_def Metrics_ForgetObject_def)
  qed
qed

end
