(* ===== verification/Tracker.thy ===== *)
theory Tracker
  imports GoErrors Metrics
begin

text \<open>
  \<^verbatim>\<open>internal/metrics/reconciliation_tracker.go\<close>: the last outcome of the reconciliation of
  every object. The map is created on first use (\<open>sync.Once\<close>), so it is \<open>nil\<close> before.
\<close>

definition syncsDesc :: prom_desc where
  "syncsDesc =
     \<lparr>desc_name = ''perses_operator_syncs'', desc_help = ''Number of objects per sync status (ok/failed)'',
      desc_labels = [''status'']\<rparr>"

definition Tracker_Describe :: "prom_desc list" where
  "Tracker_Describe = [syncsDesc]"

record reconciliation_status =
  RS_err :: "error option"
  RS_reason :: string
  RS_message :: string

definition RS_zero :: reconciliation_status where
  "RS_zero = \<lparr>RS_err = None, RS_reason = [], RS_message = []\<rparr>"

definition RS_Ok :: "reconciliation_status \<Rightarrow> bool" where
  "RS_Ok rs \<longleftrightarrow> RS_err rs = None"

definition RS_Reason :: "reconciliation_status \<Rightarrow> string" where
  "RS_Reason rs = (if RS_Ok rs then RS_reason rs else ''ReconciliationFailed'')"

definition RS_Message :: "reconciliation_status \<Rightarrow> string" where
  "RS_Message rs = (case RS_err rs of None \<Rightarrow> RS_message rs | Some e \<Rightarrow> Error e)"

record tracker =
  once_done :: bool
  statusByObject :: "(string, reconciliation_status) gomap option"

definition NewReconciliationTracker :: tracker where
  "NewReconciliationTracker = \<lparr>once_done = False, statusByObject = None\<rparr>"

definition tracker_init :: "tracker \<Rightarrow> tracker" where
  "tracker_init rt = (if once_done rt then rt else rt\<lparr>once_done := True, statusByObject := Some []\<rparr>)"

definition status_or_zero :: "tracker \<Rightarrow> string \<Rightarrow> reconciliation_status" where
  "status_or_zero rt key =
     (case mget (nilmap (statusByObject rt)) key of None \<Rightarrow> RS_zero | Some rs \<Rightarrow> rs)"

definition SetStatus :: "string \<Rightarrow> error option \<Rightarrow> tracker \<Rightarrow> tracker" where
  "SetStatus key err rt0 =
     (let rt = tracker_init rt0; rs = (status_or_zero rt key)\<lparr>RS_err := err\<rparr>
      in rt\<lparr>statusByObject := Some (mset_key key rs (nilmap (statusByObject rt)))\<rparr>)"

definition SetReasonAndMessage :: "string \<Rightarrow> string \<Rightarrow> string \<Rightarrow> tracker \<Rightarrow> tracker" where
  "SetReasonAndMessage key reason message rt0 =
     (let rt = tracker_init rt0;
          rs = (status_or_zero rt key)\<lparr>RS_reason := reason, RS_message := message\<rparr>
      in rt\<lparr>statusByObject := Some (mset_key key rs (nilmap (statusByObject rt)))\<rparr>)"

definition GetStatus :: "string \<Rightarrow> tracker \<Rightarrow> reconciliation_status \<times> bool" where
  "GetStatus k rt =
     (case mget (nilmap (statusByObject rt)) k of None \<Rightarrow> (RS_zero, False) | Some s \<Rightarrow> (s, True))"

definition Tracker_ForgetObject :: "string \<Rightarrow> tracker \<Rightarrow> tracker" where
  "Tracker_ForgetObject key rt =
     (case statusByObject rt of
        None \<Rightarrow> rt
      | Some m \<Rightarrow> rt\<lparr>statusByObject := Some (mdelete key m)\<rparr>)"

text \<open>The loop of \<open>Collect\<close>: how many objects are fine and how many have failed.\<close>

fun collect_loop :: "(string, reconciliation_status) gomap \<Rightarrow> nat \<times> nat \<Rightarrow> nat \<times> nat" where
  "collect_loop [] (ok, bad) = (ok, bad)"
| "collect_loop ((_, st) # rest) (ok, bad) =
     collect_loop rest (if RS_Ok st then (ok + 1, bad) else (ok, bad + 1))"

definition Tracker_Collect :: "tracker \<Rightarrow> nat \<times> nat" where
  "Tracker_Collect rt = collect_loop (nilmap (statusByObject rt)) (0, 0)"

section \<open>The tracker as a map\<close>

definition tracker_inv :: "tracker \<Rightarrow> bool" where
  "tracker_inv rt \<longleftrightarrow>
     (once_done rt \<longleftrightarrow> statusByObject rt \<noteq> None) \<and> gomap (nilmap (statusByObject rt))"

definition tracked :: "tracker \<Rightarrow> string \<Rightarrow> reconciliation_status option" where
  "tracked rt key = mget (nilmap (statusByObject rt)) key"

text \<open>
  The contract the controllers use: every write touches the object it names and no other, and a
  forgotten object is unknown again.
\<close>

locale status_store =
  fixes inv :: "'t \<Rightarrow> bool"
    and lookup :: "'t \<Rightarrow> 'k \<Rightarrow> 's option"
    and zero :: 's
    and modify :: "('s \<Rightarrow> 's) \<Rightarrow> 'k \<Rightarrow> 't \<Rightarrow> 't"
    and forget :: "'k \<Rightarrow> 't \<Rightarrow> 't"
  assumes inv_modify: "inv t \<Longrightarrow> inv (modify f k t)"
    and inv_forget: "inv t \<Longrightarrow> inv (forget k t)"
    and lookup_modify: "inv t \<Longrightarrow> lookup (modify f k t) =
          (lookup t)(k \<mapsto> f (case lookup t k of None \<Rightarrow> zero | Some s \<Rightarrow> s))"
    and lookup_forget: "inv t \<Longrightarrow> lookup (forget k t) = (lookup t)(k := None)"
begin

lemma modify_twice:
  "inv t \<Longrightarrow> lookup (modify g k (modify f k t)) = lookup (modify (g \<circ> f) k t)"
  by (rule ext) (simp add: lookup_modify inv_modify)

lemma forget_modify: "inv t \<Longrightarrow> lookup (forget k (modify f k t)) = lookup (forget k t)"
  by (rule ext) (simp add: lookup_modify lookup_forget inv_modify)

lemma modify_after_forget:
  "inv t \<Longrightarrow> lookup (modify f k (forget k t)) k = Some (f zero)"
  by (simp add: lookup_modify lookup_forget inv_forget)

end

definition tracker_modify ::
    "(reconciliation_status \<Rightarrow> reconciliation_status) \<Rightarrow> string \<Rightarrow> tracker \<Rightarrow> tracker" where
  "tracker_modify f key rt0 =
     (let rt = tracker_init rt0
      in rt\<lparr>statusByObject :=
              Some (mset_key key (f (status_or_zero rt key)) (nilmap (statusByObject rt)))\<rparr>)"

lemma SetStatus_modify: "SetStatus key err = tracker_modify (RS_err_update (\<lambda>_. err)) key"
  by (rule ext) (simp add: SetStatus_def tracker_modify_def)

lemma SetReasonAndMessage_modify:
  "SetReasonAndMessage key reason message =
     tracker_modify (\<lambda>rs. rs\<lparr>RS_reason := reason, RS_message := message\<rparr>) key"
  by (rule ext) (simp add: SetReasonAndMessage_def tracker_modify_def)

lemma tracker_inv_New [simp]: "tracker_inv NewReconciliationTracker"
  by (simp add: tracker_inv_def NewReconciliationTracker_def nilmap_def)

interpretation tr: status_store tracker_inv tracked RS_zero tracker_modify Tracker_ForgetObject
proof
  fix t :: tracker and f k
  assume inv: "tracker_inv t"
  then show "tracker_inv (tracker_modify f k t)"
    by (auto simp: tracker_inv_def tracker_modify_def tracker_init_def nilmap_def Let_def
        split: option.splits)
  from inv show "tracker_inv (Tracker_ForgetObject k t)"
    by (auto simp: tracker_inv_def Tracker_ForgetObject_def nilmap_def split: option.splits)
  from inv show "tracked (tracker_modify f k t) =
      (tracked t)(k \<mapsto> f (case tracked t k of None \<Rightarrow> RS_zero | Some s \<Rightarrow> s))"
    by (intro ext) (auto simp: tracker_inv_def tracked_def tracker_modify_def tracker_init_def
        status_or_zero_def nilmap_def Let_def split: option.splits)
  show "tracked (Tracker_ForgetObject k t) = (tracked t)(k := None)"
    by (intro ext) (auto simp: tracked_def Tracker_ForgetObject_def nilmap_def split: option.splits)
qed

lemma GetStatus_tracked:
  "GetStatus k rt = (case tracked rt k of None \<Rightarrow> (RS_zero, False) | Some s \<Rightarrow> (s, True))"
  by (simp add: GetStatus_def tracked_def)

lemma collect_loop_counts:
  "collect_loop m (a, b) =
     (a + length (filter (\<lambda>(k, st). RS_Ok st) m), b + length (filter (\<lambda>(k, st). \<not> RS_Ok st) m))"
  by (induction m "(a, b)" arbitrary: a b rule: collect_loop.induct) auto

end
