(* ===== verification/World.thy ===== *)
theory World
  imports KubeTypes Metrics Tracker
begin

text \<open>
  The effects of the operator. Every call that leaves the process (to the Kubernetes API, to a
  Perses server, to the file system, to the clock and to Prometheus) is an entry of a log, and a
  service answers as an arbitrary function of the log so far: an answer may depend on everything
  that happened before, and two equal requests may be answered differently. The functions of the
  packages the sources only call are the fields of the record \<open>env\<close>, which every definition that
  needs them takes as its first argument; what a theorem needs to know of them is a named
  hypothesis about an \<open>env\<close>.

  A Go function with effects is a computation in the state monad over \<open>world\<close>: the log, the tables
  of the operator, its client cache, the object behind the pointer that the context of a Perses
  reconciliation carries, and the closure variable of \<open>setStatusToUnknown\<close>.
\<close>

section \<open>Calls\<close>

datatype reader = Cached | APIReader

datatype list_scope = BySelector selector | InNamespace string | AllObjects

datatype call =
    KGet reader kind namespaced_name
  | KList list_scope
  | KListMeta kind
  | KStatusUpdate kobj
  | KUpdate bool kobj
  | KCreate kobj
  | KDelete kobj
  | PGet v1_client pkind string string
  | PCreate v1_client pkind string pobj
  | PUpdate v1_client pkind string pobj
  | PDelete v1_client pkind string string
  | PValidate "rest_client option" pkind pobj
  | OReadFile string
  | OCloseIdle rest_client
  | ONow
  | PromInc prom_metric "string list"
  | PromSet prom_metric "string list" int
  | PromDelete prom_metric "string list"

text \<open>
  The reads that give the whole object. The uncached reader asks the API server; the informer cache
  holds these kinds in full, and of the others only the metadata (theory \<open>Watches\<close> derives this from
  the set-up of the controllers and of the cache).
\<close>

fun served_whole :: "reader \<Rightarrow> kind \<Rightarrow> bool" where
  "served_whole APIReader k = True"
| "served_whole Cached k = (k \<in> {PersesKind, ServiceKind, ConfigMapKind, DeploymentKind, StatefulSetKind})"

section \<open>The client cache\<close>

record client_cache_entry =
  entry_client :: v1_client
  entry_fingerprint :: string
  entry_createdAt :: int

text \<open>The zero time of \<open>lastSweep\<close>, before the first sweep, is \<open>None\<close>.\<close>

record client_factory =
  cache :: "(string, client_cache_entry) gomap"
  ttl :: int
  lastSweep :: "int option"

text \<open>The two implementations of the interface \<open>PersesClientFactory\<close>.\<close>

datatype factory =
    PersesClientFactoryWithConfig client_factory
  | PersesClientFactoryWithClient v1_client

section \<open>The state and the monad\<close>

record world =
  calls :: "call list"
  w_metrics :: "metrics option"
  w_tracker :: "tracker option"
  w_factory :: factory
  ctx_perses :: "perses option"
  needs_requeue :: bool

type_synonym 'a go = "(world, 'a) state"
type_synonym sub_result = "ctrl_result option \<times> error option"
type_synonym sync_result = "ctrl_result option \<times> string \<times> error option"

text \<open>One external call: the answer is computed from the log, then the call is added to it.\<close>

definition ask :: "(call list \<Rightarrow> 'a) \<Rightarrow> call \<Rightarrow> 'a go" where
  "ask answer c = State (\<lambda>w. (answer (calls w), w\<lparr>calls := c # calls w\<rparr>))"

definition tell :: "call \<Rightarrow> unit go" where
  "tell c = ask (\<lambda>_. ()) c"

definition reads :: "(world \<Rightarrow> 'a) \<Rightarrow> 'a go" where
  "reads f = State (\<lambda>w. (f w, w))"

definition modifies :: "(world \<Rightarrow> world) \<Rightarrow> unit go" where
  "modifies f = State (\<lambda>w. ((), f w))"

text \<open>The idiom \<open>x, err := m; if err != nil { return err }\<close>.\<close>

definition bindE :: "(error + 'a) go \<Rightarrow> ('a \<Rightarrow> (error + 'b) go) \<Rightarrow> (error + 'b) go" where
  "bindE m f = do {
     r \<leftarrow> m;
     case r of Inl err \<Rightarrow> State_Monad.return (Inl err) | Inr x \<Rightarrow> f x
   }"

section \<open>The services and libraries\<close>

record env =
  getPerses :: "call list \<Rightarrow> reader \<Rightarrow> namespaced_name \<Rightarrow> error + perses"
  getDashboard :: "call list \<Rightarrow> reader \<Rightarrow> namespaced_name \<Rightarrow> error + persesdashboard"
  getDatasource :: "call list \<Rightarrow> reader \<Rightarrow> namespaced_name \<Rightarrow> error + persesdatasource"
  getGlobalDatasource :: "call list \<Rightarrow> reader \<Rightarrow> namespaced_name \<Rightarrow> error + persesglobaldatasource"
  getSecret :: "call list \<Rightarrow> reader \<Rightarrow> namespaced_name \<Rightarrow> error + k8s_secret"
  getConfigMap :: "call list \<Rightarrow> reader \<Rightarrow> namespaced_name \<Rightarrow> error + config_map"
  getService :: "call list \<Rightarrow> reader \<Rightarrow> namespaced_name \<Rightarrow> error + service"
  getDeployment :: "call list \<Rightarrow> reader \<Rightarrow> namespaced_name \<Rightarrow> error + deployment"
  getStatefulSet :: "call list \<Rightarrow> reader \<Rightarrow> namespaced_name \<Rightarrow> error + statefulset"
  listPerses :: "call list \<Rightarrow> list_scope \<Rightarrow> error + perses list"
  listMeta :: "call list \<Rightarrow> kind \<Rightarrow> error + object_meta list"
  respond :: "call list \<Rightarrow> call \<Rightarrow> error option"
  updatedPerses :: "call list \<Rightarrow> perses \<Rightarrow> perses"
  dryRunService :: "call list \<Rightarrow> service \<Rightarrow> service"
  dryRunConfigMap :: "call list \<Rightarrow> config_map \<Rightarrow> config_map"
  dryRunDeployment :: "call list \<Rightarrow> deployment \<Rightarrow> deployment"
  dryRunStatefulSet :: "call list \<Rightarrow> statefulset \<Rightarrow> statefulset"
  getEntity :: "call list \<Rightarrow> v1_client \<Rightarrow> pkind \<Rightarrow> string \<Rightarrow> string \<Rightarrow> error + p_entity"
  readFile :: "call list \<Rightarrow> string \<Rightarrow> error + string"
  clock :: "call list \<Rightarrow> int"
  IsNotFound :: "error \<Rightarrow> bool"
  IsConflict :: "error \<Rightarrow> bool"
  IsRequestNotFound :: "error \<Rightarrow> bool"
  retryOnConflict :: "(error option) go \<Rightarrow> (error option) go"
  setCondition :: "call list \<Rightarrow> condition list \<Rightarrow> condition \<Rightarrow> condition list"
  IsStatusConditionTrue :: "condition list \<Rightarrow> string \<Rightarrow> bool"
  DeepEqual_json :: "json \<Rightarrow> json \<Rightarrow> bool"
  DeepEqual_conditions :: "condition list \<Rightarrow> condition list \<Rightarrow> bool"
  ContainsFinalizer :: "perses \<Rightarrow> string \<Rightarrow> bool"
  RemoveFinalizer :: "perses \<Rightarrow> string \<Rightarrow> perses \<times> bool"
  DeepEqual_status :: "perses_status \<Rightarrow> perses_status \<Rightarrow> bool"
  DeepEqual_versions :: "secret_version list \<Rightarrow> secret_version list option \<Rightarrow> bool"
  DeepEqual_string :: "string \<Rightarrow> string \<Rightarrow> bool"
  DeepEqual_ports :: "service_port list \<Rightarrow> service_port list \<Rightarrow> bool"
  DeepEqual_strmap :: "strmap option \<Rightarrow> strmap option \<Rightarrow> bool"
  DeepEqual_deployment_spec :: "deployment_spec \<Rightarrow> deployment_spec \<Rightarrow> bool"
  DeepEqual_statefulset_spec :: "statefulset_spec \<Rightarrow> statefulset_spec \<Rightarrow> bool"
  LabelSelectorAsSelector :: "label_selector \<Rightarrow> error option"
  setControllerReference :: "perses \<Rightarrow> object_meta \<Rightarrow> error + json list"
  ParseURL :: "string \<Rightarrow> error + string"
  NewRESTClient :: "rest_config \<Rightarrow> error + rest_client"
  NewWithRESTClient :: "rest_client \<Rightarrow> v1_client"
  yaml_Marshal :: "perses_config \<Rightarrow> error + string"
  json_Marshal :: "secret_version list \<Rightarrow> error + string"
  sha256_Sprint :: "string \<Rightarrow> string"
  SafeEncodeString :: "string \<Rightarrow> string"
  LabelValueMaxLength :: nat
  NamespacedName_String :: "namespaced_name \<Rightarrow> string"
  serverURLFlag :: "string option"

section \<open>Calls as computations\<close>

definition exec :: "env \<Rightarrow> call \<Rightarrow> (error option) go" where
  "exec E c = ask (\<lambda>h. respond E h c) c"

definition now :: "env \<Rightarrow> int go" where
  "now E = ask (clock E) ONow"

definition meta_SetStatusCondition :: "env \<Rightarrow> condition list \<Rightarrow> condition \<Rightarrow> (condition list) go" where
  "meta_SetStatusCondition E cs c = ask (\<lambda>h. setCondition E h cs c) ONow"

definition ReadFile :: "env \<Rightarrow> string \<Rightarrow> (error + string) go" where
  "ReadFile E path = ask (\<lambda>h. readFile E h path) (OReadFile path)"

text \<open>A \<open>metav1.Condition\<close> literal with the four fields the source sets.\<close>

definition Condition :: "string \<Rightarrow> string \<Rightarrow> string \<Rightarrow> string \<Rightarrow> condition" where
  "Condition ty st reason msg =
     \<lparr>Cond_Type = ty, Cond_Status = st, Cond_Reason = reason, Cond_Message = msg,
      Cond_LastTransitionTime = 0, Cond_ObservedGeneration = 0\<rparr>"

text \<open>Effects on the operator's own tables, guarded by the \<open>nil\<close> checks of the source.\<close>

definition if_metrics :: "call list \<Rightarrow> (metrics \<Rightarrow> metrics) \<Rightarrow> unit go" where
  "if_metrics cs f = modifies (\<lambda>w. case w_metrics w of
       None \<Rightarrow> w
     | Some m \<Rightarrow> w\<lparr>w_metrics := Some (f m), calls := rev cs @ calls w\<rparr>)"

definition if_tracker :: "(tracker \<Rightarrow> tracker) \<Rightarrow> unit go" where
  "if_tracker f = modifies (\<lambda>w. w\<lparr>w_tracker := map_option f (w_tracker w)\<rparr>)"

section \<open>Retrying on conflict\<close>

text \<open>
  The documented behaviour of \<open>retry.RetryOnConflict\<close>: the function runs at least once, it runs
  again only after a conflict error, and the result is that of the last run.
\<close>

inductive retries :: "(error \<Rightarrow> bool) \<Rightarrow> (error option) go \<Rightarrow> world \<Rightarrow> error option \<times> world \<Rightarrow> bool"
  for conflict :: "error \<Rightarrow> bool" and f :: "(error option) go" where
  last_try: "run_state f w = r \<Longrightarrow> retries conflict f w r"
| try_again: "run_state f w = (Some e, w') \<Longrightarrow> conflict e \<Longrightarrow> retries conflict f w' r \<Longrightarrow>
    retries conflict f w r"

definition retry_law :: "env \<Rightarrow> bool" where
  "retry_law E \<longleftrightarrow> (\<forall>f w. retries (IsConflict E) f w (run_state (retryOnConflict E f) w))"

section \<open>Reasoning about computations\<close>

text \<open>
  \<open>wp m Q w\<close>: running \<open>m\<close> from \<open>w\<close> ends in a result and a state that satisfy \<open>Q\<close>. Every
  computation of the model ends, so this is total correctness.
\<close>

named_theorems wp_simps \<open>weakest preconditions of the primitive computations\<close>

definition wp :: "'a go \<Rightarrow> ('a \<Rightarrow> world \<Rightarrow> bool) \<Rightarrow> world \<Rightarrow> bool" where
  "wp m Q w = (case run_state m w of (r, w') \<Rightarrow> Q r w')"

lemma wp_return [wp_simps]: "wp (State_Monad.return x) Q = Q x"
  by (simp add: wp_def fun_eq_iff State_Monad.return_def)

lemma wp_bind [wp_simps]: "wp (State_Monad.bind m f) Q = wp m (\<lambda>r. wp (f r) Q)"
  by (simp add: wp_def fun_eq_iff State_Monad.bind_def split: prod.splits)

lemma wp_ask [wp_simps]: "wp (ask a c) Q = (\<lambda>w. Q (a (calls w)) (w\<lparr>calls := c # calls w\<rparr>))"
  by (simp add: wp_def fun_eq_iff ask_def)

lemma wp_tell [wp_simps]: "wp (tell c) Q = (\<lambda>w. Q () (w\<lparr>calls := c # calls w\<rparr>))"
  by (simp add: tell_def wp_ask)

lemma wp_reads [wp_simps]: "wp (reads f) Q = (\<lambda>w. Q (f w) w)"
  by (simp add: wp_def fun_eq_iff reads_def)

lemma wp_modifies [wp_simps]: "wp (modifies f) Q = (\<lambda>w. Q () (f w))"
  by (simp add: wp_def fun_eq_iff modifies_def)

lemma wp_exec [wp_simps]: "wp (exec E c) Q = (\<lambda>w. Q (respond E (calls w) c) (w\<lparr>calls := c # calls w\<rparr>))"
  by (simp add: exec_def wp_ask)

lemma wp_now [wp_simps]: "wp (now E) Q = (\<lambda>w. Q (clock E (calls w)) (w\<lparr>calls := ONow # calls w\<rparr>))"
  by (simp add: now_def wp_ask)

lemma wp_ReadFile [wp_simps]:
  "wp (ReadFile E path) Q = (\<lambda>w. Q (readFile E (calls w) path) (w\<lparr>calls := OReadFile path # calls w\<rparr>))"
  by (simp add: ReadFile_def wp_ask)

lemma wp_if [wp_simps]: "wp (if b then m else n) Q = (\<lambda>w. if b then wp m Q w else wp n Q w)"
  by auto

lemma wp_case_option [wp_simps]:
  "wp (case x of None \<Rightarrow> m | Some y \<Rightarrow> n y) Q =
     (\<lambda>w. case x of None \<Rightarrow> wp m Q w | Some y \<Rightarrow> wp (n y) Q w)"
  by (cases x) auto

lemma wp_case_sum [wp_simps]:
  "wp (case x of Inl e \<Rightarrow> m e | Inr y \<Rightarrow> n y) Q =
     (\<lambda>w. case x of Inl e \<Rightarrow> wp (m e) Q w | Inr y \<Rightarrow> wp (n y) Q w)"
  by (cases x) auto

lemma wp_case_prod [wp_simps]:
  "wp (case x of (a, b) \<Rightarrow> m a b) Q = (\<lambda>w. case x of (a, b) \<Rightarrow> wp (m a b) Q w)"
  by (cases x) auto

lemma wp_bindE [wp_simps]:
  "wp (bindE m f) Q = wp m (\<lambda>r w'. case r of Inl err \<Rightarrow> Q (Inl err) w' | Inr x \<Rightarrow> wp (f x) Q w')"
  by (simp add: bindE_def wp_simps cong: sum.case_cong)

lemma wp_mono: "wp m Q w \<Longrightarrow> (\<And>r w'. Q r w' \<Longrightarrow> Q' r w') \<Longrightarrow> wp m Q' w"
  by (auto simp: wp_def split: prod.splits)

lemma wp_any: "(\<And>r w'. Q r w') \<Longrightarrow> wp m Q w"
  by (simp add: wp_def split: prod.splits)

lemma wp_conj: "wp m (\<lambda>r w'. Q r w' \<and> Q' r w') w \<longleftrightarrow> wp m Q w \<and> wp m Q' w"
  by (auto simp: wp_def split: prod.splits)

lemma wp_run: "run_state m w = (r, w') \<Longrightarrow> wp m Q w = Q r w'"
  by (simp add: wp_def)

text \<open>
  \<open>keeps I m\<close>: the computation preserves a predicate of the state. \<open>retryOnConflict\<close> preserves what
  one try preserves.
\<close>

definition keeps :: "(world \<Rightarrow> bool) \<Rightarrow> 'a go \<Rightarrow> bool" where
  "keeps I m \<longleftrightarrow> (\<forall>w. I w \<longrightarrow> wp m (\<lambda>_. I) w)"

lemma retries_invariant:
  assumes "retries conflict f w r"
    and "\<And>w. I w \<Longrightarrow> wp f (\<lambda>r w'. I w' \<and> Q r w') w" and "I w"
  shows "I (snd r) \<and> Q (fst r) (snd r)"
  using assms
proof (induction w r rule: retries.induct)
  case (last_try w r)
  then show ?case by (cases r) (force simp: wp_def)
next
  case (try_again w e w' r)
  then have "I w'" by (force simp: wp_def)
  with try_again show ?case by blast
qed

lemma wp_retry:
  assumes "retry_law E" and "\<And>w. I w \<Longrightarrow> wp f (\<lambda>r w'. I w' \<and> Q r w') w" and "I w"
  shows "wp (retryOnConflict E f) (\<lambda>r w'. I w' \<and> Q r w') w"
proof -
  have "retries (IsConflict E) f w (run_state (retryOnConflict E f) w)"
    using assms(1) by (simp add: retry_law_def)
  from retries_invariant [OF this assms(2,3)] show ?thesis
    by (cases "run_state (retryOnConflict E f) w") (simp add: wp_def)
qed

text \<open>
  \<open>along R m\<close>: whatever the state, running \<open>m\<close> moves it along the relation \<open>R\<close>. For a preorder this
  follows the structure of the computation; the rules are proved once, for any preorder.
\<close>

definition along :: "(world \<Rightarrow> world \<Rightarrow> bool) \<Rightarrow> 'a go \<Rightarrow> bool" where
  "along R m \<longleftrightarrow> (\<forall>w. wp m (\<lambda>_. R w) w)"

named_theorems along_intros \<open>rules that derive \<open>along\<close> along the structure of a computation\<close>

lemma alongD: "along R m \<Longrightarrow> wp m (\<lambda>_. R w) w"
  by (simp add: along_def)

lemma along_mono: "along R m \<Longrightarrow> (\<And>w w'. R w w' \<Longrightarrow> S w w') \<Longrightarrow> along S m"
  unfolding along_def by (auto intro: wp_mono)

lemma along_if [along_intros]:
  "(b \<Longrightarrow> along R m) \<Longrightarrow> (\<not> b \<Longrightarrow> along R n) \<Longrightarrow> along R (if b then m else n)"
  by simp

lemma along_case_option [along_intros]:
  "(x = None \<Longrightarrow> along R m) \<Longrightarrow> (\<And>y. x = Some y \<Longrightarrow> along R (n y)) \<Longrightarrow>
     along R (case x of None \<Rightarrow> m | Some y \<Rightarrow> n y)"
  by (cases x) auto

lemma along_case_sum [along_intros]:
  "(\<And>y. x = Inl y \<Longrightarrow> along R (m y)) \<Longrightarrow> (\<And>y. x = Inr y \<Longrightarrow> along R (n y)) \<Longrightarrow>
     along R (case x of Inl y \<Rightarrow> m y | Inr y \<Rightarrow> n y)"
  by (cases x) auto

lemma along_case_prod [along_intros]:
  "(\<And>a b. x = (a, b) \<Longrightarrow> along R (m a b)) \<Longrightarrow> along R (case x of (a, b) \<Rightarrow> m a b)"
  by (cases x) auto

lemma along_ask [along_intros]: "(\<And>w. R w (w\<lparr>calls := c # calls w\<rparr>)) \<Longrightarrow> along R (ask a c)"
  by (simp add: along_def wp_simps)

lemma along_tell [along_intros]: "(\<And>w. R w (w\<lparr>calls := c # calls w\<rparr>)) \<Longrightarrow> along R (tell c)"
  by (simp add: along_def wp_simps)

lemma along_exec [along_intros]: "(\<And>w. R w (w\<lparr>calls := c # calls w\<rparr>)) \<Longrightarrow> along R (exec E c)"
  by (simp add: along_def wp_simps)

lemma along_now [along_intros]: "(\<And>w. R w (w\<lparr>calls := ONow # calls w\<rparr>)) \<Longrightarrow> along R (now E)"
  by (simp add: along_def wp_simps)

lemma along_ReadFile [along_intros]:
  "(\<And>w. R w (w\<lparr>calls := OReadFile path # calls w\<rparr>)) \<Longrightarrow> along R (ReadFile E path)"
  by (simp add: along_def wp_simps)

lemma along_SetStatusCondition [along_intros]:
  "(\<And>w. R w (w\<lparr>calls := ONow # calls w\<rparr>)) \<Longrightarrow> along R (meta_SetStatusCondition E cs c)"
  by (simp add: along_def meta_SetStatusCondition_def wp_simps)

lemma along_modifies [along_intros]: "(\<And>w. R w (f w)) \<Longrightarrow> along R (modifies f)"
  by (simp add: along_def wp_simps)

locale frame =
  fixes R :: "world \<Rightarrow> world \<Rightarrow> bool"
  assumes frame_refl: "R w w"
    and frame_trans: "R w w' \<Longrightarrow> R w' w'' \<Longrightarrow> R w w''"
begin

lemma along_return [along_intros]: "along R (State_Monad.return x)"
  by (simp add: along_def wp_simps frame_refl)

lemma along_reads [along_intros]: "along R (reads f)"
  by (simp add: along_def wp_simps frame_refl)

lemma along_bind [along_intros]:
  assumes "along R m" and "\<And>x. along R (f x)"
  shows "along R (State_Monad.bind m f)"
  unfolding along_def
proof
  fix w
  have "wp m (\<lambda>_. R w) w" using assms(1) by (rule alongD)
  then have "wp m (\<lambda>r w'. wp (f r) (\<lambda>_. R w) w') w"
  proof (rule wp_mono)
    fix r w'
    assume first: "R w w'"
    show "wp (f r) (\<lambda>_. R w) w'"
      using alongD [OF assms(2)] by (rule wp_mono) (rule frame_trans [OF first])
  qed
  then show "wp (State_Monad.bind m f) (\<lambda>_. R w) w" by (simp add: wp_simps)
qed

lemma along_bindE [along_intros]:
  "along R m \<Longrightarrow> (\<And>x. along R (f x)) \<Longrightarrow> along R (bindE m f)"
  unfolding bindE_def by (auto intro!: along_intros split: sum.splits)

lemma along_retry [along_intros]:
  assumes "retry_law E" and "along R f"
  shows "along R (retryOnConflict E f)"
  unfolding along_def
proof
  fix w
  have "wp (retryOnConflict E f) (\<lambda>r w'. R w w' \<and> True) w"
  proof (rule wp_retry [OF assms(1)])
    fix w'
    assume first: "R w w'"
    show "wp f (\<lambda>r w'. R w w' \<and> True) w'"
      using alongD [OF assms(2)] by (rule wp_mono) (simp add: frame_trans [OF first])
  qed (rule frame_refl)
  then show "wp (retryOnConflict E f) (\<lambda>_. R w) w" by simp
qed

end

text \<open>
  Two such relations: \<open>only_adds P\<close>, where only calls that satisfy \<open>P\<close> are added to the log and the
  operator's tables and the object in the context stay (the client cache may change), and
  \<open>same_factory\<close>, where the client cache stays.
\<close>

definition only_adds :: "(call \<Rightarrow> bool) \<Rightarrow> world \<Rightarrow> world \<Rightarrow> bool" where
  "only_adds P w w' \<longleftrightarrow>
     (\<exists>cs. calls w' = cs @ calls w \<and> list_all P cs) \<and>
     w_metrics w' = w_metrics w \<and> w_tracker w' = w_tracker w \<and>
     ctx_perses w' = ctx_perses w \<and> needs_requeue w' = needs_requeue w"

definition same_factory :: "world \<Rightarrow> world \<Rightarrow> bool" where
  "same_factory w w' \<longleftrightarrow> w_factory w' = w_factory w"

text \<open>\<open>same_tables\<close>: the tracker and the metrics stay.\<close>

definition same_tables :: "world \<Rightarrow> world \<Rightarrow> bool" where
  "same_tables w w' \<longleftrightarrow> w_metrics w' = w_metrics w \<and> w_tracker w' = w_tracker w"

abbreviation emits :: "(call \<Rightarrow> bool) \<Rightarrow> 'a go \<Rightarrow> bool" where
  "emits P \<equiv> along (only_adds P)"

interpretation oa: frame "only_adds P" for P :: "call \<Rightarrow> bool"
proof
  show "only_adds P w w" for w by (simp add: only_adds_def)
  show "only_adds P w w''" if "only_adds P w w'" and "only_adds P w' w''" for w w' w''
    using that unfolding only_adds_def by (metis append.assoc list_all_append)
qed

interpretation sf: frame same_factory
  by unfold_locales (simp_all add: same_factory_def)

interpretation st: frame same_tables
  by unfold_locales (simp_all add: same_tables_def)

declare oa.frame_refl [simp]

lemma same_tables_updates [simp]:
  "same_tables w (w\<lparr>calls := cs\<rparr>)" "same_tables w (w\<lparr>ctx_perses := p\<rparr>)" "same_tables w (w\<lparr>needs_requeue := b\<rparr>)"
  by (simp_all add: same_tables_def)

lemma emits_same_tables: "emits P m \<Longrightarrow> along same_tables m"
  by (erule along_mono) (simp add: same_tables_def only_adds_def)

lemma only_adds_call [simp]: "only_adds P w (w\<lparr>calls := c # calls w\<rparr>) \<longleftrightarrow> P c"
  by (auto simp: only_adds_def)

lemma same_factory_call [simp]: "same_factory w (w\<lparr>calls := cs\<rparr>)"
  by (simp add: same_factory_def)

lemma only_adds_factory [simp]: "only_adds P w (w\<lparr>w_factory := f\<rparr>)"
  by (simp add: only_adds_def)

lemma only_adds_mono: "only_adds P w w' \<Longrightarrow> (\<And>c. P c \<Longrightarrow> Q c) \<Longrightarrow> only_adds Q w w'"
  unfolding only_adds_def by (metis list.pred_mono_strong)

lemma emits_mono:
  assumes "emits P m" and "\<And>c. P c \<Longrightarrow> Q c"
  shows "emits Q m"
  using assms(1) by (rule along_mono) (rule only_adds_mono [OF _ assms(2)])

text \<open>Calls that change nothing outside the process.\<close>

fun read_only :: "call \<Rightarrow> bool" where
  "read_only (KGet rd k key) = True"
| "read_only (KList sc) = True"
| "read_only (KListMeta k) = True"
| "read_only (PGet c k ns n) = True"
| "read_only (PValidate c k ob) = True"
| "read_only (OReadFile path) = True"
| "read_only (OCloseIdle c) = True"
| "read_only ONow = True"
| "read_only _ = False"

end
