(* ===== verification/Common.thy ===== *)
theory Common
  imports World
begin

text \<open>
  The pure helpers of \<^verbatim>\<open>internal/perses/common\<close> that every controller uses: the constants and
  the predicates of \<^verbatim>\<open>constants.go\<close>, label values and image names (\<^verbatim>\<open>labels.go\<close>), tags
  (\<^verbatim>\<open>tags.go\<close>), the comparison of existing and desired entities (\<^verbatim>\<open>sync.go\<close>), and
  snapshots of status conditions (\<^verbatim>\<open>status.go\<close>).
\<close>

section \<open>Constants\<close>

definition PersesNamespaceDomain :: string where "PersesNamespaceDomain = ''perses.dev''"
definition PersesFinalizer :: string where "PersesFinalizer = PersesNamespaceDomain @ ''/finalizer''"
definition PersesProvisioningVersion :: string where
  "PersesProvisioningVersion = PersesNamespaceDomain @ ''/provisioning-version''"
definition TagsAnnotation :: string where "TagsAnnotation = PersesNamespaceDomain @ ''/tags''"
definition TypeAvailablePerses :: string where "TypeAvailablePerses = ''Available''"
definition TypeDegradedPerses :: string where "TypeDegradedPerses = ''Degraded''"
definition DefaultContainerPort :: int32 where "DefaultContainerPort = 8080"
definition SecretNameSuffix :: string where "SecretNameSuffix = ''-secret''"
definition ConditionTrue :: string where "ConditionTrue = ''True''"
definition ConditionFalse :: string where "ConditionFalse = ''False''"
definition ConditionUnknown :: string where "ConditionUnknown = ''Unknown''"

lemmas common_consts [go_const] =
  PersesNamespaceDomain_def PersesFinalizer_def PersesProvisioningVersion_def TagsAnnotation_def
  TypeAvailablePerses_def TypeDegradedPerses_def DefaultContainerPort_def SecretNameSuffix_def
  ConditionTrue_def ConditionFalse_def ConditionUnknown_def

section \<open>Predicates on Perses objects\<close>

text \<open>A pointer that is set and points to \<open>true\<close>.\<close>

definition enabled :: "bool option \<Rightarrow> bool" where
  "enabled b \<longleftrightarrow> b = Some True"

definition isTLSEnabled :: "perses \<Rightarrow> bool" where
  "isTLSEnabled p = (case Spec_TLS (Spec p) of None \<Rightarrow> False | Some t \<Rightarrow> enabled (TLS_Enable t))"

definition hasTLSConfiguration :: "perses \<Rightarrow> bool" where
  "hasTLSConfiguration p \<longleftrightarrow>
     isTLSEnabled p \<and>
     (case Spec_TLS (Spec p) of None \<Rightarrow> False
      | Some t \<Rightarrow> (case TLS_UserCert t of None \<Rightarrow> False
          | Some c \<Rightarrow> CertPath c \<noteq> [] \<and>
              (case PrivateKeyPath c of None \<Rightarrow> False | Some k \<Rightarrow> k \<noteq> [])))"

definition isClientTLSEnabled :: "perses \<Rightarrow> bool" where
  "isClientTLSEnabled p =
     (case Spec_Client (Spec p) of None \<Rightarrow> False
      | Some c \<Rightarrow> (case Client_TLS c of None \<Rightarrow> False | Some t \<Rightarrow> enabled (TLS_Enable t)))"

definition isKubernetesAuthEnabled :: "perses \<Rightarrow> bool" where
  "isKubernetesAuthEnabled p =
     (case Spec_Client (Spec p) of None \<Rightarrow> False
      | Some c \<Rightarrow> (case Client_KubernetesAuth c of None \<Rightarrow> False
          | Some k \<Rightarrow> enabled (KubernetesAuth_Enable k)))"

definition isClientOAuthEnabled :: "perses \<Rightarrow> bool" where
  "isClientOAuthEnabled p =
     (case Spec_Client (Spec p) of None \<Rightarrow> False | Some c \<Rightarrow> Client_OAuth c \<noteq> None)"

text \<open>
  \<open>PersesBecameAvailable\<close> takes two objects of any kind; the type assertion fails for an object
  that is not a Perses.
\<close>

definition PersesBecameAvailable :: "env \<Rightarrow> kobj \<Rightarrow> kobj \<Rightarrow> bool" where
  "PersesBecameAvailable E oldObj newObj =
     (case oldObj of
        KPerses oldPerses \<Rightarrow>
          (case newObj of
             KPerses newPerses \<Rightarrow>
               (let wasAvailable = IsStatusConditionTrue E (Status_Conditions (Status oldPerses)) TypeAvailablePerses;
                    isAvailable = IsStatusConditionTrue E (Status_Conditions (Status newPerses)) TypeAvailablePerses
                in \<not> wasAvailable \<and> isAvailable)
           | _ \<Rightarrow> False)
      | _ \<Rightarrow> False)"

datatype watch_event = CreateEvent kobj | UpdateEvent kobj kobj | DeleteEvent kobj | GenericEvent kobj

fun PersesAvailabilityPredicate :: "env \<Rightarrow> watch_event \<Rightarrow> bool" where
  "PersesAvailabilityPredicate E (CreateEvent ob) = False"
| "PersesAvailabilityPredicate E (UpdateEvent ob ob') = PersesBecameAvailable E ob ob'"
| "PersesAvailabilityPredicate E (DeleteEvent ob) = False"
| "PersesAvailabilityPredicate E (GenericEvent ob) = False"

text \<open>A list error is logged and gives no request (\<open>nil\<close>).\<close>

definition MetadataListToRequests :: "env \<Rightarrow> kind \<Rightarrow> (namespaced_name list) go" where
  "MetadataListToRequests E k = do {
     r \<leftarrow> ask (\<lambda>h. listMeta E h k) (KListMeta k);
     State_Monad.return (case r of
         Inl err \<Rightarrow> []
       | Inr items \<Rightarrow> map (\<lambda>obj. \<lparr>NN_Namespace = Namespace obj, NN_Name = Name obj\<rparr>) items)
   }"

section \<open>Labels and images\<close>

definition isAlphaNumeric :: "char \<Rightarrow> bool" where
  "isAlphaNumeric c \<longleftrightarrow>
     (97 \<le> (of_char c :: nat) \<and> (of_char c :: nat) \<le> 122) \<or>
     (48 \<le> (of_char c :: nat) \<and> (of_char c :: nat) \<le> 57)"

text \<open>The replacer that turns a space, a slash and a colon into a hyphen.\<close>

definition replacer :: "char \<Rightarrow> char" where
  "replacer c = (if c = CHR '' '' \<or> c = CHR ''/'' \<or> c = CHR '':'' then CHR ''-'' else c)"

definition sanitizeLabel :: "env \<Rightarrow> string \<Rightarrow> string" where
  "sanitizeLabel E label =
     (let s = map replacer (ToLower label);
          s = (if s \<noteq> [] \<and> \<not> isAlphaNumeric (hd s) then ''x'' @ tl s else s);
          s = (if length s > LabelValueMaxLength E then take (LabelValueMaxLength E) s else s)
      in if s \<noteq> [] \<and> \<not> isAlphaNumeric (last s) then butlast s @ ''x'' else s)"

definition default_labels :: "env \<Rightarrow> string \<Rightarrow> perses \<Rightarrow> strmap" where
  "default_labels E name p =
     [(''app.kubernetes.io/name'', sanitizeLabel E name),
      (''app.kubernetes.io/instance'', sanitizeLabel E (Name p)),
      (''app.kubernetes.io/part-of'', ''perses-operator''),
      (''app.kubernetes.io/created-by'', ''controller-manager''),
      (''app.kubernetes.io/managed-by'', ''perses-operator'')]"

fun add_labels :: "strmap \<Rightarrow> strmap \<Rightarrow> strmap" where
  "add_labels persesLabels [] = persesLabels"
| "add_labels persesLabels ((label, v) # rest) =
     add_labels (case mget persesLabels label of
         None \<Rightarrow> mset_key label v persesLabels
       | Some _ \<Rightarrow> persesLabels) rest"

definition LabelsForPerses :: "env \<Rightarrow> string \<Rightarrow> perses \<Rightarrow> strmap" where
  "LabelsForPerses E name p =
     (case Spec_Metadata (Spec p) of
        None \<Rightarrow> default_labels E name p
      | Some md \<Rightarrow> add_labels (default_labels E name p) (nilmap (Metadata_Labels md)))"

definition ImageForPerses :: "perses \<Rightarrow> string \<Rightarrow> error + string" where
  "ImageForPerses p persesImageFromFlags =
     (let check = (\<lambda>img. if CHR '':'' \<notin> set img
                   then Inl (errorf (''image '' @ Quote img @ '' must include a tag (e.g. :v1.0.0)''))
                   else Inr img)
      in case Spec_Image (Spec p) of
           Some img \<Rightarrow>
             if img \<noteq> [] then check img
             else if persesImageFromFlags \<noteq> [] then check persesImageFromFlags
             else Inl (errorf ''no image specified: set spec.image in the Perses CR or pass --perses-default-base-image'')
         | None \<Rightarrow>
             if persesImageFromFlags \<noteq> [] then check persesImageFromFlags
             else Inl (errorf ''no image specified: set spec.image in the Perses CR or pass --perses-default-base-image''))"

definition GetConfigName :: "string \<Rightarrow> string" where
  "GetConfigName instanceName = instanceName @ ''-config''"

definition GetStorageName :: "string \<Rightarrow> string" where
  "GetStorageName instanceName = instanceName @ ''-storage''"

section \<open>Tags, comparison and snapshots\<close>

fun tags_loop :: "string list \<Rightarrow> string set \<Rightarrow> string set" where
  "tags_loop [] tags = tags"
| "tags_loop (p # ps) tags =
     (let t = ToLower (TrimSpace p) in tags_loop ps (if t \<noteq> [] then insert t tags else tags))"

definition ParseTags :: "strmap option \<Rightarrow> string set option" where
  "ParseTags annotations =
     (case mget (nilmap annotations) TagsAnnotation of
        None \<Rightarrow> None
      | Some raw \<Rightarrow> Some (tags_loop (Split (CHR '','') raw) {}))"

text \<open>\<open>maps.Equal\<close> on sets: a \<open>nil\<close> set has no element.\<close>

definition tags_Equal :: "string set option \<Rightarrow> string set option \<Rightarrow> bool" where
  "tags_Equal a b \<longleftrightarrow> (case a of None \<Rightarrow> {} | Some s \<Rightarrow> s) = (case b of None \<Rightarrow> {} | Some s \<Rightarrow> s)"

definition DashboardInSync :: "env \<Rightarrow> p_entity \<Rightarrow> p_entity \<Rightarrow> bool" where
  "DashboardInSync E existing desired \<longleftrightarrow>
     tags_Equal (Entity_Tags existing) (Entity_Tags desired) \<and>
     DeepEqual_json E (Entity_Spec existing) (Entity_Spec desired)"

definition DatasourceInSync :: "env \<Rightarrow> p_entity \<Rightarrow> p_entity \<Rightarrow> bool" where
  "DatasourceInSync E existing desired \<longleftrightarrow>
     tags_Equal (Entity_Tags existing) (Entity_Tags desired) \<and>
     DeepEqual_json E (Entity_Spec existing) (Entity_Spec desired)"

definition GlobalDatasourceInSync :: "env \<Rightarrow> p_entity \<Rightarrow> p_entity \<Rightarrow> bool" where
  "GlobalDatasourceInSync E existing desired \<longleftrightarrow>
     tags_Equal (Entity_Tags existing) (Entity_Tags desired) \<and>
     DeepEqual_json E (Entity_Spec existing) (Entity_Spec desired)"

definition SnapshotConditions :: "condition list \<Rightarrow> condition list" where
  "SnapshotConditions conditions = map (\<lambda>c. c) conditions"

definition ConditionsChanged :: "env \<Rightarrow> condition list \<Rightarrow> condition list \<Rightarrow> bool" where
  "ConditionsChanged E before after \<longleftrightarrow> \<not> DeepEqual_conditions E before after"

section \<open>Lemmas\<close>

lemma isAlphaNumeric_x [simp]: "isAlphaNumeric (CHR ''x'')"
  by (simp add: isAlphaNumeric_def)

text \<open>The three steps of \<open>sanitizeLabel\<close>: fix the first byte, cut, fix the last byte.\<close>

lemma sanitizeLabel_cases:
  obtains (empty) "sanitizeLabel E l = []"
  | (ends) "isAlphaNumeric (hd (sanitizeLabel E l))" "isAlphaNumeric (last (sanitizeLabel E l))"
proof -
  define s0 where "s0 = map replacer (ToLower l)"
  define s1 where "s1 = (if s0 \<noteq> [] \<and> \<not> isAlphaNumeric (hd s0) then ''x'' @ tl s0 else s0)"
  define s2 where "s2 = take (LabelValueMaxLength E) s1"
  have san: "sanitizeLabel E l = (if s2 \<noteq> [] \<and> \<not> isAlphaNumeric (last s2) then butlast s2 @ ''x'' else s2)"
    by (simp add: sanitizeLabel_def s0_def s1_def s2_def Let_def)
  have "s1 = [] \<or> isAlphaNumeric (hd s1)"
    by (auto simp: s1_def)
  then have hd2: "s2 = [] \<or> isAlphaNumeric (hd s2)"
    by (auto simp: s2_def hd_take)
  show thesis
  proof (cases "s2 = []")
    case True
    with san empty show thesis by simp
  next
    case False
    have "isAlphaNumeric (hd (sanitizeLabel E l))"
      using hd2 False unfolding san by (cases s2) (auto split: if_splits)
    moreover have "isAlphaNumeric (last (sanitizeLabel E l))"
      using False unfolding san by auto
    ultimately show thesis by (rule ends)
  qed
qed

lemma length_sanitizeLabel:
  "length (sanitizeLabel E l) = min (length l) (LabelValueMaxLength E)"
proof (cases l)
  case (Cons c cs)
  then show ?thesis by (auto simp: sanitizeLabel_def Let_def ToLower_def min_def)
qed (simp add: sanitizeLabel_def)

lemma mget_add_labels:
  assumes "gomap user"
  shows "mget (add_labels m user) k = (case mget m k of Some v \<Rightarrow> Some v | None \<Rightarrow> mget user k)"
  using assms
proof (induction m user rule: add_labels.induct)
  case (1 m)
  then show ?case by (simp split: option.splits)
next
  case (2 m label v rest)
  have "gomap rest" and "mget rest label = None"
    using 2(2) by (auto simp: gomap_def mget_def map_of_eq_None_iff)
  with 2(1) show ?case
    by (cases "mget m label") (auto simp: mget_Cons split: option.splits)
qed

lemma tags_loop_eq:
  "tags_loop ps tags = tags \<union> {t. t \<noteq> [] \<and> (\<exists>p \<in> set ps. t = ToLower (TrimSpace p))}"
  by (induction ps tags rule: tags_loop.induct) (auto simp: Let_def)

lemma tags_Equal_refl [simp]: "tags_Equal a a"
  by (simp add: tags_Equal_def)

text \<open>
  Label values. For every byte string, \<open>sanitizeLabel\<close> returns a value of the length
  of its argument cut at the maximal length of a label value, and the value is empty or starts and
  ends with a lower-case letter or a digit, as Kubernetes asks of a label value.
\<close>

lemma sanitizeLabel_valid:
  "length (sanitizeLabel E l) = min (length l) (LabelValueMaxLength E) \<and>
   (sanitizeLabel E l = [] \<or>
    isAlphaNumeric (hd (sanitizeLabel E l)) \<and> isAlphaNumeric (last (sanitizeLabel E l)))"
  using sanitizeLabel_cases [of E l] length_sanitizeLabel [of E l] by blast

text \<open>
  Labels of the managed objects. A label of the user's metadata is added unless the operator
  sets that key itself: the five labels of the operator always win.
\<close>

lemma LabelsForPerses_lookup:
  assumes "Spec_Metadata (Spec p) = Some md" and "gomap (nilmap (Metadata_Labels md))"
  shows "mget (LabelsForPerses E name p) k =
    (if k = ''app.kubernetes.io/name'' then Some (sanitizeLabel E name)
     else if k = ''app.kubernetes.io/instance'' then Some (sanitizeLabel E (Name p))
     else if k = ''app.kubernetes.io/part-of'' then Some ''perses-operator''
     else if k = ''app.kubernetes.io/created-by'' then Some ''controller-manager''
     else if k = ''app.kubernetes.io/managed-by'' then Some ''perses-operator''
     else mget (nilmap (Metadata_Labels md)) k)"
proof -
  have "mget (default_labels E name p) k =
    (if k = ''app.kubernetes.io/name'' then Some (sanitizeLabel E name)
     else if k = ''app.kubernetes.io/instance'' then Some (sanitizeLabel E (Name p))
     else if k = ''app.kubernetes.io/part-of'' then Some ''perses-operator''
     else if k = ''app.kubernetes.io/created-by'' then Some ''controller-manager''
     else if k = ''app.kubernetes.io/managed-by'' then Some ''perses-operator'' else None)"
    by (simp add: default_labels_def mget_def)
  with assms show ?thesis
    by (simp add: LabelsForPerses_def mget_add_labels)
qed

text \<open>
  Tags. Without the annotation there is no tag set; with it, the tags are exactly the
  non-empty pieces between commas, trimmed and in lower case.
\<close>

lemma ParseTags_spec:
  "ParseTags annotations =
     (case mget (nilmap annotations) TagsAnnotation of
        None \<Rightarrow> None
      | Some raw \<Rightarrow> Some {t. t \<noteq> [] \<and> (\<exists>p \<in> set (Split (CHR '','') raw). t = ToLower (TrimSpace p))})"
  by (simp add: ParseTags_def tags_loop_eq split: option.splits)

text \<open>
  The image. An image is returned only when it is not empty and carries a tag; it is the one of
  the object if that is set, else the one of the flag. Every other case is an error.
\<close>

lemma ImageForPerses_spec:
  "ImageForPerses p flag = Inr img \<longleftrightarrow>
     CHR '':'' \<in> set img \<and>
     (Spec_Image (Spec p) = Some img \<or>
      (Spec_Image (Spec p) = None \<or> Spec_Image (Spec p) = Some []) \<and> img = flag)"
  by (auto simp: ImageForPerses_def Let_def split: option.splits if_splits)

end
