(* ===== verification/PodParts.thy ===== *)
theory PodParts
  imports Common
begin

text \<open>
  The parts of the Perses pod: arguments (\<^verbatim>\<open>perses_args.go\<close>), probes (\<^verbatim>\<open>probes.go\<close>), security
  contexts (\<^verbatim>\<open>security.go\<close>), volumes and mounts (\<^verbatim>\<open>volumes.go\<close>), all of
  \<^verbatim>\<open>internal/perses/common\<close>. The main theorem is that every mount refers to a volume of the pod.
\<close>

section \<open>Constants\<close>

definition configVolumeName :: string where "configVolumeName = ''config''"
definition StorageVolumeName :: string where "StorageVolumeName = ''storage''"
definition pluginsVolumeName :: string where "pluginsVolumeName = ''plugins''"
definition caVolumeName :: string where "caVolumeName = ''ca''"
definition caMountPath :: string where "caMountPath = ''/ca''"
definition tlsVolumeName :: string where "tlsVolumeName = ''tls''"
definition tlsCertMountPath :: string where "tlsCertMountPath = ''/tls''"
definition storageMountPath :: string where "storageMountPath = ''/perses''"
definition secretsMountPath :: string where "secretsMountPath = ''/etc/perses/provisioning/secrets''"
definition configMountPath :: string where "configMountPath = ''/etc/perses/config''"
definition pluginsMountPath :: string where "pluginsMountPath = ''/etc/perses/plugins''"
definition defaultConfigPath :: string where "defaultConfigPath = configMountPath @ ''/config.yaml''"
definition defaultFileMode :: int32 where "defaultFileMode = 420"

lemmas pod_consts [go_const] =
  configVolumeName_def StorageVolumeName_def pluginsVolumeName_def caVolumeName_def caMountPath_def
  tlsVolumeName_def tlsCertMountPath_def storageMountPath_def secretsMountPath_def
  configMountPath_def pluginsMountPath_def defaultConfigPath_def defaultFileMode_def

section \<open>Arguments\<close>

definition k8sToPersesVersion :: strmap where
  "k8sToPersesVersion =
     [(''VersionTLS10'', ''1.0''), (''VersionTLS11'', ''1.1''),
      (''VersionTLS12'', ''1.2''), (''VersionTLS13'', ''1.3'')]"

definition k8sToPersesTLSVersion :: "string \<Rightarrow> string" where
  "k8sToPersesTLSVersion version =
     (case mget k8sToPersesVersion version of Some v \<Rightarrow> v | None \<Rightarrow> version)"

definition GetPersesArgs :: "perses \<Rightarrow> string \<Rightarrow> string \<Rightarrow> bool \<Rightarrow> string list" where
  "GetPersesArgs p tlsMinVersion tlsCipherSuites tlsConfigureOperands =
     (let args = [''--config='' @ defaultConfigPath];
          args = (case Spec_ContainerPort (Spec p) of
                    None \<Rightarrow> args
                  | Some port \<Rightarrow> args @ [''--web.listen-address=:'' @ show_int (sint port)]);
          args = (if hasTLSConfiguration p
                  then (case Spec_TLS (Spec p) of None \<Rightarrow> args
                        | Some t \<Rightarrow> (case TLS_UserCert t of None \<Rightarrow> args
                            | Some c \<Rightarrow>
                                (let privateKeyPath = (case PrivateKeyPath c of None \<Rightarrow> [] | Some k \<Rightarrow> k)
                                 in args @ [''--web.tls-cert-file='' @ tlsCertMountPath @ ''/'' @ CertPath c]
                                         @ [''--web.tls-key-file='' @ tlsCertMountPath @ ''/'' @ privateKeyPath])))
                  else args);
          args = (if tlsConfigureOperands
                  then (let args = (if tlsMinVersion \<noteq> []
                              then args @ [''--web.tls-min-version='' @ k8sToPersesTLSVersion tlsMinVersion]
                              else args)
                        in if tlsCipherSuites \<noteq> []
                           then args @ [''--web.tls-cipher-suites='' @ tlsCipherSuites]
                           else args)
                  else args);
          args = (case Spec_LogLevel (Spec p) of
                    None \<Rightarrow> args
                  | Some level \<Rightarrow> args @ [''--log.level='' @ level]);
          args = (if enabled (Spec_LogMethodTrace (Spec p)) then args @ [''--log.method-trace''] else args)
      in args @ Spec_Args (Spec p))"

section \<open>Probes and security contexts\<close>

text \<open>
  The probe the operator builds keeps the timings of the probe of the object and asks the metrics
  endpoint; the handler of the given probe is not used.
\<close>

definition metrics_probe :: "string \<Rightarrow> int32 \<Rightarrow> probe \<Rightarrow> probe" where
  "metrics_probe prefix port given =
     \<lparr>Probe_HTTPGet = Some \<lparr>HTTPGet_Path = prefix @ ''/metrics'', HTTPGet_Port = port, HTTPGet_Scheme = ''HTTP''\<rparr>,
      Probe_InitialDelaySeconds = Probe_InitialDelaySeconds given,
      Probe_TimeoutSeconds = Probe_TimeoutSeconds given,
      Probe_PeriodSeconds = Probe_PeriodSeconds given,
      Probe_SuccessThreshold = Probe_SuccessThreshold given,
      Probe_FailureThreshold = Probe_FailureThreshold given,
      Probe_Rest = JNull\<rparr>"

definition GetProbes :: "perses \<Rightarrow> probe option \<times> probe option" where
  "GetProbes p =
     (let port = (case Spec_ContainerPort (Spec p) of None \<Rightarrow> DefaultContainerPort | Some q \<Rightarrow> q);
          prefix = Config_APIPrefix (Spec_Config (Spec p))
      in (map_option (metrics_probe prefix port) (Spec_LivenessProbe (Spec p)),
          map_option (metrics_probe prefix port) (Spec_ReadinessProbe (Spec p))))"

definition GetPodSecurityContext :: "perses \<Rightarrow> pod_security_context" where
  "GetPodSecurityContext p =
     (case Spec_PodSecurityContext (Spec p) of
        Some c \<Rightarrow> c
      | None \<Rightarrow> \<lparr>PSC_FSGroup = Some 65534, PSC_SeccompProfile = Some ''RuntimeDefault'', PSC_Rest = JNull\<rparr>)"

definition GetContainerSecurityContext :: "perses \<Rightarrow> security_context" where
  "GetContainerSecurityContext p =
     (case Spec_ContainerSecurityContext (Spec p) of
        Some c \<Rightarrow> c
      | None \<Rightarrow> \<lparr>SC_AllowPrivilegeEscalation = Some False, SC_RunAsUser = None,
                 SC_Capabilities_Drop = [''ALL''], SC_Rest = JNull\<rparr>)"

section \<open>Volumes\<close>

definition VS_empty :: volume_source where
  "VS_empty = \<lparr>VS_ConfigMap = None, VS_Secret = None, VS_EmptyDir = None, VS_PVC_ClaimName = None, VS_Rest = JNull\<rparr>"

definition Volume :: "string \<Rightarrow> volume_source \<Rightarrow> volume" where
  "Volume name src = \<lparr>Volume_Name = name, Volume_Source = src\<rparr>"

definition config_map_source :: "string \<Rightarrow> config_map_volume_source" where
  "config_map_source name = \<lparr>CMVS_Name = name, CMVS_DefaultMode = Some defaultFileMode, CMVS_Rest = JNull\<rparr>"

definition createCertVolume :: "string \<Rightarrow> certificate \<Rightarrow> volume" where
  "createCertVolume name cert =
     (let refName = (case Source_Name cert of None \<Rightarrow> [] | Some n \<Rightarrow> n)
      in Volume name
          (if Source_Type cert = SecretSourceTypeSecret
           then VS_empty\<lparr>VS_Secret := Some \<lparr>SVS_SecretName = refName, SVS_Items = [],
                           SVS_DefaultMode = Some defaultFileMode, SVS_Rest = JNull\<rparr>\<rparr>
           else if Source_Type cert = SecretSourceTypeConfigMap
           then VS_empty\<lparr>VS_ConfigMap := Some (config_map_source refName)\<rparr>
           else VS_empty))"

definition provisioning_volume :: "provisioning_secret \<Rightarrow> volume" where
  "provisioning_volume secret =
     Volume (GetSecretVolumeName secret)
       (VS_empty\<lparr>VS_Secret := Some \<lparr>SVS_SecretName = SecretKey_Name secret,
          SVS_Items = [\<lparr>KTP_Key = SecretKey_Key secret, KTP_Path = ProvisioningSecret_String secret\<rparr>],
          SVS_DefaultMode = None, SVS_Rest = JNull\<rparr>\<rparr>)"

definition secret_refs :: "perses \<Rightarrow> provisioning_secret list" where
  "secret_refs p = (case Spec_Provisioning (Spec p) of None \<Rightarrow> [] | Some pr \<Rightarrow> SecretRefs pr)"

definition storage_volume :: "perses \<Rightarrow> volume" where
  "storage_volume p =
     Volume StorageVolumeName
       (case (case Spec_Storage (Spec p) of None \<Rightarrow> None | Some st \<Rightarrow> Storage_EmptyDir st) of
          Some d \<Rightarrow> VS_empty\<lparr>VS_EmptyDir := Some d\<rparr>
        | None \<Rightarrow> VS_empty\<lparr>VS_PVC_ClaimName := Some (GetStorageName (Name p))\<rparr>)"

definition tls_certificates :: "perses \<Rightarrow> certificate option \<times> certificate option" where
  "tls_certificates p =
     (if isTLSEnabled p
      then (case Spec_TLS (Spec p) of None \<Rightarrow> (None, None) | Some t \<Rightarrow> (TLS_CaCert t, TLS_UserCert t))
      else (None, None))"

definition GetVolumes :: "perses \<Rightarrow> volume list" where
  "GetVolumes p =
     (let volumes = [Volume configVolumeName
                       (VS_empty\<lparr>VS_ConfigMap := Some (config_map_source (GetConfigName (Name p)))\<rparr>),
                     Volume pluginsVolumeName (VS_empty\<lparr>VS_EmptyDir := Some (JObj [])\<rparr>)];
          volumes = (if Config_Database_File (Spec_Config (Spec p)) \<noteq> None
                     then volumes @ [storage_volume p] else volumes);
          (ca, user) = tls_certificates p;
          volumes = (case ca of None \<Rightarrow> volumes | Some c \<Rightarrow> volumes @ [createCertVolume caVolumeName c]);
          volumes = (case user of None \<Rightarrow> volumes | Some c \<Rightarrow> volumes @ [createCertVolume tlsVolumeName c]);
          volumes = volumes @ map provisioning_volume (secret_refs p)
      in volumes @ Spec_Volumes (Spec p))"

section \<open>Mounts\<close>

text \<open>
  \<open>filepath.Join\<close> of a rooted directory and a name: the parts are joined by a slash and the path is
  cleaned. Cleaning a rooted path keeps the elements that are neither empty nor \<open>.\<close>, and \<open>..\<close>
  removes the element before it.
\<close>

fun clean_elems :: "string list \<Rightarrow> string list \<Rightarrow> string list" where
  "clean_elems kept [] = rev kept"
| "clean_elems kept (e # es) =
     (if e = [] \<or> e = ''.'' then clean_elems kept es
      else if e = ''..'' then clean_elems (drop 1 kept) es
      else clean_elems (e # kept) es)"

definition filepath_Join :: "string \<Rightarrow> string \<Rightarrow> string" where
  "filepath_Join dir name =
     ''/'' @ Join ''/'' (clean_elems [] (Split (CHR ''/'') (if name = [] then dir else dir @ ''/'' @ name)))"

definition VolumeMount :: "string \<Rightarrow> bool \<Rightarrow> string \<Rightarrow> string \<Rightarrow> volume_mount" where
  "VolumeMount name readOnly path subPath =
     \<lparr>Mount_Name = name, Mount_ReadOnly = readOnly, Mount_MountPath = path, Mount_SubPath = subPath,
      Mount_Rest = JNull\<rparr>"

definition provisioning_mount :: "provisioning_secret \<Rightarrow> volume_mount" where
  "provisioning_mount secret =
     VolumeMount (GetSecretVolumeName secret) True
       (filepath_Join secretsMountPath (ProvisioningSecret_String secret)) (ProvisioningSecret_String secret)"

definition GetVolumeMounts :: "perses \<Rightarrow> volume_mount list" where
  "GetVolumeMounts p =
     (let mounts = [VolumeMount configVolumeName True configMountPath [],
                    VolumeMount pluginsVolumeName False pluginsMountPath []];
          mounts = (if Config_Database_File (Spec_Config (Spec p)) \<noteq> None
                    then mounts @ [VolumeMount StorageVolumeName False storageMountPath []] else mounts);
          (ca, user) = tls_certificates p;
          mounts = (case ca of None \<Rightarrow> mounts | Some c \<Rightarrow> mounts @ [VolumeMount caVolumeName True caMountPath []]);
          mounts = (case user of None \<Rightarrow> mounts | Some c \<Rightarrow> mounts @ [VolumeMount tlsVolumeName True tlsCertMountPath []]);
          mounts = mounts @ map provisioning_mount (secret_refs p)
      in mounts @ Spec_VolumeMounts (Spec p))"

section \<open>The provisioning hash\<close>

definition GetProvisioningHash :: "env \<Rightarrow> perses \<Rightarrow> error + string" where
  "GetProvisioningHash E p =
     (case Status_Provisioning (Status p) of
        None \<Rightarrow> Inr []
      | Some vs \<Rightarrow>
          (case json_Marshal E vs of
             Inl err \<Rightarrow> Inl err
           | Inr bytes \<Rightarrow> Inr (SafeEncodeString E (sha256_Sprint E bytes))))"

section \<open>Lemmas\<close>

lemma Volume_Name_Volume [simp]: "Volume_Name (Volume n s) = n"
  by (simp add: Volume_def)

lemma Mount_Name_VolumeMount [simp]: "Mount_Name (VolumeMount n r pa sp) = n"
  by (simp add: VolumeMount_def)

lemma Volume_Name_createCertVolume [simp]: "Volume_Name (createCertVolume n c) = n"
  by (simp add: createCertVolume_def Let_def)

lemma Volume_Name_provisioning_volume [simp]: "Volume_Name (provisioning_volume s) = GetSecretVolumeName s"
  by (simp add: provisioning_volume_def)

lemma Volume_Name_storage_volume [simp]: "Volume_Name (storage_volume p) = StorageVolumeName"
  by (simp add: storage_volume_def)

lemma Mount_Name_provisioning_mount [simp]: "Mount_Name (provisioning_mount s) = GetSecretVolumeName s"
  by (simp add: provisioning_mount_def)

lemma names_volumes:
  "Volume_Name ` set (GetVolumes p) =
     {configVolumeName, pluginsVolumeName} \<union>
     (if Config_Database_File (Spec_Config (Spec p)) \<noteq> None then {StorageVolumeName} else {}) \<union>
     (if fst (tls_certificates p) \<noteq> None then {caVolumeName} else {}) \<union>
     (if snd (tls_certificates p) \<noteq> None then {tlsVolumeName} else {}) \<union>
     GetSecretVolumeName ` set (secret_refs p) \<union> Volume_Name ` set (Spec_Volumes (Spec p))"
  by (cases "tls_certificates p")
     (auto simp: GetVolumes_def Let_def image_Un image_image insert_commute Un_ac split: option.splits)

lemma names_mounts:
  "Mount_Name ` set (GetVolumeMounts p) =
     {configVolumeName, pluginsVolumeName} \<union>
     (if Config_Database_File (Spec_Config (Spec p)) \<noteq> None then {StorageVolumeName} else {}) \<union>
     (if fst (tls_certificates p) \<noteq> None then {caVolumeName} else {}) \<union>
     (if snd (tls_certificates p) \<noteq> None then {tlsVolumeName} else {}) \<union>
     GetSecretVolumeName ` set (secret_refs p) \<union> Mount_Name ` set (Spec_VolumeMounts (Spec p))"
  by (cases "tls_certificates p")
     (auto simp: GetVolumeMounts_def Let_def image_Un image_image insert_commute Un_ac
        split: option.splits)

text \<open>
  If every mount the user adds names a volume the user adds (what \<open>validateVolumes\<close> checks before the
  workload is built), then every mount of the Perses container names a volume of the pod.
\<close>

lemma mounts_within_volumes:
  assumes "Mount_Name ` set (Spec_VolumeMounts (Spec p)) \<subseteq> Volume_Name ` set (Spec_Volumes (Spec p))"
  shows "Mount_Name ` set (GetVolumeMounts p) \<subseteq> Volume_Name ` set (GetVolumes p)"
  unfolding names_mounts names_volumes by (rule Un_mono [OF order_refl assms])

text \<open>
  Volume names of provisioning secrets are the fixed prefix and then hyphens, lower-case letters
  and digits.
\<close>

lemma volumeNameRegex_replace_set:
  "c \<in> set (volumeNameRegex_replace b s) \<Longrightarrow> alnum_lower c \<or> c = CHR ''-''"
  by (induction b s rule: volumeNameRegex_replace.induct) (auto split: if_splits)

lemma GetSecretVolumeName_chars:
  obtains rest where "GetSecretVolumeName s = provisioningSecretPrefix @ rest"
    and "\<And>c. c \<in> set rest \<Longrightarrow> alnum_lower c \<or> c = CHR ''-''"
    and "rest \<noteq> [] \<Longrightarrow> hd rest \<noteq> CHR ''-'' \<and> last rest \<noteq> CHR ''-''"
proof
  let ?name = "volumeNameRegex_replace False (ToLower (ProvisioningSecret_String s))"
  let ?rest = "trim_by (\<lambda>c. c = CHR ''-'') ?name"
  show "GetSecretVolumeName s = provisioningSecretPrefix @ ?rest"
    by (simp add: GetSecretVolumeName_def Let_def)
  show "alnum_lower c \<or> c = CHR ''-''" if "c \<in> set ?rest" for c
    using that set_trim_by volumeNameRegex_replace_set by blast
  show "hd ?rest \<noteq> CHR ''-'' \<and> last ?rest \<noteq> CHR ''-''" if "?rest \<noteq> []"
    using trim_by_ends [OF that] by simp
qed

text \<open>
  Two different secret references can get the same volume name: the volume name does not
  determine the reference, so a pod can get two volumes of one name.
\<close>

lemma GetSecretVolumeName_collision:
  "\<exists>s t. s \<noteq> t \<and> SecretKey_Name s \<noteq> SecretKey_Name t \<and> GetSecretVolumeName s = GetSecretVolumeName t"
proof (intro exI conjI)
  let ?s = "\<lparr>SecretKey_Name = ''db-main'', SecretKey_Key = ''pass''\<rparr>"
  let ?t = "\<lparr>SecretKey_Name = ''db'', SecretKey_Key = ''main-pass''\<rparr>"
  show "?s \<noteq> ?t" and "SecretKey_Name ?s \<noteq> SecretKey_Name ?t" by simp_all
  show "GetSecretVolumeName ?s = GetSecretVolumeName ?t"
    by (simp add: GetSecretVolumeName_def ProvisioningSecret_String_def)
qed

text \<open>
  The arguments of the server. The first is always the configuration file of the mounted
  ConfigMap and the arguments of the user come last, unchanged; the flags of the certificate are
  present exactly when a usable TLS configuration is, and the cluster-wide TLS settings only when
  the operands are to be configured.
\<close>

lemma GetPersesArgs_structure:
  "\<exists>own. GetPersesArgs p minv suites ops = (''--config='' @ defaultConfigPath) # own @ Spec_Args (Spec p) \<and>
     ((\<exists>a \<in> set own. HasPrefix a ''--web.tls-cert-file='') \<longleftrightarrow> hasTLSConfiguration p) \<and>
     ((\<exists>a \<in> set own. HasPrefix a ''--web.tls-key-file='') \<longleftrightarrow> hasTLSConfiguration p) \<and>
     ((\<exists>a \<in> set own. HasPrefix a ''--web.tls-min-version='') \<longleftrightarrow> ops \<and> minv \<noteq> []) \<and>
     ((\<exists>a \<in> set own. HasPrefix a ''--web.tls-cipher-suites='') \<longleftrightarrow> ops \<and> suites \<noteq> [])"
proof -
  define port where "port = (case Spec_ContainerPort (Spec p) of None \<Rightarrow> []
     | Some q \<Rightarrow> [''--web.listen-address=:'' @ show_int (sint q)])"
  define certs where "certs = (if hasTLSConfiguration p then
     (case Spec_TLS (Spec p) of None \<Rightarrow> [] | Some t \<Rightarrow> (case TLS_UserCert t of None \<Rightarrow> []
       | Some c \<Rightarrow> [''--web.tls-cert-file='' @ tlsCertMountPath @ ''/'' @ CertPath c,
           ''--web.tls-key-file='' @ tlsCertMountPath @ ''/'' @
             (case PrivateKeyPath c of None \<Rightarrow> [] | Some k \<Rightarrow> k)])) else [])"
  define cluster where "cluster =
     (if ops \<and> minv \<noteq> [] then [''--web.tls-min-version='' @ k8sToPersesTLSVersion minv] else []) @
     (if ops \<and> suites \<noteq> [] then [''--web.tls-cipher-suites='' @ suites] else [])"
  define logs where "logs =
     (case Spec_LogLevel (Spec p) of None \<Rightarrow> [] | Some l \<Rightarrow> [''--log.level='' @ l]) @
     (if enabled (Spec_LogMethodTrace (Spec p)) then [''--log.method-trace''] else [])"
  have eq: "GetPersesArgs p minv suites ops =
      (''--config='' @ defaultConfigPath) # (port @ certs @ cluster @ logs) @ Spec_Args (Spec p)"
    by (auto simp: GetPersesArgs_def Let_def port_def certs_def cluster_def logs_def split: option.splits)
  have certs: "certs = [] \<and> \<not> hasTLSConfiguration p \<or>
      (\<exists>c k. certs = [''--web.tls-cert-file='' @ c, ''--web.tls-key-file='' @ k] \<and> hasTLSConfiguration p)"
    by (auto simp: certs_def hasTLSConfiguration_def split: option.splits)
  show ?thesis
    by (rule exI [where x = "port @ certs @ cluster @ logs"])
      (insert certs, auto simp: eq port_def cluster_def logs_def split: option.splits)
qed

end
