(* ===== verification/Subreconciler.thy ===== *)
theory Subreconciler
  imports World
begin

text \<open>
  \<^verbatim>\<open>internal/subreconciler/subreconciler.go\<close>: the results of a sub-reconciler and the
  decision whether the chain of sub-reconcilers goes on. A result is a pointer, so \<open>None\<close> is \<open>nil\<close>.
  The dereference in \<open>Evaluate\<close> panics on \<open>nil\<close>; a panic is \<open>None\<close>.
\<close>

definition Evaluate :: "sub_result \<Rightarrow> (ctrl_result \<times> error option) option" where
  "Evaluate re = (case re of (None, e) \<Rightarrow> None | (Some r, e) \<Rightarrow> Some (r, e))"

definition Result_zero :: ctrl_result where
  "Result_zero = \<lparr>RequeueAfter = 0\<rparr>"

definition ContinueReconciling :: sub_result where
  "ContinueReconciling = (None, None)"

definition DoNotRequeue :: sub_result where
  "DoNotRequeue = (Some Result_zero, None)"

definition RequeueWithError :: "error option \<Rightarrow> sub_result" where
  "RequeueWithError e = (Some Result_zero, e)"

definition RequeueWithErrorAndReason :: "error option \<Rightarrow> string \<Rightarrow> sync_result" where
  "RequeueWithErrorAndReason e reason = (let (res, e') = RequeueWithError e in (res, reason, e'))"

definition RequeueWithDelay :: "int \<Rightarrow> sub_result" where
  "RequeueWithDelay dur = (Some \<lparr>RequeueAfter = dur\<rparr>, None)"

text \<open>\<open>Result.IsZero\<close> accepts a \<open>nil\<close> receiver, as the comment in \<open>ShouldRequeue\<close> says.\<close>

definition Result_IsZero :: "ctrl_result option \<Rightarrow> bool" where
  "Result_IsZero r = (case r of None \<Rightarrow> True | Some x \<Rightarrow> x = Result_zero)"

definition ShouldRequeue :: "ctrl_result option \<Rightarrow> error option \<Rightarrow> bool" where
  "ShouldRequeue r err =
     (let res = (if Result_IsZero r then Result_zero else the r)
      in RequeueAfter res > 0 \<or> err \<noteq> None)"

definition ShouldHaltOrRequeue :: "ctrl_result option \<Rightarrow> error option \<Rightarrow> bool" where
  "ShouldHaltOrRequeue r err \<longleftrightarrow> r \<noteq> None \<or> ShouldRequeue r err"

text \<open>\<open>time.Minute\<close> and \<open>time.Second\<close> in nanoseconds.\<close>

definition time_Second :: int where "time_Second = 1000000000"
definition time_Minute :: int where "time_Minute = 60 * time_Second"

text \<open>
  The loop \<open>for _, f := range subreconcilers\<close> of every \<open>Reconcile\<close>: it stops at the first
  sub-reconciler that halts or requeues and keeps only its error.
\<close>

fun run_subreconcilers :: "(sub_result go) list \<Rightarrow> (error option) go" where
  "run_subreconcilers [] = State_Monad.return None"
| "run_subreconcilers (f # fs) = do {
     (r, err) \<leftarrow> f;
     if ShouldHaltOrRequeue r err then State_Monad.return err
     else run_subreconcilers fs
   }"

section \<open>Lemmas\<close>

lemmas sub_defs [go_def] =
  ContinueReconciling_def DoNotRequeue_def RequeueWithError_def RequeueWithErrorAndReason_def
  RequeueWithDelay_def

lemma ShouldHaltOrRequeue_iff [simp]:
  "ShouldHaltOrRequeue r err \<longleftrightarrow> r \<noteq> None \<or> err \<noteq> None"
  by (auto simp: ShouldHaltOrRequeue_def ShouldRequeue_def Result_IsZero_def Result_zero_def Let_def)

lemma Evaluate_RequeueWithError [simp]: "Evaluate (RequeueWithError e) = Some (Result_zero, e)"
  by (simp add: Evaluate_def RequeueWithError_def)

lemma Evaluate_DoNotRequeue [simp]: "Evaluate DoNotRequeue = Some (Result_zero, None)"
  by (simp add: Evaluate_def DoNotRequeue_def)

lemma Evaluate_eq_None_iff: "Evaluate re = None \<longleftrightarrow> fst re = None"
  by (auto simp: Evaluate_def split: prod.splits option.splits)

lemma wp_run_subreconcilers_Cons [wp_simps]:
  "wp (run_subreconcilers (f # fs)) Q =
     wp f (\<lambda>(r, err) w'. if r \<noteq> None \<or> err \<noteq> None then Q err w' else wp (run_subreconcilers fs) Q w')"
  by (simp add: wp_simps case_prod_unfold)

lemma wp_run_subreconcilers_Nil [wp_simps]: "wp (run_subreconcilers []) Q = Q None"
  by (simp add: wp_simps)

declare run_subreconcilers.simps [simp del]

end
