(* ===== verification/Secrets.thy ===== *)
theory Secrets
  imports Common
begin

text \<open>
  \<^verbatim>\<open>internal/perses/common/secret.go\<close>: reading passwords, OAuth credentials and certificates
  from a Secret or a ConfigMap. A pair of results and an error is a sum; the values Go returns with
  an error are empty and never used.
\<close>

definition HasSecretConfig :: "client option \<Rightarrow> bool" where
  "HasSecretConfig c =
     (case c of None \<Rightarrow> False
      | Some c \<Rightarrow>
          (case Client_TLS c of None \<Rightarrow> False | Some t \<Rightarrow> enabled (TLS_Enable t)) \<or>
          Client_BasicAuth c \<noteq> None \<or> Client_OAuth c \<noteq> None)"

definition client_Get_Secret :: "env \<Rightarrow> reader \<Rightarrow> namespaced_name \<Rightarrow> (error + k8s_secret) go" where
  "client_Get_Secret E rd key = ask (\<lambda>h. getSecret E h rd key) (KGet rd SecretKind key)"

definition client_Get_ConfigMap :: "env \<Rightarrow> reader \<Rightarrow> namespaced_name \<Rightarrow> (error + config_map) go" where
  "client_Get_ConfigMap E rd key = ask (\<lambda>h. getConfigMap E h rd key) (KGet rd ConfigMapKind key)"

text \<open>An unset or empty name, and a namespace that overrides the default when it is not empty.\<close>

definition source_name :: "string option \<Rightarrow> string option" where
  "source_name n = (case n of None \<Rightarrow> None | Some s \<Rightarrow> if length s = 0 then None else Some s)"

definition source_namespace :: "string option \<Rightarrow> string \<Rightarrow> string" where
  "source_namespace n dflt = (case n of None \<Rightarrow> dflt | Some s \<Rightarrow> if length s \<noteq> 0 then s else dflt)"

definition opt_path :: "strmap \<Rightarrow> string option \<Rightarrow> string" where
  "opt_path data path = (case path of None \<Rightarrow> [] | Some k \<Rightarrow> mget0 data k)"

definition opt_string :: "string option \<Rightarrow> string" where
  "opt_string s = (case s of None \<Rightarrow> [] | Some x \<Rightarrow> x)"

definition is_stored :: "string \<Rightarrow> bool" where
  "is_stored ty \<longleftrightarrow> ty = SecretSourceTypeSecret \<or> ty = SecretSourceTypeConfigMap"

text \<open>The \<open>switch\<close> on the two stored types: the data of the Secret or of the ConfigMap.\<close>

definition stored_data :: "env \<Rightarrow> reader \<Rightarrow> string \<Rightarrow> string \<Rightarrow> string \<Rightarrow> (error + strmap) go" where
  "stored_data E rd ty namespace name =
     (if ty = SecretSourceTypeSecret then do {
        r \<leftarrow> client_Get_Secret E rd \<lparr>NN_Namespace = namespace, NN_Name = name\<rparr>;
        State_Monad.return (case r of Inl err \<Rightarrow> Inl err | Inr secret \<Rightarrow> Inr (Secret_Data secret))
      } else do {
        r \<leftarrow> client_Get_ConfigMap E rd \<lparr>NN_Namespace = namespace, NN_Name = name\<rparr>;
        State_Monad.return (case r of Inl err \<Rightarrow> Inl err | Inr cm \<Rightarrow> Inr (nilmap (ConfigMap_Data cm)))
      })"

definition GetBasicAuthData ::
    "env \<Rightarrow> reader \<Rightarrow> string \<Rightarrow> string \<Rightarrow> basic_auth \<Rightarrow> (error + string) go" where
  "GetBasicAuthData E rd namespace0 name basicAuth =
     (if is_stored (Source_Type basicAuth) then
        (case source_name (Source_Name basicAuth) of
           None \<Rightarrow> State_Monad.return (Inl (errorf (''no name found for basic auth: '' @
                     Username basicAuth @ '' with type: '' @ Source_Type basicAuth)))
         | Some ref \<Rightarrow> do {
             let namespace = source_namespace (Source_Namespace basicAuth) namespace0;
             r \<leftarrow> stored_data E rd (Source_Type basicAuth) namespace ref;
             State_Monad.return (case r of
                 Inl err \<Rightarrow> Inl err
               | Inr data \<Rightarrow>
                   (let passwordData = mget0 data (PasswordPath basicAuth)
                    in if passwordData = []
                       then Inl (errorf (''no password data found for basic auth: '' @ PasswordPath basicAuth @
                              '' in namespace: '' @ namespace @ '' for '' @ name))
                       else Inr passwordData))
           })
      else State_Monad.return (Inr []))"

definition GetOAuthData ::
    "env \<Rightarrow> reader \<Rightarrow> string \<Rightarrow> string \<Rightarrow> oauth \<Rightarrow> (error + string \<times> string) go" where
  "GetOAuthData E rd namespace0 name oa =
     (if is_stored (Source_Type oa) then
        (case source_name (Source_Name oa) of
           None \<Rightarrow> State_Monad.return (Inl (errorf (''no name found for oauth: '' @
                     opt_string (ClientIDPath oa) @ '' with type: '' @ Source_Type oa)))
         | Some ref \<Rightarrow> do {
             let namespace = source_namespace (Source_Namespace oa) namespace0;
             r \<leftarrow> stored_data E rd (Source_Type oa) namespace ref;
             State_Monad.return (case r of
                 Inl err \<Rightarrow> Inl err
               | Inr data \<Rightarrow>
                   (let clientIDData = opt_path data (ClientIDPath oa);
                        clientSecretData = opt_path data (ClientSecretPath oa)
                    in if clientIDData = []
                       then Inl (errorf (''no client id data found for oauth: '' @ opt_string (ClientIDPath oa) @
                              '' in namespace: '' @ namespace @ '' for '' @ name))
                       else if clientSecretData = []
                       then Inl (errorf (''no client secret data found for oauth: '' @ opt_string (ClientSecretPath oa) @
                              '' in namespace: '' @ namespace @ '' for '' @ name))
                       else Inr (clientIDData, clientSecretData)))
           })
      else State_Monad.return (Inr ([], [])))"

definition GetTLSCertData ::
    "env \<Rightarrow> reader \<Rightarrow> string \<Rightarrow> string \<Rightarrow> certificate \<Rightarrow> (error + string \<times> string) go" where
  "GetTLSCertData E rd namespace0 name cert =
     (if is_stored (Source_Type cert) then
        (case source_name (Source_Name cert) of
           None \<Rightarrow> State_Monad.return (Inl (errorf (''no name found for tls certificate: '' @
                     CertPath cert @ '' with type: '' @ Source_Type cert)))
         | Some ref \<Rightarrow> do {
             let namespace = source_namespace (Source_Namespace cert) namespace0;
             r \<leftarrow> stored_data E rd (Source_Type cert) namespace ref;
             State_Monad.return (case r of
                 Inl err \<Rightarrow> Inl err
               | Inr data \<Rightarrow>
                   (let certData = mget0 data (CertPath cert);
                        keyData = opt_path data (PrivateKeyPath cert)
                    in if certData = []
                       then Inl (errorf (''no data found for certificate: '' @ CertPath cert @
                              '' in namespace: '' @ namespace @ '' for '' @ name))
                       else Inr (certData, keyData)))
           })
      else State_Monad.return (Inr ([], [])))"

section \<open>What a read of credentials does\<close>

text \<open>
  The three readers share a contract: for a stored source they make at most one call, which reads
  the named object through the given reader, and a success is never empty.
\<close>

definition reads_one :: "reader \<Rightarrow> 'a go \<Rightarrow> bool" where
  "reads_one rd m \<longleftrightarrow>
     (\<forall>w. wp m (\<lambda>_ w'. w' = w \<or>
        (\<exists>k key. k \<in> {SecretKind, ConfigMapKind} \<and> w' = w\<lparr>calls := KGet rd k key # calls w\<rparr>)) w)"

lemma wp_stored_data [wp_simps]:
  "wp (stored_data E rd ty ns n) Q = (\<lambda>w.
     (let key = \<lparr>NN_Namespace = ns, NN_Name = n\<rparr>
      in if ty = SecretSourceTypeSecret
         then Q (map_sum id Secret_Data (getSecret E (calls w) rd key))
                (w\<lparr>calls := KGet rd SecretKind key # calls w\<rparr>)
         else Q (map_sum id (\<lambda>cm. nilmap (ConfigMap_Data cm)) (getConfigMap E (calls w) rd key))
                (w\<lparr>calls := KGet rd ConfigMapKind key # calls w\<rparr>)))"
  by (rule ext) (auto simp: stored_data_def client_Get_Secret_def client_Get_ConfigMap_def wp_simps
      Let_def split: sum.splits)

lemmas get_data_defs = GetBasicAuthData_def GetOAuthData_def GetTLSCertData_def

lemma reads_one_GetBasicAuthData: "reads_one rd (GetBasicAuthData E rd ns n b)"
  unfolding reads_one_def get_data_defs by (auto simp: wp_simps Let_def split: option.splits)

lemma reads_one_GetOAuthData: "reads_one rd (GetOAuthData E rd ns n b)"
  unfolding reads_one_def get_data_defs by (auto simp: wp_simps Let_def split: option.splits)

lemma reads_one_GetTLSCertData: "reads_one rd (GetTLSCertData E rd ns n b)"
  unfolding reads_one_def get_data_defs by (auto simp: wp_simps Let_def split: option.splits)

end
