(* ===== verification/ClientFactory.thy ===== *)
theory ClientFactory
  imports Secrets
begin

text \<open>
  \<^verbatim>\<open>internal/perses/common/perses_client_factory.go\<close>: the REST clients of the Perses instances and
  the cache that keeps them. \<open>CreateClient\<close> is the composition of three sections, as in the code: a
  look-up under the read lock, the construction of a client under no lock, and a store under the
  write lock. The sections are the atomic steps of the interleaving semantics at the end.
\<close>

section \<open>Construction of a client\<close>

definition tokenPath :: string where
  "tokenPath = ''/var/run/secrets/kubernetes.io/serviceaccount/token''"

definition defaultClientCacheTTL :: int where
  "defaultClientCacheTTL = 5 * 60 * 1000000000"

definition NewWithConfig :: client_factory where
  "NewWithConfig = \<lparr>cache = [], ttl = defaultClientCacheTTL, lastSweep = None\<rparr>"

text \<open>The fields of the OAuth configuration that take part in the fingerprint.\<close>

definition oauth_fingerprint :: "oauth \<Rightarrow> string" where
  "oauth_fingerprint oa =
     ''oauth=type:'' @ Source_Type oa @ '',name:'' @ opt_string (Source_Name oa) @
     '',ns:'' @ opt_string (Source_Namespace oa) @ '',tokenURL:'' @ TokenURL oa @
     '',idPath:'' @ opt_string (ClientIDPath oa) @ '',''"

definition client_oauth :: "perses \<Rightarrow> oauth option" where
  "client_oauth p = (case Spec_Client (Spec p) of None \<Rightarrow> None | Some c \<Rightarrow> Client_OAuth c)"

definition configFingerprint :: "env \<Rightarrow> perses \<Rightarrow> string" where
  "configFingerprint E p =
     ''ns='' @ Namespace p @ '',name='' @ Name p @ '',gen='' @ show_int (sint (Generation p)) @ '','' @
     (case Spec_ContainerPort (Spec p) of None \<Rightarrow> [] | Some port \<Rightarrow> ''port='' @ show_int (sint port) @ '','') @
     ''apiPrefix='' @ Config_APIPrefix (Spec_Config (Spec p)) @ '','' @
     ''tls='' @ show_bool (isTLSEnabled p) @ '','' @
     ''k8sAuth='' @ show_bool (isKubernetesAuthEnabled p) @ '','' @
     ''clientTLS='' @ show_bool (isClientTLSEnabled p) @ '','' @
     (case client_oauth p of None \<Rightarrow> [] | Some oa \<Rightarrow> oauth_fingerprint oa) @
     (case serverURLFlag E of None \<Rightarrow> [] | Some u \<Rightarrow> ''serverURL='' @ u @ '','')"

definition client_url :: "env \<Rightarrow> perses \<Rightarrow> string" where
  "client_url E p =
     (let httpProtocol = (if isTLSEnabled p then ''https'' else ''http'');
          containerPort = (case Spec_ContainerPort (Spec p) of None \<Rightarrow> DefaultContainerPort | Some q \<Rightarrow> q);
          inCluster = httpProtocol @ ''://'' @ Name p @ ''.'' @ Namespace p @ ''.svc.cluster.local:'' @
            show_int (sint containerPort) @ Config_APIPrefix (Spec_Config (Spec p))
      in case serverURLFlag E of
           None \<Rightarrow> inCluster
         | Some u \<Rightarrow> if u \<noteq> [] then u else inCluster)"

definition ns_name :: "perses \<Rightarrow> string" where
  "ns_name p = Namespace p @ ''/'' @ Name p"

text \<open>The \<open>Authorization\<close> header with the token of the service account.\<close>

definition token_headers :: "env \<Rightarrow> perses \<Rightarrow> (error + strmap) go" where
  "token_headers E p =
     (if isKubernetesAuthEnabled p then do {
        r \<leftarrow> ReadFile E tokenPath;
        State_Monad.return (case r of
            Inl err \<Rightarrow> Inl (errorf_w (''failed to read service account token from '' @ tokenPath @ '': '') err)
          | Inr saToken \<Rightarrow>
              if saToken = []
              then Inl (errorf ''service account token is empty, ensure the Perses operator has the correct permissions'')
              else Inr [(''Authorization'', ''Bearer '' @ saToken)])
      } else State_Monad.return (Inr []))"

definition TLSConfig_zero :: p_tls_config where
  "TLSConfig_zero = \<lparr>PT_CA = [], PT_CAFile = [], PT_Cert = [], PT_CertFile = [], PT_Key = [], PT_KeyFile = [],
     PT_InsecureSkipVerify = False\<rparr>"

definition client_ca :: "env \<Rightarrow> reader \<Rightarrow> perses \<Rightarrow> certificate option \<Rightarrow> p_tls_config \<Rightarrow> (error + p_tls_config) go" where
  "client_ca E rd p cert cfg =
     (case cert of
        None \<Rightarrow> State_Monad.return (Inr cfg)
      | Some c \<Rightarrow>
          if is_stored (Source_Type c) then
            bindE (GetTLSCertData E rd (Namespace p) (Name p) c)
              (\<lambda>(caData, _). State_Monad.return (Inr (cfg\<lparr>PT_CA := caData\<rparr>)))
          else if Source_Type c = SecretSourceTypeFile then
            State_Monad.return (Inr (cfg\<lparr>PT_CAFile := CertPath c\<rparr>))
          else State_Monad.return (Inr cfg))"

definition client_cert :: "env \<Rightarrow> reader \<Rightarrow> perses \<Rightarrow> certificate option \<Rightarrow> p_tls_config \<Rightarrow> (error + p_tls_config) go" where
  "client_cert E rd p cert cfg =
     (case cert of
        None \<Rightarrow> State_Monad.return (Inr cfg)
      | Some c \<Rightarrow>
          if is_stored (Source_Type c) then
            bindE (GetTLSCertData E rd (Namespace p) (Name p) c)
              (\<lambda>(crt, key). State_Monad.return (Inr (cfg\<lparr>PT_Cert := crt, PT_Key := key\<rparr>)))
          else if Source_Type c = SecretSourceTypeFile then
            State_Monad.return (Inr (cfg\<lparr>PT_CertFile := CertPath c\<rparr>))
          else State_Monad.return (Inr cfg))"

definition client_tls :: "env \<Rightarrow> reader \<Rightarrow> perses \<Rightarrow> (error + p_tls_config option) go" where
  "client_tls E rd p =
     (case (if isClientTLSEnabled p
            then (case Spec_Client (Spec p) of None \<Rightarrow> None | Some c \<Rightarrow> Client_TLS c) else None) of
        None \<Rightarrow> State_Monad.return (Inr None)
      | Some t \<Rightarrow>
          bindE (client_ca E rd p (TLS_CaCert t)
                   (TLSConfig_zero\<lparr>PT_InsecureSkipVerify := (case TLS_InsecureSkipVerify t of None \<Rightarrow> False | Some b \<Rightarrow> b)\<rparr>))
            (\<lambda>cfg. bindE (client_cert E rd p (TLS_UserCert t) cfg)
              (\<lambda>cfg. State_Monad.return (Inr (Some cfg)))))"

definition client_oauth_config :: "env \<Rightarrow> reader \<Rightarrow> perses \<Rightarrow> (error + p_oauth option) go" where
  "client_oauth_config E rd p =
     (case client_oauth p of
        None \<Rightarrow> State_Monad.return (Inr None)
      | Some oa \<Rightarrow>
          (let cfg = \<lparr>PO_ClientID = [], PO_ClientSecret = [], PO_ClientSecretFile = [], PO_TokenURL = TokenURL oa,
                      PO_Scopes = Scopes oa, PO_EndpointParams = EndpointParams oa,
                      PO_AuthStyle = (case AuthStyle oa of None \<Rightarrow> 0 | Some a \<Rightarrow> scast a)\<rparr>
           in if is_stored (Source_Type oa) then
                bindE (GetOAuthData E rd (Namespace p) (Name p) oa)
                  (\<lambda>(cid, csecret). State_Monad.return (Inr (Some (cfg\<lparr>PO_ClientID := cid, PO_ClientSecret := csecret\<rparr>))))
              else if Source_Type oa = SecretSourceTypeFile then
                (case ClientIDPath oa of
                   None \<Rightarrow> State_Monad.return (Inl (errorf (''clientIDPath is required when OAuth type is file for Perses '' @ ns_name p)))
                 | Some path \<Rightarrow> do {
                     r \<leftarrow> ReadFile E path;
                     State_Monad.return (case r of
                         Inl err \<Rightarrow> Inl (errorf_w (''failed to read OAuth client ID file '' @ path @ '' for Perses '' @ ns_name p @ '': '') err)
                       | Inr clientID \<Rightarrow>
                           (case ClientSecretPath oa of
                              None \<Rightarrow> Inl (errorf (''clientSecretPath is required when OAuth type is file for Perses '' @ ns_name p))
                            | Some sp \<Rightarrow> Inr (Some (cfg\<lparr>PO_ClientID := clientID, PO_ClientSecretFile := sp\<rparr>))))
                   })
              else State_Monad.return (Inl (errorf (''unsupported OAuth source type '' @ Quote (Source_Type oa) @
                     '' for Perses '' @ ns_name p)))))"

definition buildClient :: "env \<Rightarrow> reader \<Rightarrow> perses \<Rightarrow> (error + v1_client) go" where
  "buildClient E rd p =
     (case ParseURL E (client_url E p) of
        Inl err \<Rightarrow> State_Monad.return (Inl err)
      | Inr parsedURL \<Rightarrow>
          if isKubernetesAuthEnabled p \<and> isClientOAuthEnabled p then
            State_Monad.return (Inl (errorf (''kubernetesAuth and oauth are mutually exclusive; cannot configure both for Perses '' @ ns_name p)))
          else
            bindE (token_headers E p) (\<lambda>headers.
            bindE (client_tls E rd p) (\<lambda>tlsConfig.
            bindE (client_oauth_config E rd p) (\<lambda>oauthConfig.
              State_Monad.return
                (case NewRESTClient E \<lparr>Rest_URL = parsedURL, Rest_Headers = headers,
                          Rest_TLSConfig = tlsConfig, Rest_OAuth = oauthConfig\<rparr> of
                   Inl err \<Rightarrow> Inl err
                 | Inr restClient \<Rightarrow> Inr (NewWithRESTClient E restClient))))))"

section \<open>The cache\<close>

definition closeClientConnections :: "v1_client option \<Rightarrow> unit go" where
  "closeClientConnections c =
     (case c of
        None \<Rightarrow> State_Monad.return ()
      | Some cl \<Rightarrow>
          (case RESTClient cl of
             None \<Rightarrow> State_Monad.return ()
           | Some rest \<Rightarrow> if RestClient_HasHTTP rest then tell (OCloseIdle rest) else State_Monad.return ()))"

definition cacheHit :: "env \<Rightarrow> client_factory \<Rightarrow> string \<Rightarrow> string \<Rightarrow> (v1_client option) go" where
  "cacheHit E f instanceKey fingerprint =
     (case mget (cache f) instanceKey of
        None \<Rightarrow> State_Monad.return None
      | Some entry \<Rightarrow>
          if entry_fingerprint entry \<noteq> fingerprint then State_Monad.return None
          else do {
            t \<leftarrow> now E;
            State_Monad.return (if t - entry_createdAt entry \<ge> ttl f then None else Some (entry_client entry))
          })"

fun sweep_loop :: "int \<Rightarrow> (string, client_cache_entry) gomap \<Rightarrow> client_factory \<Rightarrow> client_factory go" where
  "sweep_loop t [] f = State_Monad.return f"
| "sweep_loop t ((key, entry) # rest) f =
     (if t - entry_createdAt entry \<ge> ttl f then do {
        _ \<leftarrow> closeClientConnections (Some (entry_client entry));
        sweep_loop t rest (f\<lparr>cache := mdelete key (cache f)\<rparr>)
      } else sweep_loop t rest f)"

definition sweepExpiredLocked :: "env \<Rightarrow> client_factory \<Rightarrow> client_factory go" where
  "sweepExpiredLocked E f = do {
     t \<leftarrow> now E;
     if (case lastSweep f of None \<Rightarrow> False | Some s \<Rightarrow> t - s < ttl f) then State_Monad.return f
     else do {
       f' \<leftarrow> sweep_loop t (cache f) f;
       State_Monad.return (f'\<lparr>lastSweep := Some t\<rparr>)
     }
   }"

text \<open>The three sections of \<open>CreateClient\<close> on the factory with configuration.\<close>

definition set_factory :: "client_factory \<Rightarrow> unit go" where
  "set_factory f = modifies (\<lambda>w. w\<lparr>w_factory := PersesClientFactoryWithConfig f\<rparr>)"

definition lookup_section :: "env \<Rightarrow> string \<Rightarrow> string \<Rightarrow> client_factory \<Rightarrow> (v1_client option) go" where
  "lookup_section E instanceKey fingerprint f = cacheHit E f instanceKey fingerprint"

definition store_new :: "env \<Rightarrow> string \<Rightarrow> string \<Rightarrow> v1_client \<Rightarrow> client_factory \<Rightarrow> v1_client go" where
  "store_new E instanceKey fingerprint newClient f = do {
     _ \<leftarrow> (case mget (cache f) instanceKey of
            None \<Rightarrow> State_Monad.return ()
          | Some old \<Rightarrow> closeClientConnections (Some (entry_client old)));
     t \<leftarrow> now E;
     f' \<leftarrow> sweepExpiredLocked E
            (f\<lparr>cache := mset_key instanceKey
                 \<lparr>entry_client = newClient, entry_fingerprint = fingerprint, entry_createdAt = t\<rparr> (cache f)\<rparr>);
     _ \<leftarrow> set_factory f';
     State_Monad.return newClient
   }"

definition store_section :: "env \<Rightarrow> string \<Rightarrow> string \<Rightarrow> v1_client \<Rightarrow> client_factory \<Rightarrow> v1_client go" where
  "store_section E instanceKey fingerprint newClient f = do {
     hit \<leftarrow> cacheHit E f instanceKey fingerprint;
     case hit of
       Some cached \<Rightarrow> State_Monad.return cached
     | None \<Rightarrow> store_new E instanceKey fingerprint newClient f
   }"

definition NewWithClient :: "v1_client \<Rightarrow> factory" where
  "NewWithClient client = PersesClientFactoryWithClient client"

text \<open>Dispatch on the implementation of the interface \<open>PersesClientFactory\<close>.\<close>

definition with_factory :: "(client_factory \<Rightarrow> 'a go) \<Rightarrow> (v1_client \<Rightarrow> 'a go) \<Rightarrow> 'a go" where
  "with_factory m n = do {
     fac \<leftarrow> reads w_factory;
     case fac of
       PersesClientFactoryWithConfig f \<Rightarrow> m f
     | PersesClientFactoryWithClient c \<Rightarrow> n c
   }"

definition CreateClient :: "env \<Rightarrow> reader \<Rightarrow> perses \<Rightarrow> (error + v1_client) go" where
  "CreateClient E rd p = do {
     let instanceKey = ns_name p;
     let fingerprint = configFingerprint E p;
     hit \<leftarrow> with_factory (lookup_section E instanceKey fingerprint) (\<lambda>c. State_Monad.return (Some c));
     case hit of
       Some cached \<Rightarrow> State_Monad.return (Inr cached)
     | None \<Rightarrow>
         bindE (buildClient E rd p) (\<lambda>newClient. do {
           c \<leftarrow> with_factory (store_section E instanceKey fingerprint newClient) State_Monad.return;
           State_Monad.return (Inr c)
         })
   }"

definition ForgetInstance :: "string \<Rightarrow> unit go" where
  "ForgetInstance key = with_factory
     (\<lambda>f. do {
        _ \<leftarrow> (case mget (cache f) key of
               None \<Rightarrow> State_Monad.return ()
             | Some entry \<Rightarrow> closeClientConnections (Some (entry_client entry)));
        set_factory (f\<lparr>cache := mdelete key (cache f)\<rparr>)
      })
     (\<lambda>_. State_Monad.return ())"

section \<open>The calls of the factory\<close>

text \<open>
  What the controllers rely on in a \<open>PersesClientFactory\<close>: with the uncached reader, making a client reads through it, and never writes to
  Kubernetes, to a Perses server or to the operator's tables.
\<close>

fun factory_call :: "call \<Rightarrow> bool" where
  "factory_call (KGet rd k key) = (rd = APIReader \<and> (k = SecretKind \<or> k = ConfigMapKind))"
| "factory_call (OReadFile path) = True"
| "factory_call (OCloseIdle c) = True"
| "factory_call ONow = True"
| "factory_call _ = False"

lemma factory_call_read_only: "factory_call c \<Longrightarrow> read_only c"
  by (cases c) auto

lemma emits_stored_data: "emits factory_call (stored_data E APIReader ty ns n)"
  unfolding stored_data_def client_Get_Secret_def client_Get_ConfigMap_def
  by (auto intro!: along_intros)

lemma emits_get_data:
  "emits factory_call (GetBasicAuthData E APIReader ns n ba)"
  "emits factory_call (GetOAuthData E APIReader ns n oa)"
  "emits factory_call (GetTLSCertData E APIReader ns n ce)"
  unfolding get_data_defs Let_def
  by (auto intro!: along_intros emits_stored_data)

lemma emits_buildClient: "emits factory_call (buildClient E APIReader p)"
  unfolding buildClient_def token_headers_def client_tls_def client_ca_def client_cert_def
    client_oauth_config_def Let_def
  by (auto intro!: along_intros emits_get_data)

lemma emits_closeClientConnections: "emits factory_call (closeClientConnections c)"
  unfolding closeClientConnections_def by (auto intro!: along_intros)

lemma emits_cacheHit: "emits factory_call (cacheHit E f k fp)"
  unfolding cacheHit_def by (auto intro!: along_intros)

lemma emits_sweep_loop: "emits factory_call (sweep_loop t es f)"
  by (induction t es f rule: sweep_loop.induct)
     (auto intro!: along_intros emits_closeClientConnections)

lemma emits_sweepExpiredLocked: "emits factory_call (sweepExpiredLocked E f)"
  unfolding sweepExpiredLocked_def by (auto intro!: along_intros emits_sweep_loop)

lemma emits_set_factory: "emits P (set_factory f)"
  by (simp add: along_def set_factory_def wp_simps)

lemma emits_with_factory:
  "(\<And>f. emits P (m f)) \<Longrightarrow> (\<And>c. emits P (n c)) \<Longrightarrow> emits P (with_factory m n)"
  unfolding with_factory_def by (auto intro!: along_intros split: factory.splits)

lemma emits_sections:
  "emits factory_call (lookup_section E k fp f)"
  "emits factory_call (store_section E k fp c f)"
  unfolding lookup_section_def store_section_def store_new_def
  by (auto intro!: along_intros emits_cacheHit emits_closeClientConnections emits_sweepExpiredLocked
      emits_set_factory)

lemma emits_CreateClient: "emits factory_call (CreateClient E APIReader p)"
  unfolding CreateClient_def Let_def
  by (auto intro!: along_intros emits_with_factory emits_sections emits_buildClient)

lemma emits_ForgetInstance: "emits factory_call (ForgetInstance k)"
  unfolding ForgetInstance_def
  by (auto intro!: along_intros emits_with_factory emits_closeClientConnections emits_set_factory)

end
