(* ===== verification/ClientCache.thy ===== *)
theory ClientCache
  imports ClientFactory
begin

text \<open>
  Correctness of the client cache of theory \<open>ClientFactory\<close>: what a hit means, what a sweep removes,
  and, for any interleaving of the sections of concurrent calls of \<open>CreateClient\<close> with
  \<open>ForgetInstance\<close>, that a caller only ever gets a client that was built for its own instance and
  configuration.
\<close>

section \<open>Hits and sweeps\<close>

lemma wp_cacheHit [wp_simps]:
  "wp (cacheHit E f k fp) Q = (\<lambda>w.
     case mget (cache f) k of
       None \<Rightarrow> Q None w
     | Some e \<Rightarrow>
         if entry_fingerprint e \<noteq> fp then Q None w
         else Q (if clock E (calls w) - entry_createdAt e \<ge> ttl f then None else Some (entry_client e))
                (w\<lparr>calls := ONow # calls w\<rparr>))"
  by (rule ext) (auto simp: cacheHit_def wp_simps split: option.splits)

lemma wp_closeClientConnections:
  assumes "\<And>w'. only_adds factory_call w w' \<Longrightarrow> w_factory w' = w_factory w \<Longrightarrow> Q () w'"
  shows "wp (closeClientConnections c) Q w"
  using assms by (auto simp: closeClientConnections_def wp_simps only_adds_def split: option.splits)

lemma mdelete_filter: "mdelete k m = filter (\<lambda>(k', _). k \<noteq> k') m"
  by (simp add: mdelete_def AList.delete_eq case_prod_unfold)

definition expired :: "int \<Rightarrow> int \<Rightarrow> client_cache_entry \<Rightarrow> bool" where
  "expired t life e \<longleftrightarrow> t - entry_createdAt e \<ge> life"

text \<open>The loop removes the keys of the expired entries it visits.\<close>

lemma wp_sweep_loop:
  assumes "\<And>w'. w_factory w' = w_factory w \<Longrightarrow>
      Q (f\<lparr>cache := filter (\<lambda>(k, _). k \<notin> fst ` {x \<in> set es. expired t (ttl f) (snd x)}) (cache f)\<rparr>) w'"
  shows "wp (sweep_loop t es f) Q w"
  using assms
proof (induction t es f arbitrary: w rule: sweep_loop.induct)
  case (1 t f)
  then show ?case by (simp add: wp_simps case_prod_unfold)
next
  case (2 t key entry rest f)
  show ?case
  proof (cases "ttl f \<le> t - entry_createdAt entry")
    case True
    have "wp (closeClientConnections (Some (entry_client entry)))
        (\<lambda>_. wp (sweep_loop t rest (f\<lparr>cache := mdelete key (cache f)\<rparr>)) Q) w"
    proof (rule wp_closeClientConnections, rule 2(1) [OF True])
      fix w' w'' :: world
      assume w: "w_factory w' = w_factory w" and w'': "w_factory w'' = w_factory w'"
      have "filter (\<lambda>(k, _). k \<notin> fst ` {x \<in> set ((key, entry) # rest). expired t (ttl f) (snd x)}) (cache f)
          = filter (\<lambda>(k, _). k \<notin> fst ` {x \<in> set rest. expired t (ttl f) (snd x)}) (mdelete key (cache f))"
        using True by (force simp: mdelete_filter expired_def intro!: filter_cong)
      with 2(3) [of w''] w w''
      show "Q ((f\<lparr>cache := mdelete key (cache f)\<rparr>)\<lparr>cache := filter (\<lambda>(k, _). k \<notin> fst `
          {x \<in> set rest. expired t (ttl (f\<lparr>cache := mdelete key (cache f)\<rparr>)) (snd x)})
            (cache (f\<lparr>cache := mdelete key (cache f)\<rparr>))\<rparr>) w''"
        by simp
    qed
    with True show ?thesis by (simp add: wp_simps)
  next
    case False
    have "{x \<in> set ((key, entry) # rest). expired t (ttl f) (snd x)} = {x \<in> set rest. expired t (ttl f) (snd x)}"
      using False by (auto simp: expired_def)
    with 2(2) [OF False] 2(3) False show ?thesis by simp
  qed
qed

lemma filter_expired_keys:
  assumes "gomap m"
  shows "filter (\<lambda>(k, _). k \<notin> fst ` {x \<in> set m. P (snd x)}) m = filter (\<lambda>(_, e). \<not> P e) m"
proof (rule filter_cong [OF refl])
  fix x
  assume x: "x \<in> set m"
  have "y = x" if "y \<in> set m" and "fst y = fst x" for y
    using assms that x by (metis eq_key_imp_eq_value gomap_def prod.collapse)
  then show "(case x of (k, _) \<Rightarrow> k \<notin> fst ` {x \<in> set m. P (snd x)}) = (case x of (_, e) \<Rightarrow> \<not> P e)"
    using x by (force simp: case_prod_unfold)
qed

definition swept :: "int \<Rightarrow> client_factory \<Rightarrow> client_factory" where
  "swept t f =
     (if (case lastSweep f of None \<Rightarrow> False | Some s \<Rightarrow> t - s < ttl f) then f
      else f\<lparr>cache := filter (\<lambda>(_, e). \<not> expired t (ttl f) e) (cache f), lastSweep := Some t\<rparr>)"

text \<open>A sweep that is due keeps exactly the entries younger than the time to live.\<close>

lemma wp_sweepExpiredLocked:
  assumes "gomap (cache f)"
    and "\<And>w'. w_factory w' = w_factory w \<Longrightarrow> Q (swept (clock E (calls w)) f) w'"
  shows "wp (sweepExpiredLocked E f) Q w"
proof (cases "case lastSweep f of None \<Rightarrow> False | Some s \<Rightarrow> clock E (calls w) - s < ttl f")
  case True
  with assms(2) show ?thesis by (simp add: sweepExpiredLocked_def wp_simps swept_def)
next
  case False
  let ?t = "clock E (calls w)"
  have "wp (sweep_loop ?t (cache f) f) (\<lambda>f'. Q (f'\<lparr>lastSweep := Some ?t\<rparr>)) (w\<lparr>calls := ONow # calls w\<rparr>)"
    by (rule wp_sweep_loop)
      (use assms(2) False in \<open>simp add: filter_expired_keys [OF assms(1)] swept_def\<close>)
  with False show ?thesis by (simp add: sweepExpiredLocked_def wp_simps)
qed

lemma gomap_swept [simp]: "gomap (cache f) \<Longrightarrow> gomap (cache (swept t f))"
  by (simp add: swept_def)

lemma mget_swept:
  assumes "gomap (cache f)" and "mget (cache (swept t f)) k = Some e"
  shows "mget (cache f) k = Some e"
  using assms mget_filter [OF assms(1), of "\<lambda>_ e. \<not> expired t (ttl f) e" k]
  by (auto simp: swept_def split: if_splits option.splits)

text \<open>
  A cache hit. \<open>cacheHit\<close> returns a client only if the cache holds, under the key that was asked
  for, an entry with that client and with the fingerprint that was asked for, and the entry is
  younger than the time to live at that moment.
\<close>

lemma cacheHit_fresh_and_matching:
  "wp (cacheHit E f k fp)
     (\<lambda>r _. r = Some c \<longleftrightarrow>
        (\<exists>e. mget (cache f) k = Some e \<and> entry_client e = c \<and> entry_fingerprint e = fp \<and>
             clock E (calls w) - entry_createdAt e < ttl f)) w"
  by (auto simp: wp_simps split: option.splits)

text \<open>
  The sweep. A sweep that is due (none before, or the last one at least one time to live ago)
  removes exactly the expired entries and keeps every other entry in place; one that is not due
  changes nothing.
\<close>

lemma sweep_removes_exactly_expired:
  assumes "gomap (cache f)"
  shows "wp (sweepExpiredLocked E f)
    (\<lambda>f' _. (if lastSweep f = None \<or> clock E (calls w) - the (lastSweep f) \<ge> ttl f
              then (\<forall>k. mget (cache f') k =
                     (case mget (cache f) k of None \<Rightarrow> None
                      | Some e \<Rightarrow> if clock E (calls w) - entry_createdAt e < ttl f then Some e else None)) \<and>
                   lastSweep f' = Some (clock E (calls w))
              else f' = f)) w"
  by (rule wp_sweepExpiredLocked [OF assms])
    (auto simp: swept_def expired_def mget_filter [OF assms] split: option.splits)

section \<open>Where the clients of the cache come from\<close>

definition built_for :: "env \<Rightarrow> reader \<Rightarrow> perses \<Rightarrow> v1_client \<Rightarrow> bool" where
  "built_for E rd p c \<longleftrightarrow> (\<exists>w w'. run_state (buildClient E rd p) w = (Inr c, w'))"

definition made_for :: "env \<Rightarrow> string \<Rightarrow> string \<Rightarrow> v1_client \<Rightarrow> bool" where
  "made_for E key fp c \<longleftrightarrow> (\<exists>rd p. ns_name p = key \<and> configFingerprint E p = fp \<and> built_for E rd p c)"

definition cache_ok :: "env \<Rightarrow> client_factory \<Rightarrow> bool" where
  "cache_ok E f \<longleftrightarrow> gomap (cache f) \<and>
     (\<forall>k e. mget (cache f) k = Some e \<longrightarrow> made_for E k (entry_fingerprint e) (entry_client e))"

definition factory_ok :: "env \<Rightarrow> world \<Rightarrow> bool" where
  "factory_ok E w = (\<exists>f. w_factory w = PersesClientFactoryWithConfig f \<and> cache_ok E f)"

lemma cache_ok_swept: "cache_ok E f \<Longrightarrow> cache_ok E (swept t f)"
  by (auto simp: cache_ok_def dest: mget_swept)

lemma cache_ok_store:
  "cache_ok E f \<Longrightarrow> made_for E k (entry_fingerprint e) (entry_client e) \<Longrightarrow>
     cache_ok E (f\<lparr>cache := mset_key k e (cache f)\<rparr>)"
  by (auto simp: cache_ok_def)

lemma cache_ok_forget: "cache_ok E f \<Longrightarrow> cache_ok E (f\<lparr>cache := mdelete k (cache f)\<rparr>)"
  by (auto simp: cache_ok_def)

lemma cache_ok_NewWithConfig: "cache_ok E NewWithConfig"
  by (simp add: cache_ok_def NewWithConfig_def)

lemma wp_with_factory:
  "w_factory w = PersesClientFactoryWithConfig f \<Longrightarrow> wp (with_factory m n) Q w = wp (m f) Q w"
  by (simp add: with_factory_def wp_simps)

lemma wp_lookup_section:
  assumes "cache_ok E f"
  shows "wp (lookup_section E k fp f)
    (\<lambda>r w'. w_factory w' = w_factory w \<and> (\<forall>c. r = Some c \<longrightarrow> made_for E k fp c)) w"
  using assms unfolding lookup_section_def
  by (auto simp: wp_simps cache_ok_def split: option.splits)

text \<open>The entry under the key after a store, if the sweep left it, is the client returned.\<close>

definition stored :: "env \<Rightarrow> string \<Rightarrow> string \<Rightarrow> v1_client \<Rightarrow> world \<Rightarrow> bool" where
  "stored E k fp c w \<longleftrightarrow> made_for E k fp c \<and>
     (\<exists>f. w_factory w = PersesClientFactoryWithConfig f \<and> cache_ok E f \<and>
        (\<forall>e. mget (cache f) k = Some e \<longrightarrow> entry_client e = c \<and> entry_fingerprint e = fp))"

lemma wp_sweep_stored:
  assumes "cache_ok E f" and "made_for E k fp new" and e: "entry_client e = new" "entry_fingerprint e = fp"
  shows "wp (sweepExpiredLocked E (f\<lparr>cache := mset_key k e (cache f)\<rparr>))
    (\<lambda>f' w'. stored E k fp new (w'\<lparr>w_factory := PersesClientFactoryWithConfig f'\<rparr>)) w"
proof (rule wp_sweepExpiredLocked)
  let ?f = "f\<lparr>cache := mset_key k e (cache f)\<rparr>"
  let ?f' = "swept (clock E (calls w)) ?f"
  show g: "gomap (cache ?f)" using assms(1) by (simp add: cache_ok_def)
  have "cache_ok E ?f'"
    using assms by (intro cache_ok_swept cache_ok_store) auto
  moreover have "entry_client e' = new \<and> entry_fingerprint e' = fp"
    if "mget (cache ?f') k = Some e'" for e'
    using mget_swept [OF g that] e by simp
  ultimately show "stored E k fp new (w'\<lparr>w_factory := PersesClientFactoryWithConfig ?f'\<rparr>)" for w'
    using assms(2) by (simp add: stored_def)
qed

lemma wp_store_new:
  assumes "cache_ok E f" and "made_for E k fp new"
  shows "wp (store_new E k fp new f) (\<lambda>r. stored E k fp r) w"
  unfolding store_new_def set_factory_def using wp_sweep_stored [OF assms]
  by (auto simp: wp_simps split: option.splits intro!: wp_closeClientConnections)

lemma wp_store_section:
  assumes "cache_ok E f" and "made_for E k fp new" and "w_factory w = PersesClientFactoryWithConfig f"
  shows "wp (store_section E k fp new f) (\<lambda>r. stored E k fp r) w"
proof -
  have "stored E k fp (entry_client e) (w\<lparr>calls := c # calls w\<rparr>)"
    if "mget (cache f) k = Some e" and "entry_fingerprint e = fp" for e c
    using assms(1,3) that by (auto simp: stored_def cache_ok_def)
  then show ?thesis
    unfolding store_section_def using wp_store_new [OF assms(1,2)]
    by (auto simp: wp_simps split: option.splits)
qed

lemma wp_ForgetInstance:
  assumes "cache_ok E f" and "w_factory w = PersesClientFactoryWithConfig f"
  shows "wp (ForgetInstance k)
    (\<lambda>_ w'. w_factory w' = PersesClientFactoryWithConfig (f\<lparr>cache := mdelete k (cache f)\<rparr>)) w"
  using assms unfolding ForgetInstance_def set_factory_def
  by (auto simp: wp_with_factory wp_simps split: option.splits intro!: wp_closeClientConnections)

text \<open>The construction of a client does not touch the cache.\<close>

lemma along_get_data:
  "along same_factory (GetBasicAuthData E rd ns n ba)"
  "along same_factory (GetOAuthData E rd ns n oa)"
  "along same_factory (GetTLSCertData E rd ns n ce)"
  unfolding get_data_defs stored_data_def client_Get_Secret_def client_Get_ConfigMap_def Let_def
  by (auto intro!: along_intros)

lemma buildClient_factory: "along same_factory (buildClient E rd p)"
  unfolding buildClient_def token_headers_def client_tls_def client_ca_def client_cert_def
    client_oauth_config_def Let_def
  by (auto intro!: along_intros along_get_data)

section \<open>Concurrent callers\<close>

text \<open>
  Any number of goroutines (the workers of the three child controllers) are inside \<open>CreateClient\<close>.
  A goroutine is at rest, between the look-up and the construction of its client, between the
  construction and the store, or has returned. Each step is one section of the code; the sections
  that use the cache hold its lock, so they are atomic. The Perses controller may forget an
  instance at any time, and anything else may happen to the rest of the world.
\<close>

datatype goroutine =
    Idle
  | Building reader perses
  | Storing reader perses v1_client
  | Returned perses "error + v1_client"

record system =
  sys_world :: world
  routines :: "nat \<Rightarrow> goroutine"

definition lookup_step :: "env \<Rightarrow> perses \<Rightarrow> (v1_client option) go" where
  "lookup_step E p = with_factory (lookup_section E (ns_name p) (configFingerprint E p)) (\<lambda>c. State_Monad.return (Some c))"

definition store_step :: "env \<Rightarrow> perses \<Rightarrow> v1_client \<Rightarrow> v1_client go" where
  "store_step E p new = with_factory (store_section E (ns_name p) (configFingerprint E p) new) State_Monad.return"

lemma CreateClient_sections:
  "CreateClient E rd p = do {
     hit \<leftarrow> lookup_step E p;
     case hit of
       Some cached \<Rightarrow> State_Monad.return (Inr cached)
     | None \<Rightarrow> bindE (buildClient E rd p) (\<lambda>new. do { c \<leftarrow> store_step E p new; State_Monad.return (Inr c) })
   }"
  unfolding CreateClient_def lookup_step_def store_step_def Let_def by (rule refl)

inductive step :: "env \<Rightarrow> system \<Rightarrow> system \<Rightarrow> bool" for E :: env where
  hit: "routines s i = Idle \<Longrightarrow> run_state (lookup_step E p) (sys_world s) = (Some c, w') \<Longrightarrow>
    step E s (s\<lparr>sys_world := w', routines := (routines s)(i := Returned p (Inr c))\<rparr>)"
| miss: "routines s i = Idle \<Longrightarrow> run_state (lookup_step E p) (sys_world s) = (None, w') \<Longrightarrow>
    step E s (s\<lparr>sys_world := w', routines := (routines s)(i := Building rd p)\<rparr>)"
| build: "routines s i = Building rd p \<Longrightarrow> run_state (buildClient E rd p) (sys_world s) = (Inr c, w') \<Longrightarrow>
    step E s (s\<lparr>sys_world := w', routines := (routines s)(i := Storing rd p c)\<rparr>)"
| build_error: "routines s i = Building rd p \<Longrightarrow> run_state (buildClient E rd p) (sys_world s) = (Inl err, w') \<Longrightarrow>
    step E s (s\<lparr>sys_world := w', routines := (routines s)(i := Returned p (Inl err))\<rparr>)"
| store: "routines s i = Storing rd p new \<Longrightarrow> run_state (store_step E p new) (sys_world s) = (c, w') \<Longrightarrow>
    step E s (s\<lparr>sys_world := w', routines := (routines s)(i := Returned p (Inr c))\<rparr>)"
| rest: "routines s i = Returned p r \<Longrightarrow> step E s (s\<lparr>routines := (routines s)(i := Idle)\<rparr>)"
| forget: "run_state (ForgetInstance key) (sys_world s) = ((), w') \<Longrightarrow> step E s (s\<lparr>sys_world := w'\<rparr>)"
| elsewhere: "same_factory (sys_world s) w' \<Longrightarrow> step E s (s\<lparr>sys_world := w'\<rparr>)"

inductive reachable :: "env \<Rightarrow> system \<Rightarrow> bool" for E :: env where
  start: "w_factory (sys_world s) = PersesClientFactoryWithConfig NewWithConfig \<Longrightarrow>
    (\<And>i. routines s i = Idle) \<Longrightarrow> reachable E s"
| next_step: "reachable E s \<Longrightarrow> step E s s' \<Longrightarrow> reachable E s'"

fun routine_ok :: "env \<Rightarrow> goroutine \<Rightarrow> bool" where
  "routine_ok E (Storing rd p c) = made_for E (ns_name p) (configFingerprint E p) c"
| "routine_ok E (Returned p (Inr c)) = made_for E (ns_name p) (configFingerprint E p) c"
| "routine_ok E _ = True"

definition system_ok :: "env \<Rightarrow> system \<Rightarrow> bool" where
  "system_ok E s \<longleftrightarrow> factory_ok E (sys_world s) \<and> (\<forall>i. routine_ok E (routines s i))"

lemma system_ok_update:
  "system_ok E s \<Longrightarrow> factory_ok E w' \<Longrightarrow> routine_ok E r \<Longrightarrow>
     system_ok E (s\<lparr>sys_world := w', routines := (routines s)(i := r)\<rparr>)"
  by (simp add: system_ok_def)

lemma lookup_step_ok:
  assumes "factory_ok E w" and "run_state (lookup_step E p) w = (r, w')"
  shows "factory_ok E w'" and "r = Some c \<Longrightarrow> made_for E (ns_name p) (configFingerprint E p) c"
proof -
  from assms(1) obtain f where f: "w_factory w = PersesClientFactoryWithConfig f" "cache_ok E f"
    by (auto simp: factory_ok_def)
  from wp_lookup_section [OF f(2), of "ns_name p" "configFingerprint E p" w]
  have "wp (lookup_step E p) (\<lambda>r w'. w_factory w' = w_factory w \<and>
      (\<forall>c. r = Some c \<longrightarrow> made_for E (ns_name p) (configFingerprint E p) c)) w"
    by (simp add: lookup_step_def wp_with_factory [OF f(1)])
  then show "factory_ok E w'" and "r = Some c \<Longrightarrow> made_for E (ns_name p) (configFingerprint E p) c"
    using f by (simp_all add: wp_run [OF assms(2)] factory_ok_def)
qed

lemma store_step_ok:
  assumes "factory_ok E w" and "made_for E (ns_name p) (configFingerprint E p) new"
    and "run_state (store_step E p new) w = (c, w')"
  shows "stored E (ns_name p) (configFingerprint E p) c w'"
proof -
  from assms(1) obtain f where f: "w_factory w = PersesClientFactoryWithConfig f" "cache_ok E f"
    by (auto simp: factory_ok_def)
  from wp_store_section [OF f(2) assms(2) f(1)] show ?thesis
    using wp_run [OF assms(3)] by (simp add: store_step_def wp_with_factory [OF f(1)])
qed

lemma build_step_ok:
  assumes "factory_ok E w" and "run_state (buildClient E rd p) w = (r, w')"
  shows "factory_ok E w'" and "r = Inr c \<Longrightarrow> made_for E (ns_name p) (configFingerprint E p) c"
proof -
  have "same_factory w w'"
    using alongD [OF buildClient_factory] wp_run [OF assms(2)] by metis
  with assms(1) show "factory_ok E w'" by (simp add: factory_ok_def same_factory_def)
  show "made_for E (ns_name p) (configFingerprint E p) c" if "r = Inr c"
    using assms(2) that unfolding made_for_def built_for_def by blast
qed

lemma forget_step_ok:
  assumes "factory_ok E w" and "run_state (ForgetInstance k) w = (r, w')"
  shows "factory_ok E w'"
proof -
  from assms(1) obtain f where f: "w_factory w = PersesClientFactoryWithConfig f" "cache_ok E f"
    by (auto simp: factory_ok_def)
  from wp_ForgetInstance [OF f(2,1), of k]
  have "w_factory w' = PersesClientFactoryWithConfig (f\<lparr>cache := mdelete k (cache f)\<rparr>)"
    by (simp add: wp_run [OF assms(2)])
  with f(2) show ?thesis by (simp add: factory_ok_def cache_ok_forget)
qed

lemma stored_factory_ok: "stored E k fp c w \<Longrightarrow> factory_ok E w"
  by (auto simp: stored_def factory_ok_def)

lemma stored_made_for: "stored E k fp c w \<Longrightarrow> made_for E k fp c"
  by (simp add: stored_def)

lemma step_preserves_ok:
  assumes "step E s s'" and "system_ok E s"
  shows "system_ok E s'"
proof -
  have w: "factory_ok E (sys_world s)" and r: "\<And>i. routine_ok E (routines s i)"
    using assms(2) by (simp_all add: system_ok_def)
  from assms(1) show ?thesis
  proof cases
    case (hit i p c w')
    with w assms(2) lookup_step_ok show ?thesis
      by (auto intro!: system_ok_update)
  next
    case (miss i p w' rd)
    with w assms(2) lookup_step_ok(1) show ?thesis
      by (auto intro!: system_ok_update)
  next
    case (build i rd p c w')
    with w assms(2) build_step_ok show ?thesis
      by (auto intro!: system_ok_update)
  next
    case (build_error i rd p err w')
    with w assms(2) build_step_ok(1) show ?thesis
      by (auto intro!: system_ok_update)
  next
    case (store i rd p new c w')
    from store r [of i] have "made_for E (ns_name p) (configFingerprint E p) new" by simp
    from store_step_ok [OF w this] store have st: "stored E (ns_name p) (configFingerprint E p) c w'" by blast
    with store assms(2) show ?thesis
      by (auto intro!: system_ok_update stored_factory_ok stored_made_for)
  next
    case (rest i p res)
    with assms(2) show ?thesis by (simp add: system_ok_def)
  next
    case (forget key w')
    with w r forget_step_ok show ?thesis by (auto simp: system_ok_def)
  next
    case (elsewhere w')
    with w r show ?thesis by (simp add: system_ok_def factory_ok_def same_factory_def)
  qed
qed

lemma reachable_ok: "reachable E s \<Longrightarrow> system_ok E s"
proof (induction rule: reachable.induct)
  case (start s)
  then show ?case by (simp add: system_ok_def factory_ok_def cache_ok_NewWithConfig)
next
  case (next_step s s')
  from next_step.hyps(2) next_step.IH show ?case by (rule step_preserves_ok)
qed

text \<open>
  A call of \<open>CreateClient\<close> that nobody interrupts is a run of steps of its goroutine, so the step
  relation covers the code as it is.
\<close>

lemma CreateClient_is_steps:
  assumes "run_state (CreateClient E rd p) (sys_world s) = (r, w')" and "routines s i = Idle"
  shows "(step E)\<^sup>*\<^sup>* s (s\<lparr>sys_world := w', routines := (routines s)(i := Returned p r)\<rparr>)"
proof -
  let ?s = "\<lambda>w g. s\<lparr>sys_world := w, routines := (routines s)(i := g)\<rparr>"
  obtain h w1 where l: "run_state (lookup_step E p) (sys_world s) = (h, w1)" by fastforce
  show ?thesis
  proof (cases h)
    case (Some c)
    with assms l have "r = Inr c" and "w' = w1" by (auto simp: CreateClient_sections State_Monad.bind_def)
    with hit [OF assms(2)] l Some show ?thesis by auto
  next
    case None
    have s1: "step E s (?s w1 (Building rd p))" using miss [OF assms(2)] l None by blast
    obtain b w2 where b: "run_state (buildClient E rd p) w1 = (b, w2)" by fastforce
    show ?thesis
    proof (cases b)
      case (Inl err)
      with assms l None b have "r = Inl err" and "w' = w2"
        by (auto simp: CreateClient_sections State_Monad.bind_def bindE_def)
      moreover have "step E (?s w1 (Building rd p)) (?s w2 (Returned p (Inl err)))"
        using build_error [of "?s w1 (Building rd p)" i rd p E err w2] b Inl by simp
      ultimately show ?thesis using s1 by auto
    next
      case (Inr new)
      obtain c w3 where st: "run_state (store_step E p new) w2 = (c, w3)" by fastforce
      with assms l None b Inr have "r = Inr c" and "w' = w3"
        by (auto simp: CreateClient_sections State_Monad.bind_def bindE_def)
      moreover have "step E (?s w1 (Building rd p)) (?s w2 (Storing rd p new))"
        using build [of "?s w1 (Building rd p)" i rd p E new w2] b Inr by simp
      moreover have "step E (?s w2 (Storing rd p new)) (?s w3 (Returned p (Inr c)))"
        using store [of "?s w2 (Storing rd p new)" i rd p new E c w3] st by simp
      ultimately show ?thesis using s1 by (meson converse_rtranclp_into_rtranclp rtranclp.rtrancl_refl)
    qed
  qed
qed

text \<open>
  C6: no client crosses instances. In every state that any interleaving of concurrent calls of
  \<open>CreateClient\<close> and of \<open>ForgetInstance\<close> can reach from an empty cache, a call that has returned a
  client for a Perses object returned one that \<open>buildClient\<close> built for an object of the same
  namespace and name and with the same configuration fingerprint; and so is every client in the
  cache for the key and fingerprint of its entry.
\<close>

theorem concurrent_clients_match_instance:
  assumes "reachable E s"
  shows "(\<forall>i p c. routines s i = Returned p (Inr c) \<longrightarrow>
            made_for E (ns_name p) (configFingerprint E p) c) \<and>
         (\<exists>f. w_factory (sys_world s) = PersesClientFactoryWithConfig f \<and> gomap (cache f) \<and>
            (\<forall>k e. mget (cache f) k = Some e \<longrightarrow> made_for E k (entry_fingerprint e) (entry_client e)))"
proof -
  from reachable_ok [OF assms] have "factory_ok E (sys_world s)" and r: "\<And>i. routine_ok E (routines s i)"
    by (simp_all add: system_ok_def)
  moreover have "made_for E (ns_name p) (configFingerprint E p) c" if "routines s i = Returned p (Inr c)" for i p c
    using r [of i] that by simp
  ultimately show ?thesis by (auto simp: factory_ok_def cache_ok_def)
qed

text \<open>
  Forgetting an instance. After \<open>ForgetInstance\<close> the cache has no entry for that key, and every
  other entry is what it was.
\<close>

lemma ForgetInstance_spec:
  assumes "cache_ok E f" and "w_factory w = PersesClientFactoryWithConfig f"
  shows "wp (ForgetInstance k)
    (\<lambda>_ w'. \<exists>f'. w_factory w' = PersesClientFactoryWithConfig f' \<and>
       mget (cache f') = (mget (cache f))(k := None)) w"
  using wp_ForgetInstance [OF assms, of k] by (rule wp_mono) simp

end
