(* ===== verification/LogDiscipline.thy ===== *)
theory LogDiscipline
  imports ClientCache
begin

text \<open>
  The discipline that the log of calls obeys, whatever the services answer: a dashboard or
  datasource is created only after a look-up answered that it does not exist, updated only after a
  look-up returned a version that differs, and in both cases only after the server accepted the very
  object in a validation request; a secret is written only after the datasource it belongs to was
  accepted. A Kubernetes object is created only after a look-up answered that it does not exist,
  updated only to what a dry run just returned, and deleted only as it was just read; a Perses
  object is updated only to lose its legacy finalizer. A metric is touched only with a value for each of
  its labels, and nothing is read from the informer cache that the cache does not hold in full. A log is newest first, so what happened before a call is the tail.
\<close>

section \<open>What a log says\<close>

text \<open>The request \<open>v\<close> was made and answered with no error.\<close>

fun accepted :: "env \<Rightarrow> call \<Rightarrow> call list \<Rightarrow> bool" where
  "accepted E v [] = False"
| "accepted E v (c # h) = (c = v \<and> respond E h v = None \<or> accepted E v h)"

text \<open>The answer to the last look-up of an entity.\<close>

fun last_lookup :: "env \<Rightarrow> v1_client \<Rightarrow> pkind \<Rightarrow> string \<Rightarrow> string \<Rightarrow> call list \<Rightarrow> (error + p_entity) option" where
  "last_lookup E c k ns n [] = None"
| "last_lookup E c k ns n (x # h) =
     (if x = PGet c k ns n then Some (getEntity E h c k ns n) else last_lookup E c k ns n h)"

definition in_sync :: "env \<Rightarrow> p_entity \<Rightarrow> p_entity \<Rightarrow> bool" where
  "in_sync E existing desired \<longleftrightarrow>
     tags_Equal (Entity_Tags existing) (Entity_Tags desired) \<and>
     DeepEqual_json E (Entity_Spec existing) (Entity_Spec desired)"

text \<open>
  An instance has the entity: a look-up returned a version in sync, or a write was answered with no
  error.
\<close>

fun pushed :: "env \<Rightarrow> v1_client \<Rightarrow> pkind \<Rightarrow> string \<Rightarrow> p_entity \<Rightarrow> call list \<Rightarrow> bool" where
  "pushed E c k ns e [] = False"
| "pushed E c k ns e (x # h) =
     (x = PGet c k ns (Entity_Name e) \<and>
        (case getEntity E h c k ns (Entity_Name e) of Inl _ \<Rightarrow> False | Inr ex \<Rightarrow> in_sync E ex e) \<or>
      (x = PCreate c k ns (ObjEntity e) \<or> x = PUpdate c k ns (ObjEntity e)) \<and> respond E h x = None \<or>
      pushed E c k ns e h)"

text \<open>The kind of datasource whose credentials a kind of secret holds.\<close>

fun owner_kind :: "pkind \<Rightarrow> pkind" where
  "owner_kind PGlobalSecret = PGlobalDatasource"
| "owner_kind _ = PDatasource"

fun accepted_owner :: "env \<Rightarrow> v1_client \<Rightarrow> pkind \<Rightarrow> string \<Rightarrow> call list \<Rightarrow> bool" where
  "accepted_owner E c k sn [] = False"
| "accepted_owner E c k sn (x # h) =
     ((case x of
         PValidate rc k' (ObjEntity e) \<Rightarrow>
           rc = RESTClient c \<and> k' = owner_kind k \<and> sn = Entity_Name e @ SecretNameSuffix \<and> respond E h x = None
       | _ \<Rightarrow> False) \<or> accepted_owner E c k sn h)"

text \<open>Kind and key of a Kubernetes object, and the log as it was at the last occurrence of a call.\<close>

fun kind_of :: "kobj \<Rightarrow> kind" where
  "kind_of (KPerses _) = PersesKind"
| "kind_of (KDashboard _) = DashboardKind"
| "kind_of (KDatasource _) = DatasourceKind"
| "kind_of (KGlobalDatasource _) = GlobalDatasourceKind"
| "kind_of (KConfigMap _) = ConfigMapKind"
| "kind_of (KService _) = ServiceKind"
| "kind_of (KDeployment _) = DeploymentKind"
| "kind_of (KStatefulSet _) = StatefulSetKind"

definition meta_key :: "'a object_meta_scheme \<Rightarrow> namespaced_name" where
  "meta_key ob = \<lparr>NN_Namespace = Namespace ob, NN_Name = Name ob\<rparr>"

fun key_of :: "kobj \<Rightarrow> namespaced_name" where
  "key_of (KPerses x) = meta_key x"
| "key_of (KDashboard x) = meta_key x"
| "key_of (KDatasource x) = meta_key x"
| "key_of (KGlobalDatasource x) = meta_key x"
| "key_of (KConfigMap x) = meta_key x"
| "key_of (KService x) = meta_key x"
| "key_of (KDeployment x) = meta_key x"
| "key_of (KStatefulSet x) = meta_key x"

fun last_at :: "call \<Rightarrow> call list \<Rightarrow> call list option" where
  "last_at c [] = None"
| "last_at c (x # h) = (if x = c then Some h else last_at c h)"

definition not_found :: "env \<Rightarrow> error + 'a \<Rightarrow> bool" where
  "not_found E r = (case r of Inl err \<Rightarrow> IsNotFound E err | Inr _ \<Rightarrow> False)"

fun answered_absent :: "env \<Rightarrow> kobj \<Rightarrow> call list \<Rightarrow> bool" where
  "answered_absent E (KService s) h = not_found E (getService E h Cached (meta_key s))"
| "answered_absent E (KConfigMap s) h = not_found E (getConfigMap E h Cached (meta_key s))"
| "answered_absent E (KDeployment s) h = not_found E (getDeployment E h Cached (meta_key s))"
| "answered_absent E (KStatefulSet s) h = not_found E (getStatefulSet E h Cached (meta_key s))"
| "answered_absent E _ h = False"

fun filled_from :: "env \<Rightarrow> kobj \<Rightarrow> kobj \<Rightarrow> call list \<Rightarrow> bool" where
  "filled_from E (KService s) (KService s') h = (s' = dryRunService E h s)"
| "filled_from E (KConfigMap s) (KConfigMap s') h = (s' = dryRunConfigMap E h s)"
| "filled_from E (KDeployment s) (KDeployment s') h = (s' = dryRunDeployment E h s)"
| "filled_from E (KStatefulSet s) (KStatefulSet s') h = (s' = dryRunStatefulSet E h s)"
| "filled_from E _ _ h = False"

fun read_as :: "env \<Rightarrow> kind \<Rightarrow> namespaced_name \<Rightarrow> kobj \<Rightarrow> call list \<Rightarrow> bool" where
  "read_as E DeploymentKind key (KDeployment d) h = (getDeployment E h Cached key = Inr d)"
| "read_as E StatefulSetKind key (KStatefulSet d) h = (getStatefulSet E h Cached key = Inr d)"
| "read_as E _ key _ h = False"

fun unfinalized :: "env \<Rightarrow> namespaced_name \<Rightarrow> kobj \<Rightarrow> call list \<Rightarrow> bool" where
  "unfinalized E key (KPerses p) h =
     (case getPerses E h Cached key of Inl _ \<Rightarrow> False | Inr q \<Rightarrow> p = fst (RemoveFinalizer E q PersesFinalizer))"
| "unfinalized E key _ h = False"

section \<open>The discipline\<close>

text \<open>A call to Prometheus gives each label of the vector a value; the library panics otherwise.\<close>

fun labelled :: "call \<Rightarrow> bool" where
  "labelled (PromInc m ls) = (length ls = length (desc_labels (vec_desc m)))"
| "labelled (PromSet m ls v) = (length ls = length (desc_labels (vec_desc m)))"
| "labelled (PromDelete m ls) = (length ls = length (desc_labels (vec_desc m)))"
| "labelled _ = True"

fun justified :: "env \<Rightarrow> call \<Rightarrow> call list \<Rightarrow> bool" where
  "justified E (PCreate c k ns (ObjEntity e)) h =
     (accepted E (PValidate (RESTClient c) k (ObjEntity e)) h \<and>
      (case last_lookup E c k ns (Entity_Name e) h of
         Some (Inl err) \<Rightarrow> IsRequestNotFound E err
       | _ \<Rightarrow> False))"
| "justified E (PUpdate c k ns (ObjEntity e)) h =
     (accepted E (PValidate (RESTClient c) k (ObjEntity e)) h \<and>
      (case last_lookup E c k ns (Entity_Name e) h of
         Some (Inr ex) \<Rightarrow> \<not> in_sync E ex e
       | _ \<Rightarrow> False))"
| "justified E (PCreate c k ns (ObjSecret s)) h = accepted_owner E c k (PSecret_Name s) h"
| "justified E (PUpdate c k ns (ObjSecret s)) h = accepted_owner E c k (PSecret_Name s) h"
| "justified E (KCreate ob) h =
     (case last_at (KGet Cached (kind_of ob) (key_of ob)) h of
        None \<Rightarrow> False
      | Some h' \<Rightarrow> answered_absent E ob h')"
| "justified E (KUpdate False ob) h =
     (case h of
        KUpdate True ob0 # t \<Rightarrow> respond E t (KUpdate True ob0) = None \<and> filled_from E ob0 ob t
      | KGet Cached PersesKind key # t \<Rightarrow> unfinalized E key ob t
      | _ \<Rightarrow> False)"
| "justified E (KDelete ob) h =
     (case h of
        KGet Cached k key # t \<Rightarrow> read_as E k key ob t
      | _ \<Rightarrow> False)"
| "justified E (KGet rd k key) h = served_whole rd k"
| "justified E c h = labelled c"

fun log_ok :: "env \<Rightarrow> call list \<Rightarrow> bool" where
  "log_ok E [] = True"
| "log_ok E (c # h) = (justified E c h \<and> log_ok E h)"

text \<open>Calls that are not to Prometheus.\<close>

fun silent :: "call \<Rightarrow> bool" where
  "silent (PromInc m ls) = False"
| "silent (PromSet m ls v) = False"
| "silent (PromDelete m ls) = False"
| "silent _ = True"

text \<open>Along a run only calls that satisfy \<open>P\<close> are added to the log, whatever else changes.\<close>

definition tells :: "(call \<Rightarrow> bool) \<Rightarrow> world \<Rightarrow> world \<Rightarrow> bool" where
  "tells P w w' \<longleftrightarrow> (\<exists>cs. calls w' = cs @ calls w \<and> list_all P cs)"

interpretation tl: frame "tells P" for P :: "call \<Rightarrow> bool"
proof
  show "tells P w w''" if "tells P w w'" and "tells P w' w''" for w w' w''
    using that unfolding tells_def by (metis append.assoc list_all_append)
qed (simp add: tells_def)

lemma tells_call [simp]: "tells P w (w\<lparr>calls := c # calls w\<rparr>) \<longleftrightarrow> P c"
  by (auto simp: tells_def)

lemma only_adds_tells: "only_adds P w w' \<Longrightarrow> tells P w w'"
  by (auto simp: only_adds_def tells_def)

lemma factory_call_silent: "factory_call c \<Longrightarrow> silent c"
  by (cases c) auto

text \<open>Calls that need no justification.\<close>

fun free :: "call \<Rightarrow> bool" where
  "free (PCreate c k ns ob) = (\<exists>pr. ob = ObjProject pr)"
| "free (PUpdate c k ns ob) = (\<exists>pr. ob = ObjProject pr)"
| "free (KCreate ob) = False"
| "free (KUpdate dry ob) = dry"
| "free (KDelete ob) = False"
| "free (KGet rd k key) = served_whole rd k"
| "free c = labelled c"

lemma free_justified: "free c \<Longrightarrow> justified E c h"
  by (cases c) auto

lemma factory_call_free: "factory_call c \<Longrightarrow> free c"
  by (cases c) auto

lemma log_ok_free: "list_all free cs \<Longrightarrow> log_ok E h \<Longrightarrow> log_ok E (cs @ h)"
  by (induction cs) (auto intro: free_justified)

lemma accepted_append: "accepted E v h \<Longrightarrow> accepted E v (cs @ h)"
  by (induction cs) auto

lemma accepted_owner_append: "accepted_owner E c k sn h \<Longrightarrow> accepted_owner E c k sn (cs @ h)"
  by (induction cs) auto

lemma pushed_append: "pushed E c k ns e h \<Longrightarrow> pushed E c k ns e (cs @ h)"
  by (induction cs) auto

lemma last_lookup_append:
  "list_all (\<lambda>x. x \<noteq> PGet c k ns n) cs \<Longrightarrow> last_lookup E c k ns n (cs @ h) = last_lookup E c k ns n h"
  by (induction cs) auto

definition keeps_log :: "env \<Rightarrow> world \<Rightarrow> world \<Rightarrow> bool" where
  "keeps_log E w w' \<longleftrightarrow> (log_ok E (calls w) \<longrightarrow> log_ok E (calls w'))"

interpretation lg: frame "keeps_log E" for E :: env
  by unfold_locales (simp_all add: keeps_log_def)

lemma keeps_log_call: "keeps_log E w (w\<lparr>calls := c # calls w\<rparr>)" if "free c"
  using that by (simp add: keeps_log_def free_justified)

lemma keeps_log_only_adds: "only_adds free w w' \<Longrightarrow> keeps_log E w w'"
  by (auto simp: only_adds_def keeps_log_def log_ok_free)

lemma along_keeps_log: "emits free m \<Longrightarrow> along (keeps_log E) m"
  by (erule along_mono) (rule keeps_log_only_adds)

lemma emits_free_factory: "emits factory_call m \<Longrightarrow> emits free m"
  by (erule emits_mono) (rule factory_call_free)

section \<open>The client of an instance\<close>

text \<open>What a controller relies on when it asks for the client of an instance.\<close>

lemma wp_CreateClient:
  assumes "factory_ok E w"
  shows "wp (CreateClient E rd p)
    (\<lambda>r w'. factory_ok E w' \<and> (\<forall>c. r = Inr c \<longrightarrow> made_for E (ns_name p) (configFingerprint E p) c)) w"
proof -
  obtain h w1 where l: "run_state (lookup_step E p) w = (h, w1)" by fastforce
  note l_ok = lookup_step_ok [OF assms l]
  show ?thesis
  proof (cases h)
    case (Some c)
    then show ?thesis
      using l_ok by (simp add: CreateClient_sections wp_simps wp_run [OF l])
  next
    case None
    obtain b w2 where b: "run_state (buildClient E rd p) w1 = (b, w2)" by fastforce
    note b_ok = build_step_ok [OF l_ok(1) b]
    show ?thesis
    proof (cases b)
      case (Inl err)
      with None b_ok(1) show ?thesis
        by (simp add: CreateClient_sections wp_simps wp_run [OF l] wp_run [OF b])
    next
      case (Inr new)
      obtain c w3 where s: "run_state (store_step E p new) w2 = (c, w3)" by fastforce
      have "stored E (ns_name p) (configFingerprint E p) c w3"
        using store_step_ok [OF b_ok(1) b_ok(2) [OF Inr] s] .
      then show ?thesis
        using None Inr
        by (simp add: CreateClient_sections wp_simps wp_run [OF l] wp_run [OF b] wp_run [OF s]
            stored_factory_ok stored_made_for)
    qed
  qed
qed

end
