(* ===== verification/Workloads.thy ===== *)
theory Workloads
  imports PodParts Subreconciler LogDiscipline
begin

text \<open>
  The Kubernetes objects of a Perses instance: \<^verbatim>\<open>service_controller.go\<close>,
  \<^verbatim>\<open>configmap_controller.go\<close>, \<^verbatim>\<open>deployment_controller.go\<close> and
  \<^verbatim>\<open>statefulset_controller.go\<close> of \<^verbatim>\<open>controllers/perses\<close>.

  The context of a reconciliation carries a pointer to the Perses object; the object behind it is
  the field \<open>ctx_perses\<close> of the world. The annotations of the created objects are, in Go, the very
  map of \<open>perses.Spec.Metadata.Annotations\<close> when that is not \<open>nil\<close>: writing to it changes the Perses
  object in the context. A \<open>create\<close> function therefore returns the Perses object as it leaves it.
\<close>

section \<open>The reconciler\<close>

record config =
  PersesImage :: string
  TLSMinVersion :: string
  TLSCipherSuites :: string
  TLSConfigureOperands :: bool

definition not_in_context :: sub_result where
  "not_in_context = RequeueWithError (Some (errorf ''perses not found in context''))"

definition set_ctx :: "perses \<Rightarrow> unit go" where
  "set_ctx p = modifies (\<lambda>w. w\<lparr>ctx_perses := Some p\<rparr>)"

section \<open>Shared annotations\<close>

definition base_annotations :: "perses \<Rightarrow> strmap" where
  "base_annotations p =
     (case Spec_Metadata (Spec p) of None \<Rightarrow> [] | Some md \<Rightarrow> nilmap (Metadata_Annotations md))"

text \<open>The object after its annotations map (if it has one) was written to through the alias.\<close>

definition alias_annotations :: "perses \<Rightarrow> strmap \<Rightarrow> perses" where
  "alias_annotations p m =
     (case Spec_Metadata (Spec p) of
        None \<Rightarrow> p
      | Some md \<Rightarrow>
          (case Metadata_Annotations md of
             None \<Rightarrow> p
           | Some _ \<Rightarrow> p\<lparr>Spec := (Spec p)\<lparr>Spec_Metadata := Some (md\<lparr>Metadata_Annotations := Some m\<rparr>)\<rparr>\<rparr>))"

definition new_meta :: "string \<Rightarrow> string \<Rightarrow> strmap \<Rightarrow> strmap \<Rightarrow> object_meta" where
  "new_meta name ns annotations ls =
     \<lparr>Name = name, Namespace = ns, Generation = 0, ResourceVersion = [], Labels = Some ls,
      Annotations = Some annotations, DeletionTimestamp = None, Finalizers = [], OwnerReferences = []\<rparr>"

section \<open>Service\<close>

definition createPersesService :: "env \<Rightarrow> string \<Rightarrow> perses \<Rightarrow> perses \<times> (error + service)" where
  "createPersesService E serviceName p =
     (let ls = LabelsForPerses E (Name p) p;
          annotations = base_annotations p;
          annotations = (case Spec_Service (Spec p) of
                           None \<Rightarrow> annotations
                         | Some svc \<Rightarrow> (case Service_Annotations svc of
                             None \<Rightarrow> annotations
                           | Some extra \<Rightarrow> maps_Copy annotations extra));
          p' = alias_annotations p annotations;
          port = (case Spec_ContainerPort (Spec p) of None \<Rightarrow> DefaultContainerPort | Some q \<Rightarrow> q);
          md = new_meta serviceName (Namespace p) annotations ls;
          spec = \<lparr>ServiceSpec_Type = ''ClusterIP'',
                  ServiceSpec_Ports = [\<lparr>Port_Name = ''http'', Port_Port = port, Port_Protocol = ''TCP'', Port_TargetPort = port\<rparr>],
                  ServiceSpec_Selector = Some ls\<rparr>
      in (p', case setControllerReference E p' md of
                Inl err \<Rightarrow> Inl err
              | Inr owners \<Rightarrow> Inr (object_meta.extend (md\<lparr>OwnerReferences := owners\<rparr>) (service.fields spec))))"

definition serviceNeedsUpdate :: "env \<Rightarrow> service \<Rightarrow> service \<Rightarrow> string \<Rightarrow> perses \<Rightarrow> bool" where
  "serviceNeedsUpdate E existing updated name p =
     (if Name existing \<noteq> Name updated \<or> Namespace existing \<noteq> Namespace updated then True
      else if \<not> DeepEqual_string E (ServiceSpec_Type (Service_Spec existing)) (ServiceSpec_Type (Service_Spec updated)) \<or>
              \<not> DeepEqual_ports E (ServiceSpec_Ports (Service_Spec existing)) (ServiceSpec_Ports (Service_Spec updated)) \<or>
              \<not> DeepEqual_strmap E (Annotations existing) (Annotations updated) then True
      else
        (let labels = LabelsForPerses E name p
         in if length (nilmap (ServiceSpec_Selector (Service_Spec existing))) \<noteq> length labels then True
            else list_ex (\<lambda>(k, _).
                   mget0 (nilmap (Labels existing)) k \<noteq> mget0 (nilmap (Labels updated)) k \<or>
                   mget0 (nilmap (ServiceSpec_Selector (Service_Spec existing))) k \<noteq>
                   mget0 (nilmap (ServiceSpec_Selector (Service_Spec updated))) k) labels))"

text \<open>
  The branch of every reconciler in which the new object cannot be defined: the condition is set on
  the Perses object and its status is updated; a failure of that update wins over the first error.
\<close>

definition fail_define :: "env \<Rightarrow> perses \<Rightarrow> string \<Rightarrow> error \<Rightarrow> sub_result go" where
  "fail_define E p what err = do {
     cs \<leftarrow> meta_SetStatusCondition E (Status_Conditions (Status p))
            (Condition TypeAvailablePerses ConditionFalse ''Reconciling''
               (''Failed to create '' @ what @ '' for the custom resource ('' @ Name p @ ''): ('' @ Error err @ '')''));
     let p = p\<lparr>Status := (Status p)\<lparr>Status_Conditions := cs\<rparr>\<rparr>;
     _ \<leftarrow> set_ctx p;
     uerr \<leftarrow> exec E (KStatusUpdate (KPerses p));
     State_Monad.return (case uerr of
         Some e \<Rightarrow> RequeueWithError (Some e)
       | None \<Rightarrow> RequeueWithError (Some err))
   }"

text \<open>The result of a single write that decides between an error and the given continuation.\<close>

definition write_then :: "env \<Rightarrow> call \<Rightarrow> sub_result \<Rightarrow> sub_result go" where
  "write_then E c ok = do {
     err \<leftarrow> exec E c;
     State_Monad.return (case err of Some e \<Rightarrow> RequeueWithError (Some e) | None \<Rightarrow> ok)
   }"

text \<open>An update with \<open>client.DryRunAll\<close> fills the object in with what the server would store.\<close>

definition dry_update :: "env \<Rightarrow> kobj \<Rightarrow> (call list \<Rightarrow> 'o) \<Rightarrow> (error + 'o) go" where
  "dry_update E ob filled =
     ask (\<lambda>h. case respond E h (KUpdate True ob) of Some e \<Rightarrow> Inl e | None \<Rightarrow> Inr (filled h)) (KUpdate True ob)"

definition service_name :: "perses \<Rightarrow> string" where
  "service_name p =
     (case Spec_Service (Spec p) of
        None \<Rightarrow> Name p
      | Some svc \<Rightarrow> (case Service_Name svc of None \<Rightarrow> Name p | Some n \<Rightarrow> if length n > 0 then n else Name p))"

definition reconcileService :: "env \<Rightarrow> sub_result go" where
  "reconcileService E = do {
     ctx \<leftarrow> reads ctx_perses;
     case ctx of
       None \<Rightarrow> State_Monad.return not_in_context
     | Some p \<Rightarrow> do {
         let serviceName = service_name p;
         let key = \<lparr>NN_Namespace = Namespace p, NN_Name = serviceName\<rparr>;
         found \<leftarrow> ask (\<lambda>h. getService E h Cached key) (KGet Cached ServiceKind key);
         case found of
           Inl err \<Rightarrow>
             if \<not> IsNotFound E err then State_Monad.return (RequeueWithError (Some err))
             else do {
               let (p', ser) = createPersesService E serviceName p;
               _ \<leftarrow> set_ctx p';
               case ser of
                 Inl err2 \<Rightarrow> fail_define E p' ''Service'' err2
               | Inr svc \<Rightarrow> write_then E (KCreate (KService svc)) ContinueReconciling
             }
         | Inr existing \<Rightarrow> do {
             let (p', ser) = createPersesService E serviceName p;
             _ \<leftarrow> set_ctx p';
             case ser of
               Inl err \<Rightarrow> State_Monad.return (RequeueWithError (Some err))
             | Inr svc \<Rightarrow> do {
                 dry \<leftarrow> dry_update E (KService svc) (\<lambda>h. dryRunService E h svc);
                 case dry of
                   Inl err \<Rightarrow> State_Monad.return (RequeueWithError (Some err))
                 | Inr svc' \<Rightarrow>
                     if serviceNeedsUpdate E existing svc' (Name p') p'
                     then write_then E (KUpdate False (KService svc')) ContinueReconciling
                     else State_Monad.return ContinueReconciling
               }
           }
       }
   }"

section \<open>ConfigMap\<close>

definition createPersesConfigMap :: "env \<Rightarrow> perses \<Rightarrow> error + config_map" where
  "createPersesConfigMap E p =
     (let configName = GetConfigName (Name p);
          ls = LabelsForPerses E configName p;
          annotations = base_annotations p
      in case yaml_Marshal E (Spec_Config (Spec p)) of
           Inl err \<Rightarrow> Inl err
         | Inr persesConfig \<Rightarrow>
             (let configData = [(''config.yaml'', persesConfig)];
                  md = new_meta configName (Namespace p) annotations ls
              in case setControllerReference E p md of
                   Inl err \<Rightarrow> Inl err
                 | Inr owners \<Rightarrow>
                     Inr (object_meta.extend (md\<lparr>OwnerReferences := owners\<rparr>) (config_map.fields (Some configData)))))"

text \<open>Both objects exist where the function is called: the tests for \<open>nil\<close> are on options.\<close>

definition configMapNeedsUpdate :: "env \<Rightarrow> config_map option \<Rightarrow> config_map option \<Rightarrow> string \<Rightarrow> perses \<Rightarrow> bool" where
  "configMapNeedsUpdate E existing0 updated0 name p =
     (case (existing0, updated0) of
        (None, None) \<Rightarrow> False
      | (Some existing, Some updated) \<Rightarrow>
          if Name existing \<noteq> Name updated \<or> Namespace existing \<noteq> Namespace updated then True
          else if \<not> DeepEqual_strmap E (ConfigMap_Data existing) (ConfigMap_Data updated) \<or>
                  \<not> DeepEqual_strmap E (Annotations existing) (Annotations updated) then True
          else list_ex (\<lambda>(k, _). mget0 (nilmap (Labels existing)) k \<noteq> mget0 (nilmap (Labels updated)) k)
                 (LabelsForPerses E name p)
      | _ \<Rightarrow> True)"

definition reconcileConfigMap :: "env \<Rightarrow> sub_result go" where
  "reconcileConfigMap E = do {
     ctx \<leftarrow> reads ctx_perses;
     case ctx of
       None \<Rightarrow> State_Monad.return not_in_context
     | Some p \<Rightarrow> do {
         let configName = GetConfigName (Name p);
         let key = \<lparr>NN_Namespace = Namespace p, NN_Name = configName\<rparr>;
         found \<leftarrow> ask (\<lambda>h. getConfigMap E h Cached key) (KGet Cached ConfigMapKind key);
         case found of
           Inl err \<Rightarrow>
             if \<not> IsNotFound E err then State_Monad.return (RequeueWithError (Some err))
             else
               (case createPersesConfigMap E p of
                  Inl err2 \<Rightarrow> fail_define E p ''ConfigMap'' err2
                | Inr cm \<Rightarrow> write_then E (KCreate (KConfigMap cm)) ContinueReconciling)
         | Inr existing \<Rightarrow>
             (case createPersesConfigMap E p of
                Inl err \<Rightarrow> State_Monad.return (RequeueWithError (Some err))
              | Inr cm \<Rightarrow> do {
                  dry \<leftarrow> dry_update E (KConfigMap cm) (\<lambda>h. dryRunConfigMap E h cm);
                  case dry of
                    Inl err \<Rightarrow> State_Monad.return (RequeueWithError (Some err))
                  | Inr cm' \<Rightarrow>
                      if configMapNeedsUpdate E (Some existing) (Some cm') configName p
                      then write_then E (KUpdate False (KConfigMap cm')) ContinueReconciling
                      else State_Monad.return ContinueReconciling
                })
       }
   }"

section \<open>The pod\<close>

definition container_port :: "perses \<Rightarrow> int32" where
  "container_port p = (case Spec_ContainerPort (Spec p) of None \<Rightarrow> DefaultContainerPort | Some q \<Rightarrow> q)"

definition nonempty_or_zero :: "string option \<Rightarrow> string" where
  "nonempty_or_zero s = (case s of None \<Rightarrow> [] | Some x \<Rightarrow> if x \<noteq> [] then x else [])"

definition perses_container :: "config \<Rightarrow> perses \<Rightarrow> string \<Rightarrow> container" where
  "perses_container cfg p img =
     (let (livenessProbe, readinessProbe) = GetProbes p
      in \<lparr>Container_Image = img, Container_Name = ''perses'', Container_ImagePullPolicy = ''IfNotPresent'',
          Container_SecurityContext = Some (GetContainerSecurityContext p),
          Container_Ports = [(container_port p, ''perses'')],
          Container_VolumeMounts = GetVolumeMounts p,
          Container_Args = GetPersesArgs p (TLSMinVersion cfg) (TLSCipherSuites cfg) (TLSConfigureOperands cfg),
          Container_Env = Spec_Env (Spec p), Container_EnvFrom = Spec_EnvFrom (Spec p),
          Container_LivenessProbe = livenessProbe, Container_ReadinessProbe = readinessProbe,
          Container_Resources = (case Spec_Resources (Spec p) of None \<Rightarrow> JNull | Some r \<Rightarrow> r)\<rparr>)"

definition perses_pod_spec :: "config \<Rightarrow> perses \<Rightarrow> string \<Rightarrow> pod_spec" where
  "perses_pod_spec cfg p img =
     \<lparr>Pod_NodeSelector = Spec_NodeSelector (Spec p), Pod_Tolerations = Spec_Tolerations (Spec p),
      Pod_Affinity = Spec_Affinity (Spec p), Pod_SecurityContext = Some (GetPodSecurityContext p),
      Pod_Containers = [perses_container cfg p img], Pod_Volumes = GetVolumes p,
      Pod_RestartPolicy = ''Always'', Pod_DNSPolicy = ''ClusterFirst'',
      Pod_ServiceAccountName = nonempty_or_zero (Spec_ServiceAccountName (Spec p)),
      Pod_PriorityClassName = nonempty_or_zero (Spec_PriorityClassName (Spec p))\<rparr>"

text \<open>
  The annotations with the provisioning hash, written through the alias; then the image.
\<close>

definition workload_annotations :: "env \<Rightarrow> perses \<Rightarrow> error + (strmap \<times> perses)" where
  "workload_annotations E p =
     (case GetProvisioningHash E p of
        Inl err \<Rightarrow> Inl err
      | Inr hash \<Rightarrow>
          if hash \<noteq> []
          then (let m = mset_key PersesProvisioningVersion hash (base_annotations p) in Inr (m, alias_annotations p m))
          else Inr (base_annotations p, p))"

section \<open>Deployment\<close>

definition createPersesDeployment :: "env \<Rightarrow> config \<Rightarrow> perses \<Rightarrow> perses \<times> (error + deployment)" where
  "createPersesDeployment E cfg p =
     (let ls = LabelsForPerses E (Name p) p
      in case workload_annotations E p of
           Inl err \<Rightarrow> (p, Inl err)
         | Inr (annotations, p') \<Rightarrow>
             (p', case ImageForPerses p' (PersesImage cfg) of
                    Inl err \<Rightarrow> Inl err
                  | Inr img \<Rightarrow>
                      (let md = new_meta (Name p') (Namespace p') annotations ls;
                           spec = \<lparr>Deployment_Selector = ls, Deployment_Replicas = Spec_Replicas (Spec p'),
                                   Deployment_Template = \<lparr>Template_Annotations = Some annotations, Template_Labels = Some ls,
                                      Template_Spec = perses_pod_spec cfg p' img\<rparr>,
                                   Deployment_StrategyType = ''RollingUpdate'', Deployment_MaxUnavailable = ''25%'',
                                   Deployment_MaxSurge = ''25%''\<rparr>
                       in case setControllerReference E p' md of
                            Inl err \<Rightarrow> Inl err
                          | Inr owners \<Rightarrow>
                              Inr (object_meta.extend (md\<lparr>OwnerReferences := owners\<rparr>) (deployment.fields spec)))))"

definition reconcileDeployment :: "env \<Rightarrow> config \<Rightarrow> sub_result go" where
  "reconcileDeployment E cfg = do {
     ctx \<leftarrow> reads ctx_perses;
     case ctx of
       None \<Rightarrow> State_Monad.return not_in_context
     | Some p \<Rightarrow> do {
         let key = \<lparr>NN_Namespace = Namespace p, NN_Name = Name p\<rparr>;
         if \<not> RequiresDeployment p then do {
           found \<leftarrow> ask (\<lambda>h. getDeployment E h Cached key) (KGet Cached DeploymentKind key);
           case found of
             Inl _ \<Rightarrow> State_Monad.return ContinueReconciling
           | Inr existing \<Rightarrow> write_then E (KDelete (KDeployment existing)) ContinueReconciling
         } else do {
           found \<leftarrow> ask (\<lambda>h. getDeployment E h Cached key) (KGet Cached DeploymentKind key);
           case found of
              Inl err \<Rightarrow>
                if \<not> IsNotFound E err then State_Monad.return (RequeueWithError (Some err))
                else do {
                  let (p', dep) = createPersesDeployment E cfg p;
                  _ \<leftarrow> set_ctx p';
                  case dep of
                    Inl err2 \<Rightarrow> fail_define E p' ''Deployment'' err2
                  | Inr d \<Rightarrow> write_then E (KCreate (KDeployment d)) ContinueReconciling
                }
            | Inr existing \<Rightarrow> do {
                let (p', dep) = createPersesDeployment E cfg p;
                _ \<leftarrow> set_ctx p';
                case dep of
                  Inl err \<Rightarrow> State_Monad.return (RequeueWithError (Some err))
                | Inr d \<Rightarrow> do {
                    dry \<leftarrow> dry_update E (KDeployment d) (\<lambda>h. dryRunDeployment E h d);
                    case dry of
                      Inl err \<Rightarrow> State_Monad.return (RequeueWithError (Some err))
                    | Inr d' \<Rightarrow>
                        if \<not> DeepEqual_deployment_spec E (Deployment_Spec existing) (Deployment_Spec d')
                        then write_then E (KUpdate False (KDeployment d')) ContinueReconciling
                        else State_Monad.return ContinueReconciling
                  }
              }
         }
       }
   }"

section \<open>StatefulSet\<close>

definition ReadWriteOnce :: string where "ReadWriteOnce = ''ReadWriteOnce''"

definition default_claim :: pvc_spec where
  "default_claim = \<lparr>PVC_AccessModes = Some [ReadWriteOnce], PVC_StorageClassName = None,
     PVC_Requests = Some [(''storage'', ''1Gi'')], PVC_Rest = JNull\<rparr>"

definition storage_claim :: "perses \<Rightarrow> claim_template" where
  "storage_claim p =
     \<lparr>Claim_Name = StorageVolumeName,
      Claim_Spec =
        (case (case Spec_Storage (Spec p) of None \<Rightarrow> None | Some st \<Rightarrow> Storage_PersistentVolumeClaimTemplate st) of
           None \<Rightarrow> default_claim
         | Some t \<Rightarrow> (if PVC_AccessModes t = None then t\<lparr>PVC_AccessModes := Some [ReadWriteOnce]\<rparr> else t))\<rparr>"

definition createPersesStatefulSet :: "env \<Rightarrow> config \<Rightarrow> perses \<Rightarrow> perses \<times> (error + statefulset)" where
  "createPersesStatefulSet E cfg p =
     (let ls = LabelsForPerses E (Name p) p
      in case workload_annotations E p of
           Inl err \<Rightarrow> (p, Inl err)
         | Inr (annotations, p') \<Rightarrow>
             (p', case ImageForPerses p' (PersesImage cfg) of
                    Inl err \<Rightarrow> Inl err
                  | Inr img \<Rightarrow>
                      (let md = new_meta (Name p') (Namespace p') annotations ls;
                           spec = \<lparr>StatefulSet_Selector = ls, StatefulSet_Replicas = Spec_Replicas (Spec p'),
                                   StatefulSet_Template = \<lparr>Template_Annotations = Some annotations, Template_Labels = Some ls,
                                      Template_Spec = perses_pod_spec cfg p' img\<rparr>,
                                   StatefulSet_VolumeClaimTemplates = [storage_claim p']\<rparr>
                       in case setControllerReference E p' md of
                            Inl err \<Rightarrow> Inl err
                          | Inr owners \<Rightarrow>
                              Inr (object_meta.extend (md\<lparr>OwnerReferences := owners\<rparr>) (statefulset.fields spec)))))"

definition reconcileStatefulSet :: "env \<Rightarrow> config \<Rightarrow> sub_result go" where
  "reconcileStatefulSet E cfg = do {
     ctx \<leftarrow> reads ctx_perses;
     case ctx of
       None \<Rightarrow> State_Monad.return not_in_context
     | Some p \<Rightarrow> do {
         let key = \<lparr>NN_Namespace = Namespace p, NN_Name = Name p\<rparr>;
         if \<not> RequiresStatefulSet p then do {
           found \<leftarrow> ask (\<lambda>h. getStatefulSet E h Cached key) (KGet Cached StatefulSetKind key);
           case found of
             Inl _ \<Rightarrow> State_Monad.return ContinueReconciling
           | Inr existing \<Rightarrow> write_then E (KDelete (KStatefulSet existing)) ContinueReconciling
         } else do {
           found \<leftarrow> ask (\<lambda>h. getStatefulSet E h Cached key) (KGet Cached StatefulSetKind key);
           case found of
              Inl err \<Rightarrow>
                if \<not> IsNotFound E err then State_Monad.return (RequeueWithError (Some err))
                else do {
                  let (p', sts) = createPersesStatefulSet E cfg p;
                  _ \<leftarrow> set_ctx p';
                  case sts of
                    Inl err2 \<Rightarrow> fail_define E p' ''StatefulSet'' err2
                  | Inr s \<Rightarrow> write_then E (KCreate (KStatefulSet s)) (RequeueWithDelay time_Minute)
                }
            | Inr existing \<Rightarrow> do {
                let (p', sts) = createPersesStatefulSet E cfg p;
                _ \<leftarrow> set_ctx p';
                case sts of
                  Inl err \<Rightarrow> State_Monad.return (RequeueWithError (Some err))
                | Inr s \<Rightarrow> do {
                    dry \<leftarrow> dry_update E (KStatefulSet s) (\<lambda>h. dryRunStatefulSet E h s);
                    case dry of
                      Inl err \<Rightarrow> State_Monad.return (RequeueWithError (Some err))
                    | Inr s' \<Rightarrow>
                        if \<not> DeepEqual_statefulset_spec E (StatefulSet_Spec existing) (StatefulSet_Spec s')
                        then write_then E (KUpdate False (KStatefulSet s')) ContinueReconciling
                        else State_Monad.return ContinueReconciling
                  }
              }
         }
       }
   }"

end
