(* ===== verification/Contexts.thy ===== *)
theory Contexts
  imports ApiTypes
begin

text \<open>
  The values that \<open>Reconcile\<close> hands to its sub-reconcilers in the context: each child controller has a key type
  of its own, so that values of different controllers never meet, and gets its object back with a type assertion
  that may fail. (The context of the Perses controller carries a pointer; the object behind it is a field
  of the world, see theory \<open>World\<close>.)
\<close>

datatype context_key =
    DashboardContextKey string
  | DatasourceContextKey string
  | GlobalDatasourceContextKey string

datatype context_value =
    DashboardPointer persesdashboard
  | DatasourcePointer persesdatasource
  | GlobalDatasourcePointer persesglobaldatasource

text \<open>\<open>context.WithValue\<close> shadows, and \<open>Value\<close> finds the innermost value of a key.\<close>

type_synonym go_context = "context_key \<rightharpoonup> context_value"

definition background :: go_context where
  "background = Map.empty"

definition withDashboard :: "go_context \<Rightarrow> persesdashboard \<Rightarrow> go_context" where
  "withDashboard ctx db = ctx(DashboardContextKey ''dashboard'' \<mapsto> DashboardPointer db)"

definition dashboardFromContext :: "go_context \<Rightarrow> persesdashboard option" where
  "dashboardFromContext ctx =
     (case ctx (DashboardContextKey ''dashboard'') of Some (DashboardPointer db) \<Rightarrow> Some db | _ \<Rightarrow> None)"

definition withDatasource :: "go_context \<Rightarrow> persesdatasource \<Rightarrow> go_context" where
  "withDatasource ctx ds = ctx(DatasourceContextKey ''datasource'' \<mapsto> DatasourcePointer ds)"

definition datasourceFromContext :: "go_context \<Rightarrow> persesdatasource option" where
  "datasourceFromContext ctx =
     (case ctx (DatasourceContextKey ''datasource'') of Some (DatasourcePointer ds) \<Rightarrow> Some ds | _ \<Rightarrow> None)"

definition withGlobalDatasource :: "go_context \<Rightarrow> persesglobaldatasource \<Rightarrow> go_context" where
  "withGlobalDatasource ctx gds = ctx(GlobalDatasourceContextKey ''globaldatasource'' \<mapsto> GlobalDatasourcePointer gds)"

definition globalDatasourceFromContext :: "go_context \<Rightarrow> persesglobaldatasource option" where
  "globalDatasourceFromContext ctx =
     (case ctx (GlobalDatasourceContextKey ''globaldatasource'') of Some (GlobalDatasourcePointer gds) \<Rightarrow> Some gds | _ \<Rightarrow> None)"

lemmas context_defs = background_def withDashboard_def dashboardFromContext_def withDatasource_def datasourceFromContext_def
  withGlobalDatasource_def globalDatasourceFromContext_def

lemma context_round_trip [simp]:
  "dashboardFromContext (withDashboard ctx db) = Some db"
  "datasourceFromContext (withDatasource ctx ds) = Some ds"
  "globalDatasourceFromContext (withGlobalDatasource ctx gds) = Some gds"
  by (simp_all add: context_defs)

text \<open>The keys do not interfere.\<close>

lemma context_independent [simp]:
  "dashboardFromContext (withDatasource ctx ds) = dashboardFromContext ctx"
  "dashboardFromContext (withGlobalDatasource ctx gds) = dashboardFromContext ctx"
  "datasourceFromContext (withDashboard ctx db) = datasourceFromContext ctx"
  "datasourceFromContext (withGlobalDatasource ctx gds) = datasourceFromContext ctx"
  "globalDatasourceFromContext (withDashboard ctx db) = globalDatasourceFromContext ctx"
  "globalDatasourceFromContext (withDatasource ctx ds) = globalDatasourceFromContext ctx"
  by (simp_all add: context_defs)

end
