(* ===== verification/ChildSync.thy ===== *)
theory ChildSync
  imports LogDiscipline Subreconciler Contexts
begin

text \<open>
  What the three child controllers (dashboards, datasources, global datasources) share: the loops
  over the Perses instances, the project of a namespace, the block of \<open>Reconcile\<close> that records the
  outcome, and, as locales, the contracts between a controller's parts, with the lemmas that follow
  from them for every such controller.
\<close>

section \<open>Shared pieces of the controllers\<close>

text \<open>\<open>persesv1.Project\<close> for a namespace: created when the server does not know it.\<close>

definition ensure_project :: "env \<Rightarrow> v1_client \<Rightarrow> string \<Rightarrow> (error option) go" where
  "ensure_project E c ns = do {
     r \<leftarrow> exec E (PGet c PProject [] ns);
     case r of
       None \<Rightarrow> State_Monad.return None
     | Some err \<Rightarrow>
         if IsRequestNotFound E err then
           exec E (PCreate c PProject [] (ObjProject
             \<lparr>Project_Kind = ''Project'', Project_Name = ns, Project_Display_Name = ns\<rparr>))
         else State_Monad.return (Some err)
   }"

text \<open>
  \<open>for _, persesInstance := range persesInstances.Items\<close> of the reconciliation: an instance that is
  not available is skipped; the first instance whose synchronisation halts ends the loop.
\<close>

fun sync_instances :: "env \<Rightarrow> (perses \<Rightarrow> sync_result go) \<Rightarrow> string \<Rightarrow> perses list \<Rightarrow> (sync_result option) go" where
  "sync_instances E sync ty [] = State_Monad.return None"
| "sync_instances E sync ty (p # ps) =
     (if \<not> IsStatusConditionTrue E (Status_Conditions (Status p)) ty then sync_instances E sync ty ps
      else do {
        (res, reason, err) \<leftarrow> sync p;
        if ShouldHaltOrRequeue res err then State_Monad.return (Some (res, reason, err))
        else sync_instances E sync ty ps
      })"

text \<open>The same loop of the deletion: every instance is visited.\<close>

fun delete_instances :: "(perses \<Rightarrow> sub_result go) \<Rightarrow> perses list \<Rightarrow> sub_result go" where
  "delete_instances del [] = State_Monad.return DoNotRequeue"
| "delete_instances del (p # ps) = do {
     (r, err) \<leftarrow> del p;
     if ShouldHaltOrRequeue r err then State_Monad.return (r, err)
     else delete_instances del ps
   }"

text \<open>The blocks ``Track reconciliation status'' and ``Track metrics'' of every \<open>Reconcile\<close>.\<close>

definition track_outcome :: "string \<Rightarrow> string \<Rightarrow> string \<Rightarrow> string \<Rightarrow> string \<Rightarrow> error option \<Rightarrow> unit go" where
  "track_outcome controller resource namespace message objKey reconcileErr = do {
     _ \<leftarrow> if_tracker (\<lambda>rt.
            let rt = SetStatus objKey reconcileErr rt
            in if reconcileErr = None
               then SetReasonAndMessage objKey ''ReconciliationSuccessful'' message rt else rt);
     case reconcileErr of
       Some e \<Rightarrow>
         if_metrics [PromInc ReconcileErrors (the (Metrics_ReconcileErrors controller (ExtractReason (Some e) ''reconciliation_failed'')))]
           (SetFailedResources objKey resource namespace 1)
     | None \<Rightarrow> if_metrics [] (SetSyncedResources objKey resource namespace 1)
   }"

text \<open>The object is gone: its entries in the tables are dropped.\<close>

definition forget_object :: "string \<Rightarrow> unit go" where
  "forget_object objKey = do {
     _ \<leftarrow> if_tracker (Tracker_ForgetObject objKey);
     if_metrics [] (Metrics_ForgetObject objKey)
   }"

section \<open>Contracts\<close>

text \<open>
  The synchronisation of one object with one instance: it continues with no error, or it fails with
  an error and a reason, and asks for no delay. When it continues, the instance has the object
  (\<open>has\<close>), which later calls cannot undo in the log. \<open>inv\<close> is the invariant of the client cache.
\<close>

definition sync_ok :: "sync_result \<Rightarrow> bool" where
  "sync_ok r \<longleftrightarrow> r = (None, [], None) \<or>
     (\<exists>reason e. r = (Some Result_zero, reason, Some e) \<and> reason \<noteq> [])"

definition sync_end :: "sync_result option \<Rightarrow> bool" where
  "sync_end r = (case r of None \<Rightarrow> True
     | Some (res, reason, err) \<Rightarrow> res = Some Result_zero \<and> reason \<noteq> [] \<and> err \<noteq> None)"

locale instance_sync =
  fixes E :: env and inv :: "world \<Rightarrow> bool" and sync :: "perses \<Rightarrow> sync_result go"
    and has :: "perses \<Rightarrow> call list \<Rightarrow> bool"
  assumes sync_spec: "inv w \<Longrightarrow> wp (sync p)
      (\<lambda>r w'. inv w' \<and> (\<exists>cs. calls w' = cs @ calls w) \<and> sync_ok r \<and> (fst r = None \<longrightarrow> has p (calls w'))) w"
    and has_mono: "has p h \<Longrightarrow> has p (cs @ h)"
    and sync_log: "along (keeps_log E) (sync p)"
begin

lemma sync_instances_log: "along (keeps_log E) (sync_instances E sync ty ps)"
  by (induction ps) (auto intro!: along_intros sync_log)

text \<open>
  The loop ends normally, and then every available instance has the object, or with the failure of
  one instance, which carries an error and its reason.
\<close>

lemma sync_instances_spec:
  assumes "inv w"
  shows "wp (sync_instances E sync ty ps)
    (\<lambda>r w'. inv w' \<and> (\<exists>cs. calls w' = cs @ calls w) \<and> sync_end r \<and>
       (r = None \<longrightarrow> (\<forall>p \<in> set ps. IsStatusConditionTrue E (Status_Conditions (Status p)) ty \<longrightarrow> has p (calls w')))) w"
  using assms
proof (induction ps arbitrary: w)
  case Nil
  then show ?case by (simp add: wp_simps sync_end_def)
next
  case (Cons p ps)
  let ?Q = "\<lambda>w ps r w'. inv w' \<and> (\<exists>cs. calls w' = cs @ calls w) \<and> sync_end r \<and>
       (r = None \<longrightarrow> (\<forall>p \<in> set ps. IsStatusConditionTrue E (Status_Conditions (Status p)) ty \<longrightarrow> has p (calls w')))"
  show ?case
  proof (cases "IsStatusConditionTrue E (Status_Conditions (Status p)) ty")
    case False
    have "wp (sync_instances E sync ty ps) (?Q w (p # ps)) w"
      using Cons.IH [OF Cons.prems] by (rule wp_mono) (use False in auto)
    with False show ?thesis by simp
  next
    case True
    have "wp (sync p) (\<lambda>r w'. case r of (res, reason, err) \<Rightarrow> wp
        (if ShouldHaltOrRequeue res err then State_Monad.return (Some (res, reason, err))
         else sync_instances E sync ty ps) (?Q w (p # ps)) w') w"
      using sync_spec [OF Cons.prems, of p]
    proof (rule wp_mono)
      fix r w'
      assume r: "inv w' \<and> (\<exists>cs. calls w' = cs @ calls w) \<and> sync_ok r \<and> (fst r = None \<longrightarrow> has p (calls w'))"
      then consider (go) "r = (None, [], None)" "has p (calls w')"
        | (stop) reason e where "r = (Some Result_zero, reason, Some e)" "reason \<noteq> []"
        by (auto simp: sync_ok_def)
      then show "case r of (res, reason, err) \<Rightarrow> wp
        (if ShouldHaltOrRequeue res err then State_Monad.return (Some (res, reason, err))
         else sync_instances E sync ty ps) (?Q w (p # ps)) w'"
      proof cases
        case go
        have "wp (sync_instances E sync ty ps) (?Q w (p # ps)) w'"
          using Cons.IH [OF conjunct1 [OF r]] by (rule wp_mono) (use r go has_mono in auto)
        with go show ?thesis by simp
      next
        case stop
        with r show ?thesis by (simp add: wp_simps sync_end_def)
      qed
    qed
    with True show ?thesis by (simp add: wp_simps case_prod_unfold)
  qed
qed

text \<open>Instances that are not available are not contacted at all.\<close>

lemma sync_instances_none_available:
  assumes "\<And>p. p \<in> set ps \<Longrightarrow> \<not> IsStatusConditionTrue E (Status_Conditions (Status p)) ty"
  shows "sync_instances E sync ty ps = State_Monad.return None"
  using assms by (induction ps) auto

end

text \<open>The deletion in one instance continues, or fails with an error.\<close>

definition delete_ok :: "sub_result \<Rightarrow> bool" where
  "delete_ok r \<longleftrightarrow> r = ContinueReconciling \<or> (\<exists>e. r = RequeueWithError (Some e))"

locale instance_delete =
  fixes del :: "perses \<Rightarrow> sub_result go" and allowed :: "call \<Rightarrow> bool"
  assumes del_result: "wp (del p) (\<lambda>r _. delete_ok r) w"
    and del_calls: "emits allowed (del p)"
begin

lemma delete_instances_result:
  "wp (delete_instances del ps) (\<lambda>r _. r = DoNotRequeue \<or> (\<exists>e. r = RequeueWithError (Some e))) w"
proof (induction ps arbitrary: w)
  case Nil
  then show ?case by (simp add: wp_simps)
next
  case (Cons p ps)
  have "wp (del p) (\<lambda>r. case r of (x, err) \<Rightarrow> wp
      (if ShouldHaltOrRequeue x err then State_Monad.return (x, err) else delete_instances del ps)
      (\<lambda>r _. r = DoNotRequeue \<or> (\<exists>e. r = RequeueWithError (Some e)))) w"
    using del_result
    by (rule wp_mono) (auto simp: delete_ok_def wp_simps ContinueReconciling_def RequeueWithError_def
        Cons [unfolded RequeueWithError_def])
  then show ?case by (simp add: wp_simps case_prod_unfold)
qed

lemma delete_instances_calls: "emits allowed (delete_instances del ps)"
  by (induction ps) (auto intro!: along_intros del_calls)

end

section \<open>Lemmas\<close>

lemma sync_ok_fail [simp]: "reason \<noteq> [] \<Longrightarrow> sync_ok (RequeueWithErrorAndReason (Some e) reason)"
  by (simp add: sync_ok_def go_def)

lemma reason_nonempty [simp]:
  "ReasonMissingPerses \<noteq> []" "ReasonConnectionFailed \<noteq> []" "ReasonInvalidConfiguration \<noteq> []"
  "ReasonMissingResource \<noteq> []" "ReasonValidationFailed \<noteq> []" "ReasonBackendError \<noteq> []"
  by (simp_all add: go_const)

lemma along_ensure_project: "along (keeps_log E) (ensure_project E c ns)"
  unfolding ensure_project_def by (auto intro!: along_intros keeps_log_call)

text \<open>
  Shared first half of the three synchronisations: the client of the instance, then the rest.
\<close>

definition has_entity :: "env \<Rightarrow> pkind \<Rightarrow> string \<Rightarrow> p_entity \<Rightarrow> perses \<Rightarrow> call list \<Rightarrow> bool" where
  "has_entity E k ns e p h \<longleftrightarrow>
     (\<exists>c. made_for E (ns_name p) (configFingerprint E p) c \<and> pushed E c k ns e h)"

definition sync_post :: "env \<Rightarrow> (call list \<Rightarrow> bool) \<Rightarrow> world \<Rightarrow> sync_result \<Rightarrow> world \<Rightarrow> bool" where
  "sync_post E has w r w' \<longleftrightarrow>
     factory_ok E w' \<and> (\<exists>cs. calls w' = cs @ calls w) \<and> sync_ok r \<and> (fst r = None \<longrightarrow> has (calls w'))"

lemma has_entity_mono: "has_entity E k ns e p h \<Longrightarrow> has_entity E k ns e p (cs @ h)"
  by (auto simp: has_entity_def intro: pushed_append)

lemma sync_post_fail:
  "factory_ok E w \<Longrightarrow> reason \<noteq> [] \<Longrightarrow>
     sync_post E has w (RequeueWithErrorAndReason (Some err) reason) (w\<lparr>calls := cs @ calls w\<rparr>)"
  by (simp add: sync_post_def factory_ok_def)
    (simp add: RequeueWithErrorAndReason_def RequeueWithError_def)

lemma sync_post_done:
  "factory_ok E w \<Longrightarrow> has (cs @ calls w) \<Longrightarrow> sync_post E has w (None, [], None) (w\<lparr>calls := cs @ calls w\<rparr>)"
  by (simp add: sync_post_def factory_ok_def sync_ok_def)

lemma sync_post_later:
  assumes "wp m (sync_post E has (w\<lparr>calls := cs @ calls w\<rparr>)) (w\<lparr>calls := cs @ calls w\<rparr>)"
  shows "wp m (sync_post E has w) (w\<lparr>calls := cs @ calls w\<rparr>)"
  using assms by (rule wp_mono) (auto simp: sync_post_def)

lemmas sync_post_later1 = sync_post_later [where cs = "[c]" for c, simplified]
lemmas sync_post_fail1 = sync_post_fail [where cs = "[c]" for c, simplified]
lemmas sync_post_done1 = sync_post_done [where cs = "[c]" for c, simplified]
lemmas sync_post_later2 = sync_post_later [where cs = "[c, c']" for c c', simplified]
lemmas sync_post_fail2 = sync_post_fail [where cs = "[c, c']" for c c', simplified]
lemmas sync_post_done2 = sync_post_done [where cs = "[c, c']" for c c', simplified]

lemma factory_ok_calls [simp]: "factory_ok E (w\<lparr>calls := cs\<rparr>) = factory_ok E w"
  by (simp add: factory_ok_def)

text \<open>The project of the namespace comes before the entity.\<close>

lemma wp_with_project:
  assumes "factory_ok E w" and "\<And>w'. factory_ok E w' \<Longrightarrow> wp rest (sync_post E has w') w'"
  shows "wp (do {
       perr \<leftarrow> ensure_project E c ns;
       case perr of
         Some err \<Rightarrow> State_Monad.return (RequeueWithErrorAndReason (Some err) ReasonBackendError)
       | None \<Rightarrow> rest
     }) (sync_post E has w) w"
  using assms unfolding ensure_project_def
  by (auto simp: wp_simps sync_post_fail1 sync_post_fail2 intro!: sync_post_later1 sync_post_later2
      split: option.splits)

lemma wp_with_client:
  assumes "factory_ok E w"
    and "\<And>c w'. factory_ok E w' \<Longrightarrow> made_for E (ns_name p) (configFingerprint E p) c \<Longrightarrow>
           wp (rest c) (sync_post E (has_entity E k ns e p) w') w'"
  shows "wp (do {
       cl \<leftarrow> CreateClient E APIReader p;
       case cl of
         Inl err \<Rightarrow> State_Monad.return (RequeueWithErrorAndReason (Some err) ReasonConnectionFailed)
       | Inr c \<Rightarrow> rest c
     }) (sync_post E (has_entity E k ns e p) w) w"
proof -
  have "wp (CreateClient E APIReader p) (\<lambda>r w'. (factory_ok E w' \<and>
      (\<forall>c. r = Inr c \<longrightarrow> made_for E (ns_name p) (configFingerprint E p) c)) \<and> only_adds factory_call w w') w"
    using wp_CreateClient [OF assms(1)] alongD [OF emits_CreateClient] by (simp add: wp_conj)
  then have "wp (CreateClient E APIReader p) (\<lambda>r. wp (case r of
         Inl err \<Rightarrow> State_Monad.return (RequeueWithErrorAndReason (Some err) ReasonConnectionFailed)
       | Inr c \<Rightarrow> rest c) (sync_post E (has_entity E k ns e p) w)) w"
  proof (rule wp_mono)
    fix r :: "error + v1_client" and w'
    assume r: "(factory_ok E w' \<and> (\<forall>c. r = Inr c \<longrightarrow> made_for E (ns_name p) (configFingerprint E p) c)) \<and>
        only_adds factory_call w w'"
    show "wp (case r of
         Inl err \<Rightarrow> State_Monad.return (RequeueWithErrorAndReason (Some err) ReasonConnectionFailed)
       | Inr c \<Rightarrow> rest c) (sync_post E (has_entity E k ns e p) w) w'"
    proof (cases r)
      case (Inl err)
      with r show ?thesis
        by (auto simp: wp_simps sync_post_def only_adds_def RequeueWithErrorAndReason_def
            RequeueWithError_def sync_ok_def)
    next
      case (Inr c)
      with r have "wp (rest c) (sync_post E (has_entity E k ns e p) w') w'" by (intro assms(2)) auto
      then have "wp (rest c) (sync_post E (has_entity E k ns e p) w) w'"
        by (rule wp_mono) (use r in \<open>auto simp: sync_post_def only_adds_def\<close>)
      with Inr show ?thesis by simp
    qed
  qed
  then show ?thesis by (simp add: wp_simps)
qed

section \<open>Recording the outcome\<close>

text \<open>
  What \<open>track_outcome\<close> leaves behind: in the tracker the error (or the success message), in the
  metrics a count of one for the outcome.
\<close>

definition outcome_recorded :: "string \<Rightarrow> string \<Rightarrow> string \<Rightarrow> error option \<Rightarrow> world \<Rightarrow> bool" where
  "outcome_recorded objKey resource namespace err w \<longleftrightarrow>
     (\<forall>rt. w_tracker w = Some rt \<longrightarrow>
        (case tracked rt objKey of None \<Rightarrow> False
         | Some rs \<Rightarrow> RS_err rs = err \<and> (err = None \<longrightarrow> RS_Reason rs = ''ReconciliationSuccessful''))) \<and>
     (\<forall>m. w_metrics w = Some m \<longrightarrow>
        count_of m \<lparr>RKey_resource = resource,
                    RKey_state = (if err = None then synced else failed),
                    RKey_namespace = namespace\<rparr> objKey = Some 1)"

definition tables_ok :: "world \<Rightarrow> bool" where
  "tables_ok w \<longleftrightarrow> (\<forall>rt. w_tracker w = Some rt \<longrightarrow> tracker_inv rt) \<and> (\<forall>m. w_metrics w = Some m \<longrightarrow> metrics_inv m)"

lemma wp_track_outcome:
  assumes "tables_ok w"
  shows "wp (track_outcome controller resource namespace msg objKey err)
    (\<lambda>_ w'. outcome_recorded objKey resource namespace err w' \<and> tables_ok w') w"
  using assms unfolding track_outcome_def if_tracker_def if_metrics_def
  by (auto simp: wp_simps outcome_recorded_def tables_ok_def Let_def SetStatus_modify
      SetReasonAndMessage_modify tr.lookup_modify tr.inv_modify RS_Reason_def RS_Ok_def
      SetSyncedResources_def SetFailedResources_def mt.count_store mt.inv_store
      split: option.splits)

lemma along_track_outcome: "along (keeps_log E) (track_outcome controller resource namespace msg objKey err)"
  unfolding along_def track_outcome_def if_tracker_def if_metrics_def
  by (auto simp: wp_simps keeps_log_def split: option.splits)

lemma along_forget_object: "along (keeps_log E) (forget_object objKey)"
  unfolding along_def forget_object_def if_tracker_def if_metrics_def
  by (auto simp: wp_simps keeps_log_def split: option.splits)

lemma along_if_metrics: "list_all free cs \<Longrightarrow> along (keeps_log E) (if_metrics cs f)"
  unfolding along_def if_metrics_def
  by (auto simp: wp_simps keeps_log_def intro!: log_ok_free split: option.splits)

lemma emits_sync_instances: "(\<And>p. emits P (sync p)) \<Longrightarrow> emits P (sync_instances E sync ty ps)"
  by (induction ps) (auto intro!: along_intros)

lemma along_run_subreconcilers:
  "(\<And>f. f \<in> set fs \<Longrightarrow> along (keeps_log E) f) \<Longrightarrow> along (keeps_log E) (run_subreconcilers fs)"
  by (induction fs) (auto simp: run_subreconcilers.simps intro!: along_intros)

text \<open>The calls of a status update.\<close>

fun status_call :: "call \<Rightarrow> bool" where
  "status_call (KGet rd k key) = served_whole rd k"
| "status_call ONow = True"
| "status_call (KStatusUpdate ob) = True"
| "status_call _ = False"

lemma status_call_free: "status_call c \<Longrightarrow> free c"
  by (cases c) auto

lemma status_call_silent: "status_call c \<Longrightarrow> silent c"
  by (cases c) auto

lemma emits_free_status: "emits status_call m \<Longrightarrow> emits free m"
  by (erule emits_mono) (rule status_call_free)

text \<open>The log when \<open>Reconcile\<close> reads its object: the counter of operations was incremented, if any.\<close>

definition started :: "string \<Rightarrow> world \<Rightarrow> call list" where
  "started controller w =
     (case w_metrics w of None \<Rightarrow> calls w | Some _ \<Rightarrow> PromInc ReconcileOperations (the (Metrics_ReconcileOperations controller)) # calls w)"

lemma wp_count_operation:
  "wp (if_metrics [PromInc ReconcileOperations (the (Metrics_ReconcileOperations controller))] (\<lambda>m. m)) Q w =
     Q () (w\<lparr>calls := started controller w\<rparr>)"
  by (cases w) (simp add: if_metrics_def wp_simps started_def split: option.splits)

text \<open>
  The tail of \<open>Reconcile\<close>: the chain of sub-reconcilers, then the record of the outcome, then the
  result, which is never a \<open>nil\<close> dereference and never asks for a delay.
\<close>

lemma tables_ok_same: "same_tables w w' \<Longrightarrow> tables_ok w' = tables_ok w"
  by (simp add: same_tables_def tables_ok_def)

lemma wp_reconcile_tail:
  assumes "tables_ok w" and "\<And>f. f \<in> set fs \<Longrightarrow> along same_tables f"
  shows "wp (do {
      err \<leftarrow> run_subreconcilers fs;
      _ \<leftarrow> track_outcome controller resource namespace msg objKey err;
      State_Monad.return (case err of
          Some e \<Rightarrow> Evaluate (RequeueWithError (Some e)) | None \<Rightarrow> Evaluate DoNotRequeue)
    }) (\<lambda>r w'. \<exists>err. r = Some (Result_zero, err) \<and> outcome_recorded objKey resource namespace err w' \<and> tables_ok w') w"
proof -
  have "along same_tables (run_subreconcilers fs)"
    using assms(2) by (induction fs) (auto simp: run_subreconcilers.simps intro!: along_intros)
  then have "wp (run_subreconcilers fs) (\<lambda>err w'. same_tables w w') w" by (rule alongD)
  then have "wp (run_subreconcilers fs) (\<lambda>err. wp (do {
      _ \<leftarrow> track_outcome controller resource namespace msg objKey err;
      State_Monad.return (case err of
          Some e \<Rightarrow> Evaluate (RequeueWithError (Some e)) | None \<Rightarrow> Evaluate DoNotRequeue)
    }) (\<lambda>r w'. \<exists>err. r = Some (Result_zero, err) \<and> outcome_recorded objKey resource namespace err w' \<and> tables_ok w')) w"
  proof (rule wp_mono)
    fix err w'
    assume "same_tables w w'"
    with assms(1) have t: "tables_ok w'" by (simp add: tables_ok_same)
    show "wp (do {
      _ \<leftarrow> track_outcome controller resource namespace msg objKey err;
      State_Monad.return (case err of
          Some e \<Rightarrow> Evaluate (RequeueWithError (Some e)) | None \<Rightarrow> Evaluate DoNotRequeue)
    }) (\<lambda>r w'. \<exists>err. r = Some (Result_zero, err) \<and> outcome_recorded objKey resource namespace err w' \<and> tables_ok w') w'"
      unfolding wp_bind using wp_track_outcome [OF t]
      by (rule wp_mono) (auto simp: wp_simps split: option.splits)
  qed
  then show ?thesis by (simp add: wp_bind)
qed

text \<open>The calls of a deletion: only deletes of the given kinds change anything.\<close>

fun child_delete_call :: "pkind set \<Rightarrow> call \<Rightarrow> bool" where
  "child_delete_call ks (PDelete c k ns n) = (k \<in> ks)"
| "child_delete_call ks (PGet c k ns n) = (k = PProject)"
| "child_delete_call ks (KList sc) = True"
| "child_delete_call ks c = factory_call c"

lemma child_delete_call_factory: "factory_call c \<Longrightarrow> child_delete_call ks c"
  by (cases c) auto

lemma child_delete_call_mono: "child_delete_call ks c \<Longrightarrow> ks \<subseteq> ks' \<Longrightarrow> child_delete_call ks' c"
  by (cases c) auto

lemma child_delete_call_silent: "child_delete_call ks c \<Longrightarrow> silent c"
  by (cases c) auto

lemma child_delete_call_free: "child_delete_call ks c \<Longrightarrow> free c"
  by (cases c) auto

section \<open>The controllers\<close>

text \<open>
  After the list of the instances was read: an error and an empty list degrade the object, and so
  does the first instance that fails. \<open>degraded\<close> passes its error on, with its reason, unless the
  status update itself fails.
\<close>

definition degraded_ok :: "ctrl_result option \<Rightarrow> string \<Rightarrow> error \<Rightarrow> sub_result \<Rightarrow> bool" where
  "degraded_ok res reason e r \<longleftrightarrow>
     r = (res, Some (NewReasonError e reason)) \<or> (\<exists>e'. r = RequeueWithError (Some e'))"

definition all_have :: "env \<Rightarrow> (perses \<Rightarrow> call list \<Rightarrow> bool) \<Rightarrow> perses list \<Rightarrow> call list \<Rightarrow> bool" where
  "all_have E has items h \<longleftrightarrow>
     (\<forall>p \<in> set items. IsStatusConditionTrue E (Status_Conditions (Status p)) TypeAvailablePerses \<longrightarrow> has p h)"

locale listed_sync = instance_sync +
  fixes degraded :: "ctrl_result option \<Rightarrow> string \<Rightarrow> error option \<Rightarrow> sub_result go"
    and listed :: "error + perses list \<Rightarrow> sub_result go"
  assumes degraded_result: "wp (degraded res reason (Some e)) (\<lambda>r _. degraded_ok res reason e r) w"
    and degraded_calls: "retry_law E \<Longrightarrow> emits status_call (degraded res reason err)"
    and listed_eq: "listed instances =
      (case instances of
         Inl err \<Rightarrow> degraded (Some Result_zero) ReasonMissingPerses (Some err)
       | Inr items \<Rightarrow>
           if items = [] then
             degraded (Some \<lparr>RequeueAfter = time_Minute\<rparr>) ReasonMissingPerses
               (Some (errorf ''no Perses instances found matching the label selector''))
           else do {
             r \<leftarrow> sync_instances E sync TypeAvailablePerses items;
             case r of
               Some (res, reason, err) \<Rightarrow> degraded res reason err
             | None \<Rightarrow> State_Monad.return ContinueReconciling
           })"
begin

lemma degraded_halts:
  "wp (degraded (Some x) reason (Some e)) (\<lambda>r _. r \<noteq> ContinueReconciling) w"
  by (rule wp_mono [OF degraded_result]) (auto simp: degraded_ok_def go_def)

lemma listed_spec:
  assumes "inv w"
  shows "wp (listed instances)
    (\<lambda>r w'. r = ContinueReconciling \<longrightarrow>
       (\<exists>items. instances = Inr items \<and> items \<noteq> [] \<and> all_have E has items (calls w'))) w"
proof (cases instances)
  case (Inl err)
  then show ?thesis unfolding listed_eq by (simp add: degraded_halts)
next
  case (Inr items)
  show ?thesis
  proof (cases "items = []")
    case True
    with Inr show ?thesis unfolding listed_eq by (simp add: degraded_halts)
  next
    case False
    have "wp (sync_instances E sync TypeAvailablePerses items) (\<lambda>r. wp (case r of
        Some (res, reason, err) \<Rightarrow> degraded res reason err | None \<Rightarrow> State_Monad.return ContinueReconciling)
      (\<lambda>r w'. r = ContinueReconciling \<longrightarrow> all_have E has items (calls w'))) w"
      by (rule wp_mono [OF sync_instances_spec [OF assms]])
        (auto simp: wp_simps sync_end_def all_have_def split: option.splits intro!: wp_mono [OF degraded_halts])
    with Inr False show ?thesis unfolding listed_eq by (simp add: wp_bind)
  qed
qed

lemma listed_log:
  assumes "retry_law E"
  shows "along (keeps_log E) (listed instances)"
proof -
  have "along (keeps_log E) (degraded res reason err)" for res reason err
    by (rule along_keeps_log [OF emits_free_status [OF degraded_calls [OF assms]]])
  then show ?thesis
    unfolding listed_eq by (auto intro!: along_intros sync_instances_log)
qed

end

text \<open>
  \<open>Reconcile\<close> of a child object: read it; when it is gone, forget it and delete it everywhere; else
  run the three sub-reconcilers and record the outcome.
\<close>

locale child_controller =
  fixes E :: env and K :: kind and controller resource message :: string
    and rns :: "namespaced_name \<Rightarrow> string"
    and get :: "call list \<Rightarrow> namespaced_name \<Rightarrow> error + 'o"
    and unknown all complete :: "'o \<Rightarrow> namespaced_name \<Rightarrow> sub_result go"
    and delete_all :: "namespaced_name \<Rightarrow> sub_result go"
    and Reconcile :: "namespaced_name \<Rightarrow> ((ctrl_result \<times> error option) option) go"
  assumes Reconcile_eq: "Reconcile req = do {
       _ \<leftarrow> if_metrics [PromInc ReconcileOperations (the (Metrics_ReconcileOperations controller))] (\<lambda>m. m);
       r \<leftarrow> ask (\<lambda>h. get h req) (KGet APIReader K req);
       case r of
         Inl err \<Rightarrow>
           if IsNotFound E err then do {
             _ \<leftarrow> forget_object (NamespacedName_String E req);
             res \<leftarrow> delete_all req;
             State_Monad.return (Evaluate res)
           } else do {
             _ \<leftarrow> if_metrics [PromInc ReconcileErrors (the (Metrics_ReconcileErrors controller ''get_failed''))] (\<lambda>m. m);
             State_Monad.return (Evaluate (RequeueWithError (Some err)))
           }
       | Inr ob \<Rightarrow> do {
           err \<leftarrow> run_subreconcilers [unknown ob req, all ob req, complete ob req];
           _ \<leftarrow> track_outcome controller resource (rns req) message (NamespacedName_String E req) err;
           State_Monad.return (case err of
               Some e \<Rightarrow> Evaluate (RequeueWithError (Some e)) | None \<Rightarrow> Evaluate DoNotRequeue)
         }
     }"
    and delete_result: "wp (delete_all req) (\<lambda>r _. r = DoNotRequeue \<or> (\<exists>e. r = RequeueWithError (Some e))) w"
    and delete_calls: "emits (child_delete_call UNIV) (delete_all req)"
    and unknown_calls: "retry_law E \<Longrightarrow> emits status_call (unknown ob req)"
    and complete_calls: "retry_law E \<Longrightarrow> emits status_call (complete ob req)"
    and all_calls: "retry_law E \<Longrightarrow> emits silent (all ob req)"
    and all_log: "retry_law E \<Longrightarrow> along (keeps_log E) (all ob req)"
begin

lemma Reconcile_log:
  assumes "retry_law E"
  shows "along (keeps_log E) (Reconcile req)"
  unfolding Reconcile_eq
  by (auto intro!: along_intros keeps_log_call along_if_metrics along_forget_object along_track_outcome
      along_run_subreconcilers all_log [OF assms]
      along_keeps_log [OF emits_mono [OF delete_calls child_delete_call_free]]
      along_keeps_log [OF emits_free_status [OF unknown_calls [OF assms]]]
      along_keeps_log [OF emits_free_status [OF complete_calls [OF assms]]])

lemma Reconcile_disciplined:
  assumes "retry_law E" and "log_ok E (calls w)"
  shows "wp (Reconcile req) (\<lambda>_ w'. log_ok E (calls w')) w"
  using alongD [OF Reconcile_log [OF assms(1)]]
  by (rule wp_mono) (use assms(2) in \<open>simp add: keeps_log_def\<close>)

lemma Reconcile_found:
  assumes "get (started controller w) req = Inr ob"
  shows "wp (Reconcile req) Q w =
    wp (do {
      err \<leftarrow> run_subreconcilers [unknown ob req, all ob req, complete ob req];
      _ \<leftarrow> track_outcome controller resource (rns req) message (NamespacedName_String E req) err;
      State_Monad.return (case err of
          Some e \<Rightarrow> Evaluate (RequeueWithError (Some e)) | None \<Rightarrow> Evaluate DoNotRequeue)
    }) Q (w\<lparr>calls := KGet APIReader K req # started controller w\<rparr>)"
  using assms by (simp add: Reconcile_eq wp_bind wp_count_operation wp_ask)

lemma Reconcile_gone:
  assumes "get (started controller w) req = Inl err" and "IsNotFound E err"
  shows "wp (Reconcile req) Q w =
    wp (do {
      _ \<leftarrow> forget_object (NamespacedName_String E req);
      res \<leftarrow> delete_all req;
      State_Monad.return (Evaluate res)
    }) Q (w\<lparr>calls := KGet APIReader K req # started controller w\<rparr>)"
  using assms by (simp add: Reconcile_eq wp_bind wp_count_operation wp_ask)

lemma Reconcile_returns: "wp (Reconcile req) (\<lambda>r _. \<exists>err. r = Some (Result_zero, err)) w"
proof (cases "get (started controller w) req")
  case (Inl err)
  show ?thesis
  proof (cases "IsNotFound E err")
    case True
    have "wp (delete_all req) (\<lambda>r _. \<exists>err. Evaluate r = Some (Result_zero, err)) w'" for w'
      by (rule wp_mono [OF delete_result]) auto
    note del = this
    show ?thesis
      unfolding Reconcile_gone [OF Inl True] wp_bind by (rule wp_any) (simp add: wp_return del)
  next
    case False
    with Inl show ?thesis by (simp add: Reconcile_eq wp_bind wp_count_operation wp_ask wp_return wp_any)
  qed
next
  case (Inr ob)
  show ?thesis
    unfolding Reconcile_found [OF Inr] wp_bind
    by (rule wp_any, rule wp_any) (auto simp: wp_return split: option.splits)
qed

lemma Reconcile_records_outcome:
  assumes "retry_law E" and "tables_ok w" and "get (started controller w) req = Inr ob"
  shows "wp (Reconcile req)
    (\<lambda>r w'. \<exists>err. r = Some (Result_zero, err) \<and>
       outcome_recorded (NamespacedName_String E req) resource (rns req) err w') w"
proof -
  have t: "tables_ok (w\<lparr>calls := KGet APIReader K req # started controller w\<rparr>)"
    using assms(2) by (simp add: tables_ok_def)
  have "along same_tables f" if "f \<in> set [unknown ob req, all ob req, complete ob req]" for f
    using that emits_same_tables [OF all_calls [OF assms(1)]] emits_same_tables [OF unknown_calls [OF assms(1)]]
      emits_same_tables [OF complete_calls [OF assms(1)]] by auto
  from wp_reconcile_tail [OF t this] show ?thesis
    unfolding Reconcile_found [OF assms(3)] by (rule wp_mono) auto
qed

text \<open>An object that is gone is forgotten in both tables before it is deleted from the servers.\<close>

lemma Reconcile_forgets:
  assumes "tables_ok w" and "get (started controller w) req = Inl err" and "IsNotFound E err"
  shows "wp (Reconcile req)
    (\<lambda>_ w'. (\<forall>rt. w_tracker w' = Some rt \<longrightarrow> tracked rt (NamespacedName_String E req) = None) \<and>
       (\<forall>m rk. w_metrics w' = Some m \<longrightarrow> count_of m rk (NamespacedName_String E req) = None)) w"
proof -
  let ?Q = "\<lambda>w' :: world. (\<forall>rt. w_tracker w' = Some rt \<longrightarrow> tracked rt (NamespacedName_String E req) = None) \<and>
       (\<forall>m rk. w_metrics w' = Some m \<longrightarrow> count_of m rk (NamespacedName_String E req) = None)"
  have del: "wp (delete_all req) (\<lambda>_. ?Q) w'" if "?Q w'" for w'
    by (rule wp_mono [OF alongD [OF delete_calls]]) (use that in \<open>simp add: only_adds_def\<close>)
  have "wp (forget_object (NamespacedName_String E req)) (\<lambda>_. ?Q) w'" if "tables_ok w'" for w'
    using that unfolding forget_object_def if_tracker_def if_metrics_def
    by (auto simp: wp_simps tables_ok_def tr.lookup_forget mt.count_forget split: option.splits)
  note forget = this
  have "tables_ok (w\<lparr>calls := KGet APIReader K req # started controller w\<rparr>)"
    using assms(1) by (simp add: tables_ok_def)
  then show ?thesis
    unfolding Reconcile_gone [OF assms(2,3)] wp_bind wp_return by (rule wp_mono [OF forget del])
qed

end

end
