(* ===== verification/OwnedObjects.thy ===== *)
theory OwnedObjects
  imports Workloads ChildSync
begin

text \<open>
  The four sub-reconcilers of theory \<open>Workloads\<close> follow one protocol: read the object; when it is
  absent, define and create it; when it is there, define it anew, let the server fill it in with a
  dry run and update it if it differs; when it is not wanted, delete it. \<open>object_reconcile\<close> states
  the protocol; it is a reference of this library, not a function of the program. The locale
  \<open>owned_object\<close> is the contract between it and the definitions of one kind of object: its first law is that
  the sub-reconciler, as it is written out in theory \<open>Workloads\<close>, does what the protocol does. The lemmas about
  the protocol are proved there once, and reach the four sub-reconcilers through the interpretations.
\<close>

section \<open>The protocol\<close>

definition object_reconcile ::
    "env \<Rightarrow> kind \<Rightarrow> string \<Rightarrow> sub_result \<Rightarrow> ('o \<Rightarrow> kobj) \<Rightarrow> (perses \<Rightarrow> bool) \<Rightarrow> (perses \<Rightarrow> namespaced_name) \<Rightarrow>
     (call list \<Rightarrow> namespaced_name \<Rightarrow> error + 'o) \<Rightarrow> (perses \<Rightarrow> perses \<times> (error + 'o)) \<Rightarrow>
     (call list \<Rightarrow> 'o \<Rightarrow> 'o) \<Rightarrow> (perses \<Rightarrow> 'o \<Rightarrow> 'o \<Rightarrow> bool) \<Rightarrow> sub_result go" where
  "object_reconcile E K what created wrap wanted key get create dry differs = do {
     ctx \<leftarrow> reads ctx_perses;
     case ctx of
       None \<Rightarrow> State_Monad.return not_in_context
     | Some p \<Rightarrow> do {
         found \<leftarrow> ask (\<lambda>h. get h (key p)) (KGet Cached K (key p));
         if \<not> wanted p then
           (case found of
              Inl _ \<Rightarrow> State_Monad.return ContinueReconciling
            | Inr existing \<Rightarrow> write_then E (KDelete (wrap existing)) ContinueReconciling)
         else
           (case found of
              Inl err \<Rightarrow>
                if \<not> IsNotFound E err then State_Monad.return (RequeueWithError (Some err))
                else do {
                  _ \<leftarrow> set_ctx (fst (create p));
                  case snd (create p) of
                    Inl err2 \<Rightarrow> fail_define E (fst (create p)) what err2
                  | Inr ob \<Rightarrow> write_then E (KCreate (wrap ob)) created
                }
            | Inr existing \<Rightarrow> do {
                _ \<leftarrow> set_ctx (fst (create p));
                case snd (create p) of
                  Inl err \<Rightarrow> State_Monad.return (RequeueWithError (Some err))
                | Inr ob \<Rightarrow> do {
                    r \<leftarrow> dry_update E (wrap ob) (\<lambda>h. dry h ob);
                    case r of
                      Inl err \<Rightarrow> State_Monad.return (RequeueWithError (Some err))
                    | Inr ob' \<Rightarrow>
                        if differs (fst (create p)) existing ob'
                        then write_then E (KUpdate False (wrap ob')) ContinueReconciling
                        else State_Monad.return ContinueReconciling
                  }
              })
       }
   }"

text \<open>Two Perses objects that differ in nothing but the annotations of their specification and their status.\<close>

definition same_but_annotations :: "perses \<Rightarrow> perses \<Rightarrow> bool" where
  "same_but_annotations p q \<longleftrightarrow>
     (\<exists>md st. q = p\<lparr>Spec := (Spec p)\<lparr>Spec_Metadata := md\<rparr>, Status := st\<rparr> \<and>
        map_option Metadata_Labels md = map_option Metadata_Labels (Spec_Metadata (Spec p)))"

lemma same_but_annotations_refl [simp]: "same_but_annotations p p"
  unfolding same_but_annotations_def
  by (rule exI [of _ "Spec_Metadata (Spec p)"], rule exI [of _ "Status p"]) (cases p, simp)

lemma same_but_annotations_trans:
  "same_but_annotations p q \<Longrightarrow> same_but_annotations q r \<Longrightarrow> same_but_annotations p r"
  by (auto simp: same_but_annotations_def) blast

lemma same_but_annotations_alias [simp]: "same_but_annotations p (alias_annotations p m)"
proof (cases "Spec_Metadata (Spec p)")
  case None
  then show ?thesis by (simp add: alias_annotations_def)
next
  case (Some md)
  then show ?thesis
    by (cases "Metadata_Annotations md") (auto simp: alias_annotations_def same_but_annotations_def intro!: exI [of _ "Status p"])
qed

lemma same_but_annotations_fields:
  assumes "same_but_annotations p q"
  shows "Name q = Name p" "Namespace q = Namespace p" "Spec_Volumes (Spec q) = Spec_Volumes (Spec p)"
    "Spec_VolumeMounts (Spec q) = Spec_VolumeMounts (Spec p)" "LabelsForPerses E n q = LabelsForPerses E n p"
    "RequiresDeployment q = RequiresDeployment p" "RequiresStatefulSet q = RequiresStatefulSet p"
    "Spec_ContainerPort (Spec q) = Spec_ContainerPort (Spec p)" "DeletionTimestamp q = DeletionTimestamp p"
  using assms
  by (auto simp: same_but_annotations_def LabelsForPerses_def default_labels_def RequiresDeployment_def
      RequiresStatefulSet_def Let_def split: option.splits)

text \<open>The object in the context stays the same, but for its annotations and status.\<close>

definition keeps_object :: "world \<Rightarrow> world \<Rightarrow> bool" where
  "keeps_object w w' \<longleftrightarrow>
     (\<forall>p. ctx_perses w = Some p \<longrightarrow> (\<exists>q. ctx_perses w' = Some q \<and> same_but_annotations p q))"

interpretation ko: frame keeps_object
  by unfold_locales (simp add: keeps_object_def, unfold keeps_object_def, blast intro: same_but_annotations_trans)

lemma keeps_object_calls [simp]: "keeps_object w (w\<lparr>calls := cs\<rparr>)" "keeps_object w (w\<lparr>needs_requeue := b\<rparr>)"
  by (simp_all add: keeps_object_def)

lemma emits_keeps_object: "emits P m \<Longrightarrow> along keeps_object m"
  by (erule along_mono) (simp add: keeps_object_def only_adds_def)

text \<open>
  The calls that hand an object made by the operator to the API server. The real update after a dry run is not
  among them: its object is the answer of the dry run, by the discipline of the log.
\<close>

fun submits :: "call \<Rightarrow> kobj option" where
  "submits (KCreate ob) = Some ob"
| "submits (KUpdate True ob) = Some ob"
| "submits _ = None"

section \<open>The contract of one kind of object\<close>

locale owned_object =
  fixes E :: env and K :: kind and what :: string and created :: sub_result and wrap :: "'o \<Rightarrow> kobj"
    and wanted :: "perses \<Rightarrow> bool" and key :: "perses \<Rightarrow> namespaced_name"
    and get :: "call list \<Rightarrow> namespaced_name \<Rightarrow> error + 'o"
    and create :: "perses \<Rightarrow> perses \<times> (error + 'o)" and dry :: "call list \<Rightarrow> 'o \<Rightarrow> 'o"
    and differs :: "perses \<Rightarrow> 'o \<Rightarrow> 'o \<Rightarrow> bool"
    and reconcile :: "sub_result go"
  assumes reconcile_eq: "wp reconcile Q w = wp (object_reconcile E K what created wrap wanted key get create dry differs) Q w"
    and kind: "kind_of (wrap ob) = K"
    and served: "served_whole Cached K"
    and created_key: "snd (create p) = Inr ob \<Longrightarrow> key_of (wrap ob) = key p"
    and absent: "answered_absent E (wrap ob) h = not_found E (get h (key_of (wrap ob)))"
    and filled: "filled_from E (wrap ob) (wrap ob') h = (ob' = dry h ob)"
    and deletable: "\<not> wanted p \<Longrightarrow> read_as E K key' (wrap ob) h = (get h key' = Inr ob)"
    and create_keeps: "same_but_annotations p (fst (create p))"
    and created_ok: "created = ContinueReconciling \<or> (\<exists>d. created = RequeueWithDelay d)"
begin

lemmas protocol = Let_def object_reconcile_def write_then_def fail_define_def dry_update_def set_ctx_def meta_SetStatusCondition_def

text \<open>Every write of the protocol is justified by the log.\<close>

lemma reconcile_log: "along (keeps_log E) reconcile"
  unfolding along_def keeps_log_def
proof
  fix w
  show "wp reconcile (\<lambda>_ w'. log_ok E (calls w) \<longrightarrow> log_ok E (calls w')) w"
  proof (cases "ctx_perses w")
    case None
    then show ?thesis by (simp add: reconcile_eq protocol wp_simps)
  next
    case (Some p)
    then show ?thesis
      using kind created_key [of p] absent filled deletable [of p]
      by (cases "get (calls w) (key p)"; cases "snd (create p)")
        (auto simp del: served_whole.simps simp: served reconcile_eq protocol wp_simps not_found_def split: option.splits)
  qed
qed

lemma reconcile_tables: "along same_tables reconcile" and reconcile_factory: "along same_factory reconcile"
  unfolding along_def same_tables_def same_factory_def
  by (auto simp: reconcile_eq protocol wp_simps split: option.splits sum.splits)

lemma reconcile_object: "along keeps_object reconcile"
  unfolding along_def
proof
  fix w
  show "wp reconcile (\<lambda>_. keeps_object w) w"
  proof (cases "ctx_perses w")
    case None
    then show ?thesis by (simp add: reconcile_eq protocol wp_simps keeps_object_def)
  next
    case (Some p)
    moreover have "same_but_annotations p (fst (create p)\<lparr>Status := st\<rparr>)" for st
      using create_keeps [of p] by (auto simp: same_but_annotations_def) blast
    ultimately show ?thesis
      using create_keeps [of p]
      by (cases "get (calls w) (key p)"; cases "snd (create p)")
        (auto simp: reconcile_eq protocol wp_simps keeps_object_def split: option.splits)
  qed
qed

lemma reconcile_silent: "along (tells silent) reconcile"
  unfolding along_def
  by (auto simp: reconcile_eq protocol wp_simps tells_def split: option.splits sum.splits intro!: exI [where P = "\<lambda>cs. _ = cs @ _ \<and> _ cs"])

text \<open>Only the object that was defined for the Perses object in the context is submitted.\<close>

lemma reconcile_submits:
  assumes "ctx_perses w = Some p"
  shows "wp reconcile (\<lambda>_ w'. \<exists>cs. calls w' = cs @ calls w \<and>
    (\<forall>c ob. c \<in> set cs \<longrightarrow> submits c = Some ob \<longrightarrow> (\<exists>ob'. snd (create p) = Inr ob' \<and> ob = wrap ob'))) w"
  using assms
  by (cases "get (calls w) (key p)"; cases "snd (create p)")
    (auto simp: reconcile_eq protocol wp_simps split: option.splits intro!: exI [where P = "\<lambda>cs. _ = cs @ _ \<and> _ cs"])

lemma reconcile_result:
  "wp reconcile (\<lambda>r _. r = ContinueReconciling \<or> (\<exists>d. r = RequeueWithDelay d) \<or> (\<exists>e. r = RequeueWithError (Some e))) w"
  using created_ok
  by (auto simp: reconcile_eq protocol wp_simps not_in_context_def split: option.splits sum.splits)

text \<open>
  The object is there: it is defined anew, filled in by a dry run and compared, and written exactly when the
  comparison finds a difference.
\<close>

lemma reconcile_compares:
  assumes "ctx_perses w = Some p" and "wanted p" and "get (calls w) (key p) = Inr existing"
    and "snd (create p) = Inr ob" and "respond E (KGet Cached K (key p) # calls w) (KUpdate True (wrap ob)) = None"
    and "differs (fst (create p)) existing (dry (KGet Cached K (key p) # calls w) ob) \<longleftrightarrow> \<not> same"
  shows "wp reconcile (\<lambda>r w'.
     calls w' = (if same then [] else [KUpdate False (wrap (dry (KGet Cached K (key p) # calls w) ob))]) @
       [KUpdate True (wrap ob), KGet Cached K (key p)] @ calls w \<and>
     (r = ContinueReconciling \<longleftrightarrow> same \<or> respond E (KUpdate True (wrap ob) # KGet Cached K (key p) # calls w)
       (KUpdate False (wrap (dry (KGet Cached K (key p) # calls w) ob))) = None)) w"
  using assms by (auto simp: reconcile_eq protocol wp_simps go_def split: option.splits)

lemma reconcile_creates:
  assumes "ctx_perses w = Some p" and "wanted p" and "get (calls w) (key p) = Inl err" and "IsNotFound E err"
    and "snd (create p) = Inr ob"
  shows "wp reconcile (\<lambda>r w'. calls w' = KCreate (wrap ob) # KGet Cached K (key p) # calls w \<and>
     (r = created \<longleftrightarrow> respond E (KGet Cached K (key p) # calls w) (KCreate (wrap ob)) = None)) w"
  using assms created_ok
  by (auto simp: reconcile_eq protocol wp_simps go_def split: option.splits)

lemma reconcile_ignores:
  assumes "ctx_perses w = Some p" and "\<not> wanted p" and "get (calls w) (key p) = Inl err"
  shows "wp reconcile (\<lambda>r w'. r = ContinueReconciling \<and> calls w' = KGet Cached K (key p) # calls w) w"
  using assms by (simp add: reconcile_eq protocol wp_simps)

lemma reconcile_deletes:
  assumes "ctx_perses w = Some p" and "\<not> wanted p" and "get (calls w) (key p) = Inr existing"
  shows "wp reconcile (\<lambda>r w'. calls w' = KDelete (wrap existing) # KGet Cached K (key p) # calls w \<and>
     (r = ContinueReconciling \<longleftrightarrow> respond E (KGet Cached K (key p) # calls w) (KDelete (wrap existing)) = None)) w"
  using assms by (auto simp: reconcile_eq protocol wp_simps go_def split: option.splits)

end

section \<open>The four kinds\<close>

definition object_key :: "(perses \<Rightarrow> string) \<Rightarrow> perses \<Rightarrow> namespaced_name" where
  "object_key name p = \<lparr>NN_Namespace = Namespace p, NN_Name = name p\<rparr>"

lemma alias_fields [simp]:
  "Name (alias_annotations p m) = Name p" "Namespace (alias_annotations p m) = Namespace p"
  by (simp_all add: same_but_annotations_fields [OF same_but_annotations_alias])

lemma workload_annotations_keeps:
  "workload_annotations E p = Inr (m, p') \<Longrightarrow> same_but_annotations p p'"
  by (auto simp: workload_annotations_def Let_def split: sum.splits if_splits)

lemma workload_annotations_names:
  "workload_annotations E p = Inr (m, p') \<Longrightarrow> Name p' = Name p \<and> Namespace p' = Namespace p"
  by (auto dest!: workload_annotations_keeps simp: same_but_annotations_def)

lemma create_keeps_object [simp]:
  "same_but_annotations p (fst (createPersesService E n p))"
  "same_but_annotations p (fst (createPersesDeployment E cfg p))"
  "same_but_annotations p (fst (createPersesStatefulSet E cfg p))"
  by (auto simp: createPersesService_def createPersesDeployment_def createPersesStatefulSet_def Let_def
      workload_annotations_keeps split: sum.splits)

lemma created_keys:
  "snd (createPersesService E n p) = Inr s \<Longrightarrow> meta_key s = \<lparr>NN_Namespace = Namespace p, NN_Name = n\<rparr>"
  "createPersesConfigMap E p = Inr cm \<Longrightarrow> meta_key cm = object_key (\<lambda>p. GetConfigName (Name p)) p"
  "snd (createPersesDeployment E cfg p) = Inr d \<Longrightarrow> meta_key d = object_key Name p"
  "snd (createPersesStatefulSet E cfg p) = Inr t \<Longrightarrow> meta_key t = object_key Name p"
  by (auto simp: createPersesService_def createPersesConfigMap_def createPersesDeployment_def createPersesStatefulSet_def
      Let_def meta_key_def object_key_def new_meta_def object_meta.defs service.defs config_map.defs deployment.defs statefulset.defs
      dest!: workload_annotations_names split: sum.splits)

lemmas object_defs = object_reconcile_def object_key_def Let_def case_prod_unfold

interpretation svc: owned_object E ServiceKind "''Service''" ContinueReconciling KService "\<lambda>_. True" "object_key service_name"
  "\<lambda>h. getService E h Cached" "\<lambda>p. createPersesService E (service_name p) p" "dryRunService E"
  "\<lambda>p existing updated. serviceNeedsUpdate E existing updated (Name p) p" "reconcileService E"
  for E :: env
proof
  show "wp (reconcileService E) Q w = wp (object_reconcile E ServiceKind ''Service'' ContinueReconciling KService (\<lambda>_. True)
      (object_key service_name) (\<lambda>h. getService E h Cached) (\<lambda>p. createPersesService E (service_name p) p) (dryRunService E)
      (\<lambda>p existing updated. serviceNeedsUpdate E existing updated (Name p) p)) Q w" for Q w
    unfolding reconcileService_def object_defs by simp
qed (auto simp: created_keys object_key_def)

interpretation cm: owned_object E ConfigMapKind "''ConfigMap''" ContinueReconciling KConfigMap "\<lambda>_. True"
  "object_key (\<lambda>p. GetConfigName (Name p))" "\<lambda>h. getConfigMap E h Cached" "\<lambda>p. (p, createPersesConfigMap E p)" "dryRunConfigMap E"
  "\<lambda>p existing updated. configMapNeedsUpdate E (Some existing) (Some updated) (GetConfigName (Name p)) p" "reconcileConfigMap E"
  for E :: env
proof
  show "wp (reconcileConfigMap E) Q w = wp (object_reconcile E ConfigMapKind ''ConfigMap'' ContinueReconciling KConfigMap (\<lambda>_. True)
      (object_key (\<lambda>p. GetConfigName (Name p))) (\<lambda>h. getConfigMap E h Cached) (\<lambda>p. (p, createPersesConfigMap E p)) (dryRunConfigMap E)
      (\<lambda>p existing updated. configMapNeedsUpdate E (Some existing) (Some updated) (GetConfigName (Name p)) p)) Q w" for Q w
  proof -
    have same: "w\<lparr>calls := cs, ctx_perses := Some p\<rparr> = w\<lparr>calls := cs\<rparr>" if "ctx_perses w = Some p" for cs p
      using that by (cases w) simp
    show ?thesis
      unfolding reconcileConfigMap_def object_defs
      by (cases "ctx_perses w") (simp_all add: wp_simps set_ctx_def same split: sum.split)
  qed
qed (auto simp: created_keys)

interpretation dep: owned_object E DeploymentKind "''Deployment''" ContinueReconciling KDeployment RequiresDeployment
  "object_key Name" "\<lambda>h. getDeployment E h Cached" "createPersesDeployment E cfg" "dryRunDeployment E"
  "\<lambda>p existing updated. \<not> DeepEqual_deployment_spec E (Deployment_Spec existing) (Deployment_Spec updated)"
  "reconcileDeployment E cfg"
  for E :: env and cfg :: config
proof
  show "wp (reconcileDeployment E cfg) Q w = wp (object_reconcile E DeploymentKind ''Deployment'' ContinueReconciling KDeployment
      RequiresDeployment (object_key Name) (\<lambda>h. getDeployment E h Cached) (createPersesDeployment E cfg) (dryRunDeployment E)
      (\<lambda>p existing updated. \<not> DeepEqual_deployment_spec E (Deployment_Spec existing) (Deployment_Spec updated))) Q w" for Q w
    unfolding reconcileDeployment_def object_defs by (simp add: wp_simps split: option.splits)
qed (auto simp: created_keys)

interpretation sts: owned_object E StatefulSetKind "''StatefulSet''" "RequeueWithDelay time_Minute" KStatefulSet RequiresStatefulSet
  "object_key Name" "\<lambda>h. getStatefulSet E h Cached" "createPersesStatefulSet E cfg" "dryRunStatefulSet E"
  "\<lambda>p existing updated. \<not> DeepEqual_statefulset_spec E (StatefulSet_Spec existing) (StatefulSet_Spec updated)"
  "reconcileStatefulSet E cfg"
  for E :: env and cfg :: config
proof
  show "wp (reconcileStatefulSet E cfg) Q w = wp (object_reconcile E StatefulSetKind ''StatefulSet'' (RequeueWithDelay time_Minute)
      KStatefulSet RequiresStatefulSet (object_key Name) (\<lambda>h. getStatefulSet E h Cached) (createPersesStatefulSet E cfg)
      (dryRunStatefulSet E)
      (\<lambda>p existing updated. \<not> DeepEqual_statefulset_spec E (StatefulSet_Spec existing) (StatefulSet_Spec updated))) Q w" for Q w
    unfolding reconcileStatefulSet_def object_defs by (simp add: wp_simps split: option.splits)
qed (auto simp: created_keys)

end
