(* ===== verification/PersesController.thy ===== *)
theory PersesController
  imports OwnedObjects "HOL-Library.List_Lexorder" "HOL-Library.Char_ord"
begin

text \<open>
  \<^verbatim>\<open>controllers/perses/perses_controller.go\<close>: the reconciliation of a Perses object by a chain of
  ten sub-reconcilers. The object behind the context's pointer is \<open>ctx_perses\<close>; reading it again
  with \<open>r.Get(ctx, key, perses)\<close> overwrites it.
\<close>

section \<open>Status\<close>

definition perses_status_try ::
    "env \<Rightarrow> namespaced_name \<Rightarrow> (perses \<Rightarrow> perses go) \<Rightarrow> (error option) go" where
  "perses_status_try E req updateFn = do {
     r \<leftarrow> ask (\<lambda>h. getPerses E h Cached req) (KGet Cached PersesKind req);
     case r of
       Inl err \<Rightarrow> State_Monad.return (Some err)
     | Inr fresh \<Rightarrow> do {
         let before = Status fresh;
         fresh' \<leftarrow> updateFn fresh;
         if DeepEqual_status E before (Status fresh') then State_Monad.return None
         else exec E (KStatusUpdate (KPerses fresh'))
       }
   }"

definition updatePersesStatus :: "env \<Rightarrow> namespaced_name \<Rightarrow> (perses \<Rightarrow> perses go) \<Rightarrow> sub_result go" where
  "updatePersesStatus E req updateFn = do {
     ctx \<leftarrow> reads ctx_perses;
     case ctx of
       None \<Rightarrow> State_Monad.return not_in_context
     | Some _ \<Rightarrow> do {
         err \<leftarrow> retryOnConflict E (perses_status_try E req updateFn);
         State_Monad.return (case err of
             None \<Rightarrow> ContinueReconciling
           | Some e \<Rightarrow> if IsNotFound E e then DoNotRequeue else RequeueWithError (Some e))
       }
   }"

definition perses_SetCondition :: "env \<Rightarrow> condition \<Rightarrow> perses \<Rightarrow> perses go" where
  "perses_SetCondition E c p = do {
     cs \<leftarrow> meta_SetStatusCondition E (Status_Conditions (Status p)) c;
     State_Monad.return (p\<lparr>Status := (Status p)\<lparr>Status_Conditions := cs\<rparr>\<rparr>)
   }"

text \<open>The closure variable \<open>needsRequeue\<close> is the field \<open>needs_requeue\<close> of the world.\<close>

definition perses_setStatusToUnknown :: "env \<Rightarrow> namespaced_name \<Rightarrow> sub_result go" where
  "perses_setStatusToUnknown E req = do {
     ctx \<leftarrow> reads ctx_perses;
     case ctx of
       None \<Rightarrow> State_Monad.return not_in_context
     | Some _ \<Rightarrow> do {
         _ \<leftarrow> modifies (\<lambda>w. w\<lparr>needs_requeue := False\<rparr>);
         (res, err) \<leftarrow> updatePersesStatus E req (\<lambda>p.
           if length (Status_Conditions (Status p)) = 0 then do {
             p \<leftarrow> perses_SetCondition E
                   (Condition TypeAvailablePerses ConditionUnknown ''Reconciling'' ''Starting reconciliation'') p;
             _ \<leftarrow> modifies (\<lambda>w. w\<lparr>needs_requeue := True\<rparr>);
             State_Monad.return p
           } else State_Monad.return p);
         case err of
           Some _ \<Rightarrow> State_Monad.return (res, err)
         | None \<Rightarrow> do {
             again \<leftarrow> reads needs_requeue;
             State_Monad.return (if again then RequeueWithDelay (time_Second * 5) else ContinueReconciling)
           }
       }
   }"

definition perses_setStatusToComplete :: "env \<Rightarrow> namespaced_name \<Rightarrow> sub_result go" where
  "perses_setStatusToComplete E req =
     updatePersesStatus E req (\<lambda>p. do {
       p \<leftarrow> perses_SetCondition E (Condition TypeDegradedPerses ConditionFalse ''Reconciled''
              (''Perses ('' @ Name p @ '') reconciled successfully'')) p;
       perses_SetCondition E (Condition TypeAvailablePerses ConditionTrue ''Reconciled''
              (''Perses ('' @ Name p @ '') created successfully'')) p
     })"

section \<open>Finalizers and deletion\<close>

text \<open>\<open>r.Get(ctx, req.NamespacedName, perses)\<close> into the object of the context.\<close>

definition reload_ctx :: "env \<Rightarrow> namespaced_name \<Rightarrow> (error + perses) go" where
  "reload_ctx E req = do {
     r \<leftarrow> ask (\<lambda>h. getPerses E h Cached req) (KGet Cached PersesKind req);
     case r of
       Inl err \<Rightarrow> State_Monad.return (Inl err)
     | Inr p \<Rightarrow> do { _ \<leftarrow> set_ctx p; State_Monad.return (Inr p) }
   }"

text \<open>\<open>r.Update(ctx, perses)\<close>: on success the object is what the server answered.\<close>

definition update_ctx :: "env \<Rightarrow> perses \<Rightarrow> (error option) go" where
  "update_ctx E p = do {
     r \<leftarrow> ask (\<lambda>h. case respond E h (KUpdate False (KPerses p)) of Some e \<Rightarrow> Inl e | None \<Rightarrow> Inr (updatedPerses E h p))
            (KUpdate False (KPerses p));
     case r of
       Inl e \<Rightarrow> State_Monad.return (Some e)
     | Inr p' \<Rightarrow> do { _ \<leftarrow> set_ctx p'; State_Monad.return None }
   }"

text \<open>The closures that \<open>RetryOnConflict\<close> runs.\<close>

definition removeFinalizer_try :: "env \<Rightarrow> namespaced_name \<Rightarrow> (error option) go" where
  "removeFinalizer_try E req = do {
     r \<leftarrow> reload_ctx E req;
     case r of
       Inl err \<Rightarrow> State_Monad.return (Some err)
     | Inr p \<Rightarrow> do {
         let (p', ok) = RemoveFinalizer E p PersesFinalizer;
         _ \<leftarrow> set_ctx p';
         if \<not> ok then State_Monad.return (Some (errorf ''failed to remove finalizer from the custom resource''))
         else update_ctx E p'
       }
   }"

definition handleDelete_try :: "env \<Rightarrow> namespaced_name \<Rightarrow> (error option) go" where
  "handleDelete_try E req = do {
     r \<leftarrow> reload_ctx E req;
     case r of
       Inl err \<Rightarrow> State_Monad.return (Some err)
     | Inr p \<Rightarrow> do {
         let (p', _) = RemoveFinalizer E p PersesFinalizer;
         _ \<leftarrow> set_ctx p';
         update_ctx E p'
       }
   }"

definition removeFinalizer :: "env \<Rightarrow> namespaced_name \<Rightarrow> sub_result go" where
  "removeFinalizer E req = do {
     ctx \<leftarrow> reads ctx_perses;
     case ctx of
       None \<Rightarrow> State_Monad.return not_in_context
     | Some perses \<Rightarrow>
         if ContainsFinalizer E perses PersesFinalizer then do {
           err \<leftarrow> retryOnConflict E (removeFinalizer_try E req);
           State_Monad.return (case err of
               None \<Rightarrow> ContinueReconciling
             | Some e \<Rightarrow> if IsNotFound E e then DoNotRequeue else RequeueWithError (Some e))
         } else State_Monad.return ContinueReconciling
   }"

definition handleDelete :: "env \<Rightarrow> namespaced_name \<Rightarrow> sub_result go" where
  "handleDelete E req = do {
     ctx \<leftarrow> reads ctx_perses;
     case ctx of
       None \<Rightarrow> State_Monad.return not_in_context
     | Some perses \<Rightarrow>
         if DeletionTimestamp perses \<noteq> None then do {
           err \<leftarrow> (if ContainsFinalizer E perses PersesFinalizer then retryOnConflict E (handleDelete_try E req)
                  else State_Monad.return None);
           State_Monad.return (case err of
               Some e \<Rightarrow> RequeueWithError (Some e)
             | None \<Rightarrow> DoNotRequeue)
         } else State_Monad.return ContinueReconciling
   }"

section \<open>Validation of volumes\<close>

definition undefined_volume_message :: "volume_mount \<Rightarrow> string" where
  "undefined_volume_message m =
     ''volumeMount at '' @ Quote (Mount_MountPath m) @ '' references volume '' @ Quote (Mount_Name m) @
     '' which is not defined in spec.volumes''"

definition validateVolumes :: "env \<Rightarrow> namespaced_name \<Rightarrow> sub_result go" where
  "validateVolumes E req = do {
     ctx \<leftarrow> reads ctx_perses;
     case ctx of
       None \<Rightarrow> State_Monad.return not_in_context
     | Some perses \<Rightarrow>
         (let volumeNames = map Volume_Name (Spec_Volumes (Spec perses))
          in case find (\<lambda>m. Mount_Name m \<notin> set volumeNames) (Spec_VolumeMounts (Spec perses)) of
               None \<Rightarrow> State_Monad.return ContinueReconciling
             | Some m \<Rightarrow> do {
                 (_, err) \<leftarrow> updatePersesStatus E req
                    (perses_SetCondition E (Condition TypeDegradedPerses ConditionTrue ''InvalidConfiguration''
                       (undefined_volume_message m)));
                 State_Monad.return (case err of
                     Some e \<Rightarrow> RequeueWithError (Some e)
                   | None \<Rightarrow> RequeueWithError (Some (errorf (undefined_volume_message m))))
               })
   }"

section \<open>Provisioning\<close>

text \<open>
  The loop over the references: each secret is read once, and the map from its name to its version
  grows; the first error ends the loop.
\<close>

fun secret_versions :: "env \<Rightarrow> string \<Rightarrow> provisioning_secret list \<Rightarrow> strmap \<Rightarrow> (error + strmap) go" where
  "secret_versions E ns [] seen = State_Monad.return (Inr seen)"
| "secret_versions E ns (ref # refs) seen =
     (case mget seen (SecretKey_Name ref) of
        Some _ \<Rightarrow> secret_versions E ns refs seen
      | None \<Rightarrow>
          bindE (client_Get_Secret E APIReader \<lparr>NN_Namespace = ns, NN_Name = SecretKey_Name ref\<rparr>)
            (\<lambda>secret. secret_versions E ns refs (mset_key (SecretKey_Name ref) (ResourceVersion secret) seen)))"

text \<open>The versions sorted by name. The names are distinct, so that the sort determines the order.\<close>

definition sorted_versions :: "strmap \<Rightarrow> secret_version list" where
  "sorted_versions m =
     sort_key SecretVersion_Name (map (\<lambda>(n, v). \<lparr>SecretVersion_Name = n, SecretVersion_Version = v\<rparr>) m)"

definition set_provisioning :: "secret_version list \<Rightarrow> perses \<Rightarrow> perses go" where
  "set_provisioning vs p = State_Monad.return (p\<lparr>Status := (Status p)\<lparr>Status_Provisioning := Some vs\<rparr>\<rparr>)"

definition reconcileProvisioning :: "env \<Rightarrow> namespaced_name \<Rightarrow> sub_result go" where
  "reconcileProvisioning E req = do {
     ctx \<leftarrow> reads ctx_perses;
     case ctx of
       None \<Rightarrow> State_Monad.return not_in_context
     | Some perses \<Rightarrow>
         if length (secret_refs perses) = 0 then updatePersesStatus E req (set_provisioning [])
         else do {
           r \<leftarrow> secret_versions E (Namespace perses) (secret_refs perses) [];
           case r of
             Inl err \<Rightarrow> State_Monad.return (RequeueWithError (Some err))
           | Inr secretVersionMap \<Rightarrow>
               (let newSecretVersions = sorted_versions secretVersionMap
                in if DeepEqual_versions E newSecretVersions (Status_Provisioning (Status perses))
                   then State_Monad.return ContinueReconciling
                   else updatePersesStatus E req (set_provisioning newSecretVersions))
         }
   }"

definition findPersesForSecret :: "env \<Rightarrow> string \<Rightarrow> string \<Rightarrow> (namespaced_name list) go" where
  "findPersesForSecret E secretNamespace secretName = do {
     r \<leftarrow> ask (\<lambda>h. listPerses E h (InNamespace secretNamespace)) (KList (InNamespace secretNamespace));
     State_Monad.return (case r of
         Inl err \<Rightarrow> []
       | Inr items \<Rightarrow>
           map (\<lambda>p. \<lparr>NN_Namespace = Namespace p, NN_Name = Name p\<rparr>)
             (filter (\<lambda>p. list_ex (\<lambda>ref. SecretKey_Name ref = secretName) (secret_refs p)) items))
   }"

section \<open>Reconcile\<close>

definition perses_subreconcilers :: "env \<Rightarrow> config \<Rightarrow> namespaced_name \<Rightarrow> (sub_result go) list" where
  "perses_subreconcilers E cfg req =
     [handleDelete E req,
      perses_setStatusToUnknown E req,
      removeFinalizer E req,
      validateVolumes E req,
      reconcileProvisioning E req,
      reconcileService E,
      reconcileConfigMap E,
      reconcileDeployment E cfg,
      reconcileStatefulSet E cfg,
      perses_setStatusToComplete E req]"

text \<open>\<open>invalidator\<close> tells whether \<open>ClientCacheInvalidator\<close> is set.\<close>

definition perses_Reconcile ::
    "env \<Rightarrow> config \<Rightarrow> bool \<Rightarrow> namespaced_name \<Rightarrow> ((ctrl_result \<times> error option) option) go" where
  "perses_Reconcile E cfg invalidator req = do {
     let objKey = NamespacedName_String E req;
     _ \<leftarrow> if_metrics [PromInc ReconcileOperations (the (Metrics_ReconcileOperations ''perses''))] (\<lambda>m. m);
     r \<leftarrow> ask (\<lambda>h. getPerses E h Cached req) (KGet Cached PersesKind req);
     case r of
       Inl err \<Rightarrow>
         if IsNotFound E err then do {
           _ \<leftarrow> if_tracker (Tracker_ForgetObject objKey);
           _ \<leftarrow> if_metrics [PromDelete PersesInstances (Metrics_DeletePersesInstance (NN_Namespace req) (NN_Name req))] (Metrics_ForgetObject objKey);
           _ \<leftarrow> (if invalidator then ForgetInstance objKey else State_Monad.return ());
           State_Monad.return (Evaluate DoNotRequeue)
         } else do {
           _ \<leftarrow> if_metrics [PromInc ReconcileErrors (the (Metrics_ReconcileErrors ''perses'' ''get_failed''))] (\<lambda>m. m);
           State_Monad.return (Evaluate (RequeueWithError (Some err)))
         }
     | Inr perses \<Rightarrow> do {
         _ \<leftarrow> (if DeletionTimestamp perses = None
              then if_metrics [PromSet PersesInstances (the (Metrics_PersesInstances (Namespace perses) (Name perses))) 1] (\<lambda>m. m)
              else State_Monad.return ());
         _ \<leftarrow> set_ctx perses;
         reconcileErr \<leftarrow> run_subreconcilers (perses_subreconcilers E cfg req);
         _ \<leftarrow> track_outcome ''perses'' ''perses'' (NN_Namespace req)
                ''Perses instance reconciled successfully'' objKey reconcileErr;
         State_Monad.return (case reconcileErr of
             Some e \<Rightarrow> Evaluate (RequeueWithError (Some e))
           | None \<Rightarrow> Evaluate DoNotRequeue)
       }
   }"

section \<open>What the sub-reconcilers leave alone\<close>

text \<open>
  A relation between states that a status update follows, and one that every step on the Perses
  object itself follows: also a new object in the context, and the update that removes the finalizer
  from the object just read.
\<close>

lemma ctx_calls_swap: "w\<lparr>ctx_perses := x, calls := cs\<rparr> = w\<lparr>calls := cs, ctx_perses := x\<rparr>"
  by simp

locale status_frame = frame R for R :: "world \<Rightarrow> world \<Rightarrow> bool" +
  fixes E :: env
  assumes R_status: "status_call c \<Longrightarrow> R w (w\<lparr>calls := c # calls w\<rparr>)"
begin

lemma along_status_call [along_intros]: "status_call c \<Longrightarrow> along R (ask a c)"
  by (rule along_ask) (rule R_status)

lemma along_SetCondition [along_intros]: "along R (perses_SetCondition E c p)"
  unfolding perses_SetCondition_def meta_SetStatusCondition_def by (auto intro!: along_intros R_status)

lemma updatePersesStatus_R [along_intros]:
  assumes "retry_law E" and "\<And>p. along R (updateFn p)"
  shows "along R (updatePersesStatus E req updateFn)"
  unfolding updatePersesStatus_def perses_status_try_def Let_def
  by (auto intro!: along_intros assms R_status)

lemma setStatusToComplete_R: "retry_law E \<Longrightarrow> along R (perses_setStatusToComplete E req)"
  unfolding perses_setStatusToComplete_def by (auto intro!: along_intros)

lemma validateVolumes_R: "retry_law E \<Longrightarrow> along R (validateVolumes E req)"
  unfolding validateVolumes_def Let_def by (auto intro!: along_intros)

lemma secret_versions_R: "along R (secret_versions E ns refs seen)"
  by (induction refs arbitrary: seen)
    (auto simp: client_Get_Secret_def intro!: along_intros R_status split: option.splits)

lemma reconcileProvisioning_R: "retry_law E \<Longrightarrow> along R (reconcileProvisioning E req)"
  unfolding reconcileProvisioning_def set_provisioning_def Let_def by (auto intro!: along_intros secret_versions_R)

end

locale perses_frame = status_frame +
  assumes R_ctx: "R w (w\<lparr>ctx_perses := Some p\<rparr>)"
    and R_flag: "R w (w\<lparr>needs_requeue := b\<rparr>)"
    and R_unfinalize: "getPerses E (calls w) Cached req = Inr q \<Longrightarrow>
          R w (w\<lparr>calls := KUpdate False (KPerses (fst (RemoveFinalizer E q PersesFinalizer))) #
                   KGet Cached PersesKind req # calls w, ctx_perses := Some x\<rparr>)"
begin

lemma setStatusToUnknown_R: "retry_law E \<Longrightarrow> along R (perses_setStatusToUnknown E req)"
  unfolding perses_setStatusToUnknown_def by (auto intro!: along_intros R_flag)

lemma R_read: "R w (w\<lparr>calls := KGet Cached PersesKind key # calls w, ctx_perses := Some x\<rparr>)"
  using frame_trans [OF R_status [of "KGet Cached PersesKind key" w] R_ctx] by simp

lemma R_unfinalize_error: "getPerses E (calls w) Cached req = Inr q \<Longrightarrow>
    R w (w\<lparr>ctx_perses := Some x, calls := KUpdate False (KPerses (fst (RemoveFinalizer E q PersesFinalizer))) #
             KGet Cached PersesKind req # calls w\<rparr>)"
  using R_unfinalize [of w req q x] by (simp add: ctx_calls_swap)

lemma unfinalize_R: "along R (removeFinalizer_try E req)" "along R (handleDelete_try E req)"
  unfolding along_def removeFinalizer_try_def handleDelete_try_def reload_ctx_def set_ctx_def update_ctx_def
  by (auto simp: wp_simps Let_def case_prod_unfold R_read intro!: R_status R_unfinalize R_unfinalize_error split: sum.splits option.splits)

lemma removeFinalizer_R: "retry_law E \<Longrightarrow> along R (removeFinalizer E req)"
  unfolding removeFinalizer_def by (auto intro!: along_intros unfinalize_R)

lemma handleDelete_R: "retry_law E \<Longrightarrow> along R (handleDelete E req)"
  unfolding handleDelete_def by (auto intro!: along_intros unfinalize_R)

lemmas perses_steps_R = handleDelete_R setStatusToUnknown_R removeFinalizer_R validateVolumes_R
  reconcileProvisioning_R setStatusToComplete_R

end

text \<open>Calls that submit nothing but may update a Perses object.\<close>

definition quiet :: "world \<Rightarrow> world \<Rightarrow> bool" where
  "quiet w w' \<longleftrightarrow> (\<exists>cs. calls w' = cs @ calls w \<and> list_all (\<lambda>c. submits c = None) cs)"

lemma status_call_submits: "status_call c \<Longrightarrow> submits c = None"
  by (cases c) auto

interpretation kos: status_frame keeps_object E for E :: env
  by unfold_locales simp

interpretation qt: perses_frame quiet E for E :: env
proof
  show "quiet w w''" if "quiet w w'" and "quiet w' w''" for w w' w''
    using that unfolding quiet_def by (metis append.assoc list_all_append)
  show "quiet w (w\<lparr>calls := KUpdate False (KPerses (fst (RemoveFinalizer E q PersesFinalizer))) #
      KGet Cached PersesKind req # calls w, ctx_perses := Some x\<rparr>)" for w req q x
    by (auto simp: quiet_def intro!: exI [of _ "[KUpdate False (KPerses (fst (RemoveFinalizer E q PersesFinalizer))),
      KGet Cached PersesKind req]"])
qed (auto simp: quiet_def status_call_submits)

interpretation stp: perses_frame same_tables E for E :: env
  by unfold_locales (simp_all add: same_tables_def)

interpretation sfp: perses_frame same_factory E for E :: env
  by unfold_locales (simp_all add: same_factory_def)

interpretation tlp: perses_frame "tells silent" E for E :: env
proof
  show "tells silent w (w\<lparr>calls := KUpdate False (KPerses (fst (RemoveFinalizer E q PersesFinalizer))) #
      KGet Cached PersesKind req # calls w, ctx_perses := Some x\<rparr>)" for w req q x
    by (auto simp: tells_def intro!: exI [of _ "[KUpdate False (KPerses (fst (RemoveFinalizer E q PersesFinalizer))),
      KGet Cached PersesKind req]"])
qed (auto simp: tells_def status_call_silent)

interpretation lgp: perses_frame "keeps_log E" E for E :: env
  by unfold_locales (auto simp: keeps_log_def intro: free_justified status_call_free)

lemma perses_subreconcilers_along:
  assumes "retry_law E" and "f \<in> set (perses_subreconcilers E cfg req)"
  shows "along same_tables f" and "along (keeps_log E) f" and "along (tells silent) f"
  using assms(2) unfolding perses_subreconcilers_def
  by (auto intro: stp.perses_steps_R [OF assms(1)] lgp.perses_steps_R [OF assms(1)] svc.reconcile_tables cm.reconcile_tables
      dep.reconcile_tables sts.reconcile_tables svc.reconcile_log cm.reconcile_log dep.reconcile_log sts.reconcile_log
      tlp.perses_steps_R [OF assms(1)] svc.reconcile_silent cm.reconcile_silent dep.reconcile_silent sts.reconcile_silent)

lemma along_chain:
  assumes "frame R" and "\<And>f. f \<in> set fs \<Longrightarrow> along R f"
  shows "along R (run_subreconcilers fs)"
  using assms(2)
  by (induction fs) (auto simp: run_subreconcilers.simps intro!: along_intros frame.along_return [OF assms(1)]
      frame.along_bind [OF assms(1)])

section \<open>Reconcile, by cases\<close>

text \<open>The state in which the sub-reconcilers start.\<close>

definition counted :: "namespaced_name \<Rightarrow> perses \<Rightarrow> world \<Rightarrow> world" where
  "counted req p w =
     w\<lparr>calls := (if DeletionTimestamp p = None \<and> w_metrics w \<noteq> None then [PromSet PersesInstances (the (Metrics_PersesInstances (Namespace p) (Name p))) 1] else []) @
          KGet Cached PersesKind req # started ''perses'' w,
       ctx_perses := Some p\<rparr>"

lemma wp_if_metrics_id:
  "wp (if_metrics [c] (\<lambda>m. m)) Q w = Q () (w\<lparr>calls := (if w_metrics w = None then calls w else c # calls w)\<rparr>)"
  by (cases w) (simp add: if_metrics_def wp_simps split: option.splits)

lemma perses_Reconcile_found:
  assumes "getPerses E (started ''perses'' w) Cached req = Inr p"
  shows "wp (perses_Reconcile E cfg invalidator req) Q w =
    wp (do {
      err \<leftarrow> run_subreconcilers (perses_subreconcilers E cfg req);
      _ \<leftarrow> track_outcome ''perses'' ''perses'' (NN_Namespace req) ''Perses instance reconciled successfully''
             (NamespacedName_String E req) err;
      State_Monad.return (case err of
          Some e \<Rightarrow> Evaluate (RequeueWithError (Some e)) | None \<Rightarrow> Evaluate DoNotRequeue)
    }) Q (counted req p w)"
  unfolding perses_Reconcile_def Let_def wp_bind wp_count_operation wp_ask
  using assms by (simp add: wp_bind wp_if_metrics_id set_ctx_def wp_modifies wp_return counted_def)

lemma perses_Reconcile_gone:
  assumes "getPerses E (started ''perses'' w) Cached req = Inl err" and "IsNotFound E err"
  shows "wp (perses_Reconcile E cfg invalidator req) Q w =
    wp (do {
      _ \<leftarrow> if_tracker (Tracker_ForgetObject (NamespacedName_String E req));
      _ \<leftarrow> if_metrics [PromDelete PersesInstances (Metrics_DeletePersesInstance (NN_Namespace req) (NN_Name req))]
            (Metrics_ForgetObject (NamespacedName_String E req));
      _ \<leftarrow> (if invalidator then ForgetInstance (NamespacedName_String E req) else State_Monad.return ());
      State_Monad.return (Evaluate DoNotRequeue)
    }) Q (w\<lparr>calls := KGet Cached PersesKind req # started ''perses'' w\<rparr>)"
  unfolding perses_Reconcile_def Let_def wp_bind wp_count_operation wp_ask
  using assms by (simp add: wp_bind wp_return)

section \<open>The pods that are submitted\<close>

definition volumes_valid :: "perses \<Rightarrow> bool" where
  "volumes_valid p \<longleftrightarrow> Mount_Name ` set (Spec_VolumeMounts (Spec p)) \<subseteq> Volume_Name ` set (Spec_Volumes (Spec p))"

text \<open>Every mount of every container names a volume of the pod.\<close>

definition mounts_resolved :: "pod_spec \<Rightarrow> bool" where
  "mounts_resolved ps \<longleftrightarrow>
     (\<forall>c \<in> set (Pod_Containers ps). Mount_Name ` set (Container_VolumeMounts c) \<subseteq> Volume_Name ` set (Pod_Volumes ps))"

fun pod_ok :: "kobj \<Rightarrow> bool" where
  "pod_ok (KDeployment d) = mounts_resolved (Template_Spec (Deployment_Template (Deployment_Spec d)))"
| "pod_ok (KStatefulSet t) = mounts_resolved (Template_Spec (StatefulSet_Template (StatefulSet_Spec t)))"
| "pod_ok _ = True"

lemma volumes_valid_same: "same_but_annotations p q \<Longrightarrow> volumes_valid q = volumes_valid p"
  by (simp add: volumes_valid_def same_but_annotations_fields)

lemma perses_pod_spec_resolved: "volumes_valid p \<Longrightarrow> mounts_resolved (perses_pod_spec cfg p img)"
  unfolding mounts_resolved_def perses_pod_spec_def perses_container_def volumes_valid_def
  by (simp add: Let_def case_prod_unfold mounts_within_volumes)

lemma workload_annotations_valid:
  "workload_annotations E p = Inr (a, q) \<Longrightarrow> volumes_valid p \<Longrightarrow> volumes_valid q"
  by (drule workload_annotations_keeps) (simp add: volumes_valid_same)

lemma created_pod_ok:
  assumes "volumes_valid p"
  shows "snd (createPersesDeployment E cfg p) = Inr d \<Longrightarrow> pod_ok (KDeployment d)"
    and "snd (createPersesStatefulSet E cfg p) = Inr t \<Longrightarrow> pod_ok (KStatefulSet t)"
proof -
  have "mounts_resolved (perses_pod_spec cfg q img)" if "workload_annotations E p = Inr (m, q)" for m q img
    by (rule perses_pod_spec_resolved [OF workload_annotations_valid [OF that assms]])
  then show "snd (createPersesDeployment E cfg p) = Inr d \<Longrightarrow> pod_ok (KDeployment d)"
    and "snd (createPersesStatefulSet E cfg p) = Inr t \<Longrightarrow> pod_ok (KStatefulSet t)"
    by (auto simp: createPersesDeployment_def createPersesStatefulSet_def Let_def object_meta.defs deployment.defs statefulset.defs
        split: sum.splits)
qed

text \<open>
  From a valid object in the context: it stays valid, and every object that is submitted has its
  mounts resolved.
\<close>

definition ctx_valid :: "world \<Rightarrow> bool" where
  "ctx_valid w \<longleftrightarrow> (\<exists>p. ctx_perses w = Some p \<and> volumes_valid p)"

definition submits_resolved :: "world \<Rightarrow> world \<Rightarrow> bool" where
  "submits_resolved w w' \<longleftrightarrow> (\<exists>cs. calls w' = cs @ calls w \<and> (\<forall>c \<in> set cs. \<forall>ob. submits c = Some ob \<longrightarrow> pod_ok ob))"

definition pods_resolved :: "world \<Rightarrow> world \<Rightarrow> bool" where
  "pods_resolved w w' \<longleftrightarrow> (ctx_valid w \<longrightarrow> ctx_valid w' \<and> submits_resolved w w')"

lemma submits_resolved_trans:
  assumes "submits_resolved w w'" and "submits_resolved w' w''"
  shows "submits_resolved w w''"
proof -
  obtain cs cs' where "calls w' = cs @ calls w" "\<forall>c \<in> set cs. \<forall>ob. submits c = Some ob \<longrightarrow> pod_ok ob"
    and "calls w'' = cs' @ calls w'" "\<forall>c \<in> set cs'. \<forall>ob. submits c = Some ob \<longrightarrow> pod_ok ob"
    using assms by (auto simp: submits_resolved_def)
  then show ?thesis unfolding submits_resolved_def by (intro exI [of _ "cs' @ cs"]) auto
qed

lemma submits_resolved_quiet: "quiet w w' \<Longrightarrow> submits_resolved w w'"
  unfolding quiet_def submits_resolved_def by (fastforce simp: list_all_iff)

interpretation pr: frame pods_resolved
proof
  show "pods_resolved w w''" if "pods_resolved w w'" and "pods_resolved w' w''" for w w' w''
    using that submits_resolved_trans unfolding pods_resolved_def by blast
qed (simp add: pods_resolved_def submits_resolved_def)

lemma ctx_valid_kept: "keeps_object w w' \<Longrightarrow> ctx_valid w \<Longrightarrow> ctx_valid w'"
  unfolding keeps_object_def ctx_valid_def by (metis volumes_valid_same)

lemma pods_resolved_quiet:
  assumes "along quiet m" and "along keeps_object m"
  shows "along pods_resolved m"
  unfolding along_def
proof
  fix w
  have "wp m (\<lambda>_ w'. quiet w w' \<and> keeps_object w w') w"
    using assms by (simp add: wp_conj alongD)
  then show "wp m (\<lambda>_. pods_resolved w) w"
    by (rule wp_mono) (auto simp: pods_resolved_def submits_resolved_quiet ctx_valid_kept)
qed

lemma pods_resolved_submits:
  assumes "\<And>w p. ctx_perses w = Some p \<Longrightarrow> wp m (\<lambda>_ w'. \<exists>cs. calls w' = cs @ calls w \<and>
      (\<forall>c ob. c \<in> set cs \<longrightarrow> submits c = Some ob \<longrightarrow> (\<exists>ob'. snd (create p) = Inr ob' \<and> ob = wrap ob'))) w"
    and "along keeps_object m"
    and "\<And>p ob. volumes_valid p \<Longrightarrow> snd (create p) = Inr ob \<Longrightarrow> pod_ok (wrap ob)"
  shows "along pods_resolved m"
  unfolding along_def
proof
  fix w
  show "wp m (\<lambda>_. pods_resolved w) w"
  proof (cases "ctx_valid w")
    case True
    then obtain p where p: "ctx_perses w = Some p" "volumes_valid p" by (auto simp: ctx_valid_def)
    have "wp m (\<lambda>_ w'. (\<exists>cs. calls w' = cs @ calls w \<and>
      (\<forall>c ob. c \<in> set cs \<longrightarrow> submits c = Some ob \<longrightarrow> (\<exists>ob'. snd (create p) = Inr ob' \<and> ob = wrap ob'))) \<and>
      keeps_object w w') w"
      using assms(1) [OF p(1)] alongD [OF assms(2)] by (simp add: wp_conj)
    then show ?thesis
      by (rule wp_mono)
        (use True assms(3) [OF p(2)] in \<open>fastforce simp: pods_resolved_def submits_resolved_def ctx_valid_kept\<close>)
  qed (simp add: wp_any pods_resolved_def)
qed

lemma later_steps_resolved:
  assumes "retry_law E"
    and "f \<in> set [reconcileProvisioning E req, reconcileService E, reconcileConfigMap E, reconcileDeployment E cfg,
           reconcileStatefulSet E cfg, perses_setStatusToComplete E req]"
  shows "along pods_resolved f"
proof -
  have "along pods_resolved (reconcileService E)"
    by (rule pods_resolved_submits [OF svc.reconcile_submits svc.reconcile_object]) simp_all
  moreover have "along pods_resolved (reconcileConfigMap E)"
    by (rule pods_resolved_submits [OF cm.reconcile_submits cm.reconcile_object]) simp_all
  moreover have "along pods_resolved (reconcileDeployment E cfg)"
    by (rule pods_resolved_submits [OF dep.reconcile_submits dep.reconcile_object created_pod_ok(1)])
  moreover have "along pods_resolved (reconcileStatefulSet E cfg)"
    by (rule pods_resolved_submits [OF sts.reconcile_submits sts.reconcile_object created_pod_ok(2)])
  ultimately show ?thesis
    using assms(2) pods_resolved_quiet [OF qt.reconcileProvisioning_R [OF assms(1)] kos.reconcileProvisioning_R [OF assms(1)]]
      pods_resolved_quiet [OF qt.setStatusToComplete_R [OF assms(1)] kos.setStatusToComplete_R [OF assms(1)]] by auto
qed

text \<open>\<open>validateVolumes\<close> lets only valid objects pass.\<close>

lemma validateVolumes_valid:
  "wp (validateVolumes E req) (\<lambda>r w'. r = ContinueReconciling \<longrightarrow> ctx_valid w') w"
proof (cases "ctx_perses w")
  case None
  then show ?thesis by (simp add: validateVolumes_def wp_simps not_in_context_def go_def)
next
  case (Some p)
  let ?bad = "find (\<lambda>m. Mount_Name m \<notin> set (map Volume_Name (Spec_Volumes (Spec p)))) (Spec_VolumeMounts (Spec p))"
  show ?thesis
  proof (cases ?bad)
    case None
    then have "volumes_valid p" by (auto simp: volumes_valid_def find_None_iff)
    with Some None show ?thesis by (simp add: validateVolumes_def wp_simps ctx_valid_def Let_def)
  next
    case (Some m)
    with \<open>ctx_perses w = Some p\<close> show ?thesis
      by (simp add: validateVolumes_def wp_simps Let_def)
        (rule wp_any, auto simp: go_def wp_simps split: option.splits)
  qed
qed

text \<open>A step that submits nothing, then the rest of the chain.\<close>

lemma wp_chain_quiet:
  assumes "along quiet f" and "\<And>err w'. quiet w w' \<Longrightarrow> Q err w'" and "\<And>w'. quiet w w' \<Longrightarrow> wp (run_subreconcilers fs) Q w'"
  shows "wp (run_subreconcilers (f # fs)) Q w"
  unfolding wp_run_subreconcilers_Cons
  by (rule wp_mono [OF alongD [OF assms(1)]]) (use assms(2,3) in auto)

lemma perses_chain_resolved:
  assumes "retry_law E"
  shows "wp (run_subreconcilers (perses_subreconcilers E cfg req)) (\<lambda>_. submits_resolved w) w"
proof -
  let ?later = "[reconcileProvisioning E req, reconcileService E, reconcileConfigMap E, reconcileDeployment E cfg,
    reconcileStatefulSet E cfg, perses_setStatusToComplete E req]"
  have later: "wp (run_subreconcilers ?later) (\<lambda>_. submits_resolved w) w1" if "submits_resolved w w1" "ctx_valid w1" for w1
    by (rule wp_mono [OF alongD [OF along_chain [OF pr.frame_axioms later_steps_resolved [OF assms]]]])
      (use that submits_resolved_trans in \<open>auto simp: pods_resolved_def\<close>)
  have valid: "wp (validateVolumes E req) (\<lambda>r w'. quiet w1 w' \<and> (r = ContinueReconciling \<longrightarrow> ctx_valid w')) w1" for w1
    using alongD [OF qt.validateVolumes_R [OF assms]] validateVolumes_valid by (simp add: wp_conj)
  have checked: "wp (run_subreconcilers (validateVolumes E req # ?later)) (\<lambda>_. submits_resolved w) w1" if "quiet w w1" for w1
    by (subst wp_run_subreconcilers_Cons, rule wp_mono [OF valid])
      (use qt.frame_trans [OF that] later in \<open>auto simp: submits_resolved_quiet go_def split: prod.splits\<close>)
  show ?thesis
    unfolding perses_subreconcilers_def
    by (intro wp_chain_quiet [OF qt.handleDelete_R [OF assms]] wp_chain_quiet [OF qt.setStatusToUnknown_R [OF assms]]
        wp_chain_quiet [OF qt.removeFinalizer_R [OF assms]] checked)
      (auto intro: submits_resolved_quiet qt.frame_trans)
qed

lemma submits_resolved_start: "submits_resolved w (counted req p w)"
  by (auto simp: submits_resolved_def counted_def started_def
      intro!: exI [where P = "\<lambda>cs. _ = cs @ _ \<and> _ cs"] split: option.splits)

lemma submits_resolved_track:
  "submits_resolved w w' \<Longrightarrow> wp (track_outcome controller resource ns msg k err) (\<lambda>_. submits_resolved w) w'"
  unfolding track_outcome_def if_tracker_def if_metrics_def
  by (fastforce simp: wp_simps submits_resolved_def split: option.splits)

text \<open>
  The deletion of a Perses object: the calls that the reconciliation may make while it is under way.
\<close>

fun deletion_call :: "env \<Rightarrow> namespaced_name \<Rightarrow> call list \<Rightarrow> call \<Rightarrow> bool" where
  "deletion_call E req h (KGet rd k key) = True"
| "deletion_call E req h (KUpdate dry ob) =
     (\<not> dry \<and> (\<exists>t. h = KGet Cached PersesKind req # t \<and> unfinalized E req ob t))"
| "deletion_call E req h (PromInc m ls) = labelled (PromInc m ls)"
| "deletion_call E req h _ = False"

fun deletion_calls :: "env \<Rightarrow> namespaced_name \<Rightarrow> call list \<Rightarrow> call list \<Rightarrow> bool" where
  "deletion_calls E req h [] = True"
| "deletion_calls E req h (c # cs) = (deletion_call E req (cs @ h) c \<and> deletion_calls E req h cs)"

lemma deletion_calls_append: "deletion_calls E req h (xs @ ys) = (deletion_calls E req (ys @ h) xs \<and> deletion_calls E req h ys)"
  by (induction xs) auto

definition deleting :: "env \<Rightarrow> namespaced_name \<Rightarrow> world \<Rightarrow> world \<Rightarrow> bool" where
  "deleting E req w w' \<longleftrightarrow> (\<exists>cs. calls w' = cs @ calls w \<and> deletion_calls E req (calls w) cs)"

interpretation del: frame "deleting E req" for E :: env and req :: namespaced_name
proof
  show "deleting E req w w''" if "deleting E req w w'" and "deleting E req w' w''" for w w' w''
    using that unfolding deleting_def by (metis append.assoc deletion_calls_append)
qed (simp add: deleting_def)

lemma handleDelete_try_deleting: "along (deleting E req) (handleDelete_try E req)"
  unfolding along_def handleDelete_try_def reload_ctx_def set_ctx_def update_ctx_def deleting_def
  by (auto simp: wp_simps Let_def case_prod_unfold intro!: exI [where P = "\<lambda>cs. _ = cs @ _ \<and> _ cs"]
      split: sum.splits option.splits)

lemma handleDelete_stops:
  assumes "retry_law E" and "ctx_perses w = Some p" and "DeletionTimestamp p \<noteq> None"
  shows "wp (handleDelete E req) (\<lambda>r w'. fst r \<noteq> None \<and> deleting E req w w') w"
proof -
  have "wp (retryOnConflict E (handleDelete_try E req)) (\<lambda>r w'. wp (State_Monad.return (case r of
      Some e \<Rightarrow> RequeueWithError (Some e) | None \<Rightarrow> DoNotRequeue)) (\<lambda>r w'. fst r \<noteq> None \<and> deleting E req w w') w') w"
    by (rule wp_mono [OF alongD [OF del.along_retry [OF assms(1) handleDelete_try_deleting]]])
      (auto simp: wp_return go_def split: option.splits)
  then show ?thesis
    using assms(2,3) unfolding handleDelete_def
    by (auto simp: wp_bind wp_reads wp_if wp_return del.frame_refl go_def)
qed

lemma perses_Reconcile_log:
  assumes "retry_law E"
  shows "along (keeps_log E) (perses_Reconcile E cfg invalidator req)"
  unfolding perses_Reconcile_def Let_def
  by (auto intro!: along_intros along_if_metrics along_track_outcome keeps_log_call
      along_run_subreconcilers perses_subreconcilers_along(2) [OF assms] along_keeps_log [OF emits_free_factory [OF emits_ForgetInstance]]
      simp: set_ctx_def if_tracker_def keeps_log_def split: option.splits)

section \<open>Properties\<close>

text \<open>
  C8: writes to Kubernetes are justified. Whatever the API server answers, reconciling a Perses
  object creates a Service, ConfigMap, Deployment or StatefulSet only after a look-up under the same
  key answered that there is none, updates one only to what a dry run of the update just returned,
  deletes one only as it was just read, and updates the Perses object itself only to remove the
  legacy finalizer from the version just read.
\<close>

theorem perses_Reconcile_disciplined:
  assumes "retry_law E" and "log_ok E (calls w)"
  shows "wp (perses_Reconcile E cfg invalidator req) (\<lambda>_ w'. log_ok E (calls w')) w"
  using alongD [OF perses_Reconcile_log [OF assms(1)]] by (rule wp_mono) (use assms(2) in \<open>simp add: keeps_log_def\<close>)

text \<open>
  The outcome is recorded. When the Perses object can be read, \<open>Reconcile\<close> returns (with no
  \<open>nil\<close> dereference and no delay, not even the five seconds of \<open>setStatusToUnknown\<close> or the minute of
  \<open>reconcileStatefulSet\<close>), leaves the error that it returns in the tracker (or the success, with its
  reason) and a count of one in the metrics, as failed or as synced accordingly.
\<close>

lemma perses_Reconcile_records_outcome:
  assumes "retry_law E" and "tables_ok w" and "getPerses E (started ''perses'' w) Cached req = Inr p"
  shows "wp (perses_Reconcile E cfg invalidator req)
    (\<lambda>r w'. \<exists>err. r = Some (Result_zero, err) \<and>
       outcome_recorded (NamespacedName_String E req) ''perses'' (NN_Namespace req) err w') w"
proof -
  have "tables_ok (counted req p w)" using assms(2) by (simp add: tables_ok_def counted_def)
  from wp_reconcile_tail [OF this perses_subreconcilers_along(1) [OF assms(1)]] show ?thesis
    unfolding perses_Reconcile_found [OF assms(3)] by (rule wp_mono) auto
qed

text \<open>
  C7: no dangling mounts. Every Deployment and StatefulSet that the reconciliation of a Perses object
  creates or submits to a dry run has a pod in which every mount of the container names a volume of
  the pod, whatever volumes and mounts the user gave: an object whose mounts do not resolve is
  stopped by \<open>validateVolumes\<close> before any workload is built.
\<close>

theorem submitted_pods_have_their_volumes:
  assumes "retry_law E" and "getPerses E (started ''perses'' w) Cached req = Inr p"
  shows "wp (perses_Reconcile E cfg invalidator req)
    (\<lambda>_ w'. \<exists>cs. calls w' = cs @ calls w \<and> (\<forall>c \<in> set cs. \<forall>ob. submits c = Some ob \<longrightarrow> pod_ok ob)) w"
  unfolding perses_Reconcile_found [OF assms(2)] submits_resolved_def [symmetric] wp_bind wp_return
  by (rule wp_mono [OF perses_chain_resolved [OF assms(1)]], rule submits_resolved_track)
    (rule submits_resolved_trans [OF submits_resolved_start])

text \<open>
  C16: an object that is being deleted is not rebuilt. When the Perses object carries a deletion
  timestamp, its reconciliation makes no call but reads, the update of the Perses object that removes
  the legacy finalizer, and counters: no workload is created, updated or deleted and no status is
  written.
\<close>

theorem perses_deleted_not_rebuilt:
  assumes "retry_law E" and "getPerses E (started ''perses'' w) Cached req = Inr p" and "DeletionTimestamp p \<noteq> None"
  shows "wp (perses_Reconcile E cfg invalidator req)
    (\<lambda>_ w'. \<exists>cs. calls w' = cs @ calls w \<and> deletion_calls E req (calls w) cs) w"
proof -
  have start: "deleting E req w (counted req p w)" "ctx_perses (counted req p w) = Some p"
    using assms(3) by (auto simp: deleting_def counted_def started_def
        intro!: exI [where P = "\<lambda>cs. _ = cs @ _ \<and> _ cs"] split: option.splits)
  have track: "wp (track_outcome controller resource ns msg k err) (\<lambda>_. deleting E req w) w'" if "deleting E req w w'"
    for w' controller resource ns msg k err
    using that unfolding track_outcome_def if_tracker_def if_metrics_def
    by (fastforce simp: wp_simps deleting_def split: option.splits)
  have "wp (run_subreconcilers (perses_subreconcilers E cfg req)) (\<lambda>_. deleting E req w) (counted req p w)"
    unfolding perses_subreconcilers_def
    by (subst wp_run_subreconcilers_Cons, rule wp_mono [OF handleDelete_stops [OF assms(1) start(2) assms(3)]])
      (use del.frame_trans [OF start(1)] in auto)
  then show ?thesis
    unfolding perses_Reconcile_found [OF assms(2)] deleting_def [symmetric] wp_bind wp_return
    by (rule wp_mono) (rule track)
qed

text \<open>
  C30: a Perses object that no longer exists is forgotten. After its reconciliation neither the
  tracker nor the metrics hold anything under its key, and the cache of clients has no client for
  the instance any more: the key under which the controller forgets it, \<open>req.String()\<close>, is the key
  under which \<open>CreateClient\<close> caches it.
\<close>

theorem perses_Reconcile_forgets:
  assumes "tables_ok w" and "factory_ok E w"
    and "getPerses E (started ''perses'' w) Cached req = Inl err" and "IsNotFound E err"
    and "NamespacedName_String E req = NN_Namespace req @ ''/'' @ NN_Name req"
    and "Namespace p = NN_Namespace req" and "Name p = NN_Name req"
  shows "wp (perses_Reconcile E cfg True req)
    (\<lambda>r w'. r = Some (Result_zero, None) \<and>
       (\<forall>rt. w_tracker w' = Some rt \<longrightarrow> tracked rt (NamespacedName_String E req) = None) \<and>
       (\<forall>m rk. w_metrics w' = Some m \<longrightarrow> count_of m rk (NamespacedName_String E req) = None) \<and>
       (\<exists>f. w_factory w' = PersesClientFactoryWithConfig f \<and> mget (cache f) (ns_name p) = None)) w"
proof -
  let ?k = "NamespacedName_String E req"
  let ?T = "\<lambda>w'. (\<forall>rt. w_tracker w' = Some rt \<longrightarrow> tracked rt ?k = None) \<and>
       (\<forall>m rk. w_metrics w' = Some m \<longrightarrow> count_of m rk ?k = None)"
  have forget: "wp (ForgetInstance ?k)
      (\<lambda>_ w'. ?T w' \<and> (\<exists>f. w_factory w' = PersesClientFactoryWithConfig f \<and> mget (cache f) ?k = None)) w'"
    if "?T w'" and "factory_ok E w'" for w'
  proof -
    from that(2) obtain f where f: "w_factory w' = PersesClientFactoryWithConfig f" "cache_ok E f"
      by (auto simp: factory_ok_def)
    have "wp (ForgetInstance ?k) (\<lambda>_ w''. only_adds factory_call w' w'' \<and>
        w_factory w'' = PersesClientFactoryWithConfig (f\<lparr>cache := mdelete ?k (cache f)\<rparr>)) w'"
      using alongD [OF emits_ForgetInstance] wp_ForgetInstance [OF f(2,1)] by (simp add: wp_conj)
    then show ?thesis by (rule wp_mono) (use that(1) in \<open>auto simp: only_adds_def\<close>)
  qed
  have key: "?k = ns_name p" using assms(5-7) by (simp add: ns_name_def)
  show ?thesis
    unfolding perses_Reconcile_gone [OF assms(3,4)] if_tracker_def if_metrics_def
    using assms(1,2)
    by (auto simp: wp_simps tables_ok_def tr.lookup_forget mt.count_forget key [symmetric] factory_ok_def
        intro!: wp_mono [OF forget] split: option.splits)
qed

end
