(* ===== verification/DashboardController.thy ===== *)
theory DashboardController
  imports ChildSync
begin

text \<open>
  \<^verbatim>\<open>controllers/dashboards\<close>: the reconciliation of \<open>PersesDashboard\<close> objects
  (\<^verbatim>\<open>persesdashboard_controller.go\<close>) and their synchronisation with the Perses servers
  (\<^verbatim>\<open>dashboard_controller.go\<close>). The context carries the dashboard or nothing.
\<close>

type_synonym dashboard_ctx = "persesdashboard option"

section \<open>Status\<close>

definition dashboard_status_try ::
    "env \<Rightarrow> namespaced_name \<Rightarrow> (persesdashboard \<Rightarrow> persesdashboard go) \<Rightarrow> (error option) go" where
  "dashboard_status_try E req updateFn = do {
     r \<leftarrow> ask (\<lambda>h. getDashboard E h APIReader req) (KGet APIReader DashboardKind req);
     case r of
       Inl err \<Rightarrow> State_Monad.return (Some err)
     | Inr fresh \<Rightarrow> do {
         let before = SnapshotConditions (Dashboard_Conditions (Dashboard_Status fresh));
         fresh' \<leftarrow> updateFn fresh;
         if \<not> ConditionsChanged E before (Dashboard_Conditions (Dashboard_Status fresh'))
         then State_Monad.return None
         else exec E (KStatusUpdate (KDashboard fresh'))
       }
   }"

definition updateDashboardStatus ::
    "env \<Rightarrow> dashboard_ctx \<Rightarrow> namespaced_name \<Rightarrow> (persesdashboard \<Rightarrow> persesdashboard go) \<Rightarrow> sub_result go" where
  "updateDashboardStatus E ctx req updateFn =
     (case ctx of
        None \<Rightarrow> State_Monad.return (RequeueWithError (Some (errorf ''dashboard not found in context'')))
      | Some _ \<Rightarrow> do {
          err \<leftarrow> retryOnConflict E (dashboard_status_try E req updateFn);
          State_Monad.return (case err of
              None \<Rightarrow> ContinueReconciling
            | Some e \<Rightarrow> if IsNotFound E e then DoNotRequeue else RequeueWithError (Some e))
        })"

definition dashboard_SetCondition :: "env \<Rightarrow> condition \<Rightarrow> persesdashboard \<Rightarrow> persesdashboard go" where
  "dashboard_SetCondition E c d = do {
     cs \<leftarrow> meta_SetStatusCondition E (Dashboard_Conditions (Dashboard_Status d)) c;
     State_Monad.return (d\<lparr>Dashboard_Status := (Dashboard_Status d)\<lparr>Dashboard_Conditions := cs\<rparr>\<rparr>)
   }"

definition dashboard_setStatusToUnknown :: "env \<Rightarrow> dashboard_ctx \<Rightarrow> namespaced_name \<Rightarrow> sub_result go" where
  "dashboard_setStatusToUnknown E ctx req =
     updateDashboardStatus E ctx req (\<lambda>d.
       if length (Dashboard_Conditions (Dashboard_Status d)) = 0
       then dashboard_SetCondition E
              (Condition TypeAvailablePerses ConditionUnknown ''Reconciling'' ''Starting reconciliation'') d
       else State_Monad.return d)"

definition dashboard_setStatusToComplete :: "env \<Rightarrow> dashboard_ctx \<Rightarrow> namespaced_name \<Rightarrow> sub_result go" where
  "dashboard_setStatusToComplete E ctx req =
     updateDashboardStatus E ctx req (\<lambda>d. do {
       d \<leftarrow> dashboard_SetCondition E (Condition TypeDegradedPerses ConditionFalse ''Reconciled''
              (''Dashboard ('' @ Name d @ '') reconciled successfully'')) d;
       dashboard_SetCondition E (Condition TypeAvailablePerses ConditionTrue ''Reconciled''
              (''Dashboard ('' @ Name d @ '') created successfully'')) d
     })"

definition dashboard_setStatusToDegraded ::
    "env \<Rightarrow> dashboard_ctx \<Rightarrow> namespaced_name \<Rightarrow> ctrl_result option \<Rightarrow> string \<Rightarrow> error option \<Rightarrow> sub_result go" where
  "dashboard_setStatusToDegraded E ctx req degradedResult degradedReason degradedError = do {
     let msg = (case degradedError of None \<Rightarrow> ''unknown error'' | Some e \<Rightarrow> Error e);
     (res, err) \<leftarrow> updateDashboardStatus E ctx req (\<lambda>d. do {
       d \<leftarrow> dashboard_SetCondition E (Condition TypeAvailablePerses ConditionFalse degradedReason msg) d;
       dashboard_SetCondition E (Condition TypeDegradedPerses ConditionTrue degradedReason msg) d
     });
     State_Monad.return (case err of
         Some _ \<Rightarrow> (res, err)
       | None \<Rightarrow>
           (case degradedError of
              Some e \<Rightarrow> (degradedResult, Some (NewReasonError e degradedReason))
            | None \<Rightarrow> (degradedResult, None)))
   }"

section \<open>Synchronisation with one instance\<close>

definition desired_dashboard :: "persesdashboard \<Rightarrow> p_entity" where
  "desired_dashboard d =
     \<lparr>Entity_Kind = ''Dashboard'', Entity_Name = Name d, Entity_Tags = ParseTags (Annotations d),
      Entity_Spec = Dashboard_Config (Dashboard_Spec d)\<rparr>"

definition dashboard_validate_and_write ::
    "env \<Rightarrow> v1_client \<Rightarrow> persesdashboard \<Rightarrow> bool \<Rightarrow> sync_result go" where
  "dashboard_validate_and_write E c d notFound = do {
     let ob = ObjEntity (desired_dashboard d);
     validateErr \<leftarrow> exec E (PValidate (RESTClient c) PDashboard ob);
     case validateErr of
       Some verr \<Rightarrow>
         State_Monad.return
           (if IsClientError verr
            then RequeueWithErrorAndReason (Some (errorf_w (''dashboard '' @ Quote (Name d) @
                   '' failed server-side validation: '') verr)) ReasonValidationFailed
            else RequeueWithErrorAndReason (Some (errorf_w (''dashboard '' @ Quote (Name d) @
                   '' validation request failed: '') verr)) ReasonBackendError)
     | None \<Rightarrow> do {
         err \<leftarrow> (if notFound then exec E (PCreate c PDashboard (Namespace d) ob)
                else exec E (PUpdate c PDashboard (Namespace d) ob));
         State_Monad.return (case err of
             Some e \<Rightarrow> RequeueWithErrorAndReason (Some e) ReasonBackendError
           | None \<Rightarrow> (None, [], None))
       }
   }"

definition dashboard_write_entity :: "env \<Rightarrow> v1_client \<Rightarrow> persesdashboard \<Rightarrow> sync_result go" where
  "dashboard_write_entity E c d = do {
     existing \<leftarrow> ask (\<lambda>h. getEntity E h c PDashboard (Namespace d) (Name d))
                   (PGet c PDashboard (Namespace d) (Name d));
     case existing of
       Inl err \<Rightarrow>
         if IsRequestNotFound E err then dashboard_validate_and_write E c d True
         else State_Monad.return (RequeueWithErrorAndReason (Some err) ReasonBackendError)
     | Inr ex \<Rightarrow>
         if DashboardInSync E ex (desired_dashboard d) then State_Monad.return (None, [], None)
         else dashboard_validate_and_write E c d False
   }"

definition syncPersesDashboard :: "env \<Rightarrow> persesdashboard \<Rightarrow> perses \<Rightarrow> sync_result go" where
  "syncPersesDashboard E d p = do {
     cl \<leftarrow> CreateClient E APIReader p;
     case cl of
       Inl err \<Rightarrow> State_Monad.return (RequeueWithErrorAndReason (Some err) ReasonConnectionFailed)
     | Inr c \<Rightarrow> do {
         perr \<leftarrow> ensure_project E c (Namespace d);
         case perr of
           Some err \<Rightarrow> State_Monad.return (RequeueWithErrorAndReason (Some err) ReasonBackendError)
         | None \<Rightarrow> dashboard_write_entity E c d
       }
   }"

section \<open>All instances\<close>

text \<open>The part of \<open>reconcileDashboardInAllInstances\<close> after \<open>r.List\<close>.\<close>

definition dashboard_sync_listed ::
    "env \<Rightarrow> persesdashboard \<Rightarrow> namespaced_name \<Rightarrow> error + perses list \<Rightarrow> sub_result go" where
  "dashboard_sync_listed E dashboard req instances =
     (case instances of
        Inl err \<Rightarrow>
          (let (res, err) = RequeueWithError (Some err)
           in dashboard_setStatusToDegraded E (Some dashboard) req res ReasonMissingPerses err)
      | Inr items \<Rightarrow>
          if length items = 0 then
            dashboard_setStatusToDegraded E (Some dashboard) req (Some \<lparr>RequeueAfter = time_Minute\<rparr>) ReasonMissingPerses
              (Some (errorf ''no Perses instances found matching the label selector''))
          else do {
            r \<leftarrow> sync_instances E (syncPersesDashboard E dashboard) TypeAvailablePerses items;
            case r of
              Some (res, reason, err) \<Rightarrow> dashboard_setStatusToDegraded E (Some dashboard) req res reason err
            | None \<Rightarrow> State_Monad.return ContinueReconciling
          })"

definition reconcileDashboardInAllInstances :: "env \<Rightarrow> dashboard_ctx \<Rightarrow> namespaced_name \<Rightarrow> sub_result go" where
  "reconcileDashboardInAllInstances E ctx req =
     (case ctx of
        None \<Rightarrow>
          (let (res, err) = RequeueWithError (Some (errorf ''dashboard not found in context''))
           in dashboard_setStatusToDegraded E ctx req res ReasonMissingResource err)
      | Some dashboard \<Rightarrow>
          (case (case Dashboard_InstanceSelector (Dashboard_Spec dashboard) of
                   None \<Rightarrow> Inr Everything
                 | Some sel \<Rightarrow> (case LabelSelectorAsSelector E sel of Some err \<Rightarrow> Inl err | None \<Rightarrow> Inr (SelectorOf sel))) of
             Inl err \<Rightarrow> State_Monad.return (RequeueWithError (Some err))
           | Inr labelSelector \<Rightarrow> do {
               instances \<leftarrow> ask (\<lambda>h. listPerses E h (BySelector labelSelector)) (KList (BySelector labelSelector));
               dashboard_sync_listed E dashboard req instances
             }))"

definition deleteDashboard :: "env \<Rightarrow> string \<Rightarrow> string \<Rightarrow> perses \<Rightarrow> sub_result go" where
  "deleteDashboard E dashboardNamespace dashboardName p = do {
     cl \<leftarrow> CreateClient E APIReader p;
     case cl of
       Inl err \<Rightarrow> State_Monad.return (RequeueWithError (Some err))
     | Inr c \<Rightarrow> do {
         perr \<leftarrow> exec E (PGet c PProject [] dashboardNamespace);
         case perr of
           Some err \<Rightarrow> State_Monad.return (RequeueWithError (Some err))
         | None \<Rightarrow> do {
             derr \<leftarrow> exec E (PDelete c PDashboard dashboardNamespace dashboardName);
             State_Monad.return (case derr of
                 Some err \<Rightarrow>
                   if IsRequestNotFound E err then ContinueReconciling else RequeueWithError (Some err)
               | None \<Rightarrow> ContinueReconciling)
           }
       }
   }"

definition deleteDashboardInAllInstances :: "env \<Rightarrow> string \<Rightarrow> string \<Rightarrow> sub_result go" where
  "deleteDashboardInAllInstances E dashboardNamespace dashboardName = do {
     instances \<leftarrow> ask (\<lambda>h. listPerses E h AllObjects) (KList AllObjects);
     case instances of
       Inl err \<Rightarrow> State_Monad.return (RequeueWithError (Some err))
     | Inr items \<Rightarrow>
         if length items = 0 then State_Monad.return DoNotRequeue
         else delete_instances (deleteDashboard E dashboardNamespace dashboardName) items
   }"

section \<open>Reconcile\<close>

definition dashboard_Reconcile :: "env \<Rightarrow> namespaced_name \<Rightarrow> ((ctrl_result \<times> error option) option) go" where
  "dashboard_Reconcile E req = do {
     let objKey = NamespacedName_String E req;
     _ \<leftarrow> if_metrics [PromInc ReconcileOperations (the (Metrics_ReconcileOperations ''persesdashboard''))] (\<lambda>m. m);
     r \<leftarrow> ask (\<lambda>h. getDashboard E h APIReader req) (KGet APIReader DashboardKind req);
     case r of
       Inl err \<Rightarrow>
         if IsNotFound E err then do {
           _ \<leftarrow> forget_object objKey;
           res \<leftarrow> deleteDashboardInAllInstances E (NN_Namespace req) (NN_Name req);
           State_Monad.return (Evaluate res)
         } else do {
           _ \<leftarrow> if_metrics [PromInc ReconcileErrors (the (Metrics_ReconcileErrors ''persesdashboard'' ''get_failed''))] (\<lambda>m. m);
           State_Monad.return (Evaluate (RequeueWithError (Some err)))
         }
     | Inr dashboard \<Rightarrow> do {
         let ctx = dashboardFromContext (withDashboard background dashboard);
         reconcileErr \<leftarrow> run_subreconcilers
           [dashboard_setStatusToUnknown E ctx req,
            reconcileDashboardInAllInstances E ctx req,
            dashboard_setStatusToComplete E ctx req];
         _ \<leftarrow> track_outcome ''persesdashboard'' ''dashboard'' (NN_Namespace req)
                ''Dashboard reconciled successfully'' objKey reconcileErr;
         State_Monad.return (case reconcileErr of
             Some e \<Rightarrow> Evaluate (RequeueWithError (Some e))
           | None \<Rightarrow> Evaluate DoNotRequeue)
       }
   }"

definition findDashboardsForPerses :: "env \<Rightarrow> (namespaced_name list) go" where
  "findDashboardsForPerses E = MetadataListToRequests E DashboardKind"

section \<open>The synchronisation obeys the discipline\<close>

lemma DashboardInSync_in_sync: "DashboardInSync E = in_sync E"
  by (intro ext) (simp add: DashboardInSync_def in_sync_def)

lemma Entity_Name_desired_dashboard [simp]: "Entity_Name (desired_dashboard d) = Name d"
  by (simp add: desired_dashboard_def)

lemmas dashboard_write_defs =
  dashboard_write_entity_def dashboard_validate_and_write_def DashboardInSync_in_sync Let_def

lemma dashboard_write_log: "along (keeps_log E) (dashboard_write_entity E c d)"
  unfolding along_def keeps_log_def dashboard_write_defs
  by (auto simp: wp_simps split: sum.splits option.splits)

lemma dashboard_sync_log: "along (keeps_log E) (syncPersesDashboard E d p)"
  unfolding syncPersesDashboard_def
  by (auto intro!: along_intros along_ensure_project dashboard_write_log
      along_keeps_log [OF emits_free_factory [OF emits_CreateClient]])

lemma dashboard_validate_and_write_spec:
  assumes "factory_ok E w"
    and "\<And>h. pushed E c PDashboard (Namespace d) (desired_dashboard d) h \<Longrightarrow> has h"
  shows "wp (dashboard_validate_and_write E c d notFound) (sync_post E has w) w"
  using assms unfolding dashboard_validate_and_write_def Let_def
  by (auto simp: wp_simps sync_post_fail1 sync_post_fail2 intro!: sync_post_done2 split: option.splits)

lemma dashboard_write_spec:
  assumes "factory_ok E w"
    and "\<And>h. pushed E c PDashboard (Namespace d) (desired_dashboard d) h \<Longrightarrow> has h"
  shows "wp (dashboard_write_entity E c d) (sync_post E has w) w"
  using assms dashboard_validate_and_write_spec [of E _ c d has]
  unfolding dashboard_write_entity_def DashboardInSync_in_sync
  by (auto simp: wp_simps sync_post_fail1 intro!: sync_post_done1 sync_post_later1 split: sum.splits)

lemma dashboard_sync_spec:
  assumes "factory_ok E w"
  shows "wp (syncPersesDashboard E d p)
    (sync_post E (has_entity E PDashboard (Namespace d) (desired_dashboard d) p) w) w"
  unfolding syncPersesDashboard_def
  by (intro wp_with_client wp_with_project dashboard_write_spec assms)
    (auto simp: has_entity_def)

interpretation dsync: instance_sync E "factory_ok E" "syncPersesDashboard E d"
  "has_entity E PDashboard (Namespace d) (desired_dashboard d)"
  for E :: env and d :: persesdashboard
proof
  show "wp (syncPersesDashboard E d p) (\<lambda>r w'. factory_ok E w' \<and> (\<exists>cs. calls w' = cs @ calls w) \<and>
      sync_ok r \<and> (fst r = None \<longrightarrow> has_entity E PDashboard (Namespace d) (desired_dashboard d) p (calls w'))) w"
    if "factory_ok E w" for w p
    using dashboard_sync_spec [OF that] by (simp add: sync_post_def [abs_def])
qed (auto intro: has_entity_mono dashboard_sync_log)

section \<open>Deletion\<close>

interpretation ddel: instance_delete "deleteDashboard E ns n" "child_delete_call {PDashboard}"
  for E :: env and ns n :: string
proof
  fix p w
  show "wp (deleteDashboard E ns n p) (\<lambda>r _. delete_ok r) w"
    unfolding deleteDashboard_def wp_bind
    by (rule wp_any) (auto simp: wp_simps delete_ok_def split: sum.splits option.splits)
  show "emits (child_delete_call {PDashboard}) (deleteDashboard E ns n p)"
    unfolding deleteDashboard_def
    by (auto intro!: along_intros emits_mono [OF emits_CreateClient child_delete_call_factory])
qed

section \<open>Status updates\<close>

lemma updateDashboardStatus_result:
  "wp (updateDashboardStatus E ctx req f)
     (\<lambda>r _. r = ContinueReconciling \<or> r = DoNotRequeue \<or> (\<exists>e. r = RequeueWithError (Some e))) w"
  unfolding updateDashboardStatus_def
  by (auto simp: wp_simps wp_def split: option.splits prod.splits)

lemma emits_updateDashboardStatus:
  assumes "retry_law E" and "\<And>d. emits status_call (f d)"
  shows "emits status_call (updateDashboardStatus E ctx req f)"
  unfolding updateDashboardStatus_def dashboard_status_try_def Let_def
  by (auto intro!: along_intros assms)

lemma emits_dashboard_SetCondition: "emits status_call (dashboard_SetCondition E c d)"
  unfolding dashboard_SetCondition_def by (auto intro!: along_intros)

lemma emits_dashboard_setStatus:
  assumes "retry_law E"
  shows "emits status_call (dashboard_setStatusToUnknown E ctx req)"
    and "emits status_call (dashboard_setStatusToComplete E ctx req)"
    and "emits status_call (dashboard_setStatusToDegraded E ctx req res reason err)"
  unfolding dashboard_setStatusToUnknown_def dashboard_setStatusToComplete_def
    dashboard_setStatusToDegraded_def Let_def
  by (auto intro!: along_intros emits_updateDashboardStatus [OF assms] emits_dashboard_SetCondition)

lemma dashboard_setStatusToDegraded_result:
  "wp (dashboard_setStatusToDegraded E ctx req res reason (Some e)) (\<lambda>r _. degraded_ok res reason e r) w"
  unfolding dashboard_setStatusToDegraded_def Let_def wp_bind
  by (rule wp_mono [OF updateDashboardStatus_result]) (auto simp: wp_simps go_def degraded_ok_def)

interpretation dlist: listed_sync E "factory_ok E" "syncPersesDashboard E d"
  "has_entity E PDashboard (Namespace d) (desired_dashboard d)"
  "dashboard_setStatusToDegraded E (Some d) req" "dashboard_sync_listed E d req"
  for E :: env and d :: persesdashboard and req :: namespaced_name
  by unfold_locales
    (auto simp: dashboard_setStatusToDegraded_result emits_dashboard_setStatus dashboard_sync_listed_def
      RequeueWithError_def split: sum.splits)

section \<open>The controller\<close>

lemma dashboard_all_log:
  assumes "retry_law E"
  shows "along (keeps_log E) (reconcileDashboardInAllInstances E (Some d) req)"
  unfolding reconcileDashboardInAllInstances_def
  by (auto intro!: along_intros keeps_log_call dlist.listed_log [OF assms])

lemma emits_dashboard_all:
  assumes "retry_law E"
  shows "emits silent (reconcileDashboardInAllInstances E (Some d) req)"
proof -
  have "emits silent (syncPersesDashboard E d p)" for d p
    unfolding syncPersesDashboard_def dashboard_write_defs ensure_project_def
    by (auto intro!: along_intros emits_mono [OF emits_CreateClient factory_call_silent])
  then have "emits silent (sync_instances E (syncPersesDashboard E d) ty ps)" for d ty ps
    by (rule emits_sync_instances)
  then show ?thesis
    unfolding reconcileDashboardInAllInstances_def dashboard_sync_listed_def RequeueWithError_def Let_def
    by (auto intro!: along_intros emits_mono [OF emits_dashboard_setStatus(3) [OF assms] status_call_silent])
qed

interpretation dctl: child_controller E DashboardKind "''persesdashboard''" "''dashboard''"
  "''Dashboard reconciled successfully''" NN_Namespace "\<lambda>h. getDashboard E h APIReader"
  "\<lambda>d. dashboard_setStatusToUnknown E (Some d)" "\<lambda>d. reconcileDashboardInAllInstances E (Some d)"
  "\<lambda>d. dashboard_setStatusToComplete E (Some d)"
  "\<lambda>req. deleteDashboardInAllInstances E (NN_Namespace req) (NN_Name req)" "dashboard_Reconcile E"
  for E :: env
proof
  fix req and w :: world and d :: persesdashboard
  show "wp (deleteDashboardInAllInstances E (NN_Namespace req) (NN_Name req))
      (\<lambda>r _. r = DoNotRequeue \<or> (\<exists>e. r = RequeueWithError (Some e))) w"
    unfolding deleteDashboardInAllInstances_def
    by (auto simp: wp_simps split: sum.splits intro!: wp_mono [OF ddel.delete_instances_result])
  show "emits (child_delete_call UNIV) (deleteDashboardInAllInstances E (NN_Namespace req) (NN_Name req))"
    unfolding deleteDashboardInAllInstances_def
    by (auto intro!: along_intros emits_mono [OF ddel.delete_instances_calls] elim: child_delete_call_mono)
qed (simp_all add: dashboard_Reconcile_def Let_def emits_dashboard_setStatus emits_dashboard_all dashboard_all_log)

text \<open>The selector a dashboard chooses its instances with.\<close>

definition dashboard_selector :: "persesdashboard \<Rightarrow> selector" where
  "dashboard_selector d =
     (case Dashboard_InstanceSelector (Dashboard_Spec d) of None \<Rightarrow> Everything | Some sel \<Rightarrow> SelectorOf sel)"

text \<open>
  C3: writes to Perses are justified. Whatever Kubernetes and the Perses servers answer,
  reconciling a dashboard keeps the discipline of the log: it creates a dashboard on a server only
  if its look-up there answered that it does not exist, updates one only if the look-up returned a
  version that differs in tags or specification, and does either only after that server accepted
  exactly that dashboard in a validation request.
\<close>

theorem dashboard_Reconcile_disciplined:
  assumes "retry_law E" and "log_ok E (calls w)"
  shows "wp (dashboard_Reconcile E req) (\<lambda>_ w'. log_ok E (calls w')) w"
  using assms by (rule dctl.Reconcile_disciplined)

text \<open>
  C4: when the reconciliation of a dashboard with its instances goes on to completion, the list of
  the instances selected by the dashboard's selector was read and is not empty, and every instance
  of it that is available has the dashboard: its server returned a version in sync or answered a
  create or update of exactly the desired dashboard with no error, through a client built for that
  instance.
\<close>

theorem dashboard_on_every_available_instance:
  assumes "factory_ok E w"
  shows "wp (reconcileDashboardInAllInstances E (Some d) req)
    (\<lambda>r w'. r = ContinueReconciling \<longrightarrow>
       (\<exists>items. listPerses E (calls w) (BySelector (dashboard_selector d)) = Inr items \<and> items \<noteq> [] \<and>
          all_have E (has_entity E PDashboard (Namespace d) (desired_dashboard d)) items (calls w'))) w"
  using assms dlist.listed_spec [of E _ d req]
  unfolding reconcileDashboardInAllInstances_def dashboard_selector_def
  by (simp add: wp_simps split: option.splits sum.splits) (simp add: RequeueWithError_def ContinueReconciling_def)

text \<open>
  C27: \<open>Reconcile\<close> of a dashboard always returns. It never dereferences a \<open>nil\<close> result, and the
  result never asks for a delay, not even when no instance matches and the code builds a result
  with a delay of one minute: only the error is passed on.
\<close>

theorem dashboard_Reconcile_returns:
  "wp (dashboard_Reconcile E req) (\<lambda>r _. \<exists>err. r = Some (Result_zero, err)) w"
  by (rule dctl.Reconcile_returns)

text \<open>
  The outcome is recorded. When the dashboard can be read, \<open>Reconcile\<close> leaves the error that it
  returns in the tracker (or the success, with its reason) and a count of one in the metrics, as
  failed or as synced accordingly.
\<close>

lemma dashboard_Reconcile_records_outcome:
  assumes "retry_law E" and "tables_ok w"
    and "getDashboard E (started ''persesdashboard'' w) APIReader req = Inr d"
  shows "wp (dashboard_Reconcile E req)
    (\<lambda>r w'. \<exists>err. r = Some (Result_zero, err) \<and>
       outcome_recorded (NamespacedName_String E req) ''dashboard'' (NN_Namespace req) err w') w"
  using assms by (rule dctl.Reconcile_records_outcome)

text \<open>
  An object that no longer exists is forgotten. When the dashboard is gone from Kubernetes, then
  after \<open>Reconcile\<close> neither the tracker nor the metrics hold anything under its key, whatever the
  deletion from the servers does.
\<close>

lemma dashboard_Reconcile_forgets:
  assumes "tables_ok w" and "getDashboard E (started ''persesdashboard'' w) APIReader req = Inl err"
    and "IsNotFound E err"
  shows "wp (dashboard_Reconcile E req)
    (\<lambda>_ w'. (\<forall>rt. w_tracker w' = Some rt \<longrightarrow> tracked rt (NamespacedName_String E req) = None) \<and>
       (\<forall>m rk. w_metrics w' = Some m \<longrightarrow> count_of m rk (NamespacedName_String E req) = None)) w"
  using assms by (rule dctl.Reconcile_forgets)

end
