(* ===== verification/EntitySync.thy ===== *)
theory EntitySync
  imports ChildSync
begin

text \<open>
  The contract of an entity that is written together with a secret (datasources and global
  datasources): the secret comes after the validation of the entity and before its write, and the
  whole obeys the discipline of the log.
\<close>

section \<open>Entities with a secret\<close>

text \<open>
  The calls that synchronise the secret of a datasource: they read, and write only secrets of the
  given kind.
\<close>

fun secret_call :: "pkind \<Rightarrow> call \<Rightarrow> bool" where
  "secret_call sk (PGet c k ns n) = (k = sk)"
| "secret_call sk (PCreate c k ns (ObjSecret s)) = (k = sk)"
| "secret_call sk (PUpdate c k ns (ObjSecret s)) = (k = sk)"
| "secret_call sk c = factory_call c"

lemma secret_call_factory: "factory_call c \<Longrightarrow> secret_call sk c"
  by (cases c) auto

lemma secret_call_silent: "secret_call sk c \<Longrightarrow> silent c"
  by (cases "(sk, c)" rule: secret_call.cases) auto

text \<open>
  The contract of the secret step: only secret calls, no change of the client cache, a reason with
  every error, and only justified writes once the owner was accepted.
\<close>

locale secret_step =
  fixes E :: env and sk :: pkind and owner :: string and step :: "v1_client \<Rightarrow> ((string \<times> error) option) go"
  assumes step_calls: "emits (secret_call sk) (step c)"
    and step_factory: "along same_factory (step c)"
    and step_reason: "wp (step c) (\<lambda>r _. \<forall>reason e. r = Some (reason, e) \<longrightarrow> reason \<noteq> []) w"
    and step_log: "accepted_owner E c sk (owner @ SecretNameSuffix) (calls w) \<Longrightarrow> log_ok E (calls w) \<Longrightarrow>
          wp (step c) (\<lambda>_ w'. log_ok E (calls w')) w"

text \<open>What the log must say before an entity is written.\<close>

definition write_ready :: "env \<Rightarrow> pkind \<Rightarrow> string \<Rightarrow> p_entity \<Rightarrow> v1_client \<Rightarrow> bool \<Rightarrow> call list \<Rightarrow> bool" where
  "write_ready E dk ns e c notFound h \<longleftrightarrow>
     (case last_lookup E c dk ns (Entity_Name e) h of
        Some (Inl err) \<Rightarrow> notFound \<and> IsRequestNotFound E err
      | Some (Inr ex) \<Rightarrow> \<not> notFound \<and> \<not> in_sync E ex e
      | None \<Rightarrow> False)"

locale entity_sync = secret_step +
  fixes dk :: pkind and ns :: string and desired :: p_entity
    and invalid :: "error \<Rightarrow> sync_result"
    and push :: "v1_client \<Rightarrow> bool \<Rightarrow> sync_result go"
    and validate_and_write :: "v1_client \<Rightarrow> bool \<Rightarrow> sync_result go"
    and write_entity :: "v1_client \<Rightarrow> sync_result go"
  assumes dk: "dk = owner_kind sk" "dk \<noteq> sk" and owner: "owner = Entity_Name desired"
    and invalid: "\<exists>e reason. invalid verr = RequeueWithErrorAndReason (Some e) reason \<and> reason \<noteq> []"
    and push_eq: "push c notFound = do {
      err \<leftarrow> (if notFound then exec E (PCreate c dk ns (ObjEntity desired))
             else exec E (PUpdate c dk ns (ObjEntity desired)));
      State_Monad.return (case err of
          Some e \<Rightarrow> RequeueWithErrorAndReason (Some e) ReasonBackendError
        | None \<Rightarrow> (None, [], None))
    }"
    and validate_and_write_eq: "validate_and_write c notFound = do {
      v \<leftarrow> exec E (PValidate (RESTClient c) dk (ObjEntity desired));
      case v of
        Some verr \<Rightarrow> State_Monad.return (invalid verr)
      | None \<Rightarrow> do {
          serr \<leftarrow> step c;
          case serr of
            Some (reason, e) \<Rightarrow> State_Monad.return (RequeueWithErrorAndReason (Some e) reason)
          | None \<Rightarrow> push c notFound
        }
    }"
    and write_entity_eq: "write_entity c = do {
      existing \<leftarrow> ask (\<lambda>h. getEntity E h c dk ns (Entity_Name desired)) (PGet c dk ns (Entity_Name desired));
      case existing of
        Inl err \<Rightarrow>
          if IsRequestNotFound E err then validate_and_write c True
          else State_Monad.return (RequeueWithErrorAndReason (Some err) ReasonBackendError)
      | Inr ex \<Rightarrow>
          if in_sync E ex desired then State_Monad.return (None, [], None)
          else validate_and_write c False
    }"
begin

lemma wp_step:
  assumes "log_ok E (calls w)" and "accepted E (PValidate (RESTClient c) dk (ObjEntity desired)) (calls w)"
    and "accepted_owner E c sk (owner @ SecretNameSuffix) (calls w)" and "write_ready E dk ns desired c notFound (calls w)"
  shows "wp (step c) (\<lambda>_ w'. log_ok E (calls w') \<and>
     accepted E (PValidate (RESTClient c) dk (ObjEntity desired)) (calls w') \<and> write_ready E dk ns desired c notFound (calls w')) w"
proof -
  have "wp (step c) (\<lambda>_ w'. only_adds (secret_call sk) w w' \<and> log_ok E (calls w')) w"
    using alongD [OF step_calls] step_log [OF assms(3,1)] by (simp add: wp_conj)
  then show ?thesis
  proof (rule wp_mono)
    fix w'
    assume "only_adds (secret_call sk) w w' \<and> log_ok E (calls w')"
    then obtain cs where cs: "calls w' = cs @ calls w" "list_all (secret_call sk) cs" and log: "log_ok E (calls w')"
      by (auto simp: only_adds_def)
    have "x \<noteq> PGet c dk ns n" if "secret_call sk x" for x n using that dk(2) by auto
    then have "list_all (\<lambda>x. x \<noteq> PGet c dk ns (Entity_Name desired)) cs"
      using cs(2) by (auto simp: list_all_iff)
    then have "write_ready E dk ns desired c notFound (calls w')"
      using assms(4) by (simp add: write_ready_def cs(1) last_lookup_append)
    with log assms(2) show "log_ok E (calls w') \<and>
       accepted E (PValidate (RESTClient c) dk (ObjEntity desired)) (calls w') \<and> write_ready E dk ns desired c notFound (calls w')"
      by (simp add: cs(1) accepted_append)
  qed
qed

lemma validate_and_write_log:
  assumes "log_ok E (calls w)" and "write_ready E dk ns desired c notFound (calls w)"
  shows "wp (validate_and_write c notFound) (\<lambda>_ w'. log_ok E (calls w')) w"
proof (cases "respond E (calls w) (PValidate (RESTClient c) dk (ObjEntity desired))")
  case None
  let ?w = "w\<lparr>calls := PValidate (RESTClient c) dk (ObjEntity desired) # calls w\<rparr>"
  have "wp (step c) (\<lambda>_ w'. log_ok E (calls w') \<and>
     accepted E (PValidate (RESTClient c) dk (ObjEntity desired)) (calls w') \<and> write_ready E dk ns desired c notFound (calls w')) ?w"
    by (rule wp_step) (use assms None dk owner in \<open>auto simp: write_ready_def\<close>)
  then have "wp (step c) (\<lambda>r. wp (case r of
        Some (reason, e) \<Rightarrow> State_Monad.return (RequeueWithErrorAndReason (Some e) reason)
      | None \<Rightarrow> push c notFound) (\<lambda>_ w'. log_ok E (calls w'))) ?w"
    by (rule wp_mono)
      (auto simp: push_eq wp_simps write_ready_def split: option.splits sum.splits)
  with None show ?thesis unfolding validate_and_write_eq by (simp add: wp_bind wp_exec)
next
  case (Some verr)
  with assms show ?thesis unfolding validate_and_write_eq by (simp add: wp_simps)
qed

lemma write_entity_log: "along (keeps_log E) (write_entity c)"
  unfolding along_def keeps_log_def
proof
  fix w :: world
  have "wp (write_entity c) (\<lambda>_ w'. log_ok E (calls w')) w" if "log_ok E (calls w)"
    unfolding write_entity_eq
    by (use that in \<open>auto simp: wp_simps write_ready_def intro!: validate_and_write_log split: sum.splits\<close>)
  then show "wp (write_entity c) (\<lambda>_ w'. log_ok E (calls w) \<longrightarrow> log_ok E (calls w')) w"
    by (cases "log_ok E (calls w)") (auto simp: wp_any)
qed

lemma validate_and_write_spec:
  assumes "factory_ok E w" and "\<And>h. pushed E c dk ns desired h \<Longrightarrow> has h"
  shows "wp (validate_and_write c notFound) (sync_post E has w) w"
proof -
  let ?w = "w\<lparr>calls := PValidate (RESTClient c) dk (ObjEntity desired) # calls w\<rparr>"
  obtain e reason where inv: "invalid verr = RequeueWithErrorAndReason (Some (e verr)) (reason verr)"
    "reason verr \<noteq> []" for verr using invalid by metis
  have "wp (step c) (\<lambda>r w'. ((\<forall>reason e. r = Some (reason, e) \<longrightarrow> reason \<noteq> []) \<and> same_factory ?w w') \<and>
      only_adds (secret_call sk) ?w w') ?w"
    using step_reason alongD [OF step_factory] alongD [OF step_calls] by (simp add: wp_conj)
  then have "wp (step c) (\<lambda>r. wp (case r of
        Some (reason, e) \<Rightarrow> State_Monad.return (RequeueWithErrorAndReason (Some e) reason)
      | None \<Rightarrow> push c notFound) (sync_post E has w)) ?w"
    by (rule wp_mono)
      (use assms in \<open>auto simp: push_eq wp_simps sync_post_def only_adds_def same_factory_def factory_ok_def sync_ok_def
         RequeueWithErrorAndReason_def RequeueWithError_def split: option.splits\<close>)
  then show ?thesis
    unfolding validate_and_write_eq using assms(1) inv
    by (cases "respond E (calls w) (PValidate (RESTClient c) dk (ObjEntity desired))")
      (simp_all add: wp_bind wp_exec wp_return sync_post_fail1)
qed

lemma write_entity_spec:
  assumes "factory_ok E w" and "\<And>h. pushed E c dk ns desired h \<Longrightarrow> has h"
  shows "wp (write_entity c) (sync_post E has w) w"
  using assms unfolding write_entity_eq
  by (auto simp: wp_simps sync_post_fail1 intro!: sync_post_done1 sync_post_later1 validate_and_write_spec
      split: sum.splits)

end

end
