(* ===== verification/DatasourceController.thy ===== *)
theory DatasourceController
  imports EntitySync
begin

text \<open>
  \<^verbatim>\<open>controllers/datasources\<close>: the reconciliation of \<open>PersesDatasource\<close> objects
  (\<^verbatim>\<open>persesdatasource_controller.go\<close>) and their synchronisation with the Perses servers, with the
  credentials that go with them (\<^verbatim>\<open>datasource_controller.go\<close>). The structure is that of theory
  \<open>DashboardController\<close>.
\<close>

type_synonym datasource_ctx = "persesdatasource option"

section \<open>Status\<close>

definition datasource_status_try ::
    "env \<Rightarrow> namespaced_name \<Rightarrow> (persesdatasource \<Rightarrow> persesdatasource go) \<Rightarrow> (error option) go" where
  "datasource_status_try E req updateFn = do {
     r \<leftarrow> ask (\<lambda>h. getDatasource E h APIReader req) (KGet APIReader DatasourceKind req);
     case r of
       Inl err \<Rightarrow> State_Monad.return (Some err)
     | Inr fresh \<Rightarrow> do {
         let before = SnapshotConditions (Datasource_Conditions (Datasource_Status fresh));
         fresh' \<leftarrow> updateFn fresh;
         if \<not> ConditionsChanged E before (Datasource_Conditions (Datasource_Status fresh'))
         then State_Monad.return None
         else exec E (KStatusUpdate (KDatasource fresh'))
       }
   }"

definition updateDatasourceStatus ::
    "env \<Rightarrow> datasource_ctx \<Rightarrow> namespaced_name \<Rightarrow> (persesdatasource \<Rightarrow> persesdatasource go) \<Rightarrow> sub_result go" where
  "updateDatasourceStatus E ctx req updateFn =
     (case ctx of
        None \<Rightarrow> State_Monad.return (RequeueWithError (Some (errorf ''datasource not found in context'')))
      | Some _ \<Rightarrow> do {
          err \<leftarrow> retryOnConflict E (datasource_status_try E req updateFn);
          State_Monad.return (case err of
              None \<Rightarrow> ContinueReconciling
            | Some e \<Rightarrow> if IsNotFound E e then DoNotRequeue else RequeueWithError (Some e))
        })"

definition datasource_SetCondition :: "env \<Rightarrow> condition \<Rightarrow> persesdatasource \<Rightarrow> persesdatasource go" where
  "datasource_SetCondition E c d = do {
     cs \<leftarrow> meta_SetStatusCondition E (Datasource_Conditions (Datasource_Status d)) c;
     State_Monad.return (d\<lparr>Datasource_Status := (Datasource_Status d)\<lparr>Datasource_Conditions := cs\<rparr>\<rparr>)
   }"

definition datasource_setStatusToUnknown :: "env \<Rightarrow> datasource_ctx \<Rightarrow> namespaced_name \<Rightarrow> sub_result go" where
  "datasource_setStatusToUnknown E ctx req =
     updateDatasourceStatus E ctx req (\<lambda>d.
       if length (Datasource_Conditions (Datasource_Status d)) = 0
       then datasource_SetCondition E
              (Condition TypeAvailablePerses ConditionUnknown ''Reconciling'' ''Starting reconciliation'') d
       else State_Monad.return d)"

definition datasource_setStatusToComplete :: "env \<Rightarrow> datasource_ctx \<Rightarrow> namespaced_name \<Rightarrow> sub_result go" where
  "datasource_setStatusToComplete E ctx req =
     updateDatasourceStatus E ctx req (\<lambda>d. do {
       d \<leftarrow> datasource_SetCondition E (Condition TypeDegradedPerses ConditionFalse ''Reconciled''
              (''Datasource ('' @ Name d @ '') reconciled successfully'')) d;
       datasource_SetCondition E (Condition TypeAvailablePerses ConditionTrue ''Reconciled''
              (''Datasource ('' @ Name d @ '') created successfully'')) d
     })"

definition datasource_setStatusToDegraded ::
    "env \<Rightarrow> datasource_ctx \<Rightarrow> namespaced_name \<Rightarrow> ctrl_result option \<Rightarrow> string \<Rightarrow> error option \<Rightarrow> sub_result go" where
  "datasource_setStatusToDegraded E ctx req degradedResult degradedReason degradedError = do {
     let msg = (case degradedError of None \<Rightarrow> ''unknown error'' | Some e \<Rightarrow> Error e);
     (res, err) \<leftarrow> updateDatasourceStatus E ctx req (\<lambda>d. do {
       d \<leftarrow> datasource_SetCondition E (Condition TypeAvailablePerses ConditionFalse degradedReason msg) d;
       datasource_SetCondition E (Condition TypeDegradedPerses ConditionTrue degradedReason msg) d
     });
     State_Monad.return (case err of
         Some _ \<Rightarrow> (res, err)
       | None \<Rightarrow>
           (case degradedError of
              Some e \<Rightarrow> (degradedResult, Some (NewReasonError e degradedReason))
            | None \<Rightarrow> (degradedResult, None)))
   }"

section \<open>The secret of a datasource\<close>

text \<open>
  The Perses secret is built from the client configuration. Data in a Secret or ConfigMap is read,
  data in a file is referred to by its path, except the client id, which Perses cannot read itself.
\<close>

definition datasource_secret_basicAuth :: "env \<Rightarrow> persesdatasource \<Rightarrow> basic_auth \<Rightarrow> (error + p_basic_auth) go" where
  "datasource_secret_basicAuth E ds ba =
     (let cfg = \<lparr>PB_Username = Username ba, PB_Password = [], PB_PasswordFile = []\<rparr>
      in if is_stored (Source_Type ba) then
           bindE (GetBasicAuthData E APIReader (Namespace ds) (Name ds) ba)
             (\<lambda>passwordData. State_Monad.return (Inr (cfg\<lparr>PB_Password := passwordData\<rparr>)))
         else if Source_Type ba = SecretSourceTypeFile then
           State_Monad.return (Inr (cfg\<lparr>PB_PasswordFile := PasswordPath ba\<rparr>))
         else State_Monad.return (Inr cfg))"

definition datasource_secret_oauth :: "env \<Rightarrow> persesdatasource \<Rightarrow> oauth \<Rightarrow> (error + p_oauth) go" where
  "datasource_secret_oauth E ds oa =
     (let cfg = \<lparr>PO_ClientID = [], PO_ClientSecret = [], PO_ClientSecretFile = [], PO_TokenURL = TokenURL oa,
                 PO_Scopes = Scopes oa, PO_EndpointParams = EndpointParams oa,
                 PO_AuthStyle = (case AuthStyle oa of None \<Rightarrow> 0 | Some a \<Rightarrow> if a \<noteq> 0 then scast a else 0)\<rparr>
      in if is_stored (Source_Type oa) then
           bindE (GetOAuthData E APIReader (Namespace ds) (Name ds) oa)
             (\<lambda>(clientIDData, clientSecretData).
                State_Monad.return (Inr (cfg\<lparr>PO_ClientID := clientIDData, PO_ClientSecret := clientSecretData\<rparr>)))
         else if Source_Type oa = SecretSourceTypeFile then
           (case ClientIDPath oa of
              None \<Rightarrow> State_Monad.return (Inl (errorf (''clientIDPath is required when OAuth type is File for datasource '' @ Name ds)))
            | Some path \<Rightarrow> do {
                r \<leftarrow> ReadFile E path;
                State_Monad.return (case r of
                    Inl err \<Rightarrow> Inl (errorf_w (''failed to read the OAuth client ID file '' @ path @ '': '') err)
                  | Inr clientID \<Rightarrow>
                      Inr (let cfg = cfg\<lparr>PO_ClientID := clientID\<rparr>
                           in case ClientSecretPath oa of None \<Rightarrow> cfg | Some sp \<Rightarrow> cfg\<lparr>PO_ClientSecretFile := sp\<rparr>))
              })
         else State_Monad.return (Inr cfg))"

definition datasource_secret_caCert :: "env \<Rightarrow> persesdatasource \<Rightarrow> certificate option \<Rightarrow> p_tls_config \<Rightarrow> (error + p_tls_config) go" where
  "datasource_secret_caCert E ds cert cfg =
     (case cert of
        None \<Rightarrow> State_Monad.return (Inr cfg)
      | Some c \<Rightarrow>
          if is_stored (Source_Type c) then
            bindE (GetTLSCertData E APIReader (Namespace ds) (Name ds) c)
              (\<lambda>(caData, _). State_Monad.return (Inr (cfg\<lparr>PT_CA := caData\<rparr>)))
          else if Source_Type c = SecretSourceTypeFile then
            State_Monad.return (Inr (cfg\<lparr>PT_CAFile := CertPath c\<rparr>))
          else State_Monad.return (Inr cfg))"

definition datasource_secret_userCert :: "env \<Rightarrow> persesdatasource \<Rightarrow> certificate option \<Rightarrow> p_tls_config \<Rightarrow> (error + p_tls_config) go" where
  "datasource_secret_userCert E ds cert cfg =
     (case cert of
        None \<Rightarrow> State_Monad.return (Inr cfg)
      | Some c \<Rightarrow>
          if is_stored (Source_Type c) then
            bindE (GetTLSCertData E APIReader (Namespace ds) (Name ds) c)
              (\<lambda>(certData, keyData). State_Monad.return (Inr (cfg\<lparr>PT_Cert := certData, PT_Key := keyData\<rparr>)))
          else if Source_Type c = SecretSourceTypeFile then
            State_Monad.return (Inr (let cfg = cfg\<lparr>PT_CertFile := CertPath c\<rparr>
              in case PrivateKeyPath c of
                   None \<Rightarrow> cfg
                 | Some kp \<Rightarrow> if length kp > 0 then cfg\<lparr>PT_KeyFile := kp\<rparr> else cfg))
          else State_Monad.return (Inr cfg))"

definition datasource_secret_tls :: "env \<Rightarrow> persesdatasource \<Rightarrow> tls \<Rightarrow> (error + p_tls_config) go" where
  "datasource_secret_tls E ds t =
     bindE (datasource_secret_caCert E ds (TLS_CaCert t)
              (TLSConfig_zero\<lparr>PT_InsecureSkipVerify := (case TLS_InsecureSkipVerify t of None \<Rightarrow> False | Some b \<Rightarrow> b)\<rparr>))
       (datasource_secret_userCert E ds (TLS_UserCert t))"

text \<open>A part of the configuration that is absent contributes nothing.\<close>

definition datasource_optional :: "('a \<Rightarrow> (error + 'b) go) \<Rightarrow> 'a option \<Rightarrow> (error + 'b option) go" where
  "datasource_optional f v =
     (case v of
        None \<Rightarrow> State_Monad.return (Inr None)
      | Some y \<Rightarrow> bindE (f y) (\<lambda>z. State_Monad.return (Inr (Some z))))"

definition datasource_build_secret :: "env \<Rightarrow> persesdatasource \<Rightarrow> client \<Rightarrow> (error + p_secret) go" where
  "datasource_build_secret E ds cl =
     bindE (datasource_optional (datasource_secret_basicAuth E ds) (Client_BasicAuth cl)) (\<lambda>ba.
     bindE (datasource_optional (datasource_secret_oauth E ds) (Client_OAuth cl)) (\<lambda>oa.
     bindE (datasource_optional (datasource_secret_tls E ds) (Client_TLS cl)) (\<lambda>t.
       State_Monad.return (Inr \<lparr>PSecret_Kind = ''Secret'', PSecret_Name = Name ds @ SecretNameSuffix,
          PSecret_BasicAuth = ba, PSecret_OAuth = oa, PSecret_TLSConfig = t\<rparr>))))"

definition datasource_write_secret :: "env \<Rightarrow> v1_client \<Rightarrow> persesdatasource \<Rightarrow> p_secret \<Rightarrow> sync_result go" where
  "datasource_write_secret E c ds s = do {
     gerr \<leftarrow> exec E (PGet c PSecret (Namespace ds) (Name ds @ SecretNameSuffix));
     case gerr of
       Some err \<Rightarrow>
         if IsRequestNotFound E err then do {
           cerr \<leftarrow> exec E (PCreate c PSecret (Namespace ds) (ObjSecret s));
           State_Monad.return (case cerr of
               Some e \<Rightarrow> RequeueWithErrorAndReason (Some e) ReasonBackendError
             | None \<Rightarrow> (None, [], None))
         } else State_Monad.return (RequeueWithErrorAndReason (Some err) ReasonBackendError)
     | None \<Rightarrow> do {
         uerr \<leftarrow> exec E (PUpdate c PSecret (Namespace ds) (ObjSecret s));
         State_Monad.return (case uerr of
             Some e \<Rightarrow> RequeueWithErrorAndReason (Some e) ReasonBackendError
           | None \<Rightarrow> (None, [], None))
       }
   }"

definition syncPersesSecret :: "env \<Rightarrow> v1_client \<Rightarrow> persesdatasource \<Rightarrow> client \<Rightarrow> sync_result go" where
  "syncPersesSecret E c ds cl = do {
     built \<leftarrow> datasource_build_secret E ds cl;
     case built of
       Inl err \<Rightarrow> State_Monad.return (RequeueWithErrorAndReason (Some err) ReasonInvalidConfiguration)
     | Inr s \<Rightarrow> datasource_write_secret E c ds s
   }"

section \<open>Synchronisation with one instance\<close>

definition desired_datasource :: "persesdatasource \<Rightarrow> p_entity" where
  "desired_datasource ds =
     \<lparr>Entity_Kind = ''Datasource'', Entity_Name = Name ds, Entity_Tags = ParseTags (Annotations ds),
      Entity_Spec = Datasource_Config (Datasource_Spec ds)\<rparr>"

text \<open>The secret is synchronised only when the client configuration asks for one.\<close>

definition datasource_secret_step :: "env \<Rightarrow> v1_client \<Rightarrow> persesdatasource \<Rightarrow> ((string \<times> error) option) go" where
  "datasource_secret_step E c ds =
     (case Datasource_Client (Datasource_Spec ds) of
        None \<Rightarrow> State_Monad.return None
      | Some cl \<Rightarrow>
          if HasSecretConfig (Some cl) then do {
            (_, reason, err) \<leftarrow> syncPersesSecret E c ds cl;
            State_Monad.return (map_option (\<lambda>e. (reason, e)) err)
          } else State_Monad.return None)"

definition datasource_write :: "env \<Rightarrow> v1_client \<Rightarrow> persesdatasource \<Rightarrow> bool \<Rightarrow> sync_result go" where
  "datasource_write E c ds notFound = do {
     let ob = ObjEntity (desired_datasource ds);
     err \<leftarrow> (if notFound then exec E (PCreate c PDatasource (Namespace ds) ob)
            else exec E (PUpdate c PDatasource (Namespace ds) ob));
     State_Monad.return (case err of
         Some e \<Rightarrow> RequeueWithErrorAndReason (Some e) ReasonBackendError
       | None \<Rightarrow> (None, [], None))
   }"

definition datasource_validate_and_write ::
    "env \<Rightarrow> v1_client \<Rightarrow> persesdatasource \<Rightarrow> bool \<Rightarrow> sync_result go" where
  "datasource_validate_and_write E c ds notFound = do {
     validateErr \<leftarrow> exec E (PValidate (RESTClient c) PDatasource (ObjEntity (desired_datasource ds)));
     case validateErr of
       Some verr \<Rightarrow>
         State_Monad.return
           (if IsClientError verr
            then RequeueWithErrorAndReason (Some (errorf_w (''datasource '' @ Quote (Name ds) @
                   '' failed server-side validation: '') verr)) ReasonValidationFailed
            else RequeueWithErrorAndReason (Some (errorf_w (''datasource '' @ Quote (Name ds) @
                   '' validation request failed: '') verr)) ReasonBackendError)
     | None \<Rightarrow> do {
         serr \<leftarrow> datasource_secret_step E c ds;
         case serr of
           Some (reason, e) \<Rightarrow> State_Monad.return (RequeueWithErrorAndReason (Some e) reason)
         | None \<Rightarrow> datasource_write E c ds notFound
       }
   }"

definition datasource_write_entity :: "env \<Rightarrow> v1_client \<Rightarrow> persesdatasource \<Rightarrow> sync_result go" where
  "datasource_write_entity E c ds = do {
     existing \<leftarrow> ask (\<lambda>h. getEntity E h c PDatasource (Namespace ds) (Name ds)) (PGet c PDatasource (Namespace ds) (Name ds));
     case existing of
       Inl err \<Rightarrow>
         if IsRequestNotFound E err then datasource_validate_and_write E c ds True
         else State_Monad.return (RequeueWithErrorAndReason (Some err) ReasonBackendError)
     | Inr ex \<Rightarrow>
         if DatasourceInSync E ex (desired_datasource ds) then State_Monad.return (None, [], None)
         else datasource_validate_and_write E c ds False
   }"

definition syncPersesDatasource :: "env \<Rightarrow> persesdatasource \<Rightarrow> perses \<Rightarrow> sync_result go" where
  "syncPersesDatasource E ds p = do {
     cl \<leftarrow> CreateClient E APIReader p;
     case cl of
       Inl err \<Rightarrow> State_Monad.return (RequeueWithErrorAndReason (Some err) ReasonConnectionFailed)
     | Inr c \<Rightarrow> do {
         perr \<leftarrow> ensure_project E c (Namespace ds);
         case perr of
           Some err \<Rightarrow> State_Monad.return (RequeueWithErrorAndReason (Some err) ReasonBackendError)
         | None \<Rightarrow> datasource_write_entity E c ds
       }
   }"

section \<open>All instances\<close>

text \<open>The part of \<open>reconcileDatasourcesInAllInstances\<close> after \<open>r.List\<close>.\<close>

definition datasource_sync_listed ::
    "env \<Rightarrow> persesdatasource \<Rightarrow> namespaced_name \<Rightarrow> error + perses list \<Rightarrow> sub_result go" where
  "datasource_sync_listed E ds req instances =
     (case instances of
        Inl err \<Rightarrow>
          (let (res, err) = RequeueWithError (Some err)
           in datasource_setStatusToDegraded E (Some ds) req res ReasonMissingPerses err)
      | Inr items \<Rightarrow>
          if length items = 0 then
            datasource_setStatusToDegraded E (Some ds) req (Some \<lparr>RequeueAfter = time_Minute\<rparr>) ReasonMissingPerses
              (Some (errorf ''no Perses instances found matching the label selector''))
          else do {
            r \<leftarrow> sync_instances E (syncPersesDatasource E ds) TypeAvailablePerses items;
            case r of
              Some (res, reason, err) \<Rightarrow> datasource_setStatusToDegraded E (Some ds) req res reason err
            | None \<Rightarrow> State_Monad.return ContinueReconciling
          })"

definition reconcileDatasourcesInAllInstances :: "env \<Rightarrow> datasource_ctx \<Rightarrow> namespaced_name \<Rightarrow> sub_result go" where
  "reconcileDatasourcesInAllInstances E ctx req =
     (case ctx of
        None \<Rightarrow>
          (let (res, err) = RequeueWithError (Some (errorf ''datasource not found in context''))
           in datasource_setStatusToDegraded E ctx req res ReasonMissingResource err)
      | Some ds \<Rightarrow>
          (case (case Datasource_InstanceSelector (Datasource_Spec ds) of
                   None \<Rightarrow> Inr Everything
                 | Some sel \<Rightarrow> (case LabelSelectorAsSelector E sel of Some err \<Rightarrow> Inl err | None \<Rightarrow> Inr (SelectorOf sel))) of
             Inl err \<Rightarrow> State_Monad.return (RequeueWithError (Some err))
           | Inr labelSelector \<Rightarrow> do {
               instances \<leftarrow> ask (\<lambda>h. listPerses E h (BySelector labelSelector)) (KList (BySelector labelSelector));
               datasource_sync_listed E ds req instances
             }))"

text \<open>The datasource and its secret: a missing one is not an error, and both are attempted.\<close>

definition datasource_delete_with :: "env \<Rightarrow> string \<Rightarrow> string \<Rightarrow> v1_client \<Rightarrow> sub_result go" where
  "datasource_delete_with E datasourceNamespace datasourceName c = do {
     derr \<leftarrow> exec E (PDelete c PDatasource datasourceNamespace datasourceName);
     case (case derr of Some err \<Rightarrow> if IsRequestNotFound E err then None else Some err | None \<Rightarrow> None) of
       Some err \<Rightarrow> State_Monad.return (RequeueWithError (Some err))
     | None \<Rightarrow> do {
         serr \<leftarrow> exec E (PDelete c PSecret datasourceNamespace (datasourceName @ SecretNameSuffix));
         State_Monad.return (case serr of
             Some err \<Rightarrow> if IsRequestNotFound E err then ContinueReconciling else RequeueWithError (Some err)
           | None \<Rightarrow> ContinueReconciling)
       }
   }"

definition deleteDatasource :: "env \<Rightarrow> string \<Rightarrow> string \<Rightarrow> perses \<Rightarrow> sub_result go" where
  "deleteDatasource E datasourceNamespace datasourceName p = do {
     cl \<leftarrow> CreateClient E APIReader p;
     case cl of
       Inl err \<Rightarrow> State_Monad.return (RequeueWithError (Some err))
     | Inr c \<Rightarrow> do {
         perr \<leftarrow> exec E (PGet c PProject [] datasourceNamespace);
         case perr of
           Some err \<Rightarrow> State_Monad.return (RequeueWithError (Some err))
         | None \<Rightarrow> datasource_delete_with E datasourceNamespace datasourceName c
       }
   }"

definition deleteDatasourceInAllInstances :: "env \<Rightarrow> string \<Rightarrow> string \<Rightarrow> sub_result go" where
  "deleteDatasourceInAllInstances E datasourceNamespace datasourceName = do {
     instances \<leftarrow> ask (\<lambda>h. listPerses E h AllObjects) (KList AllObjects);
     case instances of
       Inl err \<Rightarrow> State_Monad.return (RequeueWithError (Some err))
     | Inr items \<Rightarrow>
         if length items = 0 then State_Monad.return DoNotRequeue
         else delete_instances (deleteDatasource E datasourceNamespace datasourceName) items
   }"

section \<open>Reconcile\<close>

definition datasource_Reconcile :: "env \<Rightarrow> namespaced_name \<Rightarrow> ((ctrl_result \<times> error option) option) go" where
  "datasource_Reconcile E req = do {
     let objKey = NamespacedName_String E req;
     _ \<leftarrow> if_metrics [PromInc ReconcileOperations (the (Metrics_ReconcileOperations ''persesdatasource''))] (\<lambda>m. m);
     r \<leftarrow> ask (\<lambda>h. getDatasource E h APIReader req) (KGet APIReader DatasourceKind req);
     case r of
       Inl err \<Rightarrow>
         if IsNotFound E err then do {
           _ \<leftarrow> forget_object objKey;
           res \<leftarrow> deleteDatasourceInAllInstances E (NN_Namespace req) (NN_Name req);
           State_Monad.return (Evaluate res)
         } else do {
           _ \<leftarrow> if_metrics [PromInc ReconcileErrors (the (Metrics_ReconcileErrors ''persesdatasource'' ''get_failed''))] (\<lambda>m. m);
           State_Monad.return (Evaluate (RequeueWithError (Some err)))
         }
     | Inr ds \<Rightarrow> do {
         let ctx = datasourceFromContext (withDatasource background ds);
         reconcileErr \<leftarrow> run_subreconcilers
           [datasource_setStatusToUnknown E ctx req,
            reconcileDatasourcesInAllInstances E ctx req,
            datasource_setStatusToComplete E ctx req];
         _ \<leftarrow> track_outcome ''persesdatasource'' ''datasource'' (NN_Namespace req)
                ''Datasource reconciled successfully'' objKey reconcileErr;
         State_Monad.return (case reconcileErr of
             Some e \<Rightarrow> Evaluate (RequeueWithError (Some e))
           | None \<Rightarrow> Evaluate DoNotRequeue)
       }
   }"

definition findDatasourcesForPerses :: "env \<Rightarrow> (namespaced_name list) go" where
  "findDatasourcesForPerses E = MetadataListToRequests E DatasourceKind"

section \<open>The synchronisation obeys the discipline\<close>

lemma DatasourceInSync_in_sync: "DatasourceInSync E = in_sync E"
  by (intro ext) (simp add: DatasourceInSync_def in_sync_def)

lemma Entity_Name_desired_datasource [simp]: "Entity_Name (desired_datasource ds) = Name ds"
  by (simp add: desired_datasource_def)

lemmas datasource_secret_defs =
  datasource_build_secret_def datasource_optional_def datasource_secret_basicAuth_def datasource_secret_oauth_def
  datasource_secret_tls_def datasource_secret_caCert_def datasource_secret_userCert_def Let_def

lemma emits_datasource_build_secret: "emits factory_call (datasource_build_secret E ds cl)"
  unfolding datasource_secret_defs by (auto intro!: along_intros emits_get_data)

lemma datasource_build_secret_factory: "along same_factory (datasource_build_secret E ds cl)"
  unfolding datasource_secret_defs by (auto intro!: along_intros along_get_data)

lemma datasource_build_secret_name:
  "wp (datasource_build_secret E ds cl) (\<lambda>r _. \<forall>s. r = Inr s \<longrightarrow> PSecret_Name s = Name ds @ SecretNameSuffix) w"
  unfolding datasource_build_secret_def wp_bindE
  by (auto simp: wp_return split: sum.splits intro!: wp_any)

lemma datasource_write_secret_log:
  assumes "PSecret_Name s = Name ds @ SecretNameSuffix" and "log_ok E (calls w)"
    and "accepted_owner E c PSecret (Name ds @ SecretNameSuffix) (calls w)"
  shows "wp (datasource_write_secret E c ds s) (\<lambda>_ w'. log_ok E (calls w')) w"
  using assms unfolding datasource_write_secret_def by (auto simp: wp_simps split: option.splits)

lemma syncPersesSecret_log:
  assumes "log_ok E (calls w)" and "accepted_owner E c PSecret (Name ds @ SecretNameSuffix) (calls w)"
  shows "wp (syncPersesSecret E c ds cl) (\<lambda>_ w'. log_ok E (calls w')) w"
proof -
  have "wp (datasource_build_secret E ds cl) (\<lambda>r w'. (\<forall>s. r = Inr s \<longrightarrow> PSecret_Name s = Name ds @ SecretNameSuffix) \<and>
      only_adds free w w') w"
    using datasource_build_secret_name alongD [OF emits_free_factory [OF emits_datasource_build_secret]] by (simp add: wp_conj)
  then show ?thesis
    unfolding syncPersesSecret_def wp_bind
    by (rule wp_mono) (use assms in \<open>auto simp: wp_simps only_adds_def log_ok_free accepted_owner_append
        intro!: datasource_write_secret_log split: sum.splits\<close>)
qed

lemma datasource_secret_step_reason:
  "wp (datasource_secret_step E c ds) (\<lambda>r _. \<forall>reason e. r = Some (reason, e) \<longrightarrow> reason \<noteq> []) w"
proof -
  have "wp (syncPersesSecret E c ds cl) (\<lambda>(_, reason, err) _. err \<noteq> None \<longrightarrow> reason \<noteq> []) w" for cl w
    unfolding syncPersesSecret_def wp_bind datasource_write_secret_def RequeueWithErrorAndReason_def RequeueWithError_def
    by (rule wp_any) (auto simp: wp_simps split: sum.splits option.splits)
  note reason = this
  show ?thesis
    unfolding datasource_secret_step_def
    by (auto simp: wp_simps split: option.splits intro!: wp_mono [OF reason])
qed

interpretation ssec: secret_step E PSecret "Name ds" "\<lambda>c. datasource_secret_step E c ds"
  for E :: env and ds :: persesdatasource
proof
  fix c :: v1_client and w :: world
  show "emits (secret_call PSecret) (datasource_secret_step E c ds)"
    unfolding datasource_secret_step_def syncPersesSecret_def datasource_write_secret_def
    by (auto intro!: along_intros emits_mono [OF emits_datasource_build_secret secret_call_factory])
  show "along same_factory (datasource_secret_step E c ds)"
    unfolding datasource_secret_step_def syncPersesSecret_def datasource_write_secret_def
    by (auto intro!: along_intros datasource_build_secret_factory)
  show "wp (datasource_secret_step E c ds) (\<lambda>r _. \<forall>reason e. r = Some (reason, e) \<longrightarrow> reason \<noteq> []) w"
    by (rule datasource_secret_step_reason)
  assume "accepted_owner E c PSecret (Name ds @ SecretNameSuffix) (calls w)" and "log_ok E (calls w)"
  then show "wp (datasource_secret_step E c ds) (\<lambda>_ w'. log_ok E (calls w')) w"
    unfolding datasource_secret_step_def
    by (auto simp: wp_simps case_prod_unfold intro!: syncPersesSecret_log split: option.splits)
qed

interpretation sent: entity_sync E PSecret "Name ds" "\<lambda>c. datasource_secret_step E c ds" PDatasource "Namespace ds" "desired_datasource ds"
  "\<lambda>verr. if IsClientError verr
     then RequeueWithErrorAndReason (Some (errorf_w (''datasource '' @ Quote (Name ds) @ '' failed server-side validation: '') verr)) ReasonValidationFailed
     else RequeueWithErrorAndReason (Some (errorf_w (''datasource '' @ Quote (Name ds) @ '' validation request failed: '') verr)) ReasonBackendError"
  "\<lambda>c. datasource_write E c ds" "\<lambda>c. datasource_validate_and_write E c ds" "\<lambda>c. datasource_write_entity E c ds"
  for E :: env and ds :: persesdatasource
proof
  fix verr
  show "\<exists>e reason. (if IsClientError verr
     then RequeueWithErrorAndReason (Some (errorf_w (''datasource '' @ Quote (Name ds) @ '' failed server-side validation: '') verr)) ReasonValidationFailed
     else RequeueWithErrorAndReason (Some (errorf_w (''datasource '' @ Quote (Name ds) @ '' validation request failed: '') verr)) ReasonBackendError) =
       RequeueWithErrorAndReason (Some e) reason \<and> reason \<noteq> []"
    by (cases "IsClientError verr") (auto intro!: exI)
qed (simp_all add: datasource_write_def datasource_validate_and_write_def datasource_write_entity_def DatasourceInSync_in_sync cong: sum.case_cong)

lemma datasource_sync_log: "along (keeps_log E) (syncPersesDatasource E ds p)"
  unfolding syncPersesDatasource_def
  by (auto intro!: along_intros along_ensure_project sent.write_entity_log
      along_keeps_log [OF emits_free_factory [OF emits_CreateClient]])

lemma datasource_sync_spec:
  assumes "factory_ok E w"
  shows "wp (syncPersesDatasource E ds p)
    (sync_post E (has_entity E PDatasource (Namespace ds) (desired_datasource ds) p) w) w"
  unfolding syncPersesDatasource_def
  by (intro wp_with_client wp_with_project sent.write_entity_spec assms)
    (auto simp: has_entity_def)

interpretation ssync: instance_sync E "factory_ok E" "syncPersesDatasource E ds"
  "has_entity E PDatasource (Namespace ds) (desired_datasource ds)"
  for E :: env and ds :: persesdatasource
proof
  show "wp (syncPersesDatasource E ds p) (\<lambda>r w'. factory_ok E w' \<and> (\<exists>cs. calls w' = cs @ calls w) \<and>
      sync_ok r \<and> (fst r = None \<longrightarrow> has_entity E PDatasource (Namespace ds) (desired_datasource ds) p (calls w'))) w"
    if "factory_ok E w" for w p
    using datasource_sync_spec [OF that] by (simp add: sync_post_def [abs_def])
qed (auto intro: has_entity_mono datasource_sync_log)

section \<open>Deletion\<close>

interpretation sdel: instance_delete "deleteDatasource E ns n" "child_delete_call {PDatasource, PSecret}"
  for E :: env and ns n :: string
proof
  fix p w
  show "wp (deleteDatasource E ns n p) (\<lambda>r _. delete_ok r) w"
    unfolding deleteDatasource_def datasource_delete_with_def wp_bind
    by (rule wp_any) (auto simp: wp_simps delete_ok_def split: sum.splits option.splits)
  show "emits (child_delete_call {PDatasource, PSecret}) (deleteDatasource E ns n p)"
    unfolding deleteDatasource_def datasource_delete_with_def
    by (auto intro!: along_intros emits_mono [OF emits_CreateClient child_delete_call_factory])
qed

section \<open>Status updates\<close>

lemma updateDatasourceStatus_result:
  "wp (updateDatasourceStatus E ctx req f)
     (\<lambda>r _. r = ContinueReconciling \<or> r = DoNotRequeue \<or> (\<exists>e. r = RequeueWithError (Some e))) w"
  unfolding updateDatasourceStatus_def
  by (auto simp: wp_simps wp_def split: option.splits prod.splits)

lemma emits_updateDatasourceStatus:
  assumes "retry_law E" and "\<And>d. emits status_call (f d)"
  shows "emits status_call (updateDatasourceStatus E ctx req f)"
  unfolding updateDatasourceStatus_def datasource_status_try_def Let_def
  by (auto intro!: along_intros assms)

lemma emits_datasource_SetCondition: "emits status_call (datasource_SetCondition E c d)"
  unfolding datasource_SetCondition_def by (auto intro!: along_intros)

lemma emits_datasource_setStatus:
  assumes "retry_law E"
  shows "emits status_call (datasource_setStatusToUnknown E ctx req)"
    and "emits status_call (datasource_setStatusToComplete E ctx req)"
    and "emits status_call (datasource_setStatusToDegraded E ctx req res reason err)"
  unfolding datasource_setStatusToUnknown_def datasource_setStatusToComplete_def
    datasource_setStatusToDegraded_def Let_def
  by (auto intro!: along_intros emits_updateDatasourceStatus [OF assms] emits_datasource_SetCondition)

lemma datasource_setStatusToDegraded_result:
  "wp (datasource_setStatusToDegraded E ctx req res reason (Some e)) (\<lambda>r _. degraded_ok res reason e r) w"
  unfolding datasource_setStatusToDegraded_def Let_def wp_bind
  by (rule wp_mono [OF updateDatasourceStatus_result]) (auto simp: wp_simps go_def degraded_ok_def)

interpretation slist: listed_sync E "factory_ok E" "syncPersesDatasource E ds"
  "has_entity E PDatasource (Namespace ds) (desired_datasource ds)"
  "datasource_setStatusToDegraded E (Some ds) req" "datasource_sync_listed E ds req"
  for E :: env and ds :: persesdatasource and req :: namespaced_name
  by unfold_locales
    (auto simp: datasource_setStatusToDegraded_result emits_datasource_setStatus datasource_sync_listed_def
      RequeueWithError_def split: sum.splits)

section \<open>The controller\<close>

lemma datasource_all_log:
  assumes "retry_law E"
  shows "along (keeps_log E) (reconcileDatasourcesInAllInstances E (Some ds) req)"
  unfolding reconcileDatasourcesInAllInstances_def
  by (auto intro!: along_intros keeps_log_call slist.listed_log [OF assms])

lemma emits_datasource_all:
  assumes "retry_law E"
  shows "emits silent (reconcileDatasourcesInAllInstances E (Some ds) req)"
proof -
  have "emits silent (syncPersesDatasource E ds p)" for p
    unfolding syncPersesDatasource_def datasource_write_entity_def datasource_validate_and_write_def datasource_write_def Let_def ensure_project_def
    by (auto intro!: along_intros emits_mono [OF emits_CreateClient factory_call_silent] emits_mono [OF ssec.step_calls secret_call_silent])
  then have "emits silent (sync_instances E (syncPersesDatasource E ds) ty ps)" for ty ps
    by (rule emits_sync_instances)
  then show ?thesis
    unfolding reconcileDatasourcesInAllInstances_def datasource_sync_listed_def RequeueWithError_def Let_def
    by (auto intro!: along_intros emits_mono [OF emits_datasource_setStatus(3) [OF assms] status_call_silent])
qed

interpretation sctl: child_controller E DatasourceKind "''persesdatasource''" "''datasource''"
  "''Datasource reconciled successfully''" NN_Namespace "\<lambda>h. getDatasource E h APIReader"
  "\<lambda>ds. datasource_setStatusToUnknown E (Some ds)" "\<lambda>ds. reconcileDatasourcesInAllInstances E (Some ds)"
  "\<lambda>ds. datasource_setStatusToComplete E (Some ds)"
  "\<lambda>req. deleteDatasourceInAllInstances E (NN_Namespace req) (NN_Name req)" "datasource_Reconcile E"
  for E :: env
proof
  fix req and w :: world
  show "wp (deleteDatasourceInAllInstances E (NN_Namespace req) (NN_Name req))
      (\<lambda>r _. r = DoNotRequeue \<or> (\<exists>e. r = RequeueWithError (Some e))) w"
    unfolding deleteDatasourceInAllInstances_def
    by (auto simp: wp_simps split: sum.splits intro!: wp_mono [OF sdel.delete_instances_result])
  show "emits (child_delete_call UNIV) (deleteDatasourceInAllInstances E (NN_Namespace req) (NN_Name req))"
    unfolding deleteDatasourceInAllInstances_def
    by (auto intro!: along_intros emits_mono [OF sdel.delete_instances_calls] elim: child_delete_call_mono)
qed (simp_all add: datasource_Reconcile_def Let_def emits_datasource_setStatus emits_datasource_all datasource_all_log)

definition datasource_selector :: "persesdatasource \<Rightarrow> selector" where
  "datasource_selector ds =
     (case Datasource_InstanceSelector (Datasource_Spec ds) of None \<Rightarrow> Everything | Some sel \<Rightarrow> SelectorOf sel)"

text \<open>
  C13: writes of datasources and of their secrets are justified. Whatever Kubernetes and the Perses
  servers answer, reconciling a datasource keeps the discipline of the log: a datasource is created
  only if its look-up answered that it does not exist, updated only if the look-up returned a
  version that differs, both only after the server accepted exactly that datasource; and its secret
  is written only after the datasource was accepted, so a rejected one leaves no orphaned secret.
\<close>

theorem datasource_Reconcile_disciplined:
  assumes "retry_law E" and "log_ok E (calls w)"
  shows "wp (datasource_Reconcile E req) (\<lambda>_ w'. log_ok E (calls w')) w"
  using assms by (rule sctl.Reconcile_disciplined)

text \<open>
  C14: when the reconciliation of a datasource with its instances goes on to completion, every
  available instance that its selector selects has the datasource.
\<close>

theorem datasource_on_every_available_instance:
  assumes "factory_ok E w"
  shows "wp (reconcileDatasourcesInAllInstances E (Some ds) req)
    (\<lambda>r w'. r = ContinueReconciling \<longrightarrow>
       (\<exists>items. listPerses E (calls w) (BySelector (datasource_selector ds)) = Inr items \<and> items \<noteq> [] \<and>
          all_have E (has_entity E PDatasource (Namespace ds) (desired_datasource ds)) items (calls w'))) w"
  using assms slist.listed_spec [of E _ ds req]
  unfolding reconcileDatasourcesInAllInstances_def datasource_selector_def
  by (simp add: wp_simps split: option.splits sum.splits) (simp add: RequeueWithError_def ContinueReconciling_def)

text \<open>
  \<open>Reconcile\<close> of a datasource always returns, with no \<open>nil\<close> dereference and no delay.\<close>

lemma datasource_Reconcile_returns:
  "wp (datasource_Reconcile E req) (\<lambda>r _. \<exists>err. r = Some (Result_zero, err)) w"
  by (rule sctl.Reconcile_returns)

text \<open>
  C28: a change of the credentials alone does not reach Perses. When the server holds a datasource
  with the desired tags and specification, its synchronisation makes no further call, whatever the
  client configuration of the object says: the secret is not written.
\<close>

theorem datasource_credentials_not_updated:
  assumes "getEntity E (calls w) c PDatasource (Namespace ds) (Name ds) = Inr ex"
    and "DatasourceInSync E ex (desired_datasource ds)"
  shows "wp (datasource_write_entity E c ds)
    (\<lambda>r w'. r = (None, [], None) \<and>
       w' = w\<lparr>calls := PGet c PDatasource (Namespace ds) (Name ds) # calls w\<rparr>) w"
  using assms by (simp add: datasource_write_entity_def wp_simps)

text \<open>
  C29: the deletion of a datasource attempts its secret too. Whether the server knew the datasource
  or not, the secret with its name is deleted next, and a secret that does not exist is no error;
  any other error stops and is returned.
\<close>

theorem datasource_delete_also_deletes_secret:
  assumes "respond E (calls w) (PDelete c PDatasource ns n) = derr"
    and "case derr of None \<Rightarrow> True | Some err \<Rightarrow> IsRequestNotFound E err"
  shows "wp (datasource_delete_with E ns n c)
    (\<lambda>r w'. calls w' = PDelete c PSecret ns (n @ SecretNameSuffix) # PDelete c PDatasource ns n # calls w \<and>
       (snd r \<noteq> None \<longleftrightarrow>
          (\<exists>err. respond E (PDelete c PDatasource ns n # calls w) (PDelete c PSecret ns (n @ SecretNameSuffix)) = Some err \<and>
             \<not> IsRequestNotFound E err))) w"
  using assms unfolding datasource_delete_with_def
  by (auto simp: wp_simps go_def split: option.splits)

end
