(* ===== verification/GlobalDatasourceController.thy ===== *)
theory GlobalDatasourceController
  imports EntitySync
begin

text \<open>
  \<^verbatim>\<open>controllers/globaldatasources\<close>: the reconciliation of \<open>PersesGlobalDatasource\<close> objects
  (\<^verbatim>\<open>persesglobaldatasource_controller.go\<close>) and their synchronisation with the Perses servers, with the
  credentials that go with them (\<^verbatim>\<open>globaldatasource_controller.go\<close>). The structure is that of theory
  \<open>DashboardController\<close>, without projects: a global datasource has no namespace, and the credentials
  are read from the namespace that the source itself names.
\<close>

type_synonym globaldatasource_ctx = "persesglobaldatasource option"

section \<open>Status\<close>

definition globaldatasource_status_try ::
    "env \<Rightarrow> namespaced_name \<Rightarrow> (persesglobaldatasource \<Rightarrow> persesglobaldatasource go) \<Rightarrow> (error option) go" where
  "globaldatasource_status_try E req updateFn = do {
     r \<leftarrow> ask (\<lambda>h. getGlobalDatasource E h APIReader req) (KGet APIReader GlobalDatasourceKind req);
     case r of
       Inl err \<Rightarrow> State_Monad.return (Some err)
     | Inr fresh \<Rightarrow> do {
         let before = SnapshotConditions (GlobalDatasource_Conditions (GlobalDatasource_Status fresh));
         fresh' \<leftarrow> updateFn fresh;
         if \<not> ConditionsChanged E before (GlobalDatasource_Conditions (GlobalDatasource_Status fresh'))
         then State_Monad.return None
         else exec E (KStatusUpdate (KGlobalDatasource fresh'))
       }
   }"

definition updateGlobalDatasourceStatus ::
    "env \<Rightarrow> globaldatasource_ctx \<Rightarrow> namespaced_name \<Rightarrow> (persesglobaldatasource \<Rightarrow> persesglobaldatasource go) \<Rightarrow> sub_result go" where
  "updateGlobalDatasourceStatus E ctx req updateFn =
     (case ctx of
        None \<Rightarrow> State_Monad.return (RequeueWithError (Some (errorf ''globaldatasource not found in context'')))
      | Some _ \<Rightarrow> do {
          err \<leftarrow> retryOnConflict E (globaldatasource_status_try E req updateFn);
          State_Monad.return (case err of
              None \<Rightarrow> ContinueReconciling
            | Some e \<Rightarrow> if IsNotFound E e then DoNotRequeue else RequeueWithError (Some e))
        })"

definition globaldatasource_SetCondition :: "env \<Rightarrow> condition \<Rightarrow> persesglobaldatasource \<Rightarrow> persesglobaldatasource go" where
  "globaldatasource_SetCondition E c d = do {
     cs \<leftarrow> meta_SetStatusCondition E (GlobalDatasource_Conditions (GlobalDatasource_Status d)) c;
     State_Monad.return (d\<lparr>GlobalDatasource_Status := (GlobalDatasource_Status d)\<lparr>GlobalDatasource_Conditions := cs\<rparr>\<rparr>)
   }"

definition globaldatasource_setStatusToUnknown :: "env \<Rightarrow> globaldatasource_ctx \<Rightarrow> namespaced_name \<Rightarrow> sub_result go" where
  "globaldatasource_setStatusToUnknown E ctx req =
     updateGlobalDatasourceStatus E ctx req (\<lambda>d.
       if length (GlobalDatasource_Conditions (GlobalDatasource_Status d)) = 0
       then globaldatasource_SetCondition E
              (Condition TypeAvailablePerses ConditionUnknown ''Reconciling'' ''Starting reconciliation'') d
       else State_Monad.return d)"

definition globaldatasource_setStatusToComplete :: "env \<Rightarrow> globaldatasource_ctx \<Rightarrow> namespaced_name \<Rightarrow> sub_result go" where
  "globaldatasource_setStatusToComplete E ctx req =
     updateGlobalDatasourceStatus E ctx req (\<lambda>d. do {
       d \<leftarrow> globaldatasource_SetCondition E (Condition TypeDegradedPerses ConditionFalse ''Reconciled''
              (''GlobalDatasource ('' @ Name d @ '') reconciled successfully'')) d;
       globaldatasource_SetCondition E (Condition TypeAvailablePerses ConditionTrue ''Reconciled''
              (''GlobalDatasource ('' @ Name d @ '') created successfully'')) d
     })"

definition globaldatasource_setStatusToDegraded ::
    "env \<Rightarrow> globaldatasource_ctx \<Rightarrow> namespaced_name \<Rightarrow> ctrl_result option \<Rightarrow> string \<Rightarrow> error option \<Rightarrow> sub_result go" where
  "globaldatasource_setStatusToDegraded E ctx req degradedResult degradedReason degradedError = do {
     let msg = (case degradedError of None \<Rightarrow> ''unknown error'' | Some e \<Rightarrow> Error e);
     (res, err) \<leftarrow> updateGlobalDatasourceStatus E ctx req (\<lambda>d. do {
       d \<leftarrow> globaldatasource_SetCondition E (Condition TypeAvailablePerses ConditionFalse degradedReason msg) d;
       globaldatasource_SetCondition E (Condition TypeDegradedPerses ConditionTrue degradedReason msg) d
     });
     State_Monad.return (case err of
         Some _ \<Rightarrow> (res, err)
       | None \<Rightarrow>
           (case degradedError of
              Some e \<Rightarrow> (degradedResult, Some (NewReasonError e degradedReason))
            | None \<Rightarrow> (degradedResult, None)))
   }"

section \<open>The secret of a datasource\<close>

text \<open>
  The Perses secret is built from the client configuration. Data in a Secret or ConfigMap is read,
  data in a file is referred to by its path, except the client id, which Perses cannot read itself.
\<close>

definition globaldatasource_secret_basicAuth :: "env \<Rightarrow> persesglobaldatasource \<Rightarrow> basic_auth \<Rightarrow> (error + p_basic_auth) go" where
  "globaldatasource_secret_basicAuth E ds ba =
     (let cfg = \<lparr>PB_Username = Username ba, PB_Password = [], PB_PasswordFile = []\<rparr>
      in if is_stored (Source_Type ba) then
           bindE (GetBasicAuthData E APIReader (opt_string (Source_Namespace ba)) (Name ds) ba)
             (\<lambda>passwordData. State_Monad.return (Inr (cfg\<lparr>PB_Password := passwordData\<rparr>)))
         else if Source_Type ba = SecretSourceTypeFile then
           State_Monad.return (Inr (cfg\<lparr>PB_PasswordFile := PasswordPath ba\<rparr>))
         else State_Monad.return (Inr cfg))"

definition globaldatasource_secret_oauth :: "env \<Rightarrow> persesglobaldatasource \<Rightarrow> oauth \<Rightarrow> (error + p_oauth) go" where
  "globaldatasource_secret_oauth E ds oa =
     (let cfg = \<lparr>PO_ClientID = [], PO_ClientSecret = [], PO_ClientSecretFile = [], PO_TokenURL = TokenURL oa,
                 PO_Scopes = Scopes oa, PO_EndpointParams = EndpointParams oa,
                 PO_AuthStyle = (case AuthStyle oa of None \<Rightarrow> 0 | Some a \<Rightarrow> if a \<noteq> 0 then scast a else 0)\<rparr>
      in if is_stored (Source_Type oa) then
           bindE (GetOAuthData E APIReader (opt_string (Source_Namespace oa)) (Name ds) oa)
             (\<lambda>(clientIDData, clientSecretData).
                State_Monad.return (Inr (cfg\<lparr>PO_ClientID := clientIDData, PO_ClientSecret := clientSecretData\<rparr>)))
         else if Source_Type oa = SecretSourceTypeFile then
           (case ClientIDPath oa of
              None \<Rightarrow> State_Monad.return (Inl (errorf (''clientIDPath is required when OAuth type is File for globaldatasource '' @ Name ds)))
            | Some path \<Rightarrow> do {
                r \<leftarrow> ReadFile E path;
                State_Monad.return (case r of
                    Inl err \<Rightarrow> Inl (errorf_w (''failed to read the OAuth client ID file '' @ path @ '': '') err)
                  | Inr clientID \<Rightarrow>
                      Inr (let cfg = cfg\<lparr>PO_ClientID := clientID\<rparr>
                           in case ClientSecretPath oa of None \<Rightarrow> cfg | Some sp \<Rightarrow> cfg\<lparr>PO_ClientSecretFile := sp\<rparr>))
              })
         else State_Monad.return (Inr cfg))"

definition globaldatasource_secret_caCert :: "env \<Rightarrow> persesglobaldatasource \<Rightarrow> certificate option \<Rightarrow> p_tls_config \<Rightarrow> (error + p_tls_config) go" where
  "globaldatasource_secret_caCert E ds cert cfg =
     (case cert of
        None \<Rightarrow> State_Monad.return (Inr cfg)
      | Some c \<Rightarrow>
          if is_stored (Source_Type c) then
            bindE (GetTLSCertData E APIReader (opt_string (Source_Namespace c)) (Name ds) c)
              (\<lambda>(caData, _). State_Monad.return (Inr (cfg\<lparr>PT_CA := caData\<rparr>)))
          else if Source_Type c = SecretSourceTypeFile then
            State_Monad.return (Inr (cfg\<lparr>PT_CAFile := CertPath c\<rparr>))
          else State_Monad.return (Inr cfg))"

definition globaldatasource_secret_userCert :: "env \<Rightarrow> persesglobaldatasource \<Rightarrow> certificate option \<Rightarrow> p_tls_config \<Rightarrow> (error + p_tls_config) go" where
  "globaldatasource_secret_userCert E ds cert cfg =
     (case cert of
        None \<Rightarrow> State_Monad.return (Inr cfg)
      | Some c \<Rightarrow>
          if is_stored (Source_Type c) then
            bindE (GetTLSCertData E APIReader (opt_string (Source_Namespace c)) (Name ds) c)
              (\<lambda>(certData, keyData). State_Monad.return (Inr (cfg\<lparr>PT_Cert := certData, PT_Key := keyData\<rparr>)))
          else if Source_Type c = SecretSourceTypeFile then
            State_Monad.return (Inr (let cfg = cfg\<lparr>PT_CertFile := CertPath c\<rparr>
              in case PrivateKeyPath c of
                   None \<Rightarrow> cfg
                 | Some kp \<Rightarrow> if length kp > 0 then cfg\<lparr>PT_KeyFile := kp\<rparr> else cfg))
          else State_Monad.return (Inr cfg))"

definition globaldatasource_secret_tls :: "env \<Rightarrow> persesglobaldatasource \<Rightarrow> tls \<Rightarrow> (error + p_tls_config) go" where
  "globaldatasource_secret_tls E ds t =
     bindE (globaldatasource_secret_caCert E ds (TLS_CaCert t)
              (TLSConfig_zero\<lparr>PT_InsecureSkipVerify := (case TLS_InsecureSkipVerify t of None \<Rightarrow> False | Some b \<Rightarrow> b)\<rparr>))
       (globaldatasource_secret_userCert E ds (TLS_UserCert t))"

text \<open>A part of the configuration that is absent contributes nothing.\<close>

definition globaldatasource_optional :: "('a \<Rightarrow> (error + 'b) go) \<Rightarrow> 'a option \<Rightarrow> (error + 'b option) go" where
  "globaldatasource_optional f v =
     (case v of
        None \<Rightarrow> State_Monad.return (Inr None)
      | Some y \<Rightarrow> bindE (f y) (\<lambda>z. State_Monad.return (Inr (Some z))))"

definition globaldatasource_build_secret :: "env \<Rightarrow> persesglobaldatasource \<Rightarrow> client \<Rightarrow> (error + p_secret) go" where
  "globaldatasource_build_secret E ds cl =
     bindE (globaldatasource_optional (globaldatasource_secret_basicAuth E ds) (Client_BasicAuth cl)) (\<lambda>ba.
     bindE (globaldatasource_optional (globaldatasource_secret_oauth E ds) (Client_OAuth cl)) (\<lambda>oa.
     bindE (globaldatasource_optional (globaldatasource_secret_tls E ds) (Client_TLS cl)) (\<lambda>t.
       State_Monad.return (Inr \<lparr>PSecret_Kind = ''GlobalSecret'', PSecret_Name = Name ds @ SecretNameSuffix,
          PSecret_BasicAuth = ba, PSecret_OAuth = oa, PSecret_TLSConfig = t\<rparr>))))"

definition globaldatasource_write_secret :: "env \<Rightarrow> v1_client \<Rightarrow> persesglobaldatasource \<Rightarrow> p_secret \<Rightarrow> sync_result go" where
  "globaldatasource_write_secret E c ds s = do {
     gerr \<leftarrow> exec E (PGet c PGlobalSecret [] (Name ds @ SecretNameSuffix));
     case gerr of
       Some err \<Rightarrow>
         if IsRequestNotFound E err then do {
           cerr \<leftarrow> exec E (PCreate c PGlobalSecret [] (ObjSecret s));
           State_Monad.return (case cerr of
               Some e \<Rightarrow> RequeueWithErrorAndReason (Some e) ReasonBackendError
             | None \<Rightarrow> (None, [], None))
         } else State_Monad.return (RequeueWithErrorAndReason (Some err) ReasonBackendError)
     | None \<Rightarrow> do {
         uerr \<leftarrow> exec E (PUpdate c PGlobalSecret [] (ObjSecret s));
         State_Monad.return (case uerr of
             Some e \<Rightarrow> RequeueWithErrorAndReason (Some e) ReasonBackendError
           | None \<Rightarrow> (None, [], None))
       }
   }"

definition syncPersesGlobalSecret :: "env \<Rightarrow> v1_client \<Rightarrow> persesglobaldatasource \<Rightarrow> client \<Rightarrow> sync_result go" where
  "syncPersesGlobalSecret E c ds cl = do {
     built \<leftarrow> globaldatasource_build_secret E ds cl;
     case built of
       Inl err \<Rightarrow> State_Monad.return (RequeueWithErrorAndReason (Some err) ReasonInvalidConfiguration)
     | Inr s \<Rightarrow> globaldatasource_write_secret E c ds s
   }"

section \<open>Synchronisation with one instance\<close>

definition desired_globaldatasource :: "persesglobaldatasource \<Rightarrow> p_entity" where
  "desired_globaldatasource ds =
     \<lparr>Entity_Kind = ''GlobalDatasource'', Entity_Name = Name ds, Entity_Tags = ParseTags (Annotations ds),
      Entity_Spec = Datasource_Config (GlobalDatasource_Spec ds)\<rparr>"

text \<open>The secret is synchronised only when the client configuration asks for one.\<close>

definition globaldatasource_secret_step :: "env \<Rightarrow> v1_client \<Rightarrow> persesglobaldatasource \<Rightarrow> ((string \<times> error) option) go" where
  "globaldatasource_secret_step E c ds =
     (case Datasource_Client (GlobalDatasource_Spec ds) of
        None \<Rightarrow> State_Monad.return None
      | Some cl \<Rightarrow>
          if HasSecretConfig (Some cl) then do {
            (_, reason, err) \<leftarrow> syncPersesGlobalSecret E c ds cl;
            State_Monad.return (map_option (\<lambda>e. (reason, e)) err)
          } else State_Monad.return None)"

definition globaldatasource_write :: "env \<Rightarrow> v1_client \<Rightarrow> persesglobaldatasource \<Rightarrow> bool \<Rightarrow> sync_result go" where
  "globaldatasource_write E c ds notFound = do {
     let ob = ObjEntity (desired_globaldatasource ds);
     err \<leftarrow> (if notFound then exec E (PCreate c PGlobalDatasource [] ob)
            else exec E (PUpdate c PGlobalDatasource [] ob));
     State_Monad.return (case err of
         Some e \<Rightarrow> RequeueWithErrorAndReason (Some e) ReasonBackendError
       | None \<Rightarrow> (None, [], None))
   }"

definition globaldatasource_validate_and_write ::
    "env \<Rightarrow> v1_client \<Rightarrow> persesglobaldatasource \<Rightarrow> bool \<Rightarrow> sync_result go" where
  "globaldatasource_validate_and_write E c ds notFound = do {
     validateErr \<leftarrow> exec E (PValidate (RESTClient c) PGlobalDatasource (ObjEntity (desired_globaldatasource ds)));
     case validateErr of
       Some verr \<Rightarrow>
         State_Monad.return
           (if IsClientError verr
            then RequeueWithErrorAndReason (Some (errorf_w (''global datasource '' @ Quote (Name ds) @
                   '' failed server-side validation: '') verr)) ReasonValidationFailed
            else RequeueWithErrorAndReason (Some (errorf_w (''global datasource '' @ Quote (Name ds) @
                   '' validation request failed: '') verr)) ReasonBackendError)
     | None \<Rightarrow> do {
         serr \<leftarrow> globaldatasource_secret_step E c ds;
         case serr of
           Some (reason, e) \<Rightarrow> State_Monad.return (RequeueWithErrorAndReason (Some e) reason)
         | None \<Rightarrow> globaldatasource_write E c ds notFound
       }
   }"

definition globaldatasource_write_entity :: "env \<Rightarrow> v1_client \<Rightarrow> persesglobaldatasource \<Rightarrow> sync_result go" where
  "globaldatasource_write_entity E c ds = do {
     existing \<leftarrow> ask (\<lambda>h. getEntity E h c PGlobalDatasource [] (Name ds)) (PGet c PGlobalDatasource [] (Name ds));
     case existing of
       Inl err \<Rightarrow>
         if IsRequestNotFound E err then globaldatasource_validate_and_write E c ds True
         else State_Monad.return (RequeueWithErrorAndReason (Some err) ReasonBackendError)
     | Inr ex \<Rightarrow>
         if GlobalDatasourceInSync E ex (desired_globaldatasource ds) then State_Monad.return (None, [], None)
         else globaldatasource_validate_and_write E c ds False
   }"

definition syncPersesGlobalDatasource :: "env \<Rightarrow> persesglobaldatasource \<Rightarrow> perses \<Rightarrow> sync_result go" where
  "syncPersesGlobalDatasource E ds p = do {
     cl \<leftarrow> CreateClient E APIReader p;
     case cl of
       Inl err \<Rightarrow> State_Monad.return (RequeueWithErrorAndReason (Some err) ReasonConnectionFailed)
     | Inr c \<Rightarrow> globaldatasource_write_entity E c ds
   }"

section \<open>All instances\<close>

text \<open>The part of \<open>reconcileGlobalDatasourcesInAllInstances\<close> after \<open>r.List\<close>.\<close>

definition globaldatasource_sync_listed ::
    "env \<Rightarrow> persesglobaldatasource \<Rightarrow> namespaced_name \<Rightarrow> error + perses list \<Rightarrow> sub_result go" where
  "globaldatasource_sync_listed E ds req instances =
     (case instances of
        Inl err \<Rightarrow>
          (let (res, err) = RequeueWithError (Some err)
           in globaldatasource_setStatusToDegraded E (Some ds) req res ReasonMissingPerses err)
      | Inr items \<Rightarrow>
          if length items = 0 then
            globaldatasource_setStatusToDegraded E (Some ds) req (Some \<lparr>RequeueAfter = time_Minute\<rparr>) ReasonMissingPerses
              (Some (errorf ''no Perses instances found matching the label selector''))
          else do {
            r \<leftarrow> sync_instances E (syncPersesGlobalDatasource E ds) TypeAvailablePerses items;
            case r of
              Some (res, reason, err) \<Rightarrow> globaldatasource_setStatusToDegraded E (Some ds) req res reason err
            | None \<Rightarrow> State_Monad.return ContinueReconciling
          })"

definition reconcileGlobalDatasourcesInAllInstances :: "env \<Rightarrow> globaldatasource_ctx \<Rightarrow> namespaced_name \<Rightarrow> sub_result go" where
  "reconcileGlobalDatasourcesInAllInstances E ctx req =
     (case ctx of
        None \<Rightarrow>
          (let (res, err) = RequeueWithError (Some (errorf ''globaldatasource not found in context''))
           in globaldatasource_setStatusToDegraded E ctx req res ReasonMissingResource err)
      | Some ds \<Rightarrow>
          (case (case Datasource_InstanceSelector (GlobalDatasource_Spec ds) of
                   None \<Rightarrow> Inr Everything
                 | Some sel \<Rightarrow> (case LabelSelectorAsSelector E sel of Some err \<Rightarrow> Inl err | None \<Rightarrow> Inr (SelectorOf sel))) of
             Inl err \<Rightarrow> State_Monad.return (RequeueWithError (Some err))
           | Inr labelSelector \<Rightarrow> do {
               instances \<leftarrow> ask (\<lambda>h. listPerses E h (BySelector labelSelector)) (KList (BySelector labelSelector));
               globaldatasource_sync_listed E ds req instances
             }))"

text \<open>The datasource and its secret: a missing one is not an error, and both are attempted.\<close>

definition globaldatasource_delete_with :: "env \<Rightarrow> string \<Rightarrow> v1_client \<Rightarrow> sub_result go" where
  "globaldatasource_delete_with E datasourceName c = do {
     derr \<leftarrow> exec E (PDelete c PGlobalDatasource [] datasourceName);
     case (case derr of Some err \<Rightarrow> if IsRequestNotFound E err then None else Some err | None \<Rightarrow> None) of
       Some err \<Rightarrow> State_Monad.return (RequeueWithError (Some err))
     | None \<Rightarrow> do {
         serr \<leftarrow> exec E (PDelete c PGlobalSecret [] (datasourceName @ SecretNameSuffix));
         State_Monad.return (case serr of
             Some err \<Rightarrow> if IsRequestNotFound E err then ContinueReconciling else RequeueWithError (Some err)
           | None \<Rightarrow> ContinueReconciling)
       }
   }"

definition deleteGlobalDatasource :: "env \<Rightarrow> string \<Rightarrow> perses \<Rightarrow> sub_result go" where
  "deleteGlobalDatasource E datasourceName p = do {
     cl \<leftarrow> CreateClient E APIReader p;
     case cl of
       Inl err \<Rightarrow> State_Monad.return (RequeueWithError (Some err))
     | Inr c \<Rightarrow> globaldatasource_delete_with E datasourceName c
   }"

definition deleteGlobalDatasourceInAllInstances :: "env \<Rightarrow> string \<Rightarrow> sub_result go" where
  "deleteGlobalDatasourceInAllInstances E datasourceName = do {
     instances \<leftarrow> ask (\<lambda>h. listPerses E h AllObjects) (KList AllObjects);
     case instances of
       Inl err \<Rightarrow> State_Monad.return (RequeueWithError (Some err))
     | Inr items \<Rightarrow>
         if length items = 0 then State_Monad.return DoNotRequeue
         else delete_instances (deleteGlobalDatasource E datasourceName) items
   }"

section \<open>Reconcile\<close>

definition globaldatasource_Reconcile :: "env \<Rightarrow> namespaced_name \<Rightarrow> ((ctrl_result \<times> error option) option) go" where
  "globaldatasource_Reconcile E req = do {
     let objKey = NamespacedName_String E req;
     _ \<leftarrow> if_metrics [PromInc ReconcileOperations (the (Metrics_ReconcileOperations ''persesglobaldatasource''))] (\<lambda>m. m);
     r \<leftarrow> ask (\<lambda>h. getGlobalDatasource E h APIReader req) (KGet APIReader GlobalDatasourceKind req);
     case r of
       Inl err \<Rightarrow>
         if IsNotFound E err then do {
           _ \<leftarrow> forget_object objKey;
           res \<leftarrow> deleteGlobalDatasourceInAllInstances E (NN_Name req);
           State_Monad.return (Evaluate res)
         } else do {
           _ \<leftarrow> if_metrics [PromInc ReconcileErrors (the (Metrics_ReconcileErrors ''persesglobaldatasource'' ''get_failed''))] (\<lambda>m. m);
           State_Monad.return (Evaluate (RequeueWithError (Some err)))
         }
     | Inr ds \<Rightarrow> do {
         let ctx = globalDatasourceFromContext (withGlobalDatasource background ds);
         reconcileErr \<leftarrow> run_subreconcilers
           [globaldatasource_setStatusToUnknown E ctx req,
            reconcileGlobalDatasourcesInAllInstances E ctx req,
            globaldatasource_setStatusToComplete E ctx req];
         _ \<leftarrow> track_outcome ''persesglobaldatasource'' ''globaldatasource'' []
                ''GlobalDatasource reconciled successfully'' objKey reconcileErr;
         State_Monad.return (case reconcileErr of
             Some e \<Rightarrow> Evaluate (RequeueWithError (Some e))
           | None \<Rightarrow> Evaluate DoNotRequeue)
       }
   }"

definition findGlobalDatasourcesForPerses :: "env \<Rightarrow> (namespaced_name list) go" where
  "findGlobalDatasourcesForPerses E = MetadataListToRequests E GlobalDatasourceKind"

section \<open>The synchronisation obeys the discipline\<close>

lemma GlobalDatasourceInSync_in_sync: "GlobalDatasourceInSync E = in_sync E"
  by (intro ext) (simp add: GlobalDatasourceInSync_def in_sync_def)

lemma Entity_Name_desired_globaldatasource [simp]: "Entity_Name (desired_globaldatasource ds) = Name ds"
  by (simp add: desired_globaldatasource_def)

lemmas globaldatasource_secret_defs =
  globaldatasource_build_secret_def globaldatasource_optional_def globaldatasource_secret_basicAuth_def globaldatasource_secret_oauth_def
  globaldatasource_secret_tls_def globaldatasource_secret_caCert_def globaldatasource_secret_userCert_def Let_def

lemma emits_globaldatasource_build_secret: "emits factory_call (globaldatasource_build_secret E ds cl)"
  unfolding globaldatasource_secret_defs by (auto intro!: along_intros emits_get_data)

lemma globaldatasource_build_secret_factory: "along same_factory (globaldatasource_build_secret E ds cl)"
  unfolding globaldatasource_secret_defs by (auto intro!: along_intros along_get_data)

lemma globaldatasource_build_secret_name:
  "wp (globaldatasource_build_secret E ds cl) (\<lambda>r _. \<forall>s. r = Inr s \<longrightarrow> PSecret_Name s = Name ds @ SecretNameSuffix) w"
  unfolding globaldatasource_build_secret_def wp_bindE
  by (auto simp: wp_return split: sum.splits intro!: wp_any)

lemma globaldatasource_write_secret_log:
  assumes "PSecret_Name s = Name ds @ SecretNameSuffix" and "log_ok E (calls w)"
    and "accepted_owner E c PGlobalSecret (Name ds @ SecretNameSuffix) (calls w)"
  shows "wp (globaldatasource_write_secret E c ds s) (\<lambda>_ w'. log_ok E (calls w')) w"
  using assms unfolding globaldatasource_write_secret_def by (auto simp: wp_simps split: option.splits)

lemma syncPersesGlobalSecret_log:
  assumes "log_ok E (calls w)" and "accepted_owner E c PGlobalSecret (Name ds @ SecretNameSuffix) (calls w)"
  shows "wp (syncPersesGlobalSecret E c ds cl) (\<lambda>_ w'. log_ok E (calls w')) w"
proof -
  have "wp (globaldatasource_build_secret E ds cl) (\<lambda>r w'. (\<forall>s. r = Inr s \<longrightarrow> PSecret_Name s = Name ds @ SecretNameSuffix) \<and>
      only_adds free w w') w"
    using globaldatasource_build_secret_name alongD [OF emits_free_factory [OF emits_globaldatasource_build_secret]] by (simp add: wp_conj)
  then show ?thesis
    unfolding syncPersesGlobalSecret_def wp_bind
    by (rule wp_mono) (use assms in \<open>auto simp: wp_simps only_adds_def log_ok_free accepted_owner_append
        intro!: globaldatasource_write_secret_log split: sum.splits\<close>)
qed

lemma globaldatasource_secret_step_reason:
  "wp (globaldatasource_secret_step E c ds) (\<lambda>r _. \<forall>reason e. r = Some (reason, e) \<longrightarrow> reason \<noteq> []) w"
proof -
  have "wp (syncPersesGlobalSecret E c ds cl) (\<lambda>(_, reason, err) _. err \<noteq> None \<longrightarrow> reason \<noteq> []) w" for cl w
    unfolding syncPersesGlobalSecret_def wp_bind globaldatasource_write_secret_def RequeueWithErrorAndReason_def RequeueWithError_def
    by (rule wp_any) (auto simp: wp_simps split: sum.splits option.splits)
  note reason = this
  show ?thesis
    unfolding globaldatasource_secret_step_def
    by (auto simp: wp_simps split: option.splits intro!: wp_mono [OF reason])
qed

interpretation gsec: secret_step E PGlobalSecret "Name ds" "\<lambda>c. globaldatasource_secret_step E c ds"
  for E :: env and ds :: persesglobaldatasource
proof
  fix c :: v1_client and w :: world
  show "emits (secret_call PGlobalSecret) (globaldatasource_secret_step E c ds)"
    unfolding globaldatasource_secret_step_def syncPersesGlobalSecret_def globaldatasource_write_secret_def
    by (auto intro!: along_intros emits_mono [OF emits_globaldatasource_build_secret secret_call_factory])
  show "along same_factory (globaldatasource_secret_step E c ds)"
    unfolding globaldatasource_secret_step_def syncPersesGlobalSecret_def globaldatasource_write_secret_def
    by (auto intro!: along_intros globaldatasource_build_secret_factory)
  show "wp (globaldatasource_secret_step E c ds) (\<lambda>r _. \<forall>reason e. r = Some (reason, e) \<longrightarrow> reason \<noteq> []) w"
    by (rule globaldatasource_secret_step_reason)
  assume "accepted_owner E c PGlobalSecret (Name ds @ SecretNameSuffix) (calls w)" and "log_ok E (calls w)"
  then show "wp (globaldatasource_secret_step E c ds) (\<lambda>_ w'. log_ok E (calls w')) w"
    unfolding globaldatasource_secret_step_def
    by (auto simp: wp_simps case_prod_unfold intro!: syncPersesGlobalSecret_log split: option.splits)
qed

interpretation gent: entity_sync E PGlobalSecret "Name ds" "\<lambda>c. globaldatasource_secret_step E c ds" PGlobalDatasource "[]" "desired_globaldatasource ds"
  "\<lambda>verr. if IsClientError verr
     then RequeueWithErrorAndReason (Some (errorf_w (''global datasource '' @ Quote (Name ds) @ '' failed server-side validation: '') verr)) ReasonValidationFailed
     else RequeueWithErrorAndReason (Some (errorf_w (''global datasource '' @ Quote (Name ds) @ '' validation request failed: '') verr)) ReasonBackendError"
  "\<lambda>c. globaldatasource_write E c ds" "\<lambda>c. globaldatasource_validate_and_write E c ds" "\<lambda>c. globaldatasource_write_entity E c ds"
  for E :: env and ds :: persesglobaldatasource
proof
  fix verr
  show "\<exists>e reason. (if IsClientError verr
     then RequeueWithErrorAndReason (Some (errorf_w (''global datasource '' @ Quote (Name ds) @ '' failed server-side validation: '') verr)) ReasonValidationFailed
     else RequeueWithErrorAndReason (Some (errorf_w (''global datasource '' @ Quote (Name ds) @ '' validation request failed: '') verr)) ReasonBackendError) =
       RequeueWithErrorAndReason (Some e) reason \<and> reason \<noteq> []"
    by (cases "IsClientError verr") (auto intro!: exI)
qed (simp_all add: globaldatasource_write_def globaldatasource_validate_and_write_def globaldatasource_write_entity_def GlobalDatasourceInSync_in_sync cong: sum.case_cong)

lemma globaldatasource_sync_log: "along (keeps_log E) (syncPersesGlobalDatasource E ds p)"
  unfolding syncPersesGlobalDatasource_def
  by (auto intro!: along_intros gent.write_entity_log
      along_keeps_log [OF emits_free_factory [OF emits_CreateClient]])

lemma globaldatasource_sync_spec:
  assumes "factory_ok E w"
  shows "wp (syncPersesGlobalDatasource E ds p)
    (sync_post E (has_entity E PGlobalDatasource [] (desired_globaldatasource ds) p) w) w"
  unfolding syncPersesGlobalDatasource_def
  by (intro wp_with_client gent.write_entity_spec assms)
    (auto simp: has_entity_def)

interpretation gsync: instance_sync E "factory_ok E" "syncPersesGlobalDatasource E ds"
  "has_entity E PGlobalDatasource [] (desired_globaldatasource ds)"
  for E :: env and ds :: persesglobaldatasource
proof
  show "wp (syncPersesGlobalDatasource E ds p) (\<lambda>r w'. factory_ok E w' \<and> (\<exists>cs. calls w' = cs @ calls w) \<and>
      sync_ok r \<and> (fst r = None \<longrightarrow> has_entity E PGlobalDatasource [] (desired_globaldatasource ds) p (calls w'))) w"
    if "factory_ok E w" for w p
    using globaldatasource_sync_spec [OF that] by (simp add: sync_post_def [abs_def])
qed (auto intro: has_entity_mono globaldatasource_sync_log)

section \<open>Deletion\<close>

interpretation gdel: instance_delete "deleteGlobalDatasource E n" "child_delete_call {PGlobalDatasource, PGlobalSecret}"
  for E :: env and n :: string
proof
  fix p w
  show "wp (deleteGlobalDatasource E n p) (\<lambda>r _. delete_ok r) w"
    unfolding deleteGlobalDatasource_def globaldatasource_delete_with_def wp_bind
    by (rule wp_any) (auto simp: wp_simps delete_ok_def split: sum.splits option.splits)
  show "emits (child_delete_call {PGlobalDatasource, PGlobalSecret}) (deleteGlobalDatasource E n p)"
    unfolding deleteGlobalDatasource_def globaldatasource_delete_with_def
    by (auto intro!: along_intros emits_mono [OF emits_CreateClient child_delete_call_factory])
qed

section \<open>Status updates\<close>

lemma updateGlobalDatasourceStatus_result:
  "wp (updateGlobalDatasourceStatus E ctx req f)
     (\<lambda>r _. r = ContinueReconciling \<or> r = DoNotRequeue \<or> (\<exists>e. r = RequeueWithError (Some e))) w"
  unfolding updateGlobalDatasourceStatus_def
  by (auto simp: wp_simps wp_def split: option.splits prod.splits)

lemma emits_updateGlobalDatasourceStatus:
  assumes "retry_law E" and "\<And>d. emits status_call (f d)"
  shows "emits status_call (updateGlobalDatasourceStatus E ctx req f)"
  unfolding updateGlobalDatasourceStatus_def globaldatasource_status_try_def Let_def
  by (auto intro!: along_intros assms)

lemma emits_globaldatasource_SetCondition: "emits status_call (globaldatasource_SetCondition E c d)"
  unfolding globaldatasource_SetCondition_def by (auto intro!: along_intros)

lemma emits_globaldatasource_setStatus:
  assumes "retry_law E"
  shows "emits status_call (globaldatasource_setStatusToUnknown E ctx req)"
    and "emits status_call (globaldatasource_setStatusToComplete E ctx req)"
    and "emits status_call (globaldatasource_setStatusToDegraded E ctx req res reason err)"
  unfolding globaldatasource_setStatusToUnknown_def globaldatasource_setStatusToComplete_def
    globaldatasource_setStatusToDegraded_def Let_def
  by (auto intro!: along_intros emits_updateGlobalDatasourceStatus [OF assms] emits_globaldatasource_SetCondition)

lemma globaldatasource_setStatusToDegraded_result:
  "wp (globaldatasource_setStatusToDegraded E ctx req res reason (Some e)) (\<lambda>r _. degraded_ok res reason e r) w"
  unfolding globaldatasource_setStatusToDegraded_def Let_def wp_bind
  by (rule wp_mono [OF updateGlobalDatasourceStatus_result]) (auto simp: wp_simps go_def degraded_ok_def)

interpretation glist: listed_sync E "factory_ok E" "syncPersesGlobalDatasource E ds"
  "has_entity E PGlobalDatasource [] (desired_globaldatasource ds)"
  "globaldatasource_setStatusToDegraded E (Some ds) req" "globaldatasource_sync_listed E ds req"
  for E :: env and ds :: persesglobaldatasource and req :: namespaced_name
  by unfold_locales
    (auto simp: globaldatasource_setStatusToDegraded_result emits_globaldatasource_setStatus globaldatasource_sync_listed_def
      RequeueWithError_def split: sum.splits)

section \<open>The controller\<close>

lemma globaldatasource_all_log:
  assumes "retry_law E"
  shows "along (keeps_log E) (reconcileGlobalDatasourcesInAllInstances E (Some ds) req)"
  unfolding reconcileGlobalDatasourcesInAllInstances_def
  by (auto intro!: along_intros keeps_log_call glist.listed_log [OF assms])

lemma emits_globaldatasource_all:
  assumes "retry_law E"
  shows "emits silent (reconcileGlobalDatasourcesInAllInstances E (Some ds) req)"
proof -
  have "emits silent (syncPersesGlobalDatasource E ds p)" for p
    unfolding syncPersesGlobalDatasource_def globaldatasource_write_entity_def globaldatasource_validate_and_write_def globaldatasource_write_def Let_def
    by (auto intro!: along_intros emits_mono [OF emits_CreateClient factory_call_silent] emits_mono [OF gsec.step_calls secret_call_silent])
  then have "emits silent (sync_instances E (syncPersesGlobalDatasource E ds) ty ps)" for ty ps
    by (rule emits_sync_instances)
  then show ?thesis
    unfolding reconcileGlobalDatasourcesInAllInstances_def globaldatasource_sync_listed_def RequeueWithError_def Let_def
    by (auto intro!: along_intros emits_mono [OF emits_globaldatasource_setStatus(3) [OF assms] status_call_silent])
qed

interpretation gctl: child_controller E GlobalDatasourceKind "''persesglobaldatasource''" "''globaldatasource''"
  "''GlobalDatasource reconciled successfully''" "\<lambda>_. []" "\<lambda>h. getGlobalDatasource E h APIReader"
  "\<lambda>ds. globaldatasource_setStatusToUnknown E (Some ds)" "\<lambda>ds. reconcileGlobalDatasourcesInAllInstances E (Some ds)"
  "\<lambda>ds. globaldatasource_setStatusToComplete E (Some ds)"
  "\<lambda>req. deleteGlobalDatasourceInAllInstances E (NN_Name req)" "globaldatasource_Reconcile E"
  for E :: env
proof
  fix req and w :: world
  show "wp (deleteGlobalDatasourceInAllInstances E (NN_Name req))
      (\<lambda>r _. r = DoNotRequeue \<or> (\<exists>e. r = RequeueWithError (Some e))) w"
    unfolding deleteGlobalDatasourceInAllInstances_def
    by (auto simp: wp_simps split: sum.splits intro!: wp_mono [OF gdel.delete_instances_result])
  show "emits (child_delete_call UNIV) (deleteGlobalDatasourceInAllInstances E (NN_Name req))"
    unfolding deleteGlobalDatasourceInAllInstances_def
    by (auto intro!: along_intros emits_mono [OF gdel.delete_instances_calls] elim: child_delete_call_mono)
qed (simp_all add: globaldatasource_Reconcile_def Let_def emits_globaldatasource_setStatus emits_globaldatasource_all globaldatasource_all_log)

definition globaldatasource_selector :: "persesglobaldatasource \<Rightarrow> selector" where
  "globaldatasource_selector ds =
     (case Datasource_InstanceSelector (GlobalDatasource_Spec ds) of None \<Rightarrow> Everything | Some sel \<Rightarrow> SelectorOf sel)"

text \<open>
  C26: writes of global datasources and of their global secrets are justified, as for datasources.
\<close>

theorem globaldatasource_Reconcile_disciplined:
  assumes "retry_law E" and "log_ok E (calls w)"
  shows "wp (globaldatasource_Reconcile E req) (\<lambda>_ w'. log_ok E (calls w')) w"
  using assms by (rule gctl.Reconcile_disciplined)

text \<open>
  When the reconciliation of a global datasource with its instances goes on to completion,
  every available instance that its selector selects has it.
\<close>

lemma globaldatasource_on_every_available_instance:
  assumes "factory_ok E w"
  shows "wp (reconcileGlobalDatasourcesInAllInstances E (Some ds) req)
    (\<lambda>r w'. r = ContinueReconciling \<longrightarrow>
       (\<exists>items. listPerses E (calls w) (BySelector (globaldatasource_selector ds)) = Inr items \<and> items \<noteq> [] \<and>
          all_have E (has_entity E PGlobalDatasource [] (desired_globaldatasource ds)) items (calls w'))) w"
  using assms glist.listed_spec [of E _ ds req]
  unfolding reconcileGlobalDatasourcesInAllInstances_def globaldatasource_selector_def
  by (simp add: wp_simps split: option.splits sum.splits) (simp add: RequeueWithError_def ContinueReconciling_def)

text \<open>
  \<open>Reconcile\<close> of a global datasource always returns, with no \<open>nil\<close> dereference and no delay, and
  when the object can be read the outcome that it returns is the one it records.
\<close>

lemma globaldatasource_Reconcile_records_outcome:
  assumes "retry_law E" and "tables_ok w"
    and "getGlobalDatasource E (started ''persesglobaldatasource'' w) APIReader req = Inr ds"
  shows "wp (globaldatasource_Reconcile E req)
    (\<lambda>r w'. \<exists>err. r = Some (Result_zero, err) \<and>
       outcome_recorded (NamespacedName_String E req) ''globaldatasource'' [] err w') w"
  using assms by (rule gctl.Reconcile_records_outcome)

end
