(* ===== verification/Samples.thy ===== *)
theory Samples
  imports PersesController DashboardController DatasourceController GlobalDatasourceController
begin

text \<open>
  A concrete environment and concrete objects, on which the hypotheses of the properties hold: a
  cluster with one available Perses instance, one dashboard and one datasource that selects its
  credentials from a Kubernetes secret, and a Perses server that knows nothing yet and accepts every
  request. The functions of the other packages are the simplest ones with the documented behaviour.
\<close>

section \<open>Objects\<close>

definition sample_cfg :: config where
  "sample_cfg = \<lparr>PersesImage = ''perses:v0'', TLSMinVersion = [], TLSCipherSuites = [], TLSConfigureOperands = False\<rparr>"

definition sample_meta :: "string \<Rightarrow> object_meta" where
  "sample_meta n =
     \<lparr>Name = n, Namespace = ''mon'', Generation = 1, ResourceVersion = ''7'', Labels = None, Annotations = None,
      DeletionTimestamp = None, Finalizers = [], OwnerReferences = []\<rparr>"

definition sample_config :: perses_config where
  "sample_config = \<lparr>Config_APIPrefix = [], Config_Database_SQL = None, Config_Database_File = Some (JObj []), Config_Rest = JNull\<rparr>"

definition sample_volume :: volume where
  "sample_volume = \<lparr>Volume_Name = ''extra'', Volume_Source =
     \<lparr>VS_ConfigMap = None, VS_Secret = None, VS_EmptyDir = Some JNull, VS_PVC_ClaimName = None, VS_Rest = JNull\<rparr>\<rparr>"

definition sample_mount :: volume_mount where
  "sample_mount = \<lparr>Mount_Name = ''extra'', Mount_ReadOnly = False, Mount_MountPath = ''/extra'', Mount_SubPath = [],
     Mount_Rest = JNull\<rparr>"

definition sample_spec :: perses_spec where
  "sample_spec =
     \<lparr>Spec_Metadata = Some \<lparr>Metadata_Labels = Some [(''team'', ''a'')], Metadata_Annotations = Some [(''note'', ''x'')]\<rparr>,
      Spec_Client = None, Spec_Config = sample_config, Spec_Args = [], Spec_ContainerPort = Some 8080,
      Spec_Replicas = None, Spec_Resources = None, Spec_NodeSelector = None, Spec_Tolerations = [],
      Spec_Affinity = None, Spec_PriorityClassName = None, Spec_Image = Some ''perses:v1'', Spec_Service = None,
      Spec_LivenessProbe = None, Spec_ReadinessProbe = None, Spec_TLS = None, Spec_Storage = None,
      Spec_ServiceAccountName = None, Spec_PodSecurityContext = None, Spec_ContainerSecurityContext = None,
      Spec_LogLevel = None, Spec_LogMethodTrace = None, Spec_Provisioning = None, Spec_Volumes = [sample_volume],
      Spec_VolumeMounts = [sample_mount], Spec_Env = [], Spec_EnvFrom = []\<rparr>"

definition sample_status :: perses_status where
  "sample_status =
     \<lparr>Status_Conditions = [Condition TypeAvailablePerses ConditionTrue ''Reconciled'' []], Status_Provisioning = None\<rparr>"

definition sample_perses :: perses where
  "sample_perses = object_meta.extend (sample_meta ''p'') (perses.fields sample_spec sample_status)"

definition sample_dashboard :: persesdashboard where
  "sample_dashboard = object_meta.extend (sample_meta ''d'') (persesdashboard.fields
     \<lparr>Dashboard_Config = JNull, Dashboard_InstanceSelector = None\<rparr> \<lparr>Dashboard_Conditions = []\<rparr>)"

definition sample_datasource_spec :: datasource_spec where
  "sample_datasource_spec = \<lparr>Datasource_Config = JNull, Datasource_Client = None, Datasource_InstanceSelector = None\<rparr>"

definition sample_datasource :: persesdatasource where
  "sample_datasource = object_meta.extend (sample_meta ''s'')
     (persesdatasource.fields sample_datasource_spec \<lparr>Datasource_Conditions = []\<rparr>)"

definition sample_globaldatasource :: persesglobaldatasource where
  "sample_globaldatasource = object_meta.extend (sample_meta ''g'')
     (persesglobaldatasource.fields sample_datasource_spec \<lparr>GlobalDatasource_Conditions = []\<rparr>)"

section \<open>Services and libraries\<close>

definition sample_not_found :: error where
  "sample_not_found = StatusError ''NotFound'' ''not found''"

fun is_status :: "string \<Rightarrow> error \<Rightarrow> bool" where
  "is_status r (StatusError reason msg) = (reason = r)"
| "is_status r _ = False"

definition sample_key :: "string \<Rightarrow> namespaced_name" where
  "sample_key n = \<lparr>NN_Namespace = ''mon'', NN_Name = n\<rparr>"

definition only_key :: "string \<Rightarrow> 'o \<Rightarrow> namespaced_name \<Rightarrow> error + 'o" where
  "only_key n ob key = (if key = sample_key n then Inr ob else Inl sample_not_found)"

definition sample_env :: env where
  "sample_env =
     \<lparr>getPerses = \<lambda>h rd key. only_key ''p'' sample_perses key,
      getDashboard = \<lambda>h rd key. only_key ''d'' sample_dashboard key,
      getDatasource = \<lambda>h rd key. only_key ''s'' sample_datasource key,
      getGlobalDatasource = \<lambda>h rd key. only_key ''g'' sample_globaldatasource key,
      getSecret = \<lambda>h rd key. Inl sample_not_found,
      getConfigMap = \<lambda>h rd key. Inl sample_not_found,
      getService = \<lambda>h rd key. Inl sample_not_found,
      getDeployment = \<lambda>h rd key. Inl sample_not_found,
      getStatefulSet = \<lambda>h rd key. Inl sample_not_found,
      listPerses = \<lambda>h sc. Inr [sample_perses],
      listMeta = \<lambda>h k. Inr [sample_meta ''d''],
      respond = \<lambda>h c. None,
      updatedPerses = \<lambda>h p. p,
      dryRunService = \<lambda>h x. x, dryRunConfigMap = \<lambda>h x. x, dryRunDeployment = \<lambda>h x. x, dryRunStatefulSet = \<lambda>h x. x,
      getEntity = \<lambda>h c k ns n. Inl (RequestError 404 ''not found''),
      readFile = \<lambda>h path. Inr ''token'',
      clock = \<lambda>h. int (length h),
      IsNotFound = is_status ''NotFound'',
      IsConflict = is_status ''Conflict'',
      IsRequestNotFound = \<lambda>e. as_RequestError e = Some 404,
      retryOnConflict = \<lambda>f. f,
      setCondition = \<lambda>h cs c. c # filter (\<lambda>x. Cond_Type x \<noteq> Cond_Type c) cs,
      IsStatusConditionTrue = \<lambda>cs ty. list_ex (\<lambda>c. Cond_Type c = ty \<and> Cond_Status c = ConditionTrue) cs,
      DeepEqual_json = (=), DeepEqual_conditions = (=),
      ContainsFinalizer = \<lambda>p f. f \<in> set (Finalizers p),
      RemoveFinalizer = \<lambda>p f. (p\<lparr>Finalizers := removeAll f (Finalizers p)\<rparr>, f \<in> set (Finalizers p)),
      DeepEqual_status = (=), DeepEqual_versions = (\<lambda>a b. b = Some a), DeepEqual_string = (=), DeepEqual_ports = (=),
      DeepEqual_strmap = (=), DeepEqual_deployment_spec = (=), DeepEqual_statefulset_spec = (=),
      LabelSelectorAsSelector = \<lambda>sel. None,
      setControllerReference = \<lambda>p md. Inr [JStr (Name p)],
      ParseURL = Inr,
      NewRESTClient = \<lambda>cfg. Inr \<lparr>RestClient_Config = cfg, RestClient_HasHTTP = True\<rparr>,
      NewWithRESTClient = \<lambda>rc. V1Client (Some rc),
      yaml_Marshal = \<lambda>c. Inr ''yaml'',
      json_Marshal = \<lambda>vs. Inr (concat (map SecretVersion_Version vs)),
      sha256_Sprint = \<lambda>s. s,
      SafeEncodeString = \<lambda>s. s,
      LabelValueMaxLength = 63,
      NamespacedName_String = \<lambda>k. NN_Namespace k @ ''/'' @ NN_Name k,
      serverURLFlag = None\<rparr>"

definition sample_world :: world where
  "sample_world =
     \<lparr>calls = [], w_metrics = Some NewMetrics, w_tracker = Some NewReconciliationTracker,
      w_factory = PersesClientFactoryWithConfig NewWithConfig, ctx_perses = None, needs_requeue = False\<rparr>"

text \<open>The first client that the factory makes in this environment.\<close>

definition sample_client :: v1_client where
  "sample_client = V1Client (Some \<lparr>RestClient_Config =
     \<lparr>Rest_URL = ''http://localhost'', Rest_Headers = [], Rest_TLSConfig = None, Rest_OAuth = None\<rparr>, RestClient_HasHTTP = True\<rparr>)"

section \<open>The hypotheses hold\<close>

lemma sample_retry_law [simp]: "retry_law sample_env"
  by (simp add: retry_law_def sample_env_def retries.last_try)

lemma sample_factory_ok [simp]: "factory_ok E sample_world"
  by (simp add: factory_ok_def cache_ok_def sample_world_def NewWithConfig_def)

lemma sample_tables_ok [simp]: "tables_ok sample_world"
  by (simp add: tables_ok_def sample_world_def)

lemma sample_log_ok [simp]: "log_ok E (calls sample_world)"
  by (simp add: sample_world_def)

lemma sample_gets [simp]:
  "getDashboard sample_env h rd (sample_key ''d'') = Inr sample_dashboard"
  "getDatasource sample_env h rd (sample_key ''s'') = Inr sample_datasource"
  "getGlobalDatasource sample_env h rd (sample_key ''g'') = Inr sample_globaldatasource"
  "getPerses sample_env h rd (sample_key ''p'') = Inr sample_perses"
  "getDashboard sample_env h rd (sample_key ''x'') = Inl sample_not_found"
  "getPerses sample_env h rd (sample_key ''x'') = Inl sample_not_found"
  "IsNotFound sample_env sample_not_found"
  by (simp_all add: sample_env_def only_key_def sample_key_def sample_not_found_def)

lemma sample_ops:
  "getEntity sample_env h c k ns n = Inl (RequestError 404 ''not found'')"
  "respond sample_env h x = None"
  "listPerses sample_env h sc = Inr [sample_perses]"
  "IsRequestNotFound sample_env e = (as_RequestError e = Some 404)"
  "ParseURL sample_env u = Inr u"
  "NewRESTClient sample_env cfg = Inr \<lparr>RestClient_Config = cfg, RestClient_HasHTTP = True\<rparr>"
  "NewWithRESTClient sample_env rc = V1Client (Some rc)"
  "IsStatusConditionTrue sample_env cs ty = list_ex (\<lambda>c. Cond_Type c = ty \<and> Cond_Status c = ConditionTrue) cs"
  "clock sample_env h = int (length h)"
  "serverURLFlag sample_env = None"
  "setCondition sample_env h cs cd = cd # filter (\<lambda>x. Cond_Type x \<noteq> Cond_Type cd) cs"
  "retryOnConflict sample_env f = f"
  "DeepEqual_json sample_env = (=)"
  "NamespacedName_String sample_env key = NN_Namespace key @ ''/'' @ NN_Name key"
  by (simp_all add: sample_env_def)

lemma sample_fields [simp]:
  "Spec_Client (Spec sample_perses) = None" "Spec_TLS (Spec sample_perses) = None"
  "Status_Conditions (Status sample_perses) = [Condition TypeAvailablePerses ConditionTrue ''Reconciled'' []]"
  "Spec_Volumes (Spec sample_perses) = [sample_volume]" "Spec_VolumeMounts (Spec sample_perses) = [sample_mount]"
  "Name sample_perses = ''p''" "Namespace sample_perses = ''mon''"
  "Datasource_Client (Datasource_Spec sample_datasource) = None"
  "Datasource_Client (GlobalDatasource_Spec sample_globaldatasource) = None"
  "Datasource_InstanceSelector (Datasource_Spec sample_datasource) = None"
  "Datasource_InstanceSelector (GlobalDatasource_Spec sample_globaldatasource) = None"
  "Dashboard_InstanceSelector (Dashboard_Spec sample_dashboard) = None"
  by (simp_all add: sample_perses_def perses.defs object_meta.defs sample_meta_def sample_spec_def sample_status_def
      sample_datasource_def sample_globaldatasource_def persesdatasource.defs persesglobaldatasource.defs
      sample_datasource_spec_def sample_dashboard_def persesdashboard.defs)

lemma sample_factory [simp]: "w_factory sample_world = PersesClientFactoryWithConfig NewWithConfig"
  by (simp add: sample_world_def)

text \<open>A fresh factory makes a client for the instance, and the server takes what is pushed to it.\<close>

lemma sample_CreateClient:
  assumes "w_factory w = PersesClientFactoryWithConfig NewWithConfig"
  shows "wp (CreateClient sample_env rd sample_perses) (\<lambda>r _. \<exists>c. r = Inr c) w"
proof -
  have off: "isKubernetesAuthEnabled sample_perses = False" "isClientTLSEnabled sample_perses = False"
    "client_oauth sample_perses = None" "isClientOAuthEnabled sample_perses = False"
    by (simp_all add: isKubernetesAuthEnabled_def isClientTLSEnabled_def client_oauth_def isClientOAuthEnabled_def)
  show ?thesis
    unfolding CreateClient_def buildClient_def with_factory_def lookup_section_def cacheHit_def Let_def
    using assms by (simp add: wp_simps sample_ops token_headers_def client_tls_def client_oauth_config_def off
        store_section_def NewWithConfig_def wp_any)
qed

lemma sample_sync:
  assumes "w_factory w = PersesClientFactoryWithConfig NewWithConfig"
  shows "wp (syncPersesDashboard sample_env d sample_perses) (\<lambda>r _. r = (None, [], None)) w"
    and "wp (syncPersesDatasource sample_env sample_datasource sample_perses) (\<lambda>r _. r = (None, [], None)) w"
    and "wp (syncPersesGlobalDatasource sample_env sample_globaldatasource sample_perses) (\<lambda>r _. r = (None, [], None)) w"
  unfolding syncPersesDashboard_def syncPersesDatasource_def syncPersesGlobalDatasource_def wp_bind
  by (rule wp_mono [OF sample_CreateClient [OF assms]],
      auto simp: wp_simps sample_ops Let_def ensure_project_def dashboard_write_entity_def dashboard_validate_and_write_def
        datasource_write_entity_def datasource_validate_and_write_def datasource_secret_step_def datasource_write_def
        globaldatasource_write_entity_def globaldatasource_validate_and_write_def globaldatasource_secret_step_def
        globaldatasource_write_def)+

lemma sample_sync_instances:
  assumes "wp (sync sample_perses) (\<lambda>r _. r = (None, [], None)) w"
  shows "wp (sync_instances sample_env sync TypeAvailablePerses [sample_perses]) (\<lambda>r _. r = None) w"
  using wp_mono [OF assms] by (simp add: wp_simps sample_ops Condition_def case_prod_unfold)

lemma sample_all_instances:
  assumes "w_factory w = PersesClientFactoryWithConfig NewWithConfig"
  shows "wp (reconcileDashboardInAllInstances sample_env (Some sample_dashboard) req) (\<lambda>r _. r = ContinueReconciling) w"
    and "wp (reconcileDatasourcesInAllInstances sample_env (Some sample_datasource) req) (\<lambda>r _. r = ContinueReconciling) w"
    and "wp (reconcileGlobalDatasourcesInAllInstances sample_env (Some sample_globaldatasource) req)
      (\<lambda>r _. r = ContinueReconciling) w"
  unfolding reconcileDashboardInAllInstances_def dashboard_sync_listed_def reconcileDatasourcesInAllInstances_def
    datasource_sync_listed_def reconcileGlobalDatasourcesInAllInstances_def globaldatasource_sync_listed_def
  using assms by (simp add: wp_bind wp_ask sample_ops del: sync_instances.simps,
      intro wp_mono [OF sample_sync_instances] sample_sync, simp, simp add: wp_simps)+

text \<open>The reconciliation of the dashboard ends with no error.\<close>

lemma sample_dashboard_status:
  assumes "\<And>d. along same_factory (f d)"
  shows "wp (updateDashboardStatus sample_env (Some sample_dashboard) (sample_key ''d'') f)
    (\<lambda>r w'. r = ContinueReconciling \<and> w_factory w' = w_factory w) w"
proof -
  have "wp (f sample_dashboard) (\<lambda>_ w'. w_factory w' = w_factory w) (w\<lparr>calls := cs\<rparr>)" for cs
    by (rule wp_mono [OF alongD [OF assms]]) (simp add: same_factory_def)
  then show ?thesis
    unfolding updateDashboardStatus_def dashboard_status_try_def Let_def
    by (auto simp: wp_simps sample_ops intro: wp_mono)
qed

lemma sample_dashboard_Reconcile:
  assumes "w_factory w = PersesClientFactoryWithConfig NewWithConfig"
  shows "wp (dashboard_Reconcile sample_env (sample_key ''d'')) (\<lambda>r _. r = Some (Result_zero, None)) w"
proof -
  let ?w = "w\<lparr>calls := KGet APIReader DashboardKind (sample_key ''d'') # started ''persesdashboard'' w\<rparr>"
  have unknown: "wp (dashboard_setStatusToUnknown sample_env (Some sample_dashboard) (sample_key ''d''))
      (\<lambda>r w'. r = ContinueReconciling \<and> w_factory w' = w_factory w) ?w"
    unfolding dashboard_setStatusToUnknown_def dashboard_SetCondition_def
    by (rule wp_mono [OF sample_dashboard_status]) (auto intro!: along_intros)
  have complete: "wp (dashboard_setStatusToComplete sample_env (Some sample_dashboard) (sample_key ''d''))
      (\<lambda>r w'. r = ContinueReconciling) w'" for w'
    unfolding dashboard_setStatusToComplete_def dashboard_SetCondition_def
    by (rule wp_mono [OF sample_dashboard_status]) (auto intro!: along_intros)
  let ?unknown = "dashboard_setStatusToUnknown sample_env (Some sample_dashboard) (sample_key ''d'')"
  let ?all = "reconcileDashboardInAllInstances sample_env (Some sample_dashboard) (sample_key ''d'')"
  let ?complete = "dashboard_setStatusToComplete sample_env (Some sample_dashboard) (sample_key ''d'')"
  have last: "wp (run_subreconcilers [?complete]) (\<lambda>err _. err = None) w'" for w'
    unfolding wp_run_subreconcilers_Cons wp_run_subreconcilers_Nil
    by (rule wp_mono [OF complete]) (simp add: go_def)
  have all: "wp (run_subreconcilers [?all, ?complete]) (\<lambda>err _. err = None) w'" if "w_factory w' = w_factory w" for w'
    unfolding wp_run_subreconcilers_Cons [of ?all]
    by (rule wp_mono [OF sample_all_instances(1)]) (use that assms last in \<open>simp_all add: go_def\<close>)
  have "wp (run_subreconcilers [?unknown, ?all, ?complete]) (\<lambda>err _. err = None) ?w"
    unfolding wp_run_subreconcilers_Cons [of ?unknown]
    by (rule wp_mono [OF unknown]) (use all in \<open>simp add: go_def case_prod_unfold\<close>)
  then show ?thesis
    unfolding dctl.Reconcile_found [OF sample_gets(1)] wp_bind wp_return
    by (rule wp_mono) (simp add: wp_any)
qed

end
