(* ===== verification/WorkloadProperties.thy ===== *)
theory WorkloadProperties
  imports OwnedObjects
begin

text \<open>
  What the objects of one Perses instance promise together: the Service reaches the pods, the wanted
  workload is the one that exists, an instance in its desired state is not written to, and the
  annotations of the objects influence each other through the map they share.
\<close>

section \<open>Shapes of the created objects\<close>

lemma createPersesService_shape:
  assumes "createPersesService E n p = (p', Inr s)"
  shows "Name s = n" "Namespace s = Namespace p" "Labels s = Some (LabelsForPerses E (Name p) p)"
    "ServiceSpec_Selector (Service_Spec s) = Some (LabelsForPerses E (Name p) p)"
    "map Port_TargetPort (ServiceSpec_Ports (Service_Spec s)) = [container_port p]"
    "same_but_annotations p p'"
  using assms
  by (auto simp: createPersesService_def Let_def new_meta_def object_meta.defs service.defs container_port_def
      split: sum.splits option.splits)

text \<open>The part that the two workloads share: selector, template and its annotations.\<close>

definition pod_template_for :: "env \<Rightarrow> config \<Rightarrow> perses \<Rightarrow> strmap \<Rightarrow> pod_template \<Rightarrow> bool" where
  "pod_template_for E cfg p annotations t \<longleftrightarrow>
     Template_Labels t = Some (LabelsForPerses E (Name p) p) \<and> Template_Annotations t = Some annotations \<and>
     map (map fst \<circ> Container_Ports) (Pod_Containers (Template_Spec t)) = [[container_port p]]"

lemma workload_annotations_port:
  "workload_annotations E p = Inr (m, p') \<Longrightarrow> container_port p' = container_port p"
  using same_but_annotations_fields(8) [OF workload_annotations_keeps] by (simp add: container_port_def)

lemma created_workload_shape:
  assumes "workload_annotations E p = Inr (m, q)"
  shows "snd (createPersesDeployment E cfg p) = Inr d \<Longrightarrow>
      Namespace d = Namespace p \<and> Annotations d = Some m \<and>
      Deployment_Selector (Deployment_Spec d) = LabelsForPerses E (Name p) p \<and>
      pod_template_for E cfg p m (Deployment_Template (Deployment_Spec d))"
    and "snd (createPersesStatefulSet E cfg p) = Inr t \<Longrightarrow>
      Namespace t = Namespace p \<and> Annotations t = Some m \<and>
      StatefulSet_Selector (StatefulSet_Spec t) = LabelsForPerses E (Name p) p \<and>
      pod_template_for E cfg p m (StatefulSet_Template (StatefulSet_Spec t))"
  using assms workload_annotations_names [OF assms] workload_annotations_port [OF assms]
  by (auto simp: createPersesDeployment_def createPersesStatefulSet_def Let_def new_meta_def object_meta.defs deployment.defs
      statefulset.defs pod_template_for_def perses_pod_spec_def perses_container_def case_prod_unfold split: sum.splits)

lemma created_workload_annotated:
  "snd (createPersesDeployment E cfg p) = Inr d \<Longrightarrow> \<exists>m q. workload_annotations E p = Inr (m, q)"
  "snd (createPersesStatefulSet E cfg p) = Inr t \<Longrightarrow> \<exists>m q. workload_annotations E p = Inr (m, q)"
  by (auto simp: createPersesDeployment_def createPersesStatefulSet_def Let_def split: sum.splits)

section \<open>What the operator owns of an object\<close>

text \<open>
  Documented of \<open>equality.Semantic.DeepEqual\<close>: on strings and on slices of plain values it is equality, on maps it is equality
  of the entries, a map that is \<open>nil\<close> being equal to one that is empty.
\<close>

definition equality_law :: "env \<Rightarrow> bool" where
  "equality_law E \<longleftrightarrow>
     (\<forall>x y. DeepEqual_string E x y = (x = y)) \<and> (\<forall>x y. DeepEqual_ports E x y = (x = y)) \<and>
     (\<forall>x y. DeepEqual_strmap E x y = (mget (nilmap x) = mget (nilmap y)))"

text \<open>The values of the operator's own labels, in their order.\<close>

definition own_labels :: "strmap \<Rightarrow> strmap option \<Rightarrow> string list" where
  "own_labels ls m = map (\<lambda>l. mget0 (nilmap m) (fst l)) ls"

definition owned_service where
  "owned_service ls (s :: service) =
     (Namespace s, Name s, ServiceSpec_Type (Service_Spec s), ServiceSpec_Ports (Service_Spec s), mget (nilmap (Annotations s)),
      own_labels ls (Labels s), mget (nilmap (ServiceSpec_Selector (Service_Spec s))))"

definition owned_config_map where
  "owned_config_map ls (c :: config_map) =
     (Namespace c, Name c, mget (nilmap (ConfigMap_Data c)), mget (nilmap (Annotations c)), own_labels ls (Labels c))"

text \<open>
  The calls of a sub-reconciler that found its object: the look-up, the dry run and, unless the two are the \<open>same\<close>, one update
  to what the dry run answered.
\<close>

definition writes_drift :: "env \<Rightarrow> sub_result go \<Rightarrow> kind \<Rightarrow> namespaced_name \<Rightarrow> kobj \<Rightarrow> kobj \<Rightarrow> bool \<Rightarrow> world \<Rightarrow> bool" where
  "writes_drift E m K key sent filled same w \<longleftrightarrow> wp m (\<lambda>r w'.
     calls w' = (if same then [] else [KUpdate False filled]) @ [KUpdate True sent, KGet Cached K key] @ calls w \<and>
     (r = ContinueReconciling \<longleftrightarrow> same \<or>
        respond E (KUpdate True sent # KGet Cached K key # calls w) (KUpdate False filled) = None)) w"

lemma gomap_add_labels: "gomap m \<Longrightarrow> gomap (add_labels m user)"
  by (induction m user rule: add_labels.induct) (auto split: option.splits)

lemma gomap_LabelsForPerses: "gomap (LabelsForPerses E n p)"
proof -
  have "gomap (default_labels E n p)" by (simp add: gomap_def default_labels_def)
  then show ?thesis by (auto simp: LabelsForPerses_def gomap_add_labels split: option.splits)
qed

text \<open>
  A selector with as many entries as there are labels, and for each label its value, is the map of the labels.
\<close>

lemma selector_compared:
  assumes "gomap sel" and "gomap ls" and "\<forall>l \<in> set ls. snd l \<noteq> []"
  shows "length sel = length ls \<and> (\<forall>l \<in> set ls. mget0 sel (fst l) = mget0 ls (fst l)) \<longleftrightarrow> mget sel = mget ls"
proof -
  have "mget0 sel (fst l) = mget0 ls (fst l) \<longleftrightarrow> mget sel (fst l) = mget ls (fst l)" if "l \<in> set ls" for l
  proof -
    have "mget ls (fst l) = Some (snd l)" using that assms(2) by (simp add: mget_def gomap_def)
    with assms(3) that show ?thesis by (auto simp: mget0_def mget_conv_map_of split: option.splits)
  qed
  then show ?thesis
    using maps_Equal_iff [OF assms(2,1)] assms(2)
    by (auto simp: maps_Equal_def list_all_iff mget_def gomap_def)
qed

lemma service_drift:
  assumes "equality_law E" and "gomap (nilmap (ServiceSpec_Selector (Service_Spec old)))"
    and "\<forall>l \<in> set (LabelsForPerses E n p). snd l \<noteq> []"
    and "ServiceSpec_Selector (Service_Spec new) = Some (LabelsForPerses E n p)"
  shows "serviceNeedsUpdate E old new n p \<longleftrightarrow>
    owned_service (LabelsForPerses E n p) old \<noteq> owned_service (LabelsForPerses E n p) new"
  using assms(1) selector_compared [OF assms(2) gomap_LabelsForPerses assms(3)]
  by (auto simp: serviceNeedsUpdate_def owned_service_def own_labels_def equality_law_def Let_def assms(4) list_ex_iff nilmap_def [of "Some _"]
      case_prod_unfold)

lemma config_map_drift:
  assumes "equality_law E"
  shows "configMapNeedsUpdate E (Some old) (Some new) n p \<longleftrightarrow>
    owned_config_map (LabelsForPerses E n p) old \<noteq> owned_config_map (LabelsForPerses E n p) new"
  using assms by (auto simp: configMapNeedsUpdate_def owned_config_map_def own_labels_def equality_law_def list_ex_iff case_prod_unfold)

section \<open>Properties\<close>

text \<open>
  C19: the Service reaches the pods. The Service that is defined for a Perses object and the
  Deployment (or StatefulSet) that is defined after it, from the object as the definition of the
  Service left it, are in the same namespace, the selector of the Service and that of the workload
  are the labels of its pods, and the Service forwards to a port that the container exposes, also
  when the Service has a name of its own.
\<close>

theorem service_selects_pods:
  assumes "createPersesService E n p = (p', Inr s)"
  shows "(\<forall>d. snd (createPersesDeployment E cfg p') = Inr d \<longrightarrow>
      Namespace d = Namespace s \<and>
      ServiceSpec_Selector (Service_Spec s) = Template_Labels (Deployment_Template (Deployment_Spec d)) \<and>
      Some (Deployment_Selector (Deployment_Spec d)) = Template_Labels (Deployment_Template (Deployment_Spec d)) \<and>
      map (map fst \<circ> Container_Ports) (Pod_Containers (Template_Spec (Deployment_Template (Deployment_Spec d)))) =
        [map Port_TargetPort (ServiceSpec_Ports (Service_Spec s))]) \<and>
    (\<forall>t. snd (createPersesStatefulSet E cfg p') = Inr t \<longrightarrow>
      Namespace t = Namespace s \<and>
      ServiceSpec_Selector (Service_Spec s) = Template_Labels (StatefulSet_Template (StatefulSet_Spec t)) \<and>
      Some (StatefulSet_Selector (StatefulSet_Spec t)) = Template_Labels (StatefulSet_Template (StatefulSet_Spec t)) \<and>
      map (map fst \<circ> Container_Ports) (Pod_Containers (Template_Spec (StatefulSet_Template (StatefulSet_Spec t)))) =
        [map Port_TargetPort (ServiceSpec_Ports (Service_Spec s))])"
proof -
  note s = createPersesService_shape [OF assms]
  note fields = same_but_annotations_fields [OF s(6)]
  have port: "container_port p' = container_port p" by (simp add: container_port_def fields)
  show ?thesis
  proof (intro conjI allI impI)
    fix d
    assume d: "snd (createPersesDeployment E cfg p') = Inr d"
    then obtain m q where "workload_annotations E p' = Inr (m, q)" using created_workload_annotated(1) by blast
    from created_workload_shape(1) [OF this d]
    show "Namespace d = Namespace s"
      "ServiceSpec_Selector (Service_Spec s) = Template_Labels (Deployment_Template (Deployment_Spec d))"
      "Some (Deployment_Selector (Deployment_Spec d)) = Template_Labels (Deployment_Template (Deployment_Spec d))"
      "map (map fst \<circ> Container_Ports) (Pod_Containers (Template_Spec (Deployment_Template (Deployment_Spec d)))) =
        [map Port_TargetPort (ServiceSpec_Ports (Service_Spec s))]"
      by (simp_all add: s fields(1,2,5) port pod_template_for_def)
  next
    fix t
    assume t: "snd (createPersesStatefulSet E cfg p') = Inr t"
    then obtain m q where "workload_annotations E p' = Inr (m, q)" using created_workload_annotated(2) by blast
    from created_workload_shape(2) [OF this t]
    show "Namespace t = Namespace s"
      "ServiceSpec_Selector (Service_Spec s) = Template_Labels (StatefulSet_Template (StatefulSet_Spec t))"
      "Some (StatefulSet_Selector (StatefulSet_Spec t)) = Template_Labels (StatefulSet_Template (StatefulSet_Spec t))"
      "map (map fst \<circ> Container_Ports) (Pod_Containers (Template_Spec (StatefulSet_Template (StatefulSet_Spec t)))) =
        [map Port_TargetPort (ServiceSpec_Ports (Service_Spec s))]"
      by (simp_all add: s fields(1,2,5) port pod_template_for_def)
  qed
qed

text \<open>
  C31: the annotations of the Service leak into the workload. When the Perses object has annotations
  in \<open>spec.metadata\<close>, the map is shared, so that every annotation of \<open>spec.service\<close> is also on the
  Deployment, and on its pods, defined after the Service.
\<close>

theorem service_annotations_leak:
  assumes "Spec_Metadata (Spec p) = Some md" and "Metadata_Annotations md = Some m"
    and "Spec_Service (Spec p) = Some sv" and "Service_Annotations sv = Some extra" and "gomap extra"
    and "mget extra k = Some v" and "k \<noteq> PersesProvisioningVersion"
    and "snd (createPersesDeployment E cfg (fst (createPersesService E n p))) = Inr d"
  shows "mget (nilmap (Annotations d)) k = Some v \<and>
    Template_Annotations (Deployment_Template (Deployment_Spec d)) = Annotations d"
proof -
  let ?p = "fst (createPersesService E n p)"
  obtain a q where a: "workload_annotations E ?p = Inr (a, q)"
    using created_workload_annotated(1) [OF assms(8)] by blast
  have "base_annotations ?p = maps_Copy m extra"
    using assms(1-4) by (simp add: createPersesService_def Let_def base_annotations_def alias_annotations_def nilmap_def)
  then have "mget (base_annotations ?p) k = Some v"
    using assms(5,6) by (simp add: mget_maps_Copy)
  then have "mget a k = Some v"
    using a assms(7) by (auto simp: workload_annotations_def Let_def split: sum.splits if_splits)
  then show ?thesis
    using created_workload_shape(1) [OF a assms(8)] by (simp add: nilmap_def pod_template_for_def)
qed

text \<open>
  Which workload. A Perses object wants a Deployment and a StatefulSet at the same time exactly
  when it configures both databases and no emptyDir, and none of them exactly when it configures no
  database; in every other case it wants exactly one.
\<close>

lemma workload_choice:
  "(RequiresDeployment p \<and> RequiresStatefulSet p \<longleftrightarrow>
      Config_Database_SQL (Spec_Config (Spec p)) \<noteq> None \<and> Config_Database_File (Spec_Config (Spec p)) \<noteq> None \<and>
      \<not> (\<exists>st. Spec_Storage (Spec p) = Some st \<and> Storage_EmptyDir st \<noteq> None)) \<and>
   (\<not> RequiresDeployment p \<and> \<not> RequiresStatefulSet p \<longleftrightarrow>
      Config_Database_SQL (Spec_Config (Spec p)) = None \<and> Config_Database_File (Spec_Config (Spec p)) = None)"
  by (auto simp: RequiresDeployment_def RequiresStatefulSet_def Let_def split: option.splits)

text \<open>
  C32: a workload that is no longer wanted goes away. When the configuration of the Perses object no
  longer asks for a Deployment (or StatefulSet) and one is there, the reconciliation deletes exactly
  the one it read, and goes on if and only if the deletion is answered with no error. When the
  look-up fails, with whatever error, it deletes nothing and goes on.
\<close>

theorem unwanted_workload_deleted:
  assumes "ctx_perses w = Some p"
  shows "(\<not> RequiresDeployment p \<longrightarrow>
      wp (reconcileDeployment E cfg) (\<lambda>r w'.
        case getDeployment E (calls w) Cached (meta_key p) of
          Inr d \<Rightarrow> calls w' = KDelete (KDeployment d) # KGet Cached DeploymentKind (meta_key p) # calls w \<and>
            (r = ContinueReconciling \<longleftrightarrow>
             respond E (KGet Cached DeploymentKind (meta_key p) # calls w) (KDelete (KDeployment d)) = None)
        | Inl err \<Rightarrow> r = ContinueReconciling \<and> calls w' = KGet Cached DeploymentKind (meta_key p) # calls w) w) \<and>
    (\<not> RequiresStatefulSet p \<longrightarrow>
      wp (reconcileStatefulSet E cfg) (\<lambda>r w'.
        case getStatefulSet E (calls w) Cached (meta_key p) of
          Inr t \<Rightarrow> calls w' = KDelete (KStatefulSet t) # KGet Cached StatefulSetKind (meta_key p) # calls w \<and>
            (r = ContinueReconciling \<longleftrightarrow>
             respond E (KGet Cached StatefulSetKind (meta_key p) # calls w) (KDelete (KStatefulSet t)) = None)
        | Inl err \<Rightarrow> r = ContinueReconciling \<and> calls w' = KGet Cached StatefulSetKind (meta_key p) # calls w) w)"
proof -
  have key: "meta_key p = object_key Name p" by (simp add: meta_key_def object_key_def)
  show ?thesis
    using assms dep.reconcile_deletes [of w p] sts.reconcile_deletes [of w p]
      dep.reconcile_ignores [of w p] sts.reconcile_ignores [of w p]
    by (cases "getDeployment E (calls w) Cached (object_key Name p)";
        cases "getStatefulSet E (calls w) Cached (object_key Name p)") (simp_all add: key)
qed

text \<open>
  C22: drift is repaired and nothing else is written. When an owned object exists and the operator can define it,
  the sub-reconciler reads it, has its definition filled in by a dry run, and then compares what the operator owns of
  the two. It makes no further call when that is equal, whatever else the API server keeps in the object (its
  resource version, labels of others, the metadata of a workload); when it is not, the next and last call updates
  the object to the answer of the dry run. Of a Service the operator owns the type, the ports, the annotations, its own labels and
  the selector; of a ConfigMap the data, the annotations and its own labels; of a workload the specification. It goes on exactly
  when nothing was to be written or the update was accepted. A selector entry counts only where no label is empty,
  because the comparison reads a missing entry as the empty string.
\<close>

theorem only_drift_is_written:
  assumes "ctx_perses w = Some p" and "equality_law E"
  shows "(\<forall>old s. getService E (calls w) Cached (object_key service_name p) = Inr old \<longrightarrow>
      snd (createPersesService E (service_name p) p) = Inr s \<longrightarrow>
      respond E (KGet Cached ServiceKind (object_key service_name p) # calls w) (KUpdate True (KService s)) = None \<longrightarrow>
      ServiceSpec_Selector (Service_Spec (dryRunService E (KGet Cached ServiceKind (object_key service_name p) # calls w) s)) =
        ServiceSpec_Selector (Service_Spec s) \<longrightarrow>
      gomap (nilmap (ServiceSpec_Selector (Service_Spec old))) \<longrightarrow> (\<forall>l \<in> set (LabelsForPerses E (Name p) p). snd l \<noteq> []) \<longrightarrow>
      writes_drift E (reconcileService E) ServiceKind (object_key service_name p) (KService s)
        (KService (dryRunService E (KGet Cached ServiceKind (object_key service_name p) # calls w) s))
        (owned_service (LabelsForPerses E (Name p) p) old =
         owned_service (LabelsForPerses E (Name p) p) (dryRunService E (KGet Cached ServiceKind (object_key service_name p) # calls w) s)) w) \<and>
    (\<forall>old c. getConfigMap E (calls w) Cached (object_key (\<lambda>p. GetConfigName (Name p)) p) = Inr old \<longrightarrow> createPersesConfigMap E p = Inr c \<longrightarrow>
      respond E (KGet Cached ConfigMapKind (object_key (\<lambda>p. GetConfigName (Name p)) p) # calls w) (KUpdate True (KConfigMap c)) = None \<longrightarrow>
      writes_drift E (reconcileConfigMap E) ConfigMapKind (object_key (\<lambda>p. GetConfigName (Name p)) p) (KConfigMap c)
        (KConfigMap (dryRunConfigMap E (KGet Cached ConfigMapKind (object_key (\<lambda>p. GetConfigName (Name p)) p) # calls w) c))
        (owned_config_map (LabelsForPerses E (GetConfigName (Name p)) p) old =
         owned_config_map (LabelsForPerses E (GetConfigName (Name p)) p)
           (dryRunConfigMap E (KGet Cached ConfigMapKind (object_key (\<lambda>p. GetConfigName (Name p)) p) # calls w) c)) w) \<and>
    (\<forall>old d. RequiresDeployment p \<longrightarrow> getDeployment E (calls w) Cached (object_key Name p) = Inr old \<longrightarrow>
      snd (createPersesDeployment E cfg p) = Inr d \<longrightarrow>
      respond E (KGet Cached DeploymentKind (object_key Name p) # calls w) (KUpdate True (KDeployment d)) = None \<longrightarrow>
      writes_drift E (reconcileDeployment E cfg) DeploymentKind (object_key Name p) (KDeployment d)
        (KDeployment (dryRunDeployment E (KGet Cached DeploymentKind (object_key Name p) # calls w) d))
        (DeepEqual_deployment_spec E (Deployment_Spec old)
          (Deployment_Spec (dryRunDeployment E (KGet Cached DeploymentKind (object_key Name p) # calls w) d))) w) \<and>
    (\<forall>old t. RequiresStatefulSet p \<longrightarrow> getStatefulSet E (calls w) Cached (object_key Name p) = Inr old \<longrightarrow>
      snd (createPersesStatefulSet E cfg p) = Inr t \<longrightarrow>
      respond E (KGet Cached StatefulSetKind (object_key Name p) # calls w) (KUpdate True (KStatefulSet t)) = None \<longrightarrow>
      writes_drift E (reconcileStatefulSet E cfg) StatefulSetKind (object_key Name p) (KStatefulSet t)
        (KStatefulSet (dryRunStatefulSet E (KGet Cached StatefulSetKind (object_key Name p) # calls w) t))
        (DeepEqual_statefulset_spec E (StatefulSet_Spec old)
          (StatefulSet_Spec (dryRunStatefulSet E (KGet Cached StatefulSetKind (object_key Name p) # calls w) t))) w)"
proof (intro conjI allI impI, goal_cases)
  case (1 old s)
  obtain q where q: "createPersesService E (service_name p) p = (q, Inr s)"
    using 1(2) by (cases "createPersesService E (service_name p) p") auto
  note shape = createPersesService_shape [OF q]
  have ls: "LabelsForPerses E (Name q) q = LabelsForPerses E (Name p) p"
    using same_but_annotations_fields [OF shape(6)] by simp
  show ?case
    unfolding writes_drift_def
    using service_drift [OF assms(2) 1(5), of "Name q" q] 1(4,6)
    by (intro svc.reconcile_compares [OF assms(1) _ 1(1,2,3)]) (simp_all add: q shape ls)
next
  case (2 old c)
  then show ?case
    unfolding writes_drift_def
    by (intro cm.reconcile_compares [OF assms(1)]) (simp_all add: config_map_drift [OF assms(2)])
next
  case (3 old d)
  then show ?case
    unfolding writes_drift_def by (intro dep.reconcile_compares [OF assms(1)]) simp_all
next
  case (4 old t)
  then show ?case
    unfolding writes_drift_def by (intro sts.reconcile_compares [OF assms(1)]) simp_all
qed

end
