(* ===== verification/Provisioning.thy ===== *)
theory Provisioning
  imports PersesController
begin

text \<open>
  The provisioning of secrets: the versions of the referenced secrets that a reconciliation records,
  and the requests that a change of a secret triggers.
\<close>

section \<open>The versions\<close>

definition secret_read :: "string \<Rightarrow> string \<Rightarrow> call" where
  "secret_read ns n = KGet APIReader SecretKind \<lparr>NN_Namespace = ns, NN_Name = n\<rparr>"

lemma secret_read_inject [simp]: "secret_read ns n = secret_read ns n' \<longleftrightarrow> n = n'"
  by (simp add: secret_read_def)

text \<open>The version that the last look-up of a secret in the log returned.\<close>

definition version_in :: "env \<Rightarrow> string \<Rightarrow> call list \<Rightarrow> string \<Rightarrow> string option" where
  "version_in E ns h n =
     (case last_at (secret_read ns n) h of
        None \<Rightarrow> None
      | Some t \<Rightarrow> (case getSecret E t APIReader \<lparr>NN_Namespace = ns, NN_Name = n\<rparr> of
                   Inl _ \<Rightarrow> None | Inr sec \<Rightarrow> Some (ResourceVersion sec)))"

text \<open>What the loop has established when \<open>seen\<close> was read since the log was \<open>h0\<close>.\<close>

definition read_since :: "env \<Rightarrow> string \<Rightarrow> call list \<Rightarrow> strmap \<Rightarrow> call list \<Rightarrow> bool" where
  "read_since E ns h0 seen h \<longleftrightarrow>
     gomap seen \<and>
     (\<exists>cs. h = cs @ h0 \<and> distinct cs \<and> set cs = secret_read ns ` mkeys seen) \<and>
     (\<forall>n v. mget seen n = Some v \<longrightarrow> version_in E ns h n = Some v)"

lemma read_since_start [simp]: "read_since E ns h [] h"
  by (simp add: read_since_def mkeys_def)

lemma mkeys_mset_key: "mkeys (mset_key k v m) = insert k (mkeys m)"
  by (simp add: mkeys_mget)

lemma read_since_more:
  assumes "read_since E ns h0 seen h" and "mget seen n = None"
    and "getSecret E h APIReader \<lparr>NN_Namespace = ns, NN_Name = n\<rparr> = Inr sec"
  shows "read_since E ns h0 (mset_key n (ResourceVersion sec) seen) (secret_read ns n # h)"
proof -
  obtain cs where cs: "h = cs @ h0" "distinct cs" "set cs = secret_read ns ` mkeys seen"
    using assms(1) by (auto simp: read_since_def)
  have "n \<notin> mkeys seen" using assms(2) by (simp add: mkeys_mget domIff)
  then have "distinct (secret_read ns n # cs)" using cs(2,3) by auto
  moreover have "version_in E ns (secret_read ns n # h) n = Some (ResourceVersion sec)"
    using assms(3) by (simp add: version_in_def)
  moreover have "version_in E ns (secret_read ns n # h) k = version_in E ns h k" if "k \<noteq> n" for k
    using that by (simp add: version_in_def)
  ultimately show ?thesis
    using assms(1) cs by (auto simp: read_since_def mkeys_mset_key intro!: exI [of _ "secret_read ns n # cs"])
qed

lemma read_since_calls:
  "read_since E ns h0 m h \<Longrightarrow> \<exists>cs. h = cs @ h0 \<and> distinct cs \<and> set cs = secret_read ns ` mkeys m"
  by (simp add: read_since_def)

lemma read_since_lookup:
  "read_since E ns h0 m h \<Longrightarrow> mget m n = (if n \<in> mkeys m then version_in E ns h n else None)"
  by (cases "mget m n") (auto simp: read_since_def mkeys_mget)

lemma secret_versions_loop:
  assumes "read_since E ns h0 seen (calls w)"
  shows "wp (secret_versions E ns refs seen) (\<lambda>r w'.
    case r of
      Inr m \<Rightarrow> read_since E ns h0 m (calls w') \<and> mkeys m = mkeys seen \<union> SecretKey_Name ` set refs
    | Inl err \<Rightarrow> \<exists>m n t. read_since E ns h0 m t \<and> n \<in> SecretKey_Name ` set refs \<and> calls w' = secret_read ns n # t \<and>
        getSecret E t APIReader \<lparr>NN_Namespace = ns, NN_Name = n\<rparr> = Inl err) w"
  using assms
proof (induction refs arbitrary: seen w)
  case Nil
  then show ?case by (simp add: wp_simps)
next
  case (Cons ref refs)
  show ?case
  proof (cases "mget seen (SecretKey_Name ref)")
    case None
    show ?thesis
    proof (cases "getSecret E (calls w) APIReader \<lparr>NN_Namespace = ns, NN_Name = SecretKey_Name ref\<rparr>")
      case (Inl err)
      with None Cons.prems show ?thesis
        by (auto simp: wp_simps client_Get_Secret_def secret_read_def)
    next
      case (Inr sec)
      let ?w = "w\<lparr>calls := secret_read ns (SecretKey_Name ref) # calls w\<rparr>"
      have "read_since E ns h0 (mset_key (SecretKey_Name ref) (ResourceVersion sec) seen) (calls ?w)"
        using read_since_more [OF Cons.prems None Inr] by simp
      from Cons.IH [OF this]
      have "wp (secret_versions E ns refs (mset_key (SecretKey_Name ref) (ResourceVersion sec) seen)) (\<lambda>r w'.
        case r of
          Inr m \<Rightarrow> read_since E ns h0 m (calls w') \<and> mkeys m = mkeys seen \<union> SecretKey_Name ` set (ref # refs)
        | Inl err \<Rightarrow> \<exists>m n t. read_since E ns h0 m t \<and> n \<in> SecretKey_Name ` set (ref # refs) \<and> calls w' = secret_read ns n # t \<and>
            getSecret E t APIReader \<lparr>NN_Namespace = ns, NN_Name = n\<rparr> = Inl err) ?w"
        by (rule wp_mono) (fastforce simp: mkeys_mset_key split: sum.splits)
      with None Inr show ?thesis by (simp add: wp_simps client_Get_Secret_def secret_read_def)
    qed
  next
    case (Some v)
    then have "SecretKey_Name ref \<in> mkeys seen" by (auto simp: mkeys_mget)
    with Cons.IH [OF Cons.prems] Some show ?thesis
      by (auto elim!: wp_mono split: sum.splits) blast
  qed
qed

lemma sorted_versions_facts:
  assumes "gomap m"
  shows "sorted (map SecretVersion_Name (sorted_versions m))"
    and "distinct (map SecretVersion_Name (sorted_versions m))"
    and "set (sorted_versions m) = {sv. mget m (SecretVersion_Name sv) = Some (SecretVersion_Version sv)}"
proof -
  let ?sv = "\<lambda>(n, v). \<lparr>SecretVersion_Name = n, SecretVersion_Version = v\<rparr>"
  show "sorted (map SecretVersion_Name (sorted_versions m))" by (simp add: sorted_versions_def)
  have "distinct (map SecretVersion_Name (map ?sv m))"
    using assms by (simp add: gomap_def comp_def case_prod_unfold)
  then show "distinct (map SecretVersion_Name (sorted_versions m))"
    unfolding sorted_versions_def by (simp only: distinct_map set_sort distinct_sort)
  show "set (sorted_versions m) = {sv. mget m (SecretVersion_Name sv) = Some (SecretVersion_Version sv)}"
    using assms by (force simp: sorted_versions_def mget_def gomap_def)
qed

section \<open>Properties\<close>

text \<open>
  C20: the versions of the provisioning secrets. The loop over the references reads every referenced
  secret exactly once, however many references name it, straight from the API server. When it
  succeeds, it has read exactly the referenced secrets, and maps each of their names to the resource
  version that was answered. When it fails, the last call is the read of a referenced secret, and
  the error is its answer.
\<close>

theorem secret_versions_spec:
  "wp (secret_versions E ns refs []) (\<lambda>r w'.
    case r of
      Inr m \<Rightarrow> (\<exists>cs. calls w' = cs @ calls w \<and> distinct cs \<and> set cs = secret_read ns ` SecretKey_Name ` set refs) \<and>
        (\<forall>n. mget m n = (if n \<in> SecretKey_Name ` set refs then version_in E ns (calls w') n else None))
    | Inl err \<Rightarrow> \<exists>n cs. n \<in> SecretKey_Name ` set refs \<and> calls w' = secret_read ns n # cs @ calls w \<and> distinct cs \<and>
        getSecret E (cs @ calls w) APIReader \<lparr>NN_Namespace = ns, NN_Name = n\<rparr> = Inl err) w"
proof (rule wp_mono [OF secret_versions_loop [OF read_since_start]], goal_cases)
  case (1 r w')
  then show ?case
  proof (cases r)
    case (Inl err)
    with 1 obtain m n t where t: "read_since E ns (calls w) m t" "n \<in> SecretKey_Name ` set refs"
        "calls w' = secret_read ns n # t" "getSecret E t APIReader \<lparr>NN_Namespace = ns, NN_Name = n\<rparr> = Inl err"
      by auto
    obtain cs where "t = cs @ calls w" "distinct cs" using read_since_calls [OF t(1)] by blast
    with t Inl show ?thesis by auto
  next
    case (Inr m)
    with 1 have m: "read_since E ns (calls w) m (calls w')" "mkeys m = SecretKey_Name ` set refs"
      by (auto simp: mkeys_def [of "[]"])
    from read_since_calls [OF m(1)] read_since_lookup [OF m(1)] Inr m(2) show ?thesis by simp
  qed
qed

text \<open>
  C38: the recorded versions do not depend on the iteration order of the map. Two maps with the same
  entries give the same list, sorted by name and with every name once, and its entries are those of the map: so
  the hash of the provisioning changes only when a version does.
\<close>

theorem sorted_versions_canonical:
  assumes "gomap m1" and "gomap m2" and "mget m1 = mget m2"
  shows "sorted_versions m1 = sorted_versions m2 \<and>
    sorted (map SecretVersion_Name (sorted_versions m1)) \<and> distinct (map SecretVersion_Name (sorted_versions m1)) \<and>
    set (sorted_versions m1) =
      {sv. mget m1 (SecretVersion_Name sv) = Some (SecretVersion_Version sv)}"
proof -
  note facts1 = sorted_versions_facts [OF assms(1)] and facts2 = sorted_versions_facts [OF assms(2)]
  have "set (sorted_versions m1) = set (sorted_versions m2)"
    unfolding facts1(3) facts2(3) assms(3) ..
  moreover have "inj_on SecretVersion_Name (set (sorted_versions m1))"
    using facts1(2) by (simp add: distinct_map)
  ultimately have "sorted_versions m1 = sorted_versions m2"
    using facts1 facts2 by (intro map_sorted_distinct_set_unique [where f = SecretVersion_Name]) auto
  with facts1 show ?thesis by simp
qed

text \<open>
  A change of a secret wakes exactly the instances that are provisioned from it. The requests for a changed secret
  are the Perses objects of the secret's namespace, as the list answered them, that refer to a secret
  of this name, each once per object in the list; an error of the list gives no request.
\<close>

lemma findPersesForSecret_spec:
  "wp (findPersesForSecret E ns n) (\<lambda>reqs w'.
    calls w' = KList (InNamespace ns) # calls w \<and>
    (case listPerses E (calls w) (InNamespace ns) of
       Inl _ \<Rightarrow> reqs = []
     | Inr items \<Rightarrow>
         length reqs = length (filter (\<lambda>p. n \<in> SecretKey_Name ` set (secret_refs p)) items) \<and>
         set reqs = {meta_key p | p. p \<in> set items \<and> n \<in> SecretKey_Name ` set (secret_refs p)})) w"
proof -
  have eq: "list_ex (\<lambda>ref. SecretKey_Name ref = n) (secret_refs p) \<longleftrightarrow> n \<in> SecretKey_Name ` set (secret_refs p)" for p
    by (auto simp: list_ex_iff)
  show ?thesis
    by (auto simp: findPersesForSecret_def wp_simps eq meta_key_def split: sum.splits)
qed

end
