(* ===== verification/ApiTypesV1.thy ===== *)
theory ApiTypesV1
  imports ApiTypes GoErrors
begin

text \<open>
  The API types of the older version, \<^verbatim>\<open>api/v1alpha1\<close>. They have fewer fields than those of
  \<^verbatim>\<open>api/v1alpha2\<close>, and plain values where the newer version has pointers. The types of other packages are
  those of theory \<open>ApiTypes\<close>: both versions embed the same ones. \<open>int\<close> is the 64 bit integer of the
  platforms that the operator is built for. \<open>TypeMeta\<close> is left out, as in \<open>ApiTypes\<close>: no conversion
  touches it.
\<close>

section \<open>Secret sources and clients\<close>

record v1alpha1_secret_source =
  V1_Source_Type :: string
  V1_Source_Name :: string
  V1_Source_Namespace :: string

record v1alpha1_basic_auth = v1alpha1_secret_source +
  V1_Username :: string
  V1_PasswordPath :: string

record v1alpha1_oauth = v1alpha1_secret_source +
  V1_ClientIDPath :: string
  V1_ClientSecretPath :: string
  V1_TokenURL :: string
  V1_Scopes :: "string list"
  V1_EndpointParams :: "(string, string list) gomap"
  V1_AuthStyle :: int64

record v1alpha1_certificate = v1alpha1_secret_source +
  V1_CertPath :: string
  V1_PrivateKeyPath :: string

record v1alpha1_tls =
  V1_TLS_Enable :: bool
  V1_TLS_CaCert :: "v1alpha1_certificate option"
  V1_TLS_UserCert :: "v1alpha1_certificate option"
  V1_TLS_InsecureSkipVerify :: bool

record v1alpha1_kubernetes_auth =
  V1_KubernetesAuth_Enable :: bool

record v1alpha1_client =
  V1_Client_BasicAuth :: "v1alpha1_basic_auth option"
  V1_Client_OAuth :: "v1alpha1_oauth option"
  V1_Client_TLS :: "v1alpha1_tls option"
  V1_Client_KubernetesAuth :: "v1alpha1_kubernetes_auth option"

section \<open>Perses\<close>

record v1alpha1_metadata =
  V1_Metadata_Labels :: "strmap option"
  V1_Metadata_Annotations :: "strmap option"

record v1alpha1_perses_service =
  V1_Service_Name :: string
  V1_Service_Annotations :: "strmap option"

record v1alpha1_storage_configuration =
  V1_Storage_StorageClass :: "string option"
  V1_Storage_Size :: quantity

record v1alpha1_perses_spec =
  V1_Spec_Metadata :: "v1alpha1_metadata option"
  V1_Spec_Client :: "v1alpha1_client option"
  V1_Spec_Config :: perses_config
  V1_Spec_Args :: "string list"
  V1_Spec_ContainerPort :: int32
  V1_Spec_Replicas :: "int32 option"
  V1_Spec_NodeSelector :: "strmap option"
  V1_Spec_Tolerations :: "json list"
  V1_Spec_Affinity :: "json option"
  V1_Spec_Image :: string
  V1_Spec_Service :: "v1alpha1_perses_service option"
  V1_Spec_LivenessProbe :: "probe option"
  V1_Spec_ReadinessProbe :: "probe option"
  V1_Spec_TLS :: "v1alpha1_tls option"
  V1_Spec_Storage :: "v1alpha1_storage_configuration option"
  V1_Spec_ServiceAccountName :: string

record v1alpha1_perses_status =
  V1_Status_Conditions :: "condition list"

record v1alpha1_perses = object_meta +
  V1_Spec :: v1alpha1_perses_spec
  V1_Status :: v1alpha1_perses_status

section \<open>Dashboards and datasources\<close>

record v1alpha1_persesdashboard_status =
  V1_Dashboard_Conditions :: "condition list"

record v1alpha1_persesdashboard = object_meta +
  V1_Dashboard_Spec :: json
  V1_Dashboard_Status :: v1alpha1_persesdashboard_status

record v1alpha1_datasource_spec =
  V1_Datasource_Config :: json
  V1_Datasource_Client :: "v1alpha1_client option"

record v1alpha1_persesdatasource_status =
  V1_Datasource_Conditions :: "condition list"

record v1alpha1_persesdatasource = object_meta +
  V1_Datasource_Spec :: v1alpha1_datasource_spec
  V1_Datasource_Status :: v1alpha1_persesdatasource_status

text \<open>The list types of both versions.\<close>

record 'a list_object =
  ListMeta :: json
  Items :: "'a list option"

end
