(* ===== verification/Conversion.thy ===== *)
theory Conversion
  imports ApiTypesV1
begin

text \<open>
  The conversion between the two versions of the API: the functions of
  \<^verbatim>\<open>api/v1alpha1/*_conversion.go\<close>, which are written by hand, and those of
  \<^verbatim>\<open>api/v1alpha1/zz_generated.conversion.go\<close>, which call them.

  A function that fills \<open>*out\<close> takes the value of \<open>*out\<close> and returns the new one, or the error; the
  \<open>out\<close> of a failed conversion reaches nobody. An embedded struct is converted in place: the
  functions on secret sources work on every record that extends one. \<open>new_...\<close> is the zero value that
  \<open>new\<close> and \<open>make\<close> allocate. The functions of the library, \<open>Convert_string_To_Pointer_string\<close> and the like,
  and \<open>IsZero\<close> of a quantity, are parameters.
\<close>

section \<open>The library\<close>

record conv_lib =
  Convert_string_To_Pointer_string :: "string \<Rightarrow> error + string option"
  Convert_Pointer_string_To_string :: "string option \<Rightarrow> error + string"
  Convert_bool_To_Pointer_bool :: "bool \<Rightarrow> error + bool option"
  Convert_Pointer_bool_To_bool :: "bool option \<Rightarrow> error + bool"
  Convert_int32_To_Pointer_int32 :: "int32 \<Rightarrow> error + int32 option"
  Convert_Pointer_int32_To_int32 :: "int32 option \<Rightarrow> error + int32"
  Quantity_IsZero :: "quantity \<Rightarrow> bool"
  Quantity_zero :: quantity

text \<open>
  What the library documents: a value becomes a pointer to it, a pointer becomes the value that it
  points to and \<open>nil\<close> the zero value; none of these fails. The zero value of a quantity is zero.
\<close>

definition conv_law :: "conv_lib \<Rightarrow> bool" where
  "conv_law L \<longleftrightarrow>
     (\<forall>x. Convert_string_To_Pointer_string L x = Inr (Some x)) \<and>
     (\<forall>p. Convert_Pointer_string_To_string L p = Inr (case p of None \<Rightarrow> [] | Some x \<Rightarrow> x)) \<and>
     (\<forall>x. Convert_bool_To_Pointer_bool L x = Inr (Some x)) \<and>
     (\<forall>p. Convert_Pointer_bool_To_bool L p = Inr (case p of None \<Rightarrow> False | Some x \<Rightarrow> x)) \<and>
     (\<forall>x. Convert_int32_To_Pointer_int32 L x = Inr (Some x)) \<and>
     (\<forall>p. Convert_Pointer_int32_To_int32 L p = Inr (case p of None \<Rightarrow> 0 | Some x \<Rightarrow> x)) \<and>
     Quantity_IsZero L (Quantity_zero L)"

section \<open>Composition\<close>

text \<open>The code for a pointer field: \<open>nil\<close> stays \<open>nil\<close>, and the target is converted into a new value.\<close>

definition convert_pointer :: "('a \<Rightarrow> 'b \<Rightarrow> 'e + 'b) \<Rightarrow> 'b \<Rightarrow> 'a option \<Rightarrow> 'e + 'b option" where
  "convert_pointer conv new p =
     (case p of None \<Rightarrow> Inr None | Some x \<Rightarrow> andThen (conv x new) (\<lambda>y. Inr (Some y)))"

text \<open>The code for the items of a list: a new slice, filled one by one.\<close>

fun convert_each :: "('a \<Rightarrow> 'b \<Rightarrow> 'e + 'b) \<Rightarrow> 'b \<Rightarrow> 'a list \<Rightarrow> 'e + 'b list" where
  "convert_each conv new [] = Inr []"
| "convert_each conv new (x # xs) =
     andThen (conv x new) (\<lambda>y. andThen (convert_each conv new xs) (\<lambda>ys. Inr (y # ys)))"

definition convert_items :: "('a \<Rightarrow> 'b \<Rightarrow> 'e + 'b) \<Rightarrow> 'b \<Rightarrow> 'a list option \<Rightarrow> 'e + 'b list option" where
  "convert_items conv new p =
     (case p of None \<Rightarrow> Inr None | Some xs \<Rightarrow> andThen (convert_each conv new xs) (\<lambda>ys. Inr (Some ys)))"

text \<open>\<open>out.ObjectMeta = in.ObjectMeta\<close>.\<close>

definition set_ObjectMeta :: "'a object_meta_scheme \<Rightarrow> 'b object_meta_scheme \<Rightarrow> 'b object_meta_scheme" where
  "set_ObjectMeta i out = object_meta.extend (object_meta.truncate i) (object_meta.more out)"

section \<open>Zero values\<close>

definition new_v1alpha2_BasicAuth :: basic_auth where
  "new_v1alpha2_BasicAuth =
     \<lparr>Source_Type = [], Source_Name = None, Source_Namespace = None, Username = [], PasswordPath = []\<rparr>"

definition new_v1alpha2_OAuth :: oauth where
  "new_v1alpha2_OAuth =
     \<lparr>Source_Type = [], Source_Name = None, Source_Namespace = None, ClientIDPath = None, ClientSecretPath = None,
      TokenURL = [], Scopes = [], EndpointParams = [], AuthStyle = None\<rparr>"

definition new_v1alpha2_Certificate :: certificate where
  "new_v1alpha2_Certificate =
     \<lparr>Source_Type = [], Source_Name = None, Source_Namespace = None, CertPath = [], PrivateKeyPath = None\<rparr>"

definition new_v1alpha2_TLS :: tls where
  "new_v1alpha2_TLS = \<lparr>TLS_Enable = None, TLS_CaCert = None, TLS_UserCert = None, TLS_InsecureSkipVerify = None\<rparr>"

definition new_v1alpha2_KubernetesAuth :: kubernetes_auth where
  "new_v1alpha2_KubernetesAuth = \<lparr>KubernetesAuth_Enable = None\<rparr>"

definition new_v1alpha2_Client :: client where
  "new_v1alpha2_Client =
     \<lparr>Client_BasicAuth = None, Client_OAuth = None, Client_TLS = None, Client_KubernetesAuth = None\<rparr>"

definition new_v1alpha2_Metadata :: metadata where
  "new_v1alpha2_Metadata = \<lparr>Metadata_Labels = None, Metadata_Annotations = None\<rparr>"

definition new_v1alpha2_PersesService :: perses_service where
  "new_v1alpha2_PersesService = \<lparr>Service_Name = None, Service_Annotations = None\<rparr>"

definition new_v1alpha2_StorageConfiguration :: storage_configuration where
  "new_v1alpha2_StorageConfiguration = \<lparr>Storage_EmptyDir = None, Storage_PersistentVolumeClaimTemplate = None\<rparr>"

definition new_PersistentVolumeClaimSpec :: pvc_spec where
  "new_PersistentVolumeClaimSpec =
     \<lparr>PVC_AccessModes = None, PVC_StorageClassName = None, PVC_Requests = None, PVC_Rest = JNull\<rparr>"

definition new_ObjectMeta :: object_meta where
  "new_ObjectMeta =
     \<lparr>Name = [], Namespace = [], Generation = 0, ResourceVersion = [], Labels = None, Annotations = None,
      DeletionTimestamp = None, Finalizers = [], OwnerReferences = []\<rparr>"

definition new_PersesConfig :: perses_config where
  "new_PersesConfig =
     \<lparr>Config_APIPrefix = [], Config_Database_SQL = None, Config_Database_File = None, Config_Rest = JNull\<rparr>"

definition new_v1alpha2_PersesSpec :: perses_spec where
  "new_v1alpha2_PersesSpec =
     \<lparr>Spec_Metadata = None, Spec_Client = None, Spec_Config = new_PersesConfig, Spec_Args = [], Spec_ContainerPort = None,
      Spec_Replicas = None, Spec_Resources = None, Spec_NodeSelector = None, Spec_Tolerations = [],
      Spec_Affinity = None, Spec_PriorityClassName = None, Spec_Image = None, Spec_Service = None,
      Spec_LivenessProbe = None, Spec_ReadinessProbe = None, Spec_TLS = None, Spec_Storage = None,
      Spec_ServiceAccountName = None, Spec_PodSecurityContext = None, Spec_ContainerSecurityContext = None,
      Spec_LogLevel = None, Spec_LogMethodTrace = None, Spec_Provisioning = None, Spec_Volumes = [],
      Spec_VolumeMounts = [], Spec_Env = [], Spec_EnvFrom = []\<rparr>"

definition new_v1alpha2_Perses :: perses where
  "new_v1alpha2_Perses = object_meta.extend new_ObjectMeta
     (perses.fields new_v1alpha2_PersesSpec \<lparr>Status_Conditions = [], Status_Provisioning = None\<rparr>)"

definition new_v1alpha2_PersesDashboard :: persesdashboard where
  "new_v1alpha2_PersesDashboard = object_meta.extend new_ObjectMeta
     (persesdashboard.fields \<lparr>Dashboard_Config = JNull, Dashboard_InstanceSelector = None\<rparr> \<lparr>Dashboard_Conditions = []\<rparr>)"

definition new_v1alpha2_PersesDatasource :: persesdatasource where
  "new_v1alpha2_PersesDatasource = object_meta.extend new_ObjectMeta
     (persesdatasource.fields \<lparr>Datasource_Config = JNull, Datasource_Client = None, Datasource_InstanceSelector = None\<rparr>
        \<lparr>Datasource_Conditions = []\<rparr>)"

definition new_v1alpha1_BasicAuth :: v1alpha1_basic_auth where
  "new_v1alpha1_BasicAuth =
     \<lparr>V1_Source_Type = [], V1_Source_Name = [], V1_Source_Namespace = [], V1_Username = [], V1_PasswordPath = []\<rparr>"

definition new_v1alpha1_OAuth :: v1alpha1_oauth where
  "new_v1alpha1_OAuth =
     \<lparr>V1_Source_Type = [], V1_Source_Name = [], V1_Source_Namespace = [], V1_ClientIDPath = [], V1_ClientSecretPath = [],
      V1_TokenURL = [], V1_Scopes = [], V1_EndpointParams = [], V1_AuthStyle = 0\<rparr>"

definition new_v1alpha1_Certificate :: v1alpha1_certificate where
  "new_v1alpha1_Certificate =
     \<lparr>V1_Source_Type = [], V1_Source_Name = [], V1_Source_Namespace = [], V1_CertPath = [], V1_PrivateKeyPath = []\<rparr>"

definition new_v1alpha1_TLS :: v1alpha1_tls where
  "new_v1alpha1_TLS =
     \<lparr>V1_TLS_Enable = False, V1_TLS_CaCert = None, V1_TLS_UserCert = None, V1_TLS_InsecureSkipVerify = False\<rparr>"

definition new_v1alpha1_KubernetesAuth :: v1alpha1_kubernetes_auth where
  "new_v1alpha1_KubernetesAuth = \<lparr>V1_KubernetesAuth_Enable = False\<rparr>"

definition new_v1alpha1_Client :: v1alpha1_client where
  "new_v1alpha1_Client =
     \<lparr>V1_Client_BasicAuth = None, V1_Client_OAuth = None, V1_Client_TLS = None, V1_Client_KubernetesAuth = None\<rparr>"

definition new_v1alpha1_Metadata :: v1alpha1_metadata where
  "new_v1alpha1_Metadata = \<lparr>V1_Metadata_Labels = None, V1_Metadata_Annotations = None\<rparr>"

definition new_v1alpha1_PersesService :: v1alpha1_perses_service where
  "new_v1alpha1_PersesService = \<lparr>V1_Service_Name = [], V1_Service_Annotations = None\<rparr>"

definition new_v1alpha1_StorageConfiguration :: "conv_lib \<Rightarrow> v1alpha1_storage_configuration" where
  "new_v1alpha1_StorageConfiguration L = \<lparr>V1_Storage_StorageClass = None, V1_Storage_Size = Quantity_zero L\<rparr>"

definition new_v1alpha1_PersesSpec :: v1alpha1_perses_spec where
  "new_v1alpha1_PersesSpec =
     \<lparr>V1_Spec_Metadata = None, V1_Spec_Client = None, V1_Spec_Config = new_PersesConfig, V1_Spec_Args = [],
      V1_Spec_ContainerPort = 0, V1_Spec_Replicas = None, V1_Spec_NodeSelector = None, V1_Spec_Tolerations = [],
      V1_Spec_Affinity = None, V1_Spec_Image = [], V1_Spec_Service = None, V1_Spec_LivenessProbe = None,
      V1_Spec_ReadinessProbe = None, V1_Spec_TLS = None, V1_Spec_Storage = None, V1_Spec_ServiceAccountName = []\<rparr>"

definition new_v1alpha1_Perses :: v1alpha1_perses where
  "new_v1alpha1_Perses = object_meta.extend new_ObjectMeta
     (v1alpha1_perses.fields new_v1alpha1_PersesSpec \<lparr>V1_Status_Conditions = []\<rparr>)"

definition new_v1alpha1_PersesDashboard :: v1alpha1_persesdashboard where
  "new_v1alpha1_PersesDashboard = object_meta.extend new_ObjectMeta
     (v1alpha1_persesdashboard.fields JNull \<lparr>V1_Dashboard_Conditions = []\<rparr>)"

definition new_v1alpha1_PersesDatasource :: v1alpha1_persesdatasource where
  "new_v1alpha1_PersesDatasource = object_meta.extend new_ObjectMeta
     (v1alpha1_persesdatasource.fields \<lparr>V1_Datasource_Config = JNull, V1_Datasource_Client = None\<rparr>
        \<lparr>V1_Datasource_Conditions = []\<rparr>)"

section \<open>Secret sources, TLS and Kubernetes authentication\<close>

definition autoConvert_v1alpha1_SecretSource_To_v1alpha2_SecretSource ::
    "conv_lib \<Rightarrow> 'a v1alpha1_secret_source_scheme \<Rightarrow> 'b secret_source_scheme \<Rightarrow> error + 'b secret_source_scheme" where
  "autoConvert_v1alpha1_SecretSource_To_v1alpha2_SecretSource L i out =
     (let out = out\<lparr>Source_Type := V1_Source_Type i\<rparr> in
     andThen (Convert_string_To_Pointer_string L (V1_Source_Name i)) (\<lambda>x. let out = out\<lparr>Source_Name := x\<rparr> in
     andThen (Convert_string_To_Pointer_string L (V1_Source_Namespace i))
       (\<lambda>x. let out = out\<lparr>Source_Namespace := x\<rparr> in
     Inr out)))"

definition Convert_v1alpha1_SecretSource_To_v1alpha2_SecretSource ::
    "conv_lib \<Rightarrow> 'a v1alpha1_secret_source_scheme \<Rightarrow> 'b secret_source_scheme \<Rightarrow> error + 'b secret_source_scheme" where
  "Convert_v1alpha1_SecretSource_To_v1alpha2_SecretSource L i out = autoConvert_v1alpha1_SecretSource_To_v1alpha2_SecretSource L i out"

definition autoConvert_v1alpha2_SecretSource_To_v1alpha1_SecretSource ::
    "conv_lib \<Rightarrow> 'a secret_source_scheme \<Rightarrow> 'b v1alpha1_secret_source_scheme \<Rightarrow> error + 'b v1alpha1_secret_source_scheme" where
  "autoConvert_v1alpha2_SecretSource_To_v1alpha1_SecretSource L i out =
     (let out = out\<lparr>V1_Source_Type := Source_Type i\<rparr> in
     andThen (Convert_Pointer_string_To_string L (Source_Name i)) (\<lambda>x. let out = out\<lparr>V1_Source_Name := x\<rparr> in
     andThen (Convert_Pointer_string_To_string L (Source_Namespace i))
       (\<lambda>x. let out = out\<lparr>V1_Source_Namespace := x\<rparr> in
     Inr out)))"

definition Convert_v1alpha2_SecretSource_To_v1alpha1_SecretSource ::
    "conv_lib \<Rightarrow> 'a secret_source_scheme \<Rightarrow> 'b v1alpha1_secret_source_scheme \<Rightarrow> error + 'b v1alpha1_secret_source_scheme" where
  "Convert_v1alpha2_SecretSource_To_v1alpha1_SecretSource L i out = autoConvert_v1alpha2_SecretSource_To_v1alpha1_SecretSource L i out"

definition autoConvert_v1alpha1_BasicAuth_To_v1alpha2_BasicAuth ::
    "conv_lib \<Rightarrow> v1alpha1_basic_auth \<Rightarrow> basic_auth \<Rightarrow> error + basic_auth" where
  "autoConvert_v1alpha1_BasicAuth_To_v1alpha2_BasicAuth L i out =
     (andThen (Convert_v1alpha1_SecretSource_To_v1alpha2_SecretSource L i out) (\<lambda>out.
     let out = out\<lparr>Username := V1_Username i, PasswordPath := V1_PasswordPath i\<rparr> in
     Inr out))"

definition Convert_v1alpha1_BasicAuth_To_v1alpha2_BasicAuth ::
    "conv_lib \<Rightarrow> v1alpha1_basic_auth \<Rightarrow> basic_auth \<Rightarrow> error + basic_auth" where
  "Convert_v1alpha1_BasicAuth_To_v1alpha2_BasicAuth L i out = autoConvert_v1alpha1_BasicAuth_To_v1alpha2_BasicAuth L i out"

definition autoConvert_v1alpha2_BasicAuth_To_v1alpha1_BasicAuth ::
    "conv_lib \<Rightarrow> basic_auth \<Rightarrow> v1alpha1_basic_auth \<Rightarrow> error + v1alpha1_basic_auth" where
  "autoConvert_v1alpha2_BasicAuth_To_v1alpha1_BasicAuth L i out =
     (andThen (Convert_v1alpha2_SecretSource_To_v1alpha1_SecretSource L i out) (\<lambda>out.
     let out = out\<lparr>V1_Username := Username i, V1_PasswordPath := PasswordPath i\<rparr> in
     Inr out))"

definition Convert_v1alpha2_BasicAuth_To_v1alpha1_BasicAuth ::
    "conv_lib \<Rightarrow> basic_auth \<Rightarrow> v1alpha1_basic_auth \<Rightarrow> error + v1alpha1_basic_auth" where
  "Convert_v1alpha2_BasicAuth_To_v1alpha1_BasicAuth L i out = autoConvert_v1alpha2_BasicAuth_To_v1alpha1_BasicAuth L i out"

definition autoConvert_v1alpha1_Certificate_To_v1alpha2_Certificate ::
    "conv_lib \<Rightarrow> v1alpha1_certificate \<Rightarrow> certificate \<Rightarrow> error + certificate" where
  "autoConvert_v1alpha1_Certificate_To_v1alpha2_Certificate L i out =
     (andThen (Convert_v1alpha1_SecretSource_To_v1alpha2_SecretSource L i out) (\<lambda>out.
     let out = out\<lparr>CertPath := V1_CertPath i\<rparr> in
     andThen (Convert_string_To_Pointer_string L (V1_PrivateKeyPath i))
       (\<lambda>x. let out = out\<lparr>PrivateKeyPath := x\<rparr> in
     Inr out)))"

definition Convert_v1alpha1_Certificate_To_v1alpha2_Certificate ::
    "conv_lib \<Rightarrow> v1alpha1_certificate \<Rightarrow> certificate \<Rightarrow> error + certificate" where
  "Convert_v1alpha1_Certificate_To_v1alpha2_Certificate L i out = autoConvert_v1alpha1_Certificate_To_v1alpha2_Certificate L i out"

definition autoConvert_v1alpha2_Certificate_To_v1alpha1_Certificate ::
    "conv_lib \<Rightarrow> certificate \<Rightarrow> v1alpha1_certificate \<Rightarrow> error + v1alpha1_certificate" where
  "autoConvert_v1alpha2_Certificate_To_v1alpha1_Certificate L i out =
     (andThen (Convert_v1alpha2_SecretSource_To_v1alpha1_SecretSource L i out) (\<lambda>out.
     let out = out\<lparr>V1_CertPath := CertPath i\<rparr> in
     andThen (Convert_Pointer_string_To_string L (PrivateKeyPath i))
       (\<lambda>x. let out = out\<lparr>V1_PrivateKeyPath := x\<rparr> in
     Inr out)))"

definition Convert_v1alpha2_Certificate_To_v1alpha1_Certificate ::
    "conv_lib \<Rightarrow> certificate \<Rightarrow> v1alpha1_certificate \<Rightarrow> error + v1alpha1_certificate" where
  "Convert_v1alpha2_Certificate_To_v1alpha1_Certificate L i out = autoConvert_v1alpha2_Certificate_To_v1alpha1_Certificate L i out"

definition autoConvert_v1alpha1_TLS_To_v1alpha2_TLS ::
    "conv_lib \<Rightarrow> v1alpha1_tls \<Rightarrow> tls \<Rightarrow> error + tls" where
  "autoConvert_v1alpha1_TLS_To_v1alpha2_TLS L i out =
     (andThen (Convert_bool_To_Pointer_bool L (V1_TLS_Enable i)) (\<lambda>x. let out = out\<lparr>TLS_Enable := x\<rparr> in
     andThen (convert_pointer (Convert_v1alpha1_Certificate_To_v1alpha2_Certificate L) new_v1alpha2_Certificate (V1_TLS_CaCert i))
       (\<lambda>x. let out = out\<lparr>TLS_CaCert := x\<rparr> in
     andThen (convert_pointer (Convert_v1alpha1_Certificate_To_v1alpha2_Certificate L) new_v1alpha2_Certificate (V1_TLS_UserCert i))
       (\<lambda>x. let out = out\<lparr>TLS_UserCert := x\<rparr> in
     andThen (Convert_bool_To_Pointer_bool L (V1_TLS_InsecureSkipVerify i))
       (\<lambda>x. let out = out\<lparr>TLS_InsecureSkipVerify := x\<rparr> in
     Inr out)))))"

definition Convert_v1alpha1_TLS_To_v1alpha2_TLS ::
    "conv_lib \<Rightarrow> v1alpha1_tls \<Rightarrow> tls \<Rightarrow> error + tls" where
  "Convert_v1alpha1_TLS_To_v1alpha2_TLS L i out = autoConvert_v1alpha1_TLS_To_v1alpha2_TLS L i out"

definition autoConvert_v1alpha2_TLS_To_v1alpha1_TLS ::
    "conv_lib \<Rightarrow> tls \<Rightarrow> v1alpha1_tls \<Rightarrow> error + v1alpha1_tls" where
  "autoConvert_v1alpha2_TLS_To_v1alpha1_TLS L i out =
     (andThen (Convert_Pointer_bool_To_bool L (TLS_Enable i)) (\<lambda>x. let out = out\<lparr>V1_TLS_Enable := x\<rparr> in
     andThen (convert_pointer (Convert_v1alpha2_Certificate_To_v1alpha1_Certificate L) new_v1alpha1_Certificate (TLS_CaCert i))
       (\<lambda>x. let out = out\<lparr>V1_TLS_CaCert := x\<rparr> in
     andThen (convert_pointer (Convert_v1alpha2_Certificate_To_v1alpha1_Certificate L) new_v1alpha1_Certificate (TLS_UserCert i))
       (\<lambda>x. let out = out\<lparr>V1_TLS_UserCert := x\<rparr> in
     andThen (Convert_Pointer_bool_To_bool L (TLS_InsecureSkipVerify i))
       (\<lambda>x. let out = out\<lparr>V1_TLS_InsecureSkipVerify := x\<rparr> in
     Inr out)))))"

definition Convert_v1alpha2_TLS_To_v1alpha1_TLS ::
    "conv_lib \<Rightarrow> tls \<Rightarrow> v1alpha1_tls \<Rightarrow> error + v1alpha1_tls" where
  "Convert_v1alpha2_TLS_To_v1alpha1_TLS L i out = autoConvert_v1alpha2_TLS_To_v1alpha1_TLS L i out"

definition autoConvert_v1alpha1_KubernetesAuth_To_v1alpha2_KubernetesAuth ::
    "conv_lib \<Rightarrow> v1alpha1_kubernetes_auth \<Rightarrow> kubernetes_auth \<Rightarrow> error + kubernetes_auth" where
  "autoConvert_v1alpha1_KubernetesAuth_To_v1alpha2_KubernetesAuth L i out =
     (andThen (Convert_bool_To_Pointer_bool L (V1_KubernetesAuth_Enable i))
       (\<lambda>x. let out = out\<lparr>KubernetesAuth_Enable := x\<rparr> in
     Inr out))"

definition Convert_v1alpha1_KubernetesAuth_To_v1alpha2_KubernetesAuth ::
    "conv_lib \<Rightarrow> v1alpha1_kubernetes_auth \<Rightarrow> kubernetes_auth \<Rightarrow> error + kubernetes_auth" where
  "Convert_v1alpha1_KubernetesAuth_To_v1alpha2_KubernetesAuth L i out =
     autoConvert_v1alpha1_KubernetesAuth_To_v1alpha2_KubernetesAuth L i out"

definition autoConvert_v1alpha2_KubernetesAuth_To_v1alpha1_KubernetesAuth ::
    "conv_lib \<Rightarrow> kubernetes_auth \<Rightarrow> v1alpha1_kubernetes_auth \<Rightarrow> error + v1alpha1_kubernetes_auth" where
  "autoConvert_v1alpha2_KubernetesAuth_To_v1alpha1_KubernetesAuth L i out =
     (andThen (Convert_Pointer_bool_To_bool L (KubernetesAuth_Enable i))
       (\<lambda>x. let out = out\<lparr>V1_KubernetesAuth_Enable := x\<rparr> in
     Inr out))"

definition Convert_v1alpha2_KubernetesAuth_To_v1alpha1_KubernetesAuth ::
    "conv_lib \<Rightarrow> kubernetes_auth \<Rightarrow> v1alpha1_kubernetes_auth \<Rightarrow> error + v1alpha1_kubernetes_auth" where
  "Convert_v1alpha2_KubernetesAuth_To_v1alpha1_KubernetesAuth L i out =
     autoConvert_v1alpha2_KubernetesAuth_To_v1alpha1_KubernetesAuth L i out"

section \<open>OAuth\<close>

definition autoConvert_v1alpha1_OAuth_To_v1alpha2_OAuth ::
    "conv_lib \<Rightarrow> v1alpha1_oauth \<Rightarrow> oauth \<Rightarrow> error + oauth" where
  "autoConvert_v1alpha1_OAuth_To_v1alpha2_OAuth L i out =
     (andThen (Convert_v1alpha1_SecretSource_To_v1alpha2_SecretSource L i out) (\<lambda>out.
     andThen (Convert_string_To_Pointer_string L (V1_ClientIDPath i)) (\<lambda>x. let out = out\<lparr>ClientIDPath := x\<rparr> in
     andThen (Convert_string_To_Pointer_string L (V1_ClientSecretPath i))
       (\<lambda>x. let out = out\<lparr>ClientSecretPath := x\<rparr> in
     let out = out\<lparr>TokenURL := V1_TokenURL i, Scopes := V1_Scopes i, EndpointParams := V1_EndpointParams i\<rparr> in
     Inr out))))"

definition autoConvert_v1alpha2_OAuth_To_v1alpha1_OAuth ::
    "conv_lib \<Rightarrow> oauth \<Rightarrow> v1alpha1_oauth \<Rightarrow> error + v1alpha1_oauth" where
  "autoConvert_v1alpha2_OAuth_To_v1alpha1_OAuth L i out =
     (andThen (Convert_v1alpha2_SecretSource_To_v1alpha1_SecretSource L i out) (\<lambda>out.
     andThen (Convert_Pointer_string_To_string L (ClientIDPath i)) (\<lambda>x. let out = out\<lparr>V1_ClientIDPath := x\<rparr> in
     andThen (Convert_Pointer_string_To_string L (ClientSecretPath i))
       (\<lambda>x. let out = out\<lparr>V1_ClientSecretPath := x\<rparr> in
     let out = out\<lparr>V1_TokenURL := TokenURL i, V1_Scopes := Scopes i, V1_EndpointParams := EndpointParams i\<rparr> in
     Inr out))))"

text \<open>\<open>int32(in.AuthStyle)\<close> keeps the low 32 bits; \<open>int(*in.AuthStyle)\<close> extends the sign.\<close>

definition Convert_v1alpha1_OAuth_To_v1alpha2_OAuth ::
    "conv_lib \<Rightarrow> v1alpha1_oauth \<Rightarrow> oauth \<Rightarrow> error + oauth" where
  "Convert_v1alpha1_OAuth_To_v1alpha2_OAuth L i out =
     andThen (autoConvert_v1alpha1_OAuth_To_v1alpha2_OAuth L i out) (\<lambda>out.
     if V1_AuthStyle i \<noteq> 0 then Inr (out\<lparr>AuthStyle := Some (ucast (V1_AuthStyle i))\<rparr>)
     else Inr out)"

definition Convert_v1alpha2_OAuth_To_v1alpha1_OAuth ::
    "conv_lib \<Rightarrow> oauth \<Rightarrow> v1alpha1_oauth \<Rightarrow> error + v1alpha1_oauth" where
  "Convert_v1alpha2_OAuth_To_v1alpha1_OAuth L i out =
     andThen (autoConvert_v1alpha2_OAuth_To_v1alpha1_OAuth L i out) (\<lambda>out.
     case AuthStyle i of
       Some a \<Rightarrow> Inr (out\<lparr>V1_AuthStyle := scast a\<rparr>)
     | None \<Rightarrow> Inr out)"

section \<open>Clients, metadata, services and configuration\<close>

definition autoConvert_v1alpha1_Client_To_v1alpha2_Client ::
    "conv_lib \<Rightarrow> v1alpha1_client \<Rightarrow> client \<Rightarrow> error + client" where
  "autoConvert_v1alpha1_Client_To_v1alpha2_Client L i out =
     (andThen (convert_pointer (Convert_v1alpha1_BasicAuth_To_v1alpha2_BasicAuth L) new_v1alpha2_BasicAuth (V1_Client_BasicAuth i))
       (\<lambda>x. let out = out\<lparr>Client_BasicAuth := x\<rparr> in
     andThen (convert_pointer (Convert_v1alpha1_OAuth_To_v1alpha2_OAuth L) new_v1alpha2_OAuth (V1_Client_OAuth i))
       (\<lambda>x. let out = out\<lparr>Client_OAuth := x\<rparr> in
     andThen (convert_pointer (Convert_v1alpha1_TLS_To_v1alpha2_TLS L) new_v1alpha2_TLS (V1_Client_TLS i))
       (\<lambda>x. let out = out\<lparr>Client_TLS := x\<rparr> in
     andThen (convert_pointer (Convert_v1alpha1_KubernetesAuth_To_v1alpha2_KubernetesAuth L) new_v1alpha2_KubernetesAuth (V1_Client_KubernetesAuth i))
       (\<lambda>x. let out = out\<lparr>Client_KubernetesAuth := x\<rparr> in
     Inr out)))))"

definition Convert_v1alpha1_Client_To_v1alpha2_Client ::
    "conv_lib \<Rightarrow> v1alpha1_client \<Rightarrow> client \<Rightarrow> error + client" where
  "Convert_v1alpha1_Client_To_v1alpha2_Client L i out = autoConvert_v1alpha1_Client_To_v1alpha2_Client L i out"

definition autoConvert_v1alpha2_Client_To_v1alpha1_Client ::
    "conv_lib \<Rightarrow> client \<Rightarrow> v1alpha1_client \<Rightarrow> error + v1alpha1_client" where
  "autoConvert_v1alpha2_Client_To_v1alpha1_Client L i out =
     (andThen (convert_pointer (Convert_v1alpha2_BasicAuth_To_v1alpha1_BasicAuth L) new_v1alpha1_BasicAuth (Client_BasicAuth i))
       (\<lambda>x. let out = out\<lparr>V1_Client_BasicAuth := x\<rparr> in
     andThen (convert_pointer (Convert_v1alpha2_OAuth_To_v1alpha1_OAuth L) new_v1alpha1_OAuth (Client_OAuth i))
       (\<lambda>x. let out = out\<lparr>V1_Client_OAuth := x\<rparr> in
     andThen (convert_pointer (Convert_v1alpha2_TLS_To_v1alpha1_TLS L) new_v1alpha1_TLS (Client_TLS i))
       (\<lambda>x. let out = out\<lparr>V1_Client_TLS := x\<rparr> in
     andThen (convert_pointer (Convert_v1alpha2_KubernetesAuth_To_v1alpha1_KubernetesAuth L) new_v1alpha1_KubernetesAuth (Client_KubernetesAuth i))
       (\<lambda>x. let out = out\<lparr>V1_Client_KubernetesAuth := x\<rparr> in
     Inr out)))))"

definition Convert_v1alpha2_Client_To_v1alpha1_Client ::
    "conv_lib \<Rightarrow> client \<Rightarrow> v1alpha1_client \<Rightarrow> error + v1alpha1_client" where
  "Convert_v1alpha2_Client_To_v1alpha1_Client L i out = autoConvert_v1alpha2_Client_To_v1alpha1_Client L i out"

definition autoConvert_v1alpha1_Metadata_To_v1alpha2_Metadata ::
    "conv_lib \<Rightarrow> v1alpha1_metadata \<Rightarrow> metadata \<Rightarrow> error + metadata" where
  "autoConvert_v1alpha1_Metadata_To_v1alpha2_Metadata L i out =
     (let out = out\<lparr>Metadata_Labels := V1_Metadata_Labels i, Metadata_Annotations := V1_Metadata_Annotations i\<rparr> in
     Inr out)"

definition Convert_v1alpha1_Metadata_To_v1alpha2_Metadata ::
    "conv_lib \<Rightarrow> v1alpha1_metadata \<Rightarrow> metadata \<Rightarrow> error + metadata" where
  "Convert_v1alpha1_Metadata_To_v1alpha2_Metadata L i out = autoConvert_v1alpha1_Metadata_To_v1alpha2_Metadata L i out"

definition autoConvert_v1alpha2_Metadata_To_v1alpha1_Metadata ::
    "conv_lib \<Rightarrow> metadata \<Rightarrow> v1alpha1_metadata \<Rightarrow> error + v1alpha1_metadata" where
  "autoConvert_v1alpha2_Metadata_To_v1alpha1_Metadata L i out =
     (let out = out\<lparr>V1_Metadata_Labels := Metadata_Labels i, V1_Metadata_Annotations := Metadata_Annotations i\<rparr> in
     Inr out)"

definition Convert_v1alpha2_Metadata_To_v1alpha1_Metadata ::
    "conv_lib \<Rightarrow> metadata \<Rightarrow> v1alpha1_metadata \<Rightarrow> error + v1alpha1_metadata" where
  "Convert_v1alpha2_Metadata_To_v1alpha1_Metadata L i out = autoConvert_v1alpha2_Metadata_To_v1alpha1_Metadata L i out"

definition autoConvert_v1alpha1_PersesService_To_v1alpha2_PersesService ::
    "conv_lib \<Rightarrow> v1alpha1_perses_service \<Rightarrow> perses_service \<Rightarrow> error + perses_service" where
  "autoConvert_v1alpha1_PersesService_To_v1alpha2_PersesService L i out =
     (andThen (Convert_string_To_Pointer_string L (V1_Service_Name i)) (\<lambda>x. let out = out\<lparr>Service_Name := x\<rparr> in
     let out = out\<lparr>Service_Annotations := V1_Service_Annotations i\<rparr> in
     Inr out))"

definition Convert_v1alpha1_PersesService_To_v1alpha2_PersesService ::
    "conv_lib \<Rightarrow> v1alpha1_perses_service \<Rightarrow> perses_service \<Rightarrow> error + perses_service" where
  "Convert_v1alpha1_PersesService_To_v1alpha2_PersesService L i out =
     autoConvert_v1alpha1_PersesService_To_v1alpha2_PersesService L i out"

definition autoConvert_v1alpha2_PersesService_To_v1alpha1_PersesService ::
    "conv_lib \<Rightarrow> perses_service \<Rightarrow> v1alpha1_perses_service \<Rightarrow> error + v1alpha1_perses_service" where
  "autoConvert_v1alpha2_PersesService_To_v1alpha1_PersesService L i out =
     (andThen (Convert_Pointer_string_To_string L (Service_Name i)) (\<lambda>x. let out = out\<lparr>V1_Service_Name := x\<rparr> in
     let out = out\<lparr>V1_Service_Annotations := Service_Annotations i\<rparr> in
     Inr out))"

definition Convert_v1alpha2_PersesService_To_v1alpha1_PersesService ::
    "conv_lib \<Rightarrow> perses_service \<Rightarrow> v1alpha1_perses_service \<Rightarrow> error + v1alpha1_perses_service" where
  "Convert_v1alpha2_PersesService_To_v1alpha1_PersesService L i out =
     autoConvert_v1alpha2_PersesService_To_v1alpha1_PersesService L i out"

definition autoConvert_v1alpha1_PersesConfig_To_v1alpha2_PersesConfig :: "conv_lib \<Rightarrow> perses_config \<Rightarrow> perses_config \<Rightarrow> error + perses_config" where
  "autoConvert_v1alpha1_PersesConfig_To_v1alpha2_PersesConfig L i out = Inr i"

definition Convert_v1alpha1_PersesConfig_To_v1alpha2_PersesConfig ::
    "conv_lib \<Rightarrow> perses_config \<Rightarrow> perses_config \<Rightarrow> error + perses_config" where
  "Convert_v1alpha1_PersesConfig_To_v1alpha2_PersesConfig L i out = autoConvert_v1alpha1_PersesConfig_To_v1alpha2_PersesConfig L i out"

definition autoConvert_v1alpha2_PersesConfig_To_v1alpha1_PersesConfig :: "conv_lib \<Rightarrow> perses_config \<Rightarrow> perses_config \<Rightarrow> error + perses_config" where
  "autoConvert_v1alpha2_PersesConfig_To_v1alpha1_PersesConfig L i out = Inr i"

definition Convert_v1alpha2_PersesConfig_To_v1alpha1_PersesConfig ::
    "conv_lib \<Rightarrow> perses_config \<Rightarrow> perses_config \<Rightarrow> error + perses_config" where
  "Convert_v1alpha2_PersesConfig_To_v1alpha1_PersesConfig L i out = autoConvert_v1alpha2_PersesConfig_To_v1alpha1_PersesConfig L i out"

section \<open>Storage\<close>

definition autoConvert_v1alpha1_StorageConfiguration_To_v1alpha2_StorageConfiguration ::
    "conv_lib \<Rightarrow> v1alpha1_storage_configuration \<Rightarrow> storage_configuration \<Rightarrow> error + storage_configuration" where
  "autoConvert_v1alpha1_StorageConfiguration_To_v1alpha2_StorageConfiguration L i out = Inr out"

definition autoConvert_v1alpha2_StorageConfiguration_To_v1alpha1_StorageConfiguration ::
    "conv_lib \<Rightarrow> storage_configuration \<Rightarrow> v1alpha1_storage_configuration \<Rightarrow> error + v1alpha1_storage_configuration" where
  "autoConvert_v1alpha2_StorageConfiguration_To_v1alpha1_StorageConfiguration L i out = Inr out"

definition ResourceStorage :: string where "ResourceStorage = ''storage''"

definition Convert_v1alpha1_StorageConfiguration_To_v1alpha2_StorageConfiguration ::
    "conv_lib \<Rightarrow> v1alpha1_storage_configuration \<Rightarrow> storage_configuration \<Rightarrow> error + storage_configuration" where
  "Convert_v1alpha1_StorageConfiguration_To_v1alpha2_StorageConfiguration L i out =
     (if V1_Storage_StorageClass i = None \<and> Quantity_IsZero L (V1_Storage_Size i) then Inr out
      else
        (let tmpl = new_PersistentVolumeClaimSpec\<lparr>PVC_StorageClassName := V1_Storage_StorageClass i\<rparr>;
             tmpl = (if \<not> Quantity_IsZero L (V1_Storage_Size i)
                     then tmpl\<lparr>PVC_Requests := Some [(ResourceStorage, V1_Storage_Size i)]\<rparr> else tmpl)
         in Inr (out\<lparr>Storage_PersistentVolumeClaimTemplate := Some tmpl\<rparr>)))"

definition Convert_v1alpha2_StorageConfiguration_To_v1alpha1_StorageConfiguration ::
    "conv_lib \<Rightarrow> storage_configuration \<Rightarrow> v1alpha1_storage_configuration \<Rightarrow> error + v1alpha1_storage_configuration" where
  "Convert_v1alpha2_StorageConfiguration_To_v1alpha1_StorageConfiguration L i out =
     (case Storage_PersistentVolumeClaimTemplate i of
        None \<Rightarrow> Inr out
      | Some tmpl \<Rightarrow>
          (let out = out\<lparr>V1_Storage_StorageClass := PVC_StorageClassName tmpl\<rparr>
           in case mget (nilmap (PVC_Requests tmpl)) ResourceStorage of
                Some storage \<Rightarrow> Inr (out\<lparr>V1_Storage_Size := storage\<rparr>)
              | None \<Rightarrow> Inr out))"

section \<open>Perses\<close>

definition autoConvert_v1alpha1_PersesSpec_To_v1alpha2_PersesSpec ::
    "conv_lib \<Rightarrow> v1alpha1_perses_spec \<Rightarrow> perses_spec \<Rightarrow> error + perses_spec" where
  "autoConvert_v1alpha1_PersesSpec_To_v1alpha2_PersesSpec L i out =
     (andThen (convert_pointer (Convert_v1alpha1_Metadata_To_v1alpha2_Metadata L) new_v1alpha2_Metadata (V1_Spec_Metadata i))
       (\<lambda>x. let out = out\<lparr>Spec_Metadata := x\<rparr> in
     andThen (convert_pointer (Convert_v1alpha1_Client_To_v1alpha2_Client L) new_v1alpha2_Client (V1_Spec_Client i))
       (\<lambda>x. let out = out\<lparr>Spec_Client := x\<rparr> in
     andThen (Convert_v1alpha1_PersesConfig_To_v1alpha2_PersesConfig L (V1_Spec_Config i) (Spec_Config out))
       (\<lambda>x. let out = out\<lparr>Spec_Config := x\<rparr> in
     let out = out\<lparr>Spec_Args := V1_Spec_Args i\<rparr> in
     andThen (Convert_int32_To_Pointer_int32 L (V1_Spec_ContainerPort i))
       (\<lambda>x. let out = out\<lparr>Spec_ContainerPort := x\<rparr> in
     let out = out\<lparr>Spec_Replicas := V1_Spec_Replicas i, Spec_NodeSelector := V1_Spec_NodeSelector i,
         Spec_Tolerations := V1_Spec_Tolerations i, Spec_Affinity := V1_Spec_Affinity i\<rparr> in
     andThen (Convert_string_To_Pointer_string L (V1_Spec_Image i)) (\<lambda>x. let out = out\<lparr>Spec_Image := x\<rparr> in
     andThen (convert_pointer (Convert_v1alpha1_PersesService_To_v1alpha2_PersesService L) new_v1alpha2_PersesService (V1_Spec_Service i))
       (\<lambda>x. let out = out\<lparr>Spec_Service := x\<rparr> in
     let out = out\<lparr>Spec_LivenessProbe := V1_Spec_LivenessProbe i, Spec_ReadinessProbe := V1_Spec_ReadinessProbe i\<rparr> in
     andThen (convert_pointer (Convert_v1alpha1_TLS_To_v1alpha2_TLS L) new_v1alpha2_TLS (V1_Spec_TLS i))
       (\<lambda>x. let out = out\<lparr>Spec_TLS := x\<rparr> in
     andThen (convert_pointer (Convert_v1alpha1_StorageConfiguration_To_v1alpha2_StorageConfiguration L) new_v1alpha2_StorageConfiguration (V1_Spec_Storage i))
       (\<lambda>x. let out = out\<lparr>Spec_Storage := x\<rparr> in
     andThen (Convert_string_To_Pointer_string L (V1_Spec_ServiceAccountName i))
       (\<lambda>x. let out = out\<lparr>Spec_ServiceAccountName := x\<rparr> in
     Inr out))))))))))"

definition Convert_v1alpha1_PersesSpec_To_v1alpha2_PersesSpec ::
    "conv_lib \<Rightarrow> v1alpha1_perses_spec \<Rightarrow> perses_spec \<Rightarrow> error + perses_spec" where
  "Convert_v1alpha1_PersesSpec_To_v1alpha2_PersesSpec L i out = autoConvert_v1alpha1_PersesSpec_To_v1alpha2_PersesSpec L i out"

definition autoConvert_v1alpha2_PersesSpec_To_v1alpha1_PersesSpec ::
    "conv_lib \<Rightarrow> perses_spec \<Rightarrow> v1alpha1_perses_spec \<Rightarrow> error + v1alpha1_perses_spec" where
  "autoConvert_v1alpha2_PersesSpec_To_v1alpha1_PersesSpec L i out =
     (andThen (convert_pointer (Convert_v1alpha2_Metadata_To_v1alpha1_Metadata L) new_v1alpha1_Metadata (Spec_Metadata i))
       (\<lambda>x. let out = out\<lparr>V1_Spec_Metadata := x\<rparr> in
     andThen (convert_pointer (Convert_v1alpha2_Client_To_v1alpha1_Client L) new_v1alpha1_Client (Spec_Client i))
       (\<lambda>x. let out = out\<lparr>V1_Spec_Client := x\<rparr> in
     andThen (Convert_v1alpha2_PersesConfig_To_v1alpha1_PersesConfig L (Spec_Config i) (V1_Spec_Config out))
       (\<lambda>x. let out = out\<lparr>V1_Spec_Config := x\<rparr> in
     let out = out\<lparr>V1_Spec_Args := Spec_Args i\<rparr> in
     andThen (Convert_Pointer_int32_To_int32 L (Spec_ContainerPort i))
       (\<lambda>x. let out = out\<lparr>V1_Spec_ContainerPort := x\<rparr> in
     let out = out\<lparr>V1_Spec_Replicas := Spec_Replicas i, V1_Spec_NodeSelector := Spec_NodeSelector i,
         V1_Spec_Tolerations := Spec_Tolerations i, V1_Spec_Affinity := Spec_Affinity i\<rparr> in
     andThen (Convert_Pointer_string_To_string L (Spec_Image i)) (\<lambda>x. let out = out\<lparr>V1_Spec_Image := x\<rparr> in
     andThen (convert_pointer (Convert_v1alpha2_PersesService_To_v1alpha1_PersesService L) new_v1alpha1_PersesService (Spec_Service i))
       (\<lambda>x. let out = out\<lparr>V1_Spec_Service := x\<rparr> in
     let out = out\<lparr>V1_Spec_LivenessProbe := Spec_LivenessProbe i, V1_Spec_ReadinessProbe := Spec_ReadinessProbe i\<rparr> in
     andThen (convert_pointer (Convert_v1alpha2_TLS_To_v1alpha1_TLS L) new_v1alpha1_TLS (Spec_TLS i))
       (\<lambda>x. let out = out\<lparr>V1_Spec_TLS := x\<rparr> in
     andThen (convert_pointer (Convert_v1alpha2_StorageConfiguration_To_v1alpha1_StorageConfiguration L) (new_v1alpha1_StorageConfiguration L) (Spec_Storage i))
       (\<lambda>x. let out = out\<lparr>V1_Spec_Storage := x\<rparr> in
     andThen (Convert_Pointer_string_To_string L (Spec_ServiceAccountName i))
       (\<lambda>x. let out = out\<lparr>V1_Spec_ServiceAccountName := x\<rparr> in
     Inr out))))))))))"

definition Convert_v1alpha2_PersesSpec_To_v1alpha1_PersesSpec ::
    "conv_lib \<Rightarrow> perses_spec \<Rightarrow> v1alpha1_perses_spec \<Rightarrow> error + v1alpha1_perses_spec" where
  "Convert_v1alpha2_PersesSpec_To_v1alpha1_PersesSpec L i out = autoConvert_v1alpha2_PersesSpec_To_v1alpha1_PersesSpec L i out"

definition autoConvert_v1alpha1_PersesStatus_To_v1alpha2_PersesStatus ::
    "conv_lib \<Rightarrow> v1alpha1_perses_status \<Rightarrow> perses_status \<Rightarrow> error + perses_status" where
  "autoConvert_v1alpha1_PersesStatus_To_v1alpha2_PersesStatus L i out =
     (let out = out\<lparr>Status_Conditions := V1_Status_Conditions i\<rparr> in
     Inr out)"

definition Convert_v1alpha1_PersesStatus_To_v1alpha2_PersesStatus ::
    "conv_lib \<Rightarrow> v1alpha1_perses_status \<Rightarrow> perses_status \<Rightarrow> error + perses_status" where
  "Convert_v1alpha1_PersesStatus_To_v1alpha2_PersesStatus L i out = autoConvert_v1alpha1_PersesStatus_To_v1alpha2_PersesStatus L i out"

definition autoConvert_v1alpha2_PersesStatus_To_v1alpha1_PersesStatus ::
    "conv_lib \<Rightarrow> perses_status \<Rightarrow> v1alpha1_perses_status \<Rightarrow> error + v1alpha1_perses_status" where
  "autoConvert_v1alpha2_PersesStatus_To_v1alpha1_PersesStatus L i out =
     (let out = out\<lparr>V1_Status_Conditions := Status_Conditions i\<rparr> in
     Inr out)"

definition Convert_v1alpha2_PersesStatus_To_v1alpha1_PersesStatus ::
    "conv_lib \<Rightarrow> perses_status \<Rightarrow> v1alpha1_perses_status \<Rightarrow> error + v1alpha1_perses_status" where
  "Convert_v1alpha2_PersesStatus_To_v1alpha1_PersesStatus L i out =
     autoConvert_v1alpha2_PersesStatus_To_v1alpha1_PersesStatus L i out"

definition autoConvert_v1alpha1_Perses_To_v1alpha2_Perses ::
    "conv_lib \<Rightarrow> v1alpha1_perses \<Rightarrow> perses \<Rightarrow> error + perses" where
  "autoConvert_v1alpha1_Perses_To_v1alpha2_Perses L i out =
     (let out = set_ObjectMeta i out in
     andThen (Convert_v1alpha1_PersesSpec_To_v1alpha2_PersesSpec L (V1_Spec i) (Spec out))
       (\<lambda>x. let out = out\<lparr>Spec := x\<rparr> in
     andThen (Convert_v1alpha1_PersesStatus_To_v1alpha2_PersesStatus L (V1_Status i) (Status out))
       (\<lambda>x. let out = out\<lparr>Status := x\<rparr> in
     Inr out)))"

definition Convert_v1alpha1_Perses_To_v1alpha2_Perses ::
    "conv_lib \<Rightarrow> v1alpha1_perses \<Rightarrow> perses \<Rightarrow> error + perses" where
  "Convert_v1alpha1_Perses_To_v1alpha2_Perses L i out = autoConvert_v1alpha1_Perses_To_v1alpha2_Perses L i out"

definition autoConvert_v1alpha2_Perses_To_v1alpha1_Perses ::
    "conv_lib \<Rightarrow> perses \<Rightarrow> v1alpha1_perses \<Rightarrow> error + v1alpha1_perses" where
  "autoConvert_v1alpha2_Perses_To_v1alpha1_Perses L i out =
     (let out = set_ObjectMeta i out in
     andThen (Convert_v1alpha2_PersesSpec_To_v1alpha1_PersesSpec L (Spec i) (V1_Spec out))
       (\<lambda>x. let out = out\<lparr>V1_Spec := x\<rparr> in
     andThen (Convert_v1alpha2_PersesStatus_To_v1alpha1_PersesStatus L (Status i) (V1_Status out))
       (\<lambda>x. let out = out\<lparr>V1_Status := x\<rparr> in
     Inr out)))"

definition Convert_v1alpha2_Perses_To_v1alpha1_Perses ::
    "conv_lib \<Rightarrow> perses \<Rightarrow> v1alpha1_perses \<Rightarrow> error + v1alpha1_perses" where
  "Convert_v1alpha2_Perses_To_v1alpha1_Perses L i out = autoConvert_v1alpha2_Perses_To_v1alpha1_Perses L i out"

definition autoConvert_v1alpha1_PersesList_To_v1alpha2_PersesList ::
    "conv_lib \<Rightarrow> v1alpha1_perses list_object \<Rightarrow> perses list_object \<Rightarrow> error + perses list_object" where
  "autoConvert_v1alpha1_PersesList_To_v1alpha2_PersesList L i out =
     (let out = out\<lparr>ListMeta := ListMeta i\<rparr> in
     andThen (convert_items (Convert_v1alpha1_Perses_To_v1alpha2_Perses L) (new_v1alpha2_Perses) (Items i))
       (\<lambda>x. let out = out\<lparr>Items := x\<rparr> in
     Inr out))"

definition Convert_v1alpha1_PersesList_To_v1alpha2_PersesList ::
    "conv_lib \<Rightarrow> v1alpha1_perses list_object \<Rightarrow> perses list_object \<Rightarrow> error + perses list_object" where
  "Convert_v1alpha1_PersesList_To_v1alpha2_PersesList L i out = autoConvert_v1alpha1_PersesList_To_v1alpha2_PersesList L i out"

definition autoConvert_v1alpha2_PersesList_To_v1alpha1_PersesList ::
    "conv_lib \<Rightarrow> perses list_object \<Rightarrow> v1alpha1_perses list_object \<Rightarrow> error + v1alpha1_perses list_object" where
  "autoConvert_v1alpha2_PersesList_To_v1alpha1_PersesList L i out =
     (let out = out\<lparr>ListMeta := ListMeta i\<rparr> in
     andThen (convert_items (Convert_v1alpha2_Perses_To_v1alpha1_Perses L) (new_v1alpha1_Perses) (Items i))
       (\<lambda>x. let out = out\<lparr>Items := x\<rparr> in
     Inr out))"

definition Convert_v1alpha2_PersesList_To_v1alpha1_PersesList ::
    "conv_lib \<Rightarrow> perses list_object \<Rightarrow> v1alpha1_perses list_object \<Rightarrow> error + v1alpha1_perses list_object" where
  "Convert_v1alpha2_PersesList_To_v1alpha1_PersesList L i out = autoConvert_v1alpha2_PersesList_To_v1alpha1_PersesList L i out"

section \<open>Dashboards\<close>

definition autoConvert_v1alpha1_Dashboard_To_v1alpha2_Dashboard :: "conv_lib \<Rightarrow> json \<Rightarrow> json \<Rightarrow> error + json" where
  "autoConvert_v1alpha1_Dashboard_To_v1alpha2_Dashboard L i out = Inr i"

definition Convert_v1alpha1_Dashboard_To_v1alpha2_Dashboard ::
    "conv_lib \<Rightarrow> json \<Rightarrow> json \<Rightarrow> error + json" where
  "Convert_v1alpha1_Dashboard_To_v1alpha2_Dashboard L i out = autoConvert_v1alpha1_Dashboard_To_v1alpha2_Dashboard L i out"

definition autoConvert_v1alpha2_Dashboard_To_v1alpha1_Dashboard :: "conv_lib \<Rightarrow> json \<Rightarrow> json \<Rightarrow> error + json" where
  "autoConvert_v1alpha2_Dashboard_To_v1alpha1_Dashboard L i out = Inr i"

definition Convert_v1alpha2_Dashboard_To_v1alpha1_Dashboard ::
    "conv_lib \<Rightarrow> json \<Rightarrow> json \<Rightarrow> error + json" where
  "Convert_v1alpha2_Dashboard_To_v1alpha1_Dashboard L i out = autoConvert_v1alpha2_Dashboard_To_v1alpha1_Dashboard L i out"

definition Convert_v1alpha1_Dashboard_To_v1alpha2_PersesDashboardSpec ::
    "conv_lib \<Rightarrow> json \<Rightarrow> persesdashboard_spec \<Rightarrow> error + persesdashboard_spec" where
  "Convert_v1alpha1_Dashboard_To_v1alpha2_PersesDashboardSpec L i out = Inr (out\<lparr>Dashboard_Config := i\<rparr>)"

definition Convert_v1alpha2_PersesDashboardSpec_To_v1alpha1_Dashboard ::
    "conv_lib \<Rightarrow> persesdashboard_spec \<Rightarrow> json \<Rightarrow> error + json" where
  "Convert_v1alpha2_PersesDashboardSpec_To_v1alpha1_Dashboard L i out = Inr (Dashboard_Config i)"

definition autoConvert_v1alpha1_PersesDashboardStatus_To_v1alpha2_PersesDashboardStatus ::
    "conv_lib \<Rightarrow> v1alpha1_persesdashboard_status \<Rightarrow> persesdashboard_status \<Rightarrow> error + persesdashboard_status" where
  "autoConvert_v1alpha1_PersesDashboardStatus_To_v1alpha2_PersesDashboardStatus L i out =
     (let out = out\<lparr>Dashboard_Conditions := V1_Dashboard_Conditions i\<rparr> in
     Inr out)"

definition Convert_v1alpha1_PersesDashboardStatus_To_v1alpha2_PersesDashboardStatus ::
    "conv_lib \<Rightarrow> v1alpha1_persesdashboard_status \<Rightarrow> persesdashboard_status \<Rightarrow> error + persesdashboard_status" where
  "Convert_v1alpha1_PersesDashboardStatus_To_v1alpha2_PersesDashboardStatus L i out =
     autoConvert_v1alpha1_PersesDashboardStatus_To_v1alpha2_PersesDashboardStatus L i out"

definition autoConvert_v1alpha2_PersesDashboardStatus_To_v1alpha1_PersesDashboardStatus ::
    "conv_lib \<Rightarrow> persesdashboard_status \<Rightarrow> v1alpha1_persesdashboard_status \<Rightarrow> error + v1alpha1_persesdashboard_status" where
  "autoConvert_v1alpha2_PersesDashboardStatus_To_v1alpha1_PersesDashboardStatus L i out =
     (let out = out\<lparr>V1_Dashboard_Conditions := Dashboard_Conditions i\<rparr> in
     Inr out)"

definition Convert_v1alpha2_PersesDashboardStatus_To_v1alpha1_PersesDashboardStatus ::
    "conv_lib \<Rightarrow> persesdashboard_status \<Rightarrow> v1alpha1_persesdashboard_status \<Rightarrow> error + v1alpha1_persesdashboard_status" where
  "Convert_v1alpha2_PersesDashboardStatus_To_v1alpha1_PersesDashboardStatus L i out =
     autoConvert_v1alpha2_PersesDashboardStatus_To_v1alpha1_PersesDashboardStatus L i out"

definition autoConvert_v1alpha1_PersesDashboard_To_v1alpha2_PersesDashboard ::
    "conv_lib \<Rightarrow> v1alpha1_persesdashboard \<Rightarrow> persesdashboard \<Rightarrow> error + persesdashboard" where
  "autoConvert_v1alpha1_PersesDashboard_To_v1alpha2_PersesDashboard L i out =
     (let out = set_ObjectMeta i out in
     andThen (Convert_v1alpha1_Dashboard_To_v1alpha2_PersesDashboardSpec L (V1_Dashboard_Spec i) (Dashboard_Spec out))
       (\<lambda>x. let out = out\<lparr>Dashboard_Spec := x\<rparr> in
     andThen (Convert_v1alpha1_PersesDashboardStatus_To_v1alpha2_PersesDashboardStatus L (V1_Dashboard_Status i) (Dashboard_Status out))
       (\<lambda>x. let out = out\<lparr>Dashboard_Status := x\<rparr> in
     Inr out)))"

definition Convert_v1alpha1_PersesDashboard_To_v1alpha2_PersesDashboard ::
    "conv_lib \<Rightarrow> v1alpha1_persesdashboard \<Rightarrow> persesdashboard \<Rightarrow> error + persesdashboard" where
  "Convert_v1alpha1_PersesDashboard_To_v1alpha2_PersesDashboard L i out =
     autoConvert_v1alpha1_PersesDashboard_To_v1alpha2_PersesDashboard L i out"

definition autoConvert_v1alpha2_PersesDashboard_To_v1alpha1_PersesDashboard ::
    "conv_lib \<Rightarrow> persesdashboard \<Rightarrow> v1alpha1_persesdashboard \<Rightarrow> error + v1alpha1_persesdashboard" where
  "autoConvert_v1alpha2_PersesDashboard_To_v1alpha1_PersesDashboard L i out =
     (let out = set_ObjectMeta i out in
     andThen (Convert_v1alpha2_PersesDashboardSpec_To_v1alpha1_Dashboard L (Dashboard_Spec i) (V1_Dashboard_Spec out))
       (\<lambda>x. let out = out\<lparr>V1_Dashboard_Spec := x\<rparr> in
     andThen (Convert_v1alpha2_PersesDashboardStatus_To_v1alpha1_PersesDashboardStatus L (Dashboard_Status i) (V1_Dashboard_Status out))
       (\<lambda>x. let out = out\<lparr>V1_Dashboard_Status := x\<rparr> in
     Inr out)))"

definition Convert_v1alpha2_PersesDashboard_To_v1alpha1_PersesDashboard ::
    "conv_lib \<Rightarrow> persesdashboard \<Rightarrow> v1alpha1_persesdashboard \<Rightarrow> error + v1alpha1_persesdashboard" where
  "Convert_v1alpha2_PersesDashboard_To_v1alpha1_PersesDashboard L i out =
     autoConvert_v1alpha2_PersesDashboard_To_v1alpha1_PersesDashboard L i out"

definition autoConvert_v1alpha1_PersesDashboardList_To_v1alpha2_PersesDashboardList ::
    "conv_lib \<Rightarrow> v1alpha1_persesdashboard list_object \<Rightarrow> persesdashboard list_object \<Rightarrow> error + persesdashboard list_object" where
  "autoConvert_v1alpha1_PersesDashboardList_To_v1alpha2_PersesDashboardList L i out =
     (let out = out\<lparr>ListMeta := ListMeta i\<rparr> in
     andThen (convert_items (Convert_v1alpha1_PersesDashboard_To_v1alpha2_PersesDashboard L) (new_v1alpha2_PersesDashboard) (Items i))
       (\<lambda>x. let out = out\<lparr>Items := x\<rparr> in
     Inr out))"

definition Convert_v1alpha1_PersesDashboardList_To_v1alpha2_PersesDashboardList ::
    "conv_lib \<Rightarrow> v1alpha1_persesdashboard list_object \<Rightarrow> persesdashboard list_object \<Rightarrow> error + persesdashboard list_object" where
  "Convert_v1alpha1_PersesDashboardList_To_v1alpha2_PersesDashboardList L i out =
     autoConvert_v1alpha1_PersesDashboardList_To_v1alpha2_PersesDashboardList L i out"

definition autoConvert_v1alpha2_PersesDashboardList_To_v1alpha1_PersesDashboardList ::
    "conv_lib \<Rightarrow> persesdashboard list_object \<Rightarrow> v1alpha1_persesdashboard list_object \<Rightarrow> error + v1alpha1_persesdashboard list_object" where
  "autoConvert_v1alpha2_PersesDashboardList_To_v1alpha1_PersesDashboardList L i out =
     (let out = out\<lparr>ListMeta := ListMeta i\<rparr> in
     andThen (convert_items (Convert_v1alpha2_PersesDashboard_To_v1alpha1_PersesDashboard L) (new_v1alpha1_PersesDashboard) (Items i))
       (\<lambda>x. let out = out\<lparr>Items := x\<rparr> in
     Inr out))"

definition Convert_v1alpha2_PersesDashboardList_To_v1alpha1_PersesDashboardList ::
    "conv_lib \<Rightarrow> persesdashboard list_object \<Rightarrow> v1alpha1_persesdashboard list_object \<Rightarrow> error + v1alpha1_persesdashboard list_object" where
  "Convert_v1alpha2_PersesDashboardList_To_v1alpha1_PersesDashboardList L i out =
     autoConvert_v1alpha2_PersesDashboardList_To_v1alpha1_PersesDashboardList L i out"

section \<open>Datasources\<close>

definition autoConvert_v1alpha1_Datasource_To_v1alpha2_Datasource :: "conv_lib \<Rightarrow> json \<Rightarrow> json \<Rightarrow> error + json" where
  "autoConvert_v1alpha1_Datasource_To_v1alpha2_Datasource L i out = Inr i"

definition Convert_v1alpha1_Datasource_To_v1alpha2_Datasource ::
    "conv_lib \<Rightarrow> json \<Rightarrow> json \<Rightarrow> error + json" where
  "Convert_v1alpha1_Datasource_To_v1alpha2_Datasource L i out = autoConvert_v1alpha1_Datasource_To_v1alpha2_Datasource L i out"

definition autoConvert_v1alpha2_Datasource_To_v1alpha1_Datasource :: "conv_lib \<Rightarrow> json \<Rightarrow> json \<Rightarrow> error + json" where
  "autoConvert_v1alpha2_Datasource_To_v1alpha1_Datasource L i out = Inr i"

definition Convert_v1alpha2_Datasource_To_v1alpha1_Datasource ::
    "conv_lib \<Rightarrow> json \<Rightarrow> json \<Rightarrow> error + json" where
  "Convert_v1alpha2_Datasource_To_v1alpha1_Datasource L i out = autoConvert_v1alpha2_Datasource_To_v1alpha1_Datasource L i out"

definition autoConvert_v1alpha1_DatasourceSpec_To_v1alpha2_DatasourceSpec ::
    "conv_lib \<Rightarrow> v1alpha1_datasource_spec \<Rightarrow> datasource_spec \<Rightarrow> error + datasource_spec" where
  "autoConvert_v1alpha1_DatasourceSpec_To_v1alpha2_DatasourceSpec L i out =
     (andThen (Convert_v1alpha1_Datasource_To_v1alpha2_Datasource L (V1_Datasource_Config i) (Datasource_Config out))
       (\<lambda>x. let out = out\<lparr>Datasource_Config := x\<rparr> in
     andThen (convert_pointer (Convert_v1alpha1_Client_To_v1alpha2_Client L) new_v1alpha2_Client (V1_Datasource_Client i))
       (\<lambda>x. let out = out\<lparr>Datasource_Client := x\<rparr> in
     Inr out)))"

definition Convert_v1alpha1_DatasourceSpec_To_v1alpha2_DatasourceSpec ::
    "conv_lib \<Rightarrow> v1alpha1_datasource_spec \<Rightarrow> datasource_spec \<Rightarrow> error + datasource_spec" where
  "Convert_v1alpha1_DatasourceSpec_To_v1alpha2_DatasourceSpec L i out =
     autoConvert_v1alpha1_DatasourceSpec_To_v1alpha2_DatasourceSpec L i out"

definition autoConvert_v1alpha2_DatasourceSpec_To_v1alpha1_DatasourceSpec ::
    "conv_lib \<Rightarrow> datasource_spec \<Rightarrow> v1alpha1_datasource_spec \<Rightarrow> error + v1alpha1_datasource_spec" where
  "autoConvert_v1alpha2_DatasourceSpec_To_v1alpha1_DatasourceSpec L i out =
     (andThen (Convert_v1alpha2_Datasource_To_v1alpha1_Datasource L (Datasource_Config i) (V1_Datasource_Config out))
       (\<lambda>x. let out = out\<lparr>V1_Datasource_Config := x\<rparr> in
     andThen (convert_pointer (Convert_v1alpha2_Client_To_v1alpha1_Client L) new_v1alpha1_Client (Datasource_Client i))
       (\<lambda>x. let out = out\<lparr>V1_Datasource_Client := x\<rparr> in
     Inr out)))"

definition Convert_v1alpha2_DatasourceSpec_To_v1alpha1_DatasourceSpec ::
    "conv_lib \<Rightarrow> datasource_spec \<Rightarrow> v1alpha1_datasource_spec \<Rightarrow> error + v1alpha1_datasource_spec" where
  "Convert_v1alpha2_DatasourceSpec_To_v1alpha1_DatasourceSpec L i out =
     Inr (out\<lparr>V1_Datasource_Config := Datasource_Config i\<rparr>)"

definition autoConvert_v1alpha1_PersesDatasourceStatus_To_v1alpha2_PersesDatasourceStatus ::
    "conv_lib \<Rightarrow> v1alpha1_persesdatasource_status \<Rightarrow> persesdatasource_status \<Rightarrow> error + persesdatasource_status" where
  "autoConvert_v1alpha1_PersesDatasourceStatus_To_v1alpha2_PersesDatasourceStatus L i out =
     (let out = out\<lparr>Datasource_Conditions := V1_Datasource_Conditions i\<rparr> in
     Inr out)"

definition Convert_v1alpha1_PersesDatasourceStatus_To_v1alpha2_PersesDatasourceStatus ::
    "conv_lib \<Rightarrow> v1alpha1_persesdatasource_status \<Rightarrow> persesdatasource_status \<Rightarrow> error + persesdatasource_status" where
  "Convert_v1alpha1_PersesDatasourceStatus_To_v1alpha2_PersesDatasourceStatus L i out =
     autoConvert_v1alpha1_PersesDatasourceStatus_To_v1alpha2_PersesDatasourceStatus L i out"

definition autoConvert_v1alpha2_PersesDatasourceStatus_To_v1alpha1_PersesDatasourceStatus ::
    "conv_lib \<Rightarrow> persesdatasource_status \<Rightarrow> v1alpha1_persesdatasource_status \<Rightarrow> error + v1alpha1_persesdatasource_status" where
  "autoConvert_v1alpha2_PersesDatasourceStatus_To_v1alpha1_PersesDatasourceStatus L i out =
     (let out = out\<lparr>V1_Datasource_Conditions := Datasource_Conditions i\<rparr> in
     Inr out)"

definition Convert_v1alpha2_PersesDatasourceStatus_To_v1alpha1_PersesDatasourceStatus ::
    "conv_lib \<Rightarrow> persesdatasource_status \<Rightarrow> v1alpha1_persesdatasource_status \<Rightarrow> error + v1alpha1_persesdatasource_status" where
  "Convert_v1alpha2_PersesDatasourceStatus_To_v1alpha1_PersesDatasourceStatus L i out =
     autoConvert_v1alpha2_PersesDatasourceStatus_To_v1alpha1_PersesDatasourceStatus L i out"

definition autoConvert_v1alpha1_PersesDatasource_To_v1alpha2_PersesDatasource ::
    "conv_lib \<Rightarrow> v1alpha1_persesdatasource \<Rightarrow> persesdatasource \<Rightarrow> error + persesdatasource" where
  "autoConvert_v1alpha1_PersesDatasource_To_v1alpha2_PersesDatasource L i out =
     (let out = set_ObjectMeta i out in
     andThen (Convert_v1alpha1_DatasourceSpec_To_v1alpha2_DatasourceSpec L (V1_Datasource_Spec i) (Datasource_Spec out))
       (\<lambda>x. let out = out\<lparr>Datasource_Spec := x\<rparr> in
     andThen (Convert_v1alpha1_PersesDatasourceStatus_To_v1alpha2_PersesDatasourceStatus L (V1_Datasource_Status i) (Datasource_Status out))
       (\<lambda>x. let out = out\<lparr>Datasource_Status := x\<rparr> in
     Inr out)))"

definition Convert_v1alpha1_PersesDatasource_To_v1alpha2_PersesDatasource ::
    "conv_lib \<Rightarrow> v1alpha1_persesdatasource \<Rightarrow> persesdatasource \<Rightarrow> error + persesdatasource" where
  "Convert_v1alpha1_PersesDatasource_To_v1alpha2_PersesDatasource L i out =
     autoConvert_v1alpha1_PersesDatasource_To_v1alpha2_PersesDatasource L i out"

definition autoConvert_v1alpha2_PersesDatasource_To_v1alpha1_PersesDatasource ::
    "conv_lib \<Rightarrow> persesdatasource \<Rightarrow> v1alpha1_persesdatasource \<Rightarrow> error + v1alpha1_persesdatasource" where
  "autoConvert_v1alpha2_PersesDatasource_To_v1alpha1_PersesDatasource L i out =
     (let out = set_ObjectMeta i out in
     andThen (Convert_v1alpha2_DatasourceSpec_To_v1alpha1_DatasourceSpec L (Datasource_Spec i) (V1_Datasource_Spec out))
       (\<lambda>x. let out = out\<lparr>V1_Datasource_Spec := x\<rparr> in
     andThen (Convert_v1alpha2_PersesDatasourceStatus_To_v1alpha1_PersesDatasourceStatus L (Datasource_Status i) (V1_Datasource_Status out))
       (\<lambda>x. let out = out\<lparr>V1_Datasource_Status := x\<rparr> in
     Inr out)))"

definition Convert_v1alpha2_PersesDatasource_To_v1alpha1_PersesDatasource ::
    "conv_lib \<Rightarrow> persesdatasource \<Rightarrow> v1alpha1_persesdatasource \<Rightarrow> error + v1alpha1_persesdatasource" where
  "Convert_v1alpha2_PersesDatasource_To_v1alpha1_PersesDatasource L i out =
     autoConvert_v1alpha2_PersesDatasource_To_v1alpha1_PersesDatasource L i out"

definition autoConvert_v1alpha1_PersesDatasourceList_To_v1alpha2_PersesDatasourceList ::
    "conv_lib \<Rightarrow> v1alpha1_persesdatasource list_object \<Rightarrow> persesdatasource list_object \<Rightarrow> error + persesdatasource list_object" where
  "autoConvert_v1alpha1_PersesDatasourceList_To_v1alpha2_PersesDatasourceList L i out =
     (let out = out\<lparr>ListMeta := ListMeta i\<rparr> in
     andThen (convert_items (Convert_v1alpha1_PersesDatasource_To_v1alpha2_PersesDatasource L) (new_v1alpha2_PersesDatasource) (Items i))
       (\<lambda>x. let out = out\<lparr>Items := x\<rparr> in
     Inr out))"

definition Convert_v1alpha1_PersesDatasourceList_To_v1alpha2_PersesDatasourceList ::
    "conv_lib \<Rightarrow> v1alpha1_persesdatasource list_object \<Rightarrow> persesdatasource list_object \<Rightarrow> error + persesdatasource list_object" where
  "Convert_v1alpha1_PersesDatasourceList_To_v1alpha2_PersesDatasourceList L i out =
     autoConvert_v1alpha1_PersesDatasourceList_To_v1alpha2_PersesDatasourceList L i out"

definition autoConvert_v1alpha2_PersesDatasourceList_To_v1alpha1_PersesDatasourceList ::
    "conv_lib \<Rightarrow> persesdatasource list_object \<Rightarrow> v1alpha1_persesdatasource list_object \<Rightarrow> error + v1alpha1_persesdatasource list_object" where
  "autoConvert_v1alpha2_PersesDatasourceList_To_v1alpha1_PersesDatasourceList L i out =
     (let out = out\<lparr>ListMeta := ListMeta i\<rparr> in
     andThen (convert_items (Convert_v1alpha2_PersesDatasource_To_v1alpha1_PersesDatasource L) (new_v1alpha1_PersesDatasource) (Items i))
       (\<lambda>x. let out = out\<lparr>Items := x\<rparr> in
     Inr out))"

definition Convert_v1alpha2_PersesDatasourceList_To_v1alpha1_PersesDatasourceList ::
    "conv_lib \<Rightarrow> persesdatasource list_object \<Rightarrow> v1alpha1_persesdatasource list_object \<Rightarrow> error + v1alpha1_persesdatasource list_object" where
  "Convert_v1alpha2_PersesDatasourceList_To_v1alpha1_PersesDatasourceList L i out =
     autoConvert_v1alpha2_PersesDatasourceList_To_v1alpha1_PersesDatasourceList L i out"

section \<open>The methods of the webhook\<close>

text \<open>
  The hub is one of the types of the newer version. The type assertion on it panics, which is \<open>None\<close>,
  when it is another type than the method expects.
\<close>

datatype hub = HubPerses perses | HubDashboard persesdashboard | HubDatasource persesdatasource | HubOther

definition Perses_ConvertTo :: "conv_lib \<Rightarrow> v1alpha1_perses \<Rightarrow> hub \<Rightarrow> (error + hub) option" where
  "Perses_ConvertTo L src dstRaw =
     (case dstRaw of
        HubPerses dst \<Rightarrow> Some (map_sum id HubPerses (Convert_v1alpha1_Perses_To_v1alpha2_Perses L src dst))
      | _ \<Rightarrow> None)"

definition Perses_ConvertFrom :: "conv_lib \<Rightarrow> v1alpha1_perses \<Rightarrow> hub \<Rightarrow> (error + v1alpha1_perses) option" where
  "Perses_ConvertFrom L dst srcRaw =
     (case srcRaw of
        HubPerses src \<Rightarrow> Some (Convert_v1alpha2_Perses_To_v1alpha1_Perses L src dst)
      | _ \<Rightarrow> None)"

definition PersesDashboard_ConvertTo :: "conv_lib \<Rightarrow> v1alpha1_persesdashboard \<Rightarrow> hub \<Rightarrow> (error + hub) option" where
  "PersesDashboard_ConvertTo L src dstRaw =
     (case dstRaw of
        HubDashboard dst \<Rightarrow>
          Some (map_sum id HubDashboard (Convert_v1alpha1_PersesDashboard_To_v1alpha2_PersesDashboard L src dst))
      | _ \<Rightarrow> None)"

definition PersesDashboard_ConvertFrom ::
    "conv_lib \<Rightarrow> v1alpha1_persesdashboard \<Rightarrow> hub \<Rightarrow> (error + v1alpha1_persesdashboard) option" where
  "PersesDashboard_ConvertFrom L dst srcRaw =
     (case srcRaw of
        HubDashboard src \<Rightarrow> Some (Convert_v1alpha2_PersesDashboard_To_v1alpha1_PersesDashboard L src dst)
      | _ \<Rightarrow> None)"

definition PersesDatasource_ConvertTo :: "conv_lib \<Rightarrow> v1alpha1_persesdatasource \<Rightarrow> hub \<Rightarrow> (error + hub) option" where
  "PersesDatasource_ConvertTo L src dstRaw =
     (case dstRaw of
        HubDatasource dst \<Rightarrow>
          Some (map_sum id HubDatasource (Convert_v1alpha1_PersesDatasource_To_v1alpha2_PersesDatasource L src dst))
      | _ \<Rightarrow> None)"

definition PersesDatasource_ConvertFrom ::
    "conv_lib \<Rightarrow> v1alpha1_persesdatasource \<Rightarrow> hub \<Rightarrow> (error + v1alpha1_persesdatasource) option" where
  "PersesDatasource_ConvertFrom L dst srcRaw =
     (case srcRaw of
        HubDatasource src \<Rightarrow> Some (Convert_v1alpha2_PersesDatasource_To_v1alpha1_PersesDatasource L src dst)
      | _ \<Rightarrow> None)"

end
