(* ===== verification/RoundTrips.thy ===== *)
theory RoundTrips
  imports Conversion
begin

text \<open>
  What survives the conversion between the versions. A locale states the contract of a pair of
  conversions, a value of the older version comes back unchanged, and derives the contract of
  pointers and lists from it; every type of the API is an instance.
\<close>

section \<open>Composition of round trips\<close>

locale round_trip =
  fixes conv :: "'a \<Rightarrow> 'b \<Rightarrow> error + 'b" and unconv :: "'b \<Rightarrow> 'a \<Rightarrow> error + 'a"
    and new1 :: 'a and new2 :: 'b and exact :: "'a \<Rightarrow> bool"
  assumes trip: "exact x \<Longrightarrow> \<exists>y. conv x new2 = Inr y \<and> unconv y new1 = Inr x"
begin

lemma pointer_trip:
  assumes "pred_option exact p"
  shows "\<exists>q. convert_pointer conv new2 p = Inr q \<and> convert_pointer unconv new1 q = Inr p"
proof (cases p)
  case None
  then show ?thesis by (simp add: convert_pointer_def)
next
  case (Some x)
  with assms obtain y where "conv x new2 = Inr y" "unconv y new1 = Inr x" using trip by auto
  with Some show ?thesis by (auto simp: convert_pointer_def intro: exI [of _ "Some y"])
qed

lemma each_trip:
  "list_all exact xs \<Longrightarrow> \<exists>ys. convert_each conv new2 xs = Inr ys \<and> convert_each unconv new1 ys = Inr xs"
proof (induction xs)
  case Nil
  show ?case by simp
next
  case (Cons x xs)
  then obtain y ys where "conv x new2 = Inr y" "unconv y new1 = Inr x"
      "convert_each conv new2 xs = Inr ys" "convert_each unconv new1 ys = Inr xs"
    using trip by fastforce
  then have "convert_each conv new2 (x # xs) = Inr (y # ys) \<and> convert_each unconv new1 (y # ys) = Inr (x # xs)" by simp
  then show ?case by blast
qed

lemma items_trip:
  assumes "pred_option (list_all exact) p"
  shows "\<exists>q. convert_items conv new2 p = Inr q \<and> convert_items unconv new1 q = Inr p"
proof (cases p)
  case None
  then show ?thesis by (simp add: convert_items_def)
next
  case (Some xs)
  with assms obtain ys where "convert_each conv new2 xs = Inr ys" "convert_each unconv new1 ys = Inr xs"
    using each_trip [of xs] by auto
  with Some show ?thesis by (auto simp: convert_items_def intro: exI [of _ "Some ys"])
qed

end

section \<open>The leaves\<close>

lemma conv_lawD:
  assumes "conv_law L"
  shows "Convert_string_To_Pointer_string L x = Inr (Some x)"
    and "Convert_Pointer_string_To_string L p = Inr (case p of None \<Rightarrow> [] | Some x \<Rightarrow> x)"
    and "Convert_bool_To_Pointer_bool L b = Inr (Some b)"
    and "Convert_Pointer_bool_To_bool L q = Inr (case q of None \<Rightarrow> False | Some x \<Rightarrow> x)"
    and "Convert_int32_To_Pointer_int32 L n = Inr (Some n)"
    and "Convert_Pointer_int32_To_int32 L r = Inr (case r of None \<Rightarrow> 0 | Some x \<Rightarrow> x)"
    and "Quantity_IsZero L (Quantity_zero L)"
  using assms by (simp_all add: conv_law_def)

lemmas leaf_defs =
  Convert_v1alpha1_SecretSource_To_v1alpha2_SecretSource_def autoConvert_v1alpha1_SecretSource_To_v1alpha2_SecretSource_def
  Convert_v1alpha2_SecretSource_To_v1alpha1_SecretSource_def autoConvert_v1alpha2_SecretSource_To_v1alpha1_SecretSource_def
  Convert_v1alpha1_BasicAuth_To_v1alpha2_BasicAuth_def autoConvert_v1alpha1_BasicAuth_To_v1alpha2_BasicAuth_def
  Convert_v1alpha2_BasicAuth_To_v1alpha1_BasicAuth_def autoConvert_v1alpha2_BasicAuth_To_v1alpha1_BasicAuth_def
  Convert_v1alpha1_Certificate_To_v1alpha2_Certificate_def autoConvert_v1alpha1_Certificate_To_v1alpha2_Certificate_def
  Convert_v1alpha2_Certificate_To_v1alpha1_Certificate_def autoConvert_v1alpha2_Certificate_To_v1alpha1_Certificate_def
  Convert_v1alpha1_KubernetesAuth_To_v1alpha2_KubernetesAuth_def autoConvert_v1alpha1_KubernetesAuth_To_v1alpha2_KubernetesAuth_def
  Convert_v1alpha2_KubernetesAuth_To_v1alpha1_KubernetesAuth_def autoConvert_v1alpha2_KubernetesAuth_To_v1alpha1_KubernetesAuth_def
  Convert_v1alpha1_OAuth_To_v1alpha2_OAuth_def autoConvert_v1alpha1_OAuth_To_v1alpha2_OAuth_def
  Convert_v1alpha2_OAuth_To_v1alpha1_OAuth_def autoConvert_v1alpha2_OAuth_To_v1alpha1_OAuth_def
  Convert_v1alpha1_Metadata_To_v1alpha2_Metadata_def autoConvert_v1alpha1_Metadata_To_v1alpha2_Metadata_def
  Convert_v1alpha2_Metadata_To_v1alpha1_Metadata_def autoConvert_v1alpha2_Metadata_To_v1alpha1_Metadata_def
  Convert_v1alpha1_PersesService_To_v1alpha2_PersesService_def autoConvert_v1alpha1_PersesService_To_v1alpha2_PersesService_def
  Convert_v1alpha2_PersesService_To_v1alpha1_PersesService_def autoConvert_v1alpha2_PersesService_To_v1alpha1_PersesService_def
  Convert_v1alpha1_PersesConfig_To_v1alpha2_PersesConfig_def autoConvert_v1alpha1_PersesConfig_To_v1alpha2_PersesConfig_def
  Convert_v1alpha2_PersesConfig_To_v1alpha1_PersesConfig_def autoConvert_v1alpha2_PersesConfig_To_v1alpha1_PersesConfig_def
  Convert_v1alpha1_StorageConfiguration_To_v1alpha2_StorageConfiguration_def
  Convert_v1alpha2_StorageConfiguration_To_v1alpha1_StorageConfiguration_def

text \<open>The values that come back as they were.\<close>

definition exact_oauth :: "v1alpha1_oauth \<Rightarrow> bool" where
  "exact_oauth oa \<longleftrightarrow> - (2 ^ 31) \<le> sint (V1_AuthStyle oa) \<and> sint (V1_AuthStyle oa) < 2 ^ 31"

definition exact_client :: "v1alpha1_client \<Rightarrow> bool" where
  "exact_client cl \<longleftrightarrow> pred_option exact_oauth (V1_Client_OAuth cl)"

definition exact_storage :: "conv_lib \<Rightarrow> v1alpha1_storage_configuration \<Rightarrow> bool" where
  "exact_storage L st \<longleftrightarrow> (Quantity_IsZero L (V1_Storage_Size st) \<longrightarrow> V1_Storage_Size st = Quantity_zero L)"

definition exact_spec :: "conv_lib \<Rightarrow> v1alpha1_perses_spec \<Rightarrow> bool" where
  "exact_spec L s \<longleftrightarrow> pred_option exact_client (V1_Spec_Client s) \<and> pred_option (exact_storage L) (V1_Spec_Storage s)"

lemma truncated_exact_iff:
  fixes a :: int64
  shows "scast (ucast a :: int32) = a \<longleftrightarrow> - (2 ^ 31) \<le> sint a \<and> sint a < 2 ^ 31"
proof -
  have "sint (ucast a :: int32) = signed_take_bit 31 (sint a)"
    by (simp add: sint_uint unsigned_ucast_eq signed_take_bit_take_bit min_def)
  moreover have "scast b = a \<longleftrightarrow> sint b = sint a" for b :: int32
  proof
    have "sint (scast b :: int64) = signed_take_bit 63 (sint b)" by (simp add: signed_scast_eq)
    also have "\<dots> = sint b" by (simp add: sint_uint)
    finally have "sint (scast b :: int64) = sint b" .
    then show "sint b = sint a" if "scast b = a" using that by simp
    show "scast b = a" if "sint b = sint a"
      using that by (metis scast_id scast_eq)
  qed
  ultimately show ?thesis by (simp add: signed_take_bit_int_eq_self_iff)
qed

lemma exact_oauth_iff: "exact_oauth oa \<longleftrightarrow> scast (ucast (V1_AuthStyle oa) :: int32) = V1_AuthStyle oa"
  by (simp only: exact_oauth_def truncated_exact_iff)

interpretation ba: round_trip "Convert_v1alpha1_BasicAuth_To_v1alpha2_BasicAuth L" "Convert_v1alpha2_BasicAuth_To_v1alpha1_BasicAuth L"
  new_v1alpha1_BasicAuth new_v1alpha2_BasicAuth "\<lambda>_. conv_law L" for L
  by unfold_locales (simp add: leaf_defs conv_lawD new_v1alpha1_BasicAuth_def)

interpretation ce: round_trip "Convert_v1alpha1_Certificate_To_v1alpha2_Certificate L" "Convert_v1alpha2_Certificate_To_v1alpha1_Certificate L"
  new_v1alpha1_Certificate new_v1alpha2_Certificate "\<lambda>_. conv_law L" for L
  by unfold_locales (simp add: leaf_defs conv_lawD new_v1alpha1_Certificate_def)

interpretation ka: round_trip "Convert_v1alpha1_KubernetesAuth_To_v1alpha2_KubernetesAuth L"
  "Convert_v1alpha2_KubernetesAuth_To_v1alpha1_KubernetesAuth L"
  new_v1alpha1_KubernetesAuth new_v1alpha2_KubernetesAuth "\<lambda>_. conv_law L" for L
  by unfold_locales (simp add: leaf_defs conv_lawD new_v1alpha1_KubernetesAuth_def)

interpretation md: round_trip "Convert_v1alpha1_Metadata_To_v1alpha2_Metadata L" "Convert_v1alpha2_Metadata_To_v1alpha1_Metadata L"
  new_v1alpha1_Metadata new_v1alpha2_Metadata "\<lambda>_. True" for L
  by unfold_locales (simp add: leaf_defs new_v1alpha1_Metadata_def)

interpretation se: round_trip "Convert_v1alpha1_PersesService_To_v1alpha2_PersesService L"
  "Convert_v1alpha2_PersesService_To_v1alpha1_PersesService L"
  new_v1alpha1_PersesService new_v1alpha2_PersesService "\<lambda>_. conv_law L" for L
  by unfold_locales (simp add: leaf_defs conv_lawD new_v1alpha1_PersesService_def)

interpretation oa: round_trip "Convert_v1alpha1_OAuth_To_v1alpha2_OAuth L" "Convert_v1alpha2_OAuth_To_v1alpha1_OAuth L"
  new_v1alpha1_OAuth new_v1alpha2_OAuth "\<lambda>oa. conv_law L \<and> exact_oauth oa" for L
  by unfold_locales
    (auto simp: leaf_defs conv_lawD new_v1alpha1_OAuth_def new_v1alpha2_OAuth_def exact_oauth_iff)

interpretation st: round_trip "Convert_v1alpha1_StorageConfiguration_To_v1alpha2_StorageConfiguration L"
  "Convert_v1alpha2_StorageConfiguration_To_v1alpha1_StorageConfiguration L"
  "new_v1alpha1_StorageConfiguration L" new_v1alpha2_StorageConfiguration "\<lambda>st. conv_law L \<and> exact_storage L st" for L
  by unfold_locales
    (auto simp: leaf_defs exact_storage_def new_v1alpha1_StorageConfiguration_def new_v1alpha2_StorageConfiguration_def
      new_PersistentVolumeClaimSpec_def Let_def nilmap_def mget_def)

section \<open>The composed types\<close>

text \<open>A pointer of which only the law of the library is asked, and one of which more is.\<close>

lemma pred_option_const: "P \<Longrightarrow> pred_option (\<lambda>_. P) p"
  by (cases p) simp_all

lemma pred_option_and: "P \<Longrightarrow> pred_option Q p \<Longrightarrow> pred_option (\<lambda>x. P \<and> Q x) p"
  by (cases p) simp_all

lemmas composed_defs =
  Convert_v1alpha1_TLS_To_v1alpha2_TLS_def autoConvert_v1alpha1_TLS_To_v1alpha2_TLS_def
  Convert_v1alpha2_TLS_To_v1alpha1_TLS_def autoConvert_v1alpha2_TLS_To_v1alpha1_TLS_def
  Convert_v1alpha1_Client_To_v1alpha2_Client_def autoConvert_v1alpha1_Client_To_v1alpha2_Client_def
  Convert_v1alpha2_Client_To_v1alpha1_Client_def autoConvert_v1alpha2_Client_To_v1alpha1_Client_def
  Convert_v1alpha1_PersesSpec_To_v1alpha2_PersesSpec_def autoConvert_v1alpha1_PersesSpec_To_v1alpha2_PersesSpec_def
  Convert_v1alpha2_PersesSpec_To_v1alpha1_PersesSpec_def autoConvert_v1alpha2_PersesSpec_To_v1alpha1_PersesSpec_def
  Convert_v1alpha1_PersesConfig_To_v1alpha2_PersesConfig_def autoConvert_v1alpha1_PersesConfig_To_v1alpha2_PersesConfig_def
  Convert_v1alpha2_PersesConfig_To_v1alpha1_PersesConfig_def autoConvert_v1alpha2_PersesConfig_To_v1alpha1_PersesConfig_def

interpretation tl: round_trip "Convert_v1alpha1_TLS_To_v1alpha2_TLS L" "Convert_v1alpha2_TLS_To_v1alpha1_TLS L"
  new_v1alpha1_TLS new_v1alpha2_TLS "\<lambda>_. conv_law L" for L
proof
  fix x :: v1alpha1_tls assume L: "conv_law L"
  from ce.pointer_trip [OF pred_option_const [OF L], of "V1_TLS_CaCert x"]
    ce.pointer_trip [OF pred_option_const [OF L], of "V1_TLS_UserCert x"]
  show "\<exists>y. Convert_v1alpha1_TLS_To_v1alpha2_TLS L x new_v1alpha2_TLS = Inr y \<and>
      Convert_v1alpha2_TLS_To_v1alpha1_TLS L y new_v1alpha1_TLS = Inr x"
    by (elim exE conjE) (simp add: composed_defs conv_lawD [OF L] new_v1alpha1_TLS_def)
qed

interpretation cl: round_trip "Convert_v1alpha1_Client_To_v1alpha2_Client L" "Convert_v1alpha2_Client_To_v1alpha1_Client L"
  new_v1alpha1_Client new_v1alpha2_Client "\<lambda>cl. conv_law L \<and> exact_client cl" for L
proof
  fix x :: v1alpha1_client assume L: "conv_law L \<and> exact_client x"
  note law = conjunct1 [OF L] and oauth = conjunct2 [OF L, unfolded exact_client_def]
  from ba.pointer_trip [OF pred_option_const [OF law], of "V1_Client_BasicAuth x"]
    oa.pointer_trip [OF pred_option_and [OF law oauth]]
    tl.pointer_trip [OF pred_option_const [OF law], of "V1_Client_TLS x"]
    ka.pointer_trip [OF pred_option_const [OF law], of "V1_Client_KubernetesAuth x"]
  show "\<exists>y. Convert_v1alpha1_Client_To_v1alpha2_Client L x new_v1alpha2_Client = Inr y \<and>
      Convert_v1alpha2_Client_To_v1alpha1_Client L y new_v1alpha1_Client = Inr x"
    by (elim exE conjE) (simp add: composed_defs(5-8) new_v1alpha1_Client_def)
qed

interpretation sp: round_trip "Convert_v1alpha1_PersesSpec_To_v1alpha2_PersesSpec L" "Convert_v1alpha2_PersesSpec_To_v1alpha1_PersesSpec L"
  new_v1alpha1_PersesSpec new_v1alpha2_PersesSpec "\<lambda>s. conv_law L \<and> exact_spec L s" for L
proof
  fix x :: v1alpha1_perses_spec assume L: "conv_law L \<and> exact_spec L x"
  note law = conjunct1 [OF L] and parts = conjunct2 [OF L, unfolded exact_spec_def]
  from md.pointer_trip [OF pred_option_const [OF TrueI], of L "V1_Spec_Metadata x"]
    cl.pointer_trip [OF pred_option_and [OF law conjunct1 [OF parts]]]
    se.pointer_trip [OF pred_option_const [OF law], of "V1_Spec_Service x"]
    tl.pointer_trip [OF pred_option_const [OF law], of "V1_Spec_TLS x"]
    st.pointer_trip [OF pred_option_and [OF law conjunct2 [OF parts]]]
  show "\<exists>y. Convert_v1alpha1_PersesSpec_To_v1alpha2_PersesSpec L x new_v1alpha2_PersesSpec = Inr y \<and>
      Convert_v1alpha2_PersesSpec_To_v1alpha1_PersesSpec L y new_v1alpha1_PersesSpec = Inr x"
    by (elim exE conjE) (simp add: composed_defs(9-16) conv_lawD [OF law] new_v1alpha1_PersesSpec_def)
qed

section \<open>The objects\<close>

lemmas object_defs =
  Convert_v1alpha1_Perses_To_v1alpha2_Perses_def autoConvert_v1alpha1_Perses_To_v1alpha2_Perses_def
  Convert_v1alpha2_Perses_To_v1alpha1_Perses_def autoConvert_v1alpha2_Perses_To_v1alpha1_Perses_def
  Convert_v1alpha1_PersesStatus_To_v1alpha2_PersesStatus_def autoConvert_v1alpha1_PersesStatus_To_v1alpha2_PersesStatus_def
  Convert_v1alpha2_PersesStatus_To_v1alpha1_PersesStatus_def autoConvert_v1alpha2_PersesStatus_To_v1alpha1_PersesStatus_def
  Convert_v1alpha1_PersesDashboard_To_v1alpha2_PersesDashboard_def autoConvert_v1alpha1_PersesDashboard_To_v1alpha2_PersesDashboard_def
  Convert_v1alpha2_PersesDashboard_To_v1alpha1_PersesDashboard_def autoConvert_v1alpha2_PersesDashboard_To_v1alpha1_PersesDashboard_def
  Convert_v1alpha1_Dashboard_To_v1alpha2_PersesDashboardSpec_def Convert_v1alpha2_PersesDashboardSpec_To_v1alpha1_Dashboard_def
  Convert_v1alpha1_PersesDashboardStatus_To_v1alpha2_PersesDashboardStatus_def
  autoConvert_v1alpha1_PersesDashboardStatus_To_v1alpha2_PersesDashboardStatus_def
  Convert_v1alpha2_PersesDashboardStatus_To_v1alpha1_PersesDashboardStatus_def
  autoConvert_v1alpha2_PersesDashboardStatus_To_v1alpha1_PersesDashboardStatus_def
  Convert_v1alpha1_PersesDatasource_To_v1alpha2_PersesDatasource_def autoConvert_v1alpha1_PersesDatasource_To_v1alpha2_PersesDatasource_def
  Convert_v1alpha2_PersesDatasource_To_v1alpha1_PersesDatasource_def autoConvert_v1alpha2_PersesDatasource_To_v1alpha1_PersesDatasource_def
  Convert_v1alpha1_DatasourceSpec_To_v1alpha2_DatasourceSpec_def autoConvert_v1alpha1_DatasourceSpec_To_v1alpha2_DatasourceSpec_def
  Convert_v1alpha2_DatasourceSpec_To_v1alpha1_DatasourceSpec_def
  Convert_v1alpha1_Datasource_To_v1alpha2_Datasource_def autoConvert_v1alpha1_Datasource_To_v1alpha2_Datasource_def
  Convert_v1alpha1_PersesDatasourceStatus_To_v1alpha2_PersesDatasourceStatus_def
  autoConvert_v1alpha1_PersesDatasourceStatus_To_v1alpha2_PersesDatasourceStatus_def
  Convert_v1alpha2_PersesDatasourceStatus_To_v1alpha1_PersesDatasourceStatus_def
  autoConvert_v1alpha2_PersesDatasourceStatus_To_v1alpha1_PersesDatasourceStatus_def

interpretation pe: round_trip "Convert_v1alpha1_Perses_To_v1alpha2_Perses L" "Convert_v1alpha2_Perses_To_v1alpha1_Perses L"
  new_v1alpha1_Perses new_v1alpha2_Perses "\<lambda>p. conv_law L \<and> exact_spec L (V1_Spec p)" for L
proof
  fix x :: v1alpha1_perses assume "conv_law L \<and> exact_spec L (V1_Spec x)"
  from sp.trip [OF this] show "\<exists>y. Convert_v1alpha1_Perses_To_v1alpha2_Perses L x new_v1alpha2_Perses = Inr y \<and>
      Convert_v1alpha2_Perses_To_v1alpha1_Perses L y new_v1alpha1_Perses = Inr x"
    by (elim exE conjE, cases x) (simp add: object_defs set_ObjectMeta_def object_meta.defs perses.defs v1alpha1_perses.defs
        new_v1alpha1_Perses_def new_v1alpha2_Perses_def new_ObjectMeta_def)
qed

interpretation da: round_trip "Convert_v1alpha1_PersesDashboard_To_v1alpha2_PersesDashboard L"
  "Convert_v1alpha2_PersesDashboard_To_v1alpha1_PersesDashboard L"
  new_v1alpha1_PersesDashboard new_v1alpha2_PersesDashboard "\<lambda>_. True" for L
proof
  fix x show "\<exists>y. Convert_v1alpha1_PersesDashboard_To_v1alpha2_PersesDashboard L x new_v1alpha2_PersesDashboard = Inr y \<and>
      Convert_v1alpha2_PersesDashboard_To_v1alpha1_PersesDashboard L y new_v1alpha1_PersesDashboard = Inr x"
    by (cases x) (simp add: object_defs set_ObjectMeta_def object_meta.defs persesdashboard.defs v1alpha1_persesdashboard.defs
        new_v1alpha1_PersesDashboard_def new_v1alpha2_PersesDashboard_def new_ObjectMeta_def)
qed

interpretation ds: round_trip "Convert_v1alpha1_PersesDatasource_To_v1alpha2_PersesDatasource L"
  "Convert_v1alpha2_PersesDatasource_To_v1alpha1_PersesDatasource L"
  new_v1alpha1_PersesDatasource new_v1alpha2_PersesDatasource "\<lambda>d. V1_Datasource_Client (V1_Datasource_Spec d) = None" for L
proof
  fix x :: v1alpha1_persesdatasource assume "V1_Datasource_Client (V1_Datasource_Spec x) = None"
  then show "\<exists>y. Convert_v1alpha1_PersesDatasource_To_v1alpha2_PersesDatasource L x new_v1alpha2_PersesDatasource = Inr y \<and>
      Convert_v1alpha2_PersesDatasource_To_v1alpha1_PersesDatasource L y new_v1alpha1_PersesDatasource = Inr x"
    by (cases x) (simp add: object_defs convert_pointer_def set_ObjectMeta_def object_meta.defs persesdatasource.defs
        v1alpha1_persesdatasource.defs new_v1alpha1_PersesDatasource_def new_v1alpha2_PersesDatasource_def new_ObjectMeta_def)
qed

section \<open>No conversion fails\<close>

definition never_fails :: "('a \<Rightarrow> 'b \<Rightarrow> error + 'b) \<Rightarrow> bool" where
  "never_fails conv \<longleftrightarrow> (\<forall>x out. \<exists>y. conv x out = Inr y)"

lemma pointer_total: "never_fails conv \<Longrightarrow> \<exists>q. convert_pointer conv new p = Inr q"
  by (cases p) (auto simp: never_fails_def convert_pointer_def dest: spec2 [of _ "the p" new])

lemma leaf_total:
  assumes "conv_law L"
  shows "never_fails (Convert_v1alpha1_BasicAuth_To_v1alpha2_BasicAuth L)"
    and "never_fails (Convert_v1alpha2_BasicAuth_To_v1alpha1_BasicAuth L)"
    and "never_fails (Convert_v1alpha1_Certificate_To_v1alpha2_Certificate L)"
    and "never_fails (Convert_v1alpha2_Certificate_To_v1alpha1_Certificate L)"
    and "never_fails (Convert_v1alpha1_KubernetesAuth_To_v1alpha2_KubernetesAuth L)"
    and "never_fails (Convert_v1alpha2_KubernetesAuth_To_v1alpha1_KubernetesAuth L)"
    and "never_fails (Convert_v1alpha1_OAuth_To_v1alpha2_OAuth L)"
    and "never_fails (Convert_v1alpha2_OAuth_To_v1alpha1_OAuth L)"
    and "never_fails (Convert_v1alpha1_Metadata_To_v1alpha2_Metadata L)"
    and "never_fails (Convert_v1alpha2_Metadata_To_v1alpha1_Metadata L)"
    and "never_fails (Convert_v1alpha1_PersesService_To_v1alpha2_PersesService L)"
    and "never_fails (Convert_v1alpha2_PersesService_To_v1alpha1_PersesService L)"
    and "never_fails (Convert_v1alpha1_StorageConfiguration_To_v1alpha2_StorageConfiguration L)"
    and "never_fails (Convert_v1alpha2_StorageConfiguration_To_v1alpha1_StorageConfiguration L)"
  by (simp_all add: never_fails_def leaf_defs conv_lawD [OF assms] Let_def split: option.splits)

lemma TLS_total:
  assumes "conv_law L"
  shows "never_fails (Convert_v1alpha1_TLS_To_v1alpha2_TLS L)" and "never_fails (Convert_v1alpha2_TLS_To_v1alpha1_TLS L)"
proof -
  note cert = leaf_total(3,4) [OF assms]
  show "never_fails (Convert_v1alpha1_TLS_To_v1alpha2_TLS L)"
    unfolding never_fails_def
  proof (intro allI)
    fix i :: v1alpha1_tls and out
    from pointer_total [OF cert(1), of new_v1alpha2_Certificate "V1_TLS_CaCert i"]
      pointer_total [OF cert(1), of new_v1alpha2_Certificate "V1_TLS_UserCert i"]
    show "\<exists>y. Convert_v1alpha1_TLS_To_v1alpha2_TLS L i out = Inr y"
      by (elim exE) (simp add: composed_defs(1-4) conv_lawD [OF assms])
  qed
  show "never_fails (Convert_v1alpha2_TLS_To_v1alpha1_TLS L)"
    unfolding never_fails_def
  proof (intro allI)
    fix i :: tls and out
    from pointer_total [OF cert(2), of new_v1alpha1_Certificate "TLS_CaCert i"]
      pointer_total [OF cert(2), of new_v1alpha1_Certificate "TLS_UserCert i"]
    show "\<exists>y. Convert_v1alpha2_TLS_To_v1alpha1_TLS L i out = Inr y"
      by (elim exE) (simp add: composed_defs(1-4) conv_lawD [OF assms])
  qed
qed

lemma Client_total:
  assumes "conv_law L"
  shows "never_fails (Convert_v1alpha1_Client_To_v1alpha2_Client L)" and "never_fails (Convert_v1alpha2_Client_To_v1alpha1_Client L)"
proof -
  note parts = leaf_total(1,2,5,6,7,8) [OF assms] TLS_total [OF assms]
  show "never_fails (Convert_v1alpha1_Client_To_v1alpha2_Client L)"
    unfolding never_fails_def
  proof (intro allI)
    fix i :: v1alpha1_client and out
    from pointer_total [OF parts(1), of new_v1alpha2_BasicAuth "V1_Client_BasicAuth i"]
      pointer_total [OF parts(3), of new_v1alpha2_KubernetesAuth "V1_Client_KubernetesAuth i"]
      pointer_total [OF parts(5), of new_v1alpha2_OAuth "V1_Client_OAuth i"]
      pointer_total [OF parts(7), of new_v1alpha2_TLS "V1_Client_TLS i"]
    show "\<exists>y. Convert_v1alpha1_Client_To_v1alpha2_Client L i out = Inr y"
      by (elim exE) (simp add: composed_defs(5-8))
  qed
  show "never_fails (Convert_v1alpha2_Client_To_v1alpha1_Client L)"
    unfolding never_fails_def
  proof (intro allI)
    fix i :: client and out
    from pointer_total [OF parts(2), of new_v1alpha1_BasicAuth "Client_BasicAuth i"]
      pointer_total [OF parts(4), of new_v1alpha1_KubernetesAuth "Client_KubernetesAuth i"]
      pointer_total [OF parts(6), of new_v1alpha1_OAuth "Client_OAuth i"]
      pointer_total [OF parts(8), of new_v1alpha1_TLS "Client_TLS i"]
    show "\<exists>y. Convert_v1alpha2_Client_To_v1alpha1_Client L i out = Inr y"
      by (elim exE) (simp add: composed_defs(5-8))
  qed
qed

text \<open>What a spec is after it was converted to the older version, and to the newer one.\<close>

lemma spec_downgraded:
  assumes "conv_law L"
  obtains y where "Convert_v1alpha2_PersesSpec_To_v1alpha1_PersesSpec L x o2 = Inr y" "V1_Spec_Config y = Spec_Config x"
    "V1_Spec_ContainerPort y = (case Spec_ContainerPort x of None \<Rightarrow> 0 | Some q \<Rightarrow> q)"
    "V1_Spec_Image y = (case Spec_Image x of None \<Rightarrow> [] | Some i \<Rightarrow> i)" "V1_Spec_Replicas y = Spec_Replicas x"
    "V1_Spec_Args y = Spec_Args x"
  using pointer_total [OF leaf_total(10) [OF assms], of new_v1alpha1_Metadata "Spec_Metadata x"]
    pointer_total [OF Client_total(2) [OF assms], of new_v1alpha1_Client "Spec_Client x"]
    pointer_total [OF leaf_total(12) [OF assms], of new_v1alpha1_PersesService "Spec_Service x"]
    pointer_total [OF TLS_total(2) [OF assms], of new_v1alpha1_TLS "Spec_TLS x"]
    pointer_total [OF leaf_total(14) [OF assms], of "new_v1alpha1_StorageConfiguration L" "Spec_Storage x"]
  by (elim exE) (simp add: composed_defs(9-16) conv_lawD [OF assms])

lemma storage_upgraded:
  assumes "conv_law L"
  shows "\<exists>q. convert_pointer (Convert_v1alpha1_StorageConfiguration_To_v1alpha2_StorageConfiguration L) new_v1alpha2_StorageConfiguration p = Inr q \<and>
    (\<forall>st. q = Some st \<longrightarrow> Storage_EmptyDir st = None)"
  by (auto simp: convert_pointer_def Convert_v1alpha1_StorageConfiguration_To_v1alpha2_StorageConfiguration_def
      new_v1alpha2_StorageConfiguration_def Let_def split: option.splits)

lemma spec_upgraded:
  assumes "conv_law L"
  obtains y where "Convert_v1alpha1_PersesSpec_To_v1alpha2_PersesSpec L x o1 = Inr y" "Spec_Config y = V1_Spec_Config x"
    "Spec_ContainerPort y = Some (V1_Spec_ContainerPort x)" "Spec_Image y = Some (V1_Spec_Image x)"
    "Spec_Replicas y = V1_Spec_Replicas x" "Spec_Args y = V1_Spec_Args x"
    "\<forall>st. Spec_Storage y = Some st \<longrightarrow> Storage_EmptyDir st = None"
    "Spec_Volumes y = Spec_Volumes o1" "Spec_VolumeMounts y = Spec_VolumeMounts o1" "Spec_Provisioning y = Spec_Provisioning o1"
    "Spec_Resources y = Spec_Resources o1" "Spec_Env y = Spec_Env o1" "Spec_EnvFrom y = Spec_EnvFrom o1"
  using pointer_total [OF leaf_total(9) [OF assms], of new_v1alpha2_Metadata "V1_Spec_Metadata x"]
    pointer_total [OF Client_total(1) [OF assms], of new_v1alpha2_Client "V1_Spec_Client x"]
    pointer_total [OF leaf_total(11) [OF assms], of new_v1alpha2_PersesService "V1_Spec_Service x"]
    pointer_total [OF TLS_total(1) [OF assms], of new_v1alpha2_TLS "V1_Spec_TLS x"]
    storage_upgraded [OF assms, of "V1_Spec_Storage x"]
  by (elim exE conjE) (simp add: composed_defs(9-16) conv_lawD [OF assms])

lemmas list_defs =
  Convert_v1alpha1_PersesList_To_v1alpha2_PersesList_def autoConvert_v1alpha1_PersesList_To_v1alpha2_PersesList_def
  Convert_v1alpha2_PersesList_To_v1alpha1_PersesList_def autoConvert_v1alpha2_PersesList_To_v1alpha1_PersesList_def

lemma new_spec [simp]:
  "V1_Spec (set_ObjectMeta x out) = V1_Spec out" "Spec (set_ObjectMeta x out2) = Spec out2"
  "V1_Status (set_ObjectMeta x out) = V1_Status out" "Status (set_ObjectMeta x out2) = Status out2"
  by (cases out, simp add: set_ObjectMeta_def object_meta.defs, cases out2, simp add: set_ObjectMeta_def object_meta.defs)+

lemma new_status: "Status new_v1alpha2_Perses = \<lparr>Status_Conditions = [], Status_Provisioning = None\<rparr>"
  "V1_Status new_v1alpha1_Perses = \<lparr>V1_Status_Conditions = []\<rparr>" "Spec new_v1alpha2_Perses = new_v1alpha2_PersesSpec"
  by (simp_all add: new_v1alpha2_Perses_def new_v1alpha1_Perses_def object_meta.defs perses.defs v1alpha1_perses.defs new_ObjectMeta_def)

section \<open>Properties\<close>

text \<open>
  C9: nothing is lost on the way up. A Perses object of the older version that is converted to the
  newer one and back is the object it was, and so is a list of such objects: neither conversion
  fails, provided the library behaves as documented, the authentication style of a client fits in 32
  bits and a storage size that is zero is the zero quantity itself. Dashboards come back without any
  proviso.
\<close>

theorem conversion_round_trip:
  assumes "conv_law L" and "exact_spec L (V1_Spec p)" and "pred_option (list_all (\<lambda>p. exact_spec L (V1_Spec p))) (Items ps)"
  shows "(\<exists>h. Perses_ConvertTo L p (HubPerses new_v1alpha2_Perses) = Some (Inr h) \<and>
      Perses_ConvertFrom L new_v1alpha1_Perses h = Some (Inr p)) \<and>
    (\<exists>qs. Convert_v1alpha1_PersesList_To_v1alpha2_PersesList L ps \<lparr>ListMeta = JNull, Items = None\<rparr> = Inr qs \<and>
      Convert_v1alpha2_PersesList_To_v1alpha1_PersesList L qs \<lparr>ListMeta = JNull, Items = None\<rparr> = Inr ps) \<and>
    (\<exists>h. PersesDashboard_ConvertTo L d (HubDashboard new_v1alpha2_PersesDashboard) = Some (Inr h) \<and>
      PersesDashboard_ConvertFrom L new_v1alpha1_PersesDashboard h = Some (Inr d))"
proof (intro conjI)
  obtain q where "Convert_v1alpha1_Perses_To_v1alpha2_Perses L p new_v1alpha2_Perses = Inr q"
      "Convert_v1alpha2_Perses_To_v1alpha1_Perses L q new_v1alpha1_Perses = Inr p"
    using pe.trip [of L p] assms(1,2) by blast
  then show "\<exists>h. Perses_ConvertTo L p (HubPerses new_v1alpha2_Perses) = Some (Inr h) \<and>
      Perses_ConvertFrom L new_v1alpha1_Perses h = Some (Inr p)"
    by (simp add: Perses_ConvertTo_def Perses_ConvertFrom_def)
  have "pred_option (list_all (\<lambda>p. conv_law L \<and> exact_spec L (V1_Spec p))) (Items ps)"
    using assms(1,3) by simp
  then obtain qs where "convert_items (Convert_v1alpha1_Perses_To_v1alpha2_Perses L) new_v1alpha2_Perses (Items ps) = Inr qs"
      "convert_items (Convert_v1alpha2_Perses_To_v1alpha1_Perses L) new_v1alpha1_Perses qs = Inr (Items ps)"
    using pe.items_trip by blast
  then show "\<exists>qs. Convert_v1alpha1_PersesList_To_v1alpha2_PersesList L ps \<lparr>ListMeta = JNull, Items = None\<rparr> = Inr qs \<and>
      Convert_v1alpha2_PersesList_To_v1alpha1_PersesList L qs \<lparr>ListMeta = JNull, Items = None\<rparr> = Inr ps"
    by (simp add: list_defs)
  obtain q where "Convert_v1alpha1_PersesDashboard_To_v1alpha2_PersesDashboard L d new_v1alpha2_PersesDashboard = Inr q"
      "Convert_v1alpha2_PersesDashboard_To_v1alpha1_PersesDashboard L q new_v1alpha1_PersesDashboard = Inr d"
    using da.trip by blast
  then show "\<exists>h. PersesDashboard_ConvertTo L d (HubDashboard new_v1alpha2_PersesDashboard) = Some (Inr h) \<and>
      PersesDashboard_ConvertFrom L new_v1alpha1_PersesDashboard h = Some (Inr d)"
    by (simp add: PersesDashboard_ConvertTo_def PersesDashboard_ConvertFrom_def)
qed

text \<open>
  C35: the authentication style of an OAuth client. The newer version keeps 32 bits of it. An OAuth
  client of the older version always converts in both directions, and comes back as it was if and
  only if its style, a 64 bit integer, is in the range of 32 bit integers.
\<close>

theorem auth_style_survives_iff:
  assumes "conv_law L"
  shows "\<exists>y x'. Convert_v1alpha1_OAuth_To_v1alpha2_OAuth L x new_v1alpha2_OAuth = Inr y \<and>
    Convert_v1alpha2_OAuth_To_v1alpha1_OAuth L y new_v1alpha1_OAuth = Inr x' \<and>
    (x' = x \<longleftrightarrow> - (2 ^ 31) \<le> sint (V1_AuthStyle x) \<and> sint (V1_AuthStyle x) < 2 ^ 31)"
  unfolding exact_oauth_def [symmetric] exact_oauth_iff
  by (cases x) (auto simp: leaf_defs conv_lawD [OF assms] new_v1alpha1_OAuth_def new_v1alpha2_OAuth_def)

text \<open>
  C34: what a visit to the older version costs a Perses object. An object of the newer version can
  always be converted to the older one and back, and keeps its metadata, configuration, arguments and
  replicas. But its volumes, mounts, environment, resources and provisioning are gone, a missing port
  has become port zero, and the storage is no longer ephemeral: whatever workload it asked for, it now
  asks for a StatefulSet whenever it has a file database, and for a Deployment only when it has a SQL
  database.
\<close>

theorem downgrade_loses:
  assumes "conv_law L"
  shows "\<exists>q p'. Perses_ConvertFrom L new_v1alpha1_Perses (HubPerses p) = Some (Inr q) \<and>
    Perses_ConvertTo L q (HubPerses new_v1alpha2_Perses) = Some (Inr (HubPerses p')) \<and>
    object_meta.truncate p' = object_meta.truncate p \<and>
    Spec_Config (Spec p') = Spec_Config (Spec p) \<and> Spec_Args (Spec p') = Spec_Args (Spec p) \<and>
    Spec_Replicas (Spec p') = Spec_Replicas (Spec p) \<and>
    Spec_Volumes (Spec p') = [] \<and> Spec_VolumeMounts (Spec p') = [] \<and> Spec_Env (Spec p') = [] \<and> Spec_EnvFrom (Spec p') = [] \<and>
    Spec_Resources (Spec p') = None \<and> Spec_Provisioning (Spec p') = None \<and>
    Spec_ContainerPort (Spec p') = Some (case Spec_ContainerPort (Spec p) of None \<Rightarrow> 0 | Some port \<Rightarrow> port) \<and>
    (RequiresStatefulSet p' \<longleftrightarrow> Config_Database_File (Spec_Config (Spec p)) \<noteq> None) \<and>
    (RequiresDeployment p' \<longleftrightarrow> Config_Database_SQL (Spec_Config (Spec p)) \<noteq> None)"
proof -
  obtain s where s: "Convert_v1alpha2_PersesSpec_To_v1alpha1_PersesSpec L (Spec p) (V1_Spec new_v1alpha1_Perses) = Inr s"
      "V1_Spec_Config s = Spec_Config (Spec p)" "V1_Spec_ContainerPort s = (case Spec_ContainerPort (Spec p) of None \<Rightarrow> 0 | Some q \<Rightarrow> q)"
      "V1_Spec_Replicas s = Spec_Replicas (Spec p)" "V1_Spec_Args s = Spec_Args (Spec p)"
    by (rule spec_downgraded [OF assms])
  obtain y where y: "Convert_v1alpha1_PersesSpec_To_v1alpha2_PersesSpec L s new_v1alpha2_PersesSpec = Inr y" "Spec_Config y = V1_Spec_Config s"
      "Spec_ContainerPort y = Some (V1_Spec_ContainerPort s)" "Spec_Replicas y = V1_Spec_Replicas s" "Spec_Args y = V1_Spec_Args s"
      "\<forall>st. Spec_Storage y = Some st \<longrightarrow> Storage_EmptyDir st = None"
      "Spec_Volumes y = []" "Spec_VolumeMounts y = []" "Spec_Provisioning y = None" "Spec_Resources y = None" "Spec_Env y = []" "Spec_EnvFrom y = []"
    by (rule spec_upgraded [OF assms, of s new_v1alpha2_PersesSpec]) (simp add: new_v1alpha2_PersesSpec_def)
  have ephemeral: "(case Spec_Storage y of None \<Rightarrow> True | Some st \<Rightarrow> Storage_EmptyDir st = None)"
    "\<not> (case Spec_Storage y of None \<Rightarrow> False | Some st \<Rightarrow> Storage_EmptyDir st \<noteq> None)"
    using y(6) by (auto split: option.splits)
  let ?q = "set_ObjectMeta p new_v1alpha1_Perses\<lparr>V1_Spec := s, V1_Status := \<lparr>V1_Status_Conditions = Status_Conditions (Status p)\<rparr>\<rparr>"
  let ?p = "set_ObjectMeta ?q new_v1alpha2_Perses\<lparr>Spec := y,
    Status := \<lparr>Status_Conditions = Status_Conditions (Status p), Status_Provisioning = None\<rparr>\<rparr>"
  have "Perses_ConvertFrom L new_v1alpha1_Perses (HubPerses p) = Some (Inr ?q)"
    using s(1) by (simp add: Perses_ConvertFrom_def object_defs new_status new_spec)
  moreover have "Perses_ConvertTo L ?q (HubPerses new_v1alpha2_Perses) = Some (Inr (HubPerses ?p))"
    using y(1) by (simp add: Perses_ConvertTo_def object_defs new_status new_spec)
  moreover have "object_meta.truncate ?p = object_meta.truncate p" by (simp add: set_ObjectMeta_def object_meta.defs)
  moreover have "(RequiresStatefulSet ?p \<longleftrightarrow> Config_Database_File (Spec_Config (Spec p)) \<noteq> None) \<and>
    (RequiresDeployment ?p \<longleftrightarrow> Config_Database_SQL (Spec_Config (Spec p)) \<noteq> None)"
    using ephemeral y(2) s(2) by (simp add: RequiresStatefulSet_def RequiresDeployment_def)
  moreover have "Spec ?p = y" by simp
  ultimately show ?thesis using y s by metis
qed

text \<open>
  A datasource loses its client on the way down. Converting a datasource of the newer version to
  the older one never fails but drops the client with its credentials, although the older version has
  a field for it; converted to the newer version again, the datasource has neither a client nor a
  selector of instances.
\<close>

lemma datasource_downgrade_drops_client:
  "\<exists>q. PersesDatasource_ConvertFrom L new_v1alpha1_PersesDatasource (HubDatasource d) = Some (Inr q) \<and>
     V1_Datasource_Client (V1_Datasource_Spec q) = None \<and>
     PersesDatasource_ConvertTo L q (HubDatasource new_v1alpha2_PersesDatasource) =
       Some (Inr (HubDatasource (d\<lparr>Datasource_Spec :=
         \<lparr>Datasource_Config = Datasource_Config (Datasource_Spec d), Datasource_Client = None, Datasource_InstanceSelector = None\<rparr>\<rparr>)))"
  by (cases d) (simp add: PersesDatasource_ConvertFrom_def PersesDatasource_ConvertTo_def object_defs convert_pointer_def set_ObjectMeta_def
      object_meta.defs persesdatasource.defs v1alpha1_persesdatasource.defs new_v1alpha1_PersesDatasource_def
      new_v1alpha2_PersesDatasource_def new_ObjectMeta_def)

end
