(* ===== verification/MetricsDocs.thy ===== *)
theory MetricsDocs
  imports Tracker
begin

text \<open>
  \<^verbatim>\<open>scripts/generate-metrics-docs/main.go\<close>: the script that writes the documentation of the
  metrics. Its table \<open>parseMetrics\<close> is written by hand, beside the code that creates the metrics; the
  last section compares the two.
\<close>

section \<open>The script\<close>

record doc_metric =
  Metric_Name :: string
  Metric_Type :: string
  Metric_Help :: string
  Metric_Labels :: "string list"
  Metric_Queries :: "string list"
  Metric_Description :: string

definition documented :: "string \<Rightarrow> string \<Rightarrow> string \<Rightarrow> string list \<Rightarrow> doc_metric" where
  "documented n t h ls =
     \<lparr>Metric_Name = n, Metric_Type = t, Metric_Help = h, Metric_Labels = ls, Metric_Queries = [], Metric_Description = []\<rparr>"

definition parseMetrics :: "doc_metric list" where
  "parseMetrics = [
     documented ''perses_operator_syncs'' ''Gauge''
       ''Number of objects per sync status (ok/failed)'' [''status''],
     documented ''perses_operator_managed_resources'' ''Gauge''
       ''Number of resources managed by the operator per state (synced/failed)'' [''resource'', ''state'', ''resource_namespace''],
     documented ''perses_operator_reconcile_operations_total'' ''Counter''
       ''Total number of reconciliation operations by controller'' [''controller''],
     documented ''perses_operator_reconcile_errors_total'' ''Counter''
       ''Total number of reconciliation errors by controller and reason'' [''controller'', ''reason''],
     documented ''perses_operator_managed_perses_instances'' ''Gauge''
       ''Number of Perses instances managed by the operator'' [''resource_namespace''],
     documented ''perses_operator_ready'' ''Gauge''
       ''Whether the operator is ready (1=yes, 0=no)'' [''controller'']]"

text \<open>
  The document, as its lines: the text before the table, for each metric a section, and the text after
  it. A section is what the body of the template's \<open>range\<close> expands to; the trim marker of the \<open>range\<close>
  removes the line break before the heading.
\<close>

definition tick :: string where
  "tick = [CHR 0x60]"

definition ticked :: "string \<Rightarrow> string" where
  "ticked s = tick @ s @ tick"

definition fence :: string where
  "fence = tick @ tick @ tick"

definition doc_head :: "string list" where
  "doc_head = [
     ''# Perses Operator Metrics'', [],
     ''The Perses Operator exposes Prometheus metrics for monitoring operator health and performance.'', [],
     ''## Accessing Metrics'', [],
     ''Metrics are exposed on port '' @ ticked ''8082'' @ '' at the '' @ ticked ''/metrics'' @ '' endpoint:'', [],
     fence @ ''bash'',
     ''# Port forward to the operator pod'',
     ''kubectl port-forward -n perses-operator-system '' @ [CHR 0x5C],
     ''  deployment/perses-operator-controller-manager 8082:8082'', [],
     ''# View metrics'',
     ''curl http://localhost:8082/metrics'',
     fence, [],
     ''## Available Metrics'', []]"

definition doc_section :: "doc_metric \<Rightarrow> string list" where
  "doc_section m =
     [''### '' @ ticked (Metric_Name m), [], Metric_Help m, []] @
     (if Metric_Labels m = [] then [''**Type:** '' @ Metric_Type m]
      else [''**Type:** '' @ Metric_Type m @ ''  '', ''**Labels:**'', []] @ map (\<lambda>l. ''- '' @ ticked l) (Metric_Labels m) @ [[]]) @
     (if Metric_Description m = [] then [[]] else [[], [], Metric_Description m, []]) @
     [[], ''---'', []]"

definition doc_tail :: "string list" where
  "doc_tail = [[],
     ''## Standard Controller-Runtime Metrics'', [],
     ''In addition to custom metrics, the operator exposes standard controller-runtime metrics:'', [],
     ''- '' @ ticked ''controller_runtime_reconcile_total'' @ '': Total number of reconciliations per controller'',
     ''- '' @ ticked ''controller_runtime_reconcile_errors_total'' @ '': Total number of reconciliation errors'',
     ''- '' @ ticked ''controller_runtime_reconcile_time_seconds'' @ '': Length of time per reconciliation'',
     ''- '' @ ticked ''workqueue_*'' @ '': Work queue metrics (depth, duration, etc.)'',
     ''- '' @ ticked ''rest_client_*'' @ '': Kubernetes API client metrics'', [],
     ''See [controller-runtime metrics](https://book.kubebuilder.io/reference/metrics-reference.html) for details.'', [],
     ''---'', [],
     ''*This documentation is auto-generated from the metrics code. Do not edit manually.*'',
     ''*Run '' @ ticked ''make generate-metrics-docs'' @ '' to regenerate.*'', []]"

definition generateDoc :: "doc_metric list \<Rightarrow> string" where
  "generateDoc metrics = Join [CHR 0x0A] (doc_head @ concat (map doc_section metrics) @ doc_tail)"

text \<open>The exit status, and the file that was written. \<open>write_file\<close> is \<open>os.WriteFile\<close>.\<close>

definition docs_main :: "(string \<Rightarrow> string \<Rightarrow> error option) \<Rightarrow> string list \<Rightarrow> int \<times> (string \<times> string) option" where
  "docs_main write_file Args =
     (if length Args \<noteq> 2 then (1, None)
      else let outputFile = Args ! 1; doc = generateDoc parseMetrics
           in case write_file outputFile doc of Some e \<Rightarrow> (1, None) | None \<Rightarrow> (0, Some (outputFile, doc)))"

section \<open>The documentation and the code\<close>

fun type_name :: "prom_type \<Rightarrow> string" where
  "type_name PromCounter = ''Counter''"
| "type_name PromGauge = ''Gauge''"

text \<open>All that the operator exports: the collectors of the tracker and of the table, and the vectors.\<close>

definition exported :: "(prom_type \<times> prom_desc) list" where
  "exported = map (Pair PromGauge) (Tracker_Describe @ Metrics_Describe) @
     map (\<lambda>v. (vec_type v, vec_desc v)) [ReconcileOperations, ReconcileErrors, PersesInstances, Ready]"

text \<open>
  The documentation of the metrics against the code. The script documents every metric that the
  operator exports, in this order, with its type and help text, and with its labels, except for one:
  \<open>perses_operator_managed_perses_instances\<close> has a label for the name of the instance too, which the
  documentation leaves out.
\<close>

lemma metrics_documented:
  "map (\<lambda>m. (Metric_Name m, Metric_Type m, Metric_Help m)) parseMetrics = map (\<lambda>(t, d). (desc_name d, type_name t, desc_help d)) exported \<and>
   [(desc_name d, desc_labels d, Metric_Labels m). ((t, d), m) \<leftarrow> zip exported parseMetrics, desc_labels d \<noteq> Metric_Labels m] =
     [(''perses_operator_managed_perses_instances'', [''resource_namespace'', ''resource_name''], [''resource_namespace''])]"
  by (simp add: parseMetrics_def documented_def exported_def Tracker_Describe_def Metrics_Describe_def syncsDesc_def resourcesDesc_def)

text \<open>The document read again: the headings of its sections are the documented names, in their order.\<close>

lemmas doc_texts = doc_head_def doc_tail_def doc_section_def parseMetrics_def documented_def ticked_def fence_def tick_def

lemma doc_lines: "Split (CHR 0x0A) (generateDoc parseMetrics) = doc_head @ concat (map doc_section parseMetrics) @ doc_tail"
  unfolding generateDoc_def by (rule Split_Join) (simp_all add: doc_texts)

lemma doc_headings:
  "filter (\<lambda>l. take 4 l = ''### '') (Split (CHR 0x0A) (generateDoc parseMetrics)) = map (\<lambda>m. ''### '' @ ticked (Metric_Name m)) parseMetrics"
  unfolding doc_lines by (simp add: doc_texts)

end
