(* ===== verification/Telemetry.thy ===== *)
theory Telemetry
  imports PersesController DashboardController DatasourceController GlobalDatasourceController MetricsDocs
begin

text \<open>
  The registered metrics, and what the discipline of the log gives for all four controllers at once. The samples
  that the controllers report are in theory \<open>Reporting\<close>.
\<close>

lemma log_ok_labelled: "log_ok E cs \<Longrightarrow> list_all labelled cs"
proof (induction cs)
  case (Cons c cs)
  have "justified E c cs \<Longrightarrow> labelled c" by (cases c) simp_all
  with Cons show ?case by simp
qed simp

text \<open>No two of the registered metrics share a name.\<close>

lemma names_distinct: "distinct (map desc_name (registered_descs @ Tracker_Describe))"
  by (simp add: registered_descs_def Tracker_Describe_def Metrics_Describe_def resourcesDesc_def syncsDesc_def)

text \<open>What the discipline of the log gives, it gives after a reconciliation by each of the four controllers.\<close>

lemma every_controller:
  assumes "retry_law E" and "log_ok E (calls w)" and "\<And>log. log_ok E log \<Longrightarrow> P log"
  shows "wp (perses_Reconcile E cfg invalidator req) (\<lambda>_ w'. P (calls w')) w \<and>
    wp (dashboard_Reconcile E req) (\<lambda>_ w'. P (calls w')) w \<and>
    wp (datasource_Reconcile E req) (\<lambda>_ w'. P (calls w')) w \<and>
    wp (globaldatasource_Reconcile E req) (\<lambda>_ w'. P (calls w')) w"
proof -
  have disciplined: "wp m (\<lambda>_ w'. P (calls w')) w" if "wp m (\<lambda>_ w'. log_ok E (calls w')) w" for m :: "'a go"
    by (rule wp_mono [OF that]) (rule assms(3))
  have "wp (perses_Reconcile E cfg invalidator req) (\<lambda>_ w'. log_ok E (calls w')) w"
    using alongD [OF perses_Reconcile_log [OF assms(1)]] by (rule wp_mono) (use assms(2) in \<open>simp add: keeps_log_def\<close>)
  then show ?thesis
    by (intro conjI) (simp_all add: disciplined dctl.Reconcile_disciplined [OF assms(1,2)] sctl.Reconcile_disciplined [OF assms(1,2)]
      gctl.Reconcile_disciplined [OF assms(1,2)])
qed

end
