(* ===== verification/Startup.thy ===== *)
theory Startup
  imports Workloads
begin

text \<open>
  The start of the program: what the informer cache holds (\<^verbatim>\<open>internal/cache/options.go\<close>), the TLS
  settings (\<^verbatim>\<open>internal/tls/tls.go\<close>, \<^verbatim>\<open>internal/openshift/tls_profile.go\<close>) and \<^verbatim>\<open>main.go\<close>, which
  validates the settings and registers the parts of the operator with the manager. The library calls
  are parameters; log output is left out.
\<close>

section \<open>The cache\<close>

definition PersesWatchLabel :: string where "PersesWatchLabel = ''perses.dev/watch''"
definition PersesWatchLabelValue :: string where "PersesWatchLabelValue = ''true''"
definition PersesManagedByLabel :: string where "PersesManagedByLabel = ''app.kubernetes.io/managed-by''"
definition PersesManagedByValue :: string where "PersesManagedByValue = ''perses-operator''"

lemmas startup_consts [go_const] =
  PersesWatchLabel_def PersesWatchLabelValue_def PersesManagedByLabel_def PersesManagedByValue_def

text \<open>The type of object that an entry of the options is for, and an object on its way into the cache.\<close>

datatype cached_type = ADeployment | AStatefulSet | AConfigMap | AService | ASecret | AAPIServer

datatype cached_obj = CachedSecret k8s_secret | CachedOther json

record by_object =
  BO_Label :: "selector option"
  BO_Transform :: "(cached_obj \<Rightarrow> cached_obj) option"

record cache_options =
  CO_DefaultTransform_StripManagedFields :: bool
  CO_ByObject :: "(cached_type, by_object) gomap"

text \<open>\<open>parse\<close> is \<open>labels.Parse\<close>; a \<open>nil\<close> selector is \<open>None\<close>.\<close>

definition ParseSecretLabelSelector :: "(string \<Rightarrow> error + selector) \<Rightarrow> string \<Rightarrow> error + selector option" where
  "ParseSecretLabelSelector parse raw = (if raw = [] then Inr None else andThen (parse raw) (\<lambda>sel. Inr (Some sel)))"

text \<open>
  The closure of the entry for secrets. \<open>ManagedFields\<close> and \<open>StringData\<close>, which it also clears, are no
  fields of the model: nothing reads them.
\<close>

fun strip_secret :: "cached_obj \<Rightarrow> cached_obj" where
  "strip_secret (CachedSecret sec) = CachedSecret (sec\<lparr>Secret_Data := []\<rparr>)"
| "strip_secret (CachedOther ob) = CachedOther ob"

definition buildCacheByObject :: "selector option \<Rightarrow> bool \<Rightarrow> bool \<Rightarrow> (cached_type, by_object) gomap" where
  "buildCacheByObject secretSelector watchAllSecrets tlsClusterProfile =
     (let managedBySelector = SelectorFromSet [(PersesManagedByLabel, PersesManagedByValue)];
          managed = \<lparr>BO_Label = Some managedBySelector, BO_Transform = None\<rparr>;
          byObject = [(ADeployment, managed), (AStatefulSet, managed), (AConfigMap, managed), (AService, managed)];
          secretEntry = \<lparr>BO_Label = None, BO_Transform = Some strip_secret\<rparr>;
          secretEntry =
            (if \<not> watchAllSecrets
             then (let sel = (case secretSelector of
                                None \<Rightarrow> Some (SelectorFromSet [(PersesWatchLabel, PersesWatchLabelValue)])
                              | Some s \<Rightarrow> Some s)
                   in secretEntry\<lparr>BO_Label := sel\<rparr>)
             else secretEntry);
          byObject = mset_key ASecret secretEntry byObject
      in if tlsClusterProfile then mset_key AAPIServer \<lparr>BO_Label = Some Everything, BO_Transform = None\<rparr> byObject
         else byObject)"

definition BuildCacheOptions :: "selector option \<Rightarrow> bool \<Rightarrow> bool \<Rightarrow> cache_options" where
  "BuildCacheOptions secretSelector watchAllSecrets tlsClusterProfile =
     \<lparr>CO_DefaultTransform_StripManagedFields = True,
      CO_ByObject = buildCacheByObject secretSelector watchAllSecrets tlsClusterProfile\<rparr>"

section \<open>TLS settings\<close>

type_synonym uint16 = "16 word"

record tls_profile_spec =
  Profile_Ciphers :: "string list"
  Profile_MinTLSVersion :: string

text \<open>
  A step of the start, for which the library answers with an error or not. \<open>GetConfigOrDie\<close> ends the
  program itself when it fails, and so does \<open>Must\<close> when the API of OpenShift cannot be installed in the scheme.
\<close>

datatype setup_step =
    GetConfig | InstallConfigAPI | NewClient | NewManager | ProfileWatcher | Controller string | Webhook string
  | AddHealthzCheck | AddReadyzCheck | is_MarkReady: MarkReady string | StartManager

record start_lib =
  labels_Parse :: "string \<Rightarrow> error + selector"
  flag_TLSVersion :: "string \<Rightarrow> error + uint16"
  flag_TLSCipherSuites :: "string list \<Rightarrow> error + uint16 list"
  FetchAPIServerTLSProfile :: "error + tls_profile_spec"
  OpenSSLToIANACipherSuites :: "string list \<Rightarrow> string list"
  step_error :: "setup_step \<Rightarrow> error option"
  env_ENABLE_WEBHOOKS :: string

definition ParseTLSVersion :: "start_lib \<Rightarrow> string \<Rightarrow> error + uint16" where
  "ParseTLSVersion L versionStr =
     (if versionStr = [] then Inr 0 else andThen (flag_TLSVersion L versionStr) (\<lambda>version. Inr version))"

text \<open>The loop over the names: \<open>trimmed\<close> is what was kept so far.\<close>

fun trim_names :: "string list \<Rightarrow> string list \<Rightarrow> string list" where
  "trim_names trimmed [] = trimmed"
| "trim_names trimmed (name # names) =
     (let name = TrimSpace name in trim_names (if name \<noteq> [] then trimmed @ [name] else trimmed) names)"

definition ParseCipherSuites :: "start_lib \<Rightarrow> string \<Rightarrow> error + uint16 list" where
  "ParseCipherSuites L cipherSuitesStr =
     (if cipherSuitesStr = [] then Inr []
      else (let names = Split (CHR '','') cipherSuitesStr;
                trimmed = trim_names [] names
            in if trimmed = [] then Inr [] else flag_TLSCipherSuites L trimmed))"

record server_tls =
  NextProtos :: "string list"
  MinVersion :: uint16
  CipherSuites :: "uint16 list"

definition ConfigureTLS :: "uint16 \<Rightarrow> uint16 list \<Rightarrow> bool \<Rightarrow> server_tls \<Rightarrow> server_tls" where
  "ConfigureTLS minVersion cipherSuites enableHTTP2 c =
     (let c = (if \<not> enableHTTP2 then c\<lparr>NextProtos := [''http/1.1'']\<rparr> else c);
          c = (if minVersion \<noteq> 0 then c\<lparr>MinVersion := minVersion\<rparr> else c)
      in if length cipherSuites > 0 then c\<lparr>CipherSuites := cipherSuites\<rparr> else c)"

definition FetchTLSProfile :: "start_lib \<Rightarrow> error + (string \<times> string \<times> tls_profile_spec)" where
  "FetchTLSProfile L =
     andThen (FetchAPIServerTLSProfile L) (\<lambda>profileSpec.
       let minVersion = Profile_MinTLSVersion profileSpec;
           cipherSuites = (if length (Profile_Ciphers profileSpec) > 0
                           then Join '','' (OpenSSLToIANACipherSuites L (Profile_Ciphers profileSpec)) else [])
       in Inr (minVersion, cipherSuites, profileSpec))"

text \<open>
  The callback that the watcher of the profile runs at every change: the state is whether the
  \<open>sync.Once\<close> was used and how often the context was cancelled.
\<close>

record profile_watcher =
  cancelOnce_done :: bool
  cancelled :: nat

definition OnProfileChange :: "profile_watcher \<Rightarrow> profile_watcher" where
  "OnProfileChange pw =
     (if cancelOnce_done pw then pw else pw\<lparr>cancelOnce_done := True, cancelled := Suc (cancelled pw)\<rparr>)"

text \<open>
  The watcher that is set up with the manager: the profile it starts from, its callback and the state
  of the callback.
\<close>

record security_profile_watcher =
  InitialTLSProfileSpec :: tls_profile_spec
  Watcher_OnProfileChange :: "profile_watcher \<Rightarrow> profile_watcher"
  Watcher_state :: profile_watcher

definition SetupProfileWatcher :: "start_lib \<Rightarrow> tls_profile_spec \<Rightarrow> error + security_profile_watcher" where
  "SetupProfileWatcher L profileSpec =
     (let watcher = \<lparr>InitialTLSProfileSpec = profileSpec, Watcher_OnProfileChange = OnProfileChange,
                     Watcher_state = \<lparr>cancelOnce_done = False, cancelled = 0\<rparr>\<rparr>
      in case step_error L ProfileWatcher of Some e \<Rightarrow> Inl e | None \<Rightarrow> Inr watcher)"

section \<open>The program\<close>

text \<open>The image of \<^verbatim>\<open>internal/operator/defaults.go\<close>.\<close>

definition DefaultPersesVersion :: string where "DefaultPersesVersion = ''v0.54.0''"
definition DefaultPersesBaseImage :: string where "DefaultPersesBaseImage = ''docker.io/persesdev/perses''"
definition DefaultPersesImage :: string where "DefaultPersesImage = DefaultPersesBaseImage @ '':'' @ DefaultPersesVersion"

text \<open>
  The flags and their defaults; \<open>persesServerURL\<close> is bound to a variable that nothing reads, the client
  factory looks the flag up by its name.
\<close>

record flags =
  metricsAddr :: string
  probeAddr :: string
  webhookPort :: int
  certDir :: string
  enableLeaderElection :: bool
  persesServerURL :: string
  persesImage :: string
  enableHTTP2 :: bool
  watchSecretLabelsFlag :: string
  watchAllSecrets :: bool
  tlsMinVersion :: string
  tlsCipherSuites :: string
  tlsClusterProfile :: bool
  tlsConfigureOperands :: bool

definition default_flags :: flags where
  "default_flags =
     \<lparr>metricsAddr = '':8082'', probeAddr = '':8081'', webhookPort = 9443, certDir = ''/tmp/k8s-webhook-server/serving-certs'',
      enableLeaderElection = False, persesServerURL = [], persesImage = DefaultPersesImage, enableHTTP2 = False, watchSecretLabelsFlag = [], watchAllSecrets = False,
      tlsMinVersion = [], tlsCipherSuites = [], tlsClusterProfile = False, tlsConfigureOperands = False\<rparr>"

record settings =
  cacheOpts :: cache_options
  reconcilerConfig :: config
  tlsConfigFunc :: "server_tls \<Rightarrow> server_tls"
  initialProfileSpec :: tls_profile_spec

definition step :: "start_lib \<Rightarrow> setup_step \<Rightarrow> error + unit" where
  "step L s = (case step_error L s of None \<Rightarrow> Inr () | Some e \<Rightarrow> Inl e)"

text \<open>
  The TLS strings that are in force and what they were parsed to. The flags are parsed first, even
  where the profile of the cluster replaces them.
\<close>

definition tls_settings :: "start_lib \<Rightarrow> flags \<Rightarrow> error + (string \<times> string \<times> uint16 \<times> uint16 list \<times> tls_profile_spec)" where
  "tls_settings L F =
     andThen (ParseTLSVersion L (tlsMinVersion F)) (\<lambda>parsedTLSMinVersion.
     andThen (ParseCipherSuites L (tlsCipherSuites F)) (\<lambda>parsedCipherSuites.
     if tlsClusterProfile F then
       andThen (step L InstallConfigAPI) (\<lambda>_.
       andThen (step L GetConfig) (\<lambda>_.
       andThen (step L NewClient) (\<lambda>_.
       andThen (FetchTLSProfile L) (\<lambda>(profileMinVersion, profileCipherSuites, profileSpec).
       andThen (ParseTLSVersion L profileMinVersion) (\<lambda>parsedTLSMinVersion.
       andThen (ParseCipherSuites L profileCipherSuites) (\<lambda>parsedCipherSuites.
       Inr (profileMinVersion, profileCipherSuites, parsedTLSMinVersion, parsedCipherSuites, profileSpec)))))))
     else Inr (tlsMinVersion F, tlsCipherSuites F, parsedTLSMinVersion, parsedCipherSuites,
               \<lparr>Profile_Ciphers = [], Profile_MinTLSVersion = []\<rparr>)))"

definition main_settings :: "start_lib \<Rightarrow> flags \<Rightarrow> error + settings" where
  "main_settings L F =
     andThen (ParseSecretLabelSelector (labels_Parse L) (watchSecretLabelsFlag F)) (\<lambda>secretSelector.
     andThen (tls_settings L F) (\<lambda>(minVersion, cipherSuites, parsedTLSMinVersion, parsedCipherSuites, profileSpec).
     Inr \<lparr>cacheOpts = BuildCacheOptions secretSelector (watchAllSecrets F) (tlsClusterProfile F),
          reconcilerConfig = \<lparr>PersesImage = persesImage F, TLSMinVersion = minVersion, TLSCipherSuites = cipherSuites,
                              TLSConfigureOperands = tlsConfigureOperands F\<rparr>,
          tlsConfigFunc = ConfigureTLS parsedTLSMinVersion parsedCipherSuites (enableHTTP2 F),
          initialProfileSpec = profileSpec\<rparr>))"

text \<open>What the manager is made with: the addresses and the two servers with their TLS functions.\<close>

record manager_opts =
  Metrics_BindAddress :: string
  Metrics_TLSOpts :: "(server_tls \<Rightarrow> server_tls) list"
  Webhook_Port :: int
  Webhook_CertDir :: string
  Webhook_TLSOpts :: "(server_tls \<Rightarrow> server_tls) list"
  HealthProbeBindAddress :: string
  LeaderElection :: bool
  LeaderElectionID :: string
  PprofBindAddress :: string
  Manager_Cache :: cache_options

definition manager_options :: "flags \<Rightarrow> settings \<Rightarrow> manager_opts" where
  "manager_options F s =
     \<lparr>Metrics_BindAddress = metricsAddr F, Metrics_TLSOpts = [tlsConfigFunc s],
      Webhook_Port = webhookPort F, Webhook_CertDir = certDir F, Webhook_TLSOpts = [tlsConfigFunc s],
      HealthProbeBindAddress = probeAddr F, LeaderElection = enableLeaderElection F, LeaderElectionID = ''ec4eff3a.perses.dev'',
      PprofBindAddress = ''127.0.0.1:8083'', Manager_Cache = cacheOpts s\<rparr>"

text \<open>
  From here on \<open>main\<close> registers one thing after the other. The state is the list of the steps that were tried,
  the result is the exit code. \<open>or_exit\<close> is the block \<open>if err := ...; err != nil { os.Exit(1) }\<close> before the rest of the
  program; a gauge is set without an error.
\<close>

type_synonym 'a starting = "(setup_step list, 'a) state"

definition registering :: "start_lib \<Rightarrow> setup_step \<Rightarrow> (error option) starting" where
  "registering L s = State (\<lambda>trace. (step_error L s, trace @ [s]))"

definition mark_ready :: "string \<Rightarrow> unit starting" where
  "mark_ready controller = State (\<lambda>trace. ((), trace @ [MarkReady controller]))"

definition or_exit :: "(error option) starting \<Rightarrow> nat starting \<Rightarrow> nat starting" where
  "or_exit m rest = do {
     err \<leftarrow> m;
     case err of Some e \<Rightarrow> State_Monad.return 1 | None \<Rightarrow> rest
   }"

definition main_checks :: "start_lib \<Rightarrow> nat starting" where
  "main_checks L =
     or_exit (registering L AddHealthzCheck) (
     or_exit (registering L AddReadyzCheck) (do {
       _ \<leftarrow> mark_ready ''perses'';
       _ \<leftarrow> mark_ready ''persesdashboard'';
       _ \<leftarrow> mark_ready ''persesdatasource'';
       _ \<leftarrow> mark_ready ''persesglobaldatasource'';
       or_exit (registering L StartManager) (State_Monad.return 0)
     }))"

definition main_webhooks :: "start_lib \<Rightarrow> nat starting" where
  "main_webhooks L =
     (if env_ENABLE_WEBHOOKS L \<noteq> ''false'' then
        or_exit (registering L (Webhook ''Perses'')) (
        or_exit (registering L (Webhook ''PersesDatasource'')) (
        or_exit (registering L (Webhook ''PersesDashboard'')) (main_checks L)))
      else main_checks L)"

definition main_controllers :: "start_lib \<Rightarrow> nat starting" where
  "main_controllers L =
     or_exit (registering L (Controller ''Perses'')) (
     or_exit (registering L (Controller ''PersesDashboard'')) (
     or_exit (registering L (Controller ''PersesDatasource'')) (
     or_exit (registering L (Controller ''PersesGlobalDatasource'')) (main_webhooks L))))"

definition main :: "start_lib \<Rightarrow> flags \<Rightarrow> nat starting" where
  "main L F =
     (case main_settings L F of
        Inl e \<Rightarrow> State_Monad.return 1
      | Inr s \<Rightarrow>
          or_exit (registering L GetConfig) (
          or_exit (registering L NewManager) (
          if tlsClusterProfile F then or_exit (registering L ProfileWatcher) (main_controllers L)
          else main_controllers L)))"

section \<open>What the cache sees\<close>

text \<open>
  \<open>matches\<close> is the method \<open>Matches\<close> of a selector. Documented of it is that a selector made from a set
  of labels asks for each of them, and that everything matches \<open>Everything\<close>.
\<close>

definition selector_law :: "(selector \<Rightarrow> strmap \<Rightarrow> bool) \<Rightarrow> bool" where
  "selector_law matches \<longleftrightarrow>
     (\<forall>m ls. matches (SelectorFromSet m) ls \<longleftrightarrow> (\<forall>(k, v) \<in> set m. mget ls k = Some v)) \<and> (\<forall>ls. matches Everything ls)"

definition cached_with :: "(selector \<Rightarrow> strmap \<Rightarrow> bool) \<Rightarrow> cache_options \<Rightarrow> cached_type \<Rightarrow> strmap \<Rightarrow> bool" where
  "cached_with matches opts ty ls =
     (case mget (CO_ByObject opts) ty of
        None \<Rightarrow> True
      | Some entry \<Rightarrow> (case BO_Label entry of None \<Rightarrow> True | Some sel \<Rightarrow> matches sel ls))"

lemma add_labels_keeps: "mget m k = Some v \<Longrightarrow> mget (add_labels m user) k = Some v"
proof (induction m user rule: add_labels.induct)
  case (2 m label v' rest)
  then show ?case by (cases "k = label") (auto split: option.splits)
qed simp

lemma LabelsForPerses_managed: "mget (LabelsForPerses E n p) PersesManagedByLabel = Some PersesManagedByValue"
proof -
  have "mget (default_labels E n p) PersesManagedByLabel = Some PersesManagedByValue"
    by (simp add: default_labels_def mget_def go_const)
  then show ?thesis by (auto simp: LabelsForPerses_def add_labels_keeps split: option.splits)
qed

lemma managed_entries:
  assumes "ty \<in> {ADeployment, AStatefulSet, AConfigMap, AService}"
  shows "\<exists>entry. mget (CO_ByObject (BuildCacheOptions sel all cluster)) ty = Some entry \<and>
    BO_Label entry = Some (SelectorFromSet [(PersesManagedByLabel, PersesManagedByValue)])"
  using assms by (cases cluster) (auto simp: BuildCacheOptions_def buildCacheByObject_def Let_def mget_Cons)

lemma managed_cached:
  assumes "selector_law matches" and "ty \<in> {ADeployment, AStatefulSet, AConfigMap, AService}"
    and "mget ls PersesManagedByLabel = Some PersesManagedByValue"
  shows "cached_with matches (BuildCacheOptions sel all cluster) ty ls"
proof -
  obtain entry where "mget (CO_ByObject (BuildCacheOptions sel all cluster)) ty = Some entry"
      "BO_Label entry = Some (SelectorFromSet [(PersesManagedByLabel, PersesManagedByValue)])"
    using managed_entries [OF assms(2)] by blast
  then show ?thesis using assms(1,3) by (simp add: cached_with_def selector_law_def)
qed

section \<open>Lemmas on the settings\<close>

lemma andThen_Inr: "andThen r k = Inr y \<longleftrightarrow> (\<exists>x. r = Inr x \<and> k x = Inr y)"
  by (cases r) auto

lemma trim_names_eq: "trim_names acc names = acc @ filter (\<lambda>n. n \<noteq> []) (map TrimSpace names)"
  by (induction acc names rule: trim_names.induct) (auto simp: Let_def)

lemma dropWhile_none: "(\<forall>x \<in> set xs. \<not> P x) \<Longrightarrow> dropWhile P xs = xs"
  by (cases xs) auto

lemma TrimSpace_id: "(\<forall>c \<in> set s. \<not> is_space c) \<Longrightarrow> TrimSpace s = s"
  by (simp add: TrimSpace_def trim_by_def dropWhile_none)

lemma run_or_exit:
  "run_state (or_exit (registering L s) rest) trace =
     (if step_error L s = None then run_state rest (trace @ [s]) else (1, trace @ [s]))"
  by (simp add: or_exit_def registering_def split: option.split)

lemma run_mark_ready: "run_state (State_Monad.bind (mark_ready c) f) trace = run_state (f ()) (trace @ [MarkReady c])"
  by (simp add: mark_ready_def)

section \<open>Properties\<close>

text \<open>
  C18: the operator sees what it created. Every Service, ConfigMap, Deployment and StatefulSet that it
  builds carries the label that the cache of the operator selects objects of its type by, whatever
  labels the user asked for: no created object is invisible to the look-up of the next
  reconciliation.
\<close>

theorem created_objects_are_cached:
  assumes "selector_law matches"
  shows "(\<forall>s. snd (createPersesService E n p) = Inr s \<longrightarrow>
      cached_with matches (BuildCacheOptions sel all cluster) AService (nilmap (Labels s))) \<and>
    (\<forall>c. createPersesConfigMap E p = Inr c \<longrightarrow>
      cached_with matches (BuildCacheOptions sel all cluster) AConfigMap (nilmap (Labels c))) \<and>
    (\<forall>d. snd (createPersesDeployment E cfg p) = Inr d \<longrightarrow>
      cached_with matches (BuildCacheOptions sel all cluster) ADeployment (nilmap (Labels d))) \<and>
    (\<forall>t. snd (createPersesStatefulSet E cfg p) = Inr t \<longrightarrow>
      cached_with matches (BuildCacheOptions sel all cluster) AStatefulSet (nilmap (Labels t)))"
proof -
  let ?managed = "\<lambda>ls. mget (nilmap ls) PersesManagedByLabel = Some PersesManagedByValue"
  note cached = managed_cached [OF assms] and defs = Let_def new_meta_def object_meta.defs nilmap_def LabelsForPerses_managed
  have "?managed (Labels s)" if "snd (createPersesService E n p) = Inr s" for s
    using that by (auto simp: createPersesService_def service.defs defs split: sum.splits)
  moreover have "?managed (Labels c)" if "createPersesConfigMap E p = Inr c" for c
    using that by (auto simp: createPersesConfigMap_def config_map.defs defs split: sum.splits)
  moreover have "?managed (Labels d)" if "snd (createPersesDeployment E cfg p) = Inr d" for d
    using that by (auto simp: createPersesDeployment_def deployment.defs defs split: sum.splits prod.splits)
  moreover have "?managed (Labels t)" if "snd (createPersesStatefulSet E cfg p) = Inr t" for t
    using that by (auto simp: createPersesStatefulSet_def statefulset.defs defs split: sum.splits prod.splits)
  ultimately show ?thesis by (auto intro!: cached)
qed

text \<open>
  C25: one set of TLS settings. When the program accepts its settings, the strings that the operands
  will get parse to exactly the version and cipher suites that both servers of the operator, for the
  metrics and for the webhooks, are configured with; they are those of the cluster's profile when the profile is asked for, and those of
  the flags otherwise. The flags must parse in either case.
\<close>

theorem startup_tls_consistent:
  assumes "main_settings L F = Inr s"
  shows "\<exists>v cs. ParseTLSVersion L (TLSMinVersion (reconcilerConfig s)) = Inr v \<and>
      ParseCipherSuites L (TLSCipherSuites (reconcilerConfig s)) = Inr cs \<and>
      Metrics_TLSOpts (manager_options F s) = [ConfigureTLS v cs (enableHTTP2 F)] \<and>
      Webhook_TLSOpts (manager_options F s) = [ConfigureTLS v cs (enableHTTP2 F)] \<and>
      (if tlsClusterProfile F
       then FetchTLSProfile L = Inr (TLSMinVersion (reconcilerConfig s), TLSCipherSuites (reconcilerConfig s), initialProfileSpec s)
       else TLSMinVersion (reconcilerConfig s) = tlsMinVersion F \<and> TLSCipherSuites (reconcilerConfig s) = tlsCipherSuites F) \<and>
      (\<exists>v'. ParseTLSVersion L (tlsMinVersion F) = Inr v') \<and> (\<exists>cs'. ParseCipherSuites L (tlsCipherSuites F) = Inr cs')"
  using assms by (auto simp: manager_options_def main_settings_def tls_settings_def andThen_Inr split: if_splits)

text \<open>
  C36: the cipher suites of the cluster reach the parser unchanged. The names that the library gives
  for the cipher suites of the profile are joined into one string, which is later split and trimmed
  again: where no name is empty or contains a comma or white space, the library is asked for exactly
  these names, in their order.
\<close>

theorem cluster_ciphers_survive:
  assumes "FetchAPIServerTLSProfile L = Inr prof" and "Profile_Ciphers prof \<noteq> []"
    and "OpenSSLToIANACipherSuites L (Profile_Ciphers prof) = names" and "names \<noteq> []"
    and "\<forall>n \<in> set names. n \<noteq> [] \<and> CHR '','' \<notin> set n \<and> (\<forall>c \<in> set n. \<not> is_space c)"
  shows "\<exists>v cs. FetchTLSProfile L = Inr (v, cs, prof) \<and> v = Profile_MinTLSVersion prof \<and>
    ParseCipherSuites L cs = flag_TLSCipherSuites L names"
proof -
  have split: "Split (CHR '','') (Join '','' names) = names" using assms(4,5) by (intro Split_Join) auto
  have "map TrimSpace names = names" using assms(5) by (intro map_idI) (auto intro: TrimSpace_id)
  moreover have "filter (\<lambda>n. n \<noteq> []) names = names" using assms(5) by (simp add: filter_id_conv)
  ultimately have trim: "trim_names [] names = names" by (simp add: trim_names_eq)
  have "Join '','' names \<noteq> []" using split assms(4,5) by (metis Split.simps(1) list.set_intros(1))
  with assms split trim show ?thesis by (simp add: FetchTLSProfile_def ParseCipherSuites_def)
qed

text \<open>A watcher that is set up ends the program once, however often the profile changes.\<close>

lemma profile_change_cancels_once:
  assumes "SetupProfileWatcher L profileSpec = Inr wt"
  shows "cancelled ((Watcher_OnProfileChange wt ^^ Suc n) (Watcher_state wt)) = 1"
proof -
  have "(OnProfileChange ^^ Suc n) \<lparr>cancelOnce_done = False, cancelled = 0\<rparr> = \<lparr>cancelOnce_done = True, cancelled = 1\<rparr>"
    by (induction n) (simp_all add: OnProfileChange_def)
  then show ?thesis using assms by (auto simp: SetupProfileWatcher_def Let_def split: option.splits)
qed

end
