(* ===== verification/Watches.thy ===== *)
theory Watches
  imports Telemetry Startup Provisioning
begin

text \<open>
  How the controllers are set up (their methods \<open>SetupWithManager\<close>): the kind that each reconciles, the
  kinds that it owns and the kinds that it watches, each in full or by its metadata only. With the
  options of the cache this decides what the informer cache holds of an object.
\<close>

section \<open>The set-up of the controllers\<close>

record watch =
  Watch_kind :: kind
  Watch_Metadata :: bool
  Watch_handler :: "string \<Rightarrow> string \<Rightarrow> (namespaced_name list) go"
  Watch_accepts :: "watch_event \<Rightarrow> bool"

record controller_setup =
  Setup_For :: kind
  Setup_OnlyMetadata :: bool
  Setup_Owns :: "kind list"
  Setup_Watches :: "watch list"

text \<open>A handler gets the namespace and the name of the object that changed; without a predicate every event counts.\<close>

definition perses_SetupWithManager :: "env \<Rightarrow> controller_setup" where
  "perses_SetupWithManager E =
     \<lparr>Setup_For = PersesKind, Setup_OnlyMetadata = False,
      Setup_Owns = [DeploymentKind, StatefulSetKind, ConfigMapKind, ServiceKind],
      Setup_Watches = [
        \<lparr>Watch_kind = SecretKind, Watch_Metadata = True, Watch_handler = findPersesForSecret E, Watch_accepts = (\<lambda>_. True)\<rparr>]\<rparr>"

definition dashboard_SetupWithManager :: "env \<Rightarrow> controller_setup" where
  "dashboard_SetupWithManager E =
     \<lparr>Setup_For = DashboardKind, Setup_OnlyMetadata = True, Setup_Owns = [],
      Setup_Watches = [
        \<lparr>Watch_kind = PersesKind, Watch_Metadata = False, Watch_handler = (\<lambda>_ _. findDashboardsForPerses E),
         Watch_accepts = PersesAvailabilityPredicate E\<rparr>]\<rparr>"

definition datasource_SetupWithManager :: "env \<Rightarrow> controller_setup" where
  "datasource_SetupWithManager E =
     \<lparr>Setup_For = DatasourceKind, Setup_OnlyMetadata = True, Setup_Owns = [],
      Setup_Watches = [
        \<lparr>Watch_kind = PersesKind, Watch_Metadata = False, Watch_handler = (\<lambda>_ _. findDatasourcesForPerses E),
         Watch_accepts = PersesAvailabilityPredicate E\<rparr>]\<rparr>"

definition globaldatasource_SetupWithManager :: "env \<Rightarrow> controller_setup" where
  "globaldatasource_SetupWithManager E =
     \<lparr>Setup_For = GlobalDatasourceKind, Setup_OnlyMetadata = True, Setup_Owns = [],
      Setup_Watches = [
        \<lparr>Watch_kind = PersesKind, Watch_Metadata = False, Watch_handler = (\<lambda>_ _. findGlobalDatasourcesForPerses E),
         Watch_accepts = PersesAvailabilityPredicate E\<rparr>]\<rparr>"

definition controllers :: "env \<Rightarrow> controller_setup list" where
  "controllers E = [perses_SetupWithManager E, dashboard_SetupWithManager E, datasource_SetupWithManager E,
     globaldatasource_SetupWithManager E]"

lemmas setup_defs = controllers_def perses_SetupWithManager_def dashboard_SetupWithManager_def datasource_SetupWithManager_def
  globaldatasource_SetupWithManager_def

section \<open>What the cache holds\<close>

definition kinds_in_full :: "controller_setup \<Rightarrow> kind list" where
  "kinds_in_full s = (if Setup_OnlyMetadata s then [] else [Setup_For s]) @ Setup_Owns s @
     map Watch_kind (filter (\<lambda>wt. \<not> Watch_Metadata wt) (Setup_Watches s))"

definition kinds_by_metadata :: "controller_setup \<Rightarrow> kind list" where
  "kinds_by_metadata s = (if Setup_OnlyMetadata s then [Setup_For s] else []) @
     map Watch_kind (filter Watch_Metadata (Setup_Watches s))"

fun cached_type_of :: "kind \<Rightarrow> cached_type option" where
  "cached_type_of DeploymentKind = Some ADeployment"
| "cached_type_of StatefulSetKind = Some AStatefulSet"
| "cached_type_of ConfigMapKind = Some AConfigMap"
| "cached_type_of ServiceKind = Some AService"
| "cached_type_of SecretKind = Some ASecret"
| "cached_type_of _ = None"

text \<open>Nothing is cut off an object of the kind on its way into the cache (the managed fields apart).\<close>

definition untransformed :: "cache_options \<Rightarrow> kind \<Rightarrow> bool" where
  "untransformed opts k =
     (case cached_type_of k of
        None \<Rightarrow> True
      | Some ty \<Rightarrow> (case mget (CO_ByObject opts) ty of None \<Rightarrow> True | Some entry \<Rightarrow> BO_Transform entry = None))"

text \<open>
  In full means that an object of the kind which is in the cache has all its fields. Which objects are in it
  is another question: the cache selects the kinds that the operator creates by their label (the last section
  of theory \<open>Startup\<close>), so a look-up through the cache does not find an object of another owner.
\<close>

definition held_in_full :: "controller_setup list \<Rightarrow> cache_options \<Rightarrow> kind \<Rightarrow> bool" where
  "held_in_full cs opts k \<longleftrightarrow>
     k \<in> set (concat (map kinds_in_full cs)) \<and> k \<notin> set (concat (map kinds_by_metadata cs)) \<and> untransformed opts k"

text \<open>Every read of the log goes to the API server or is for a kind that the cache holds in full.\<close>

definition whole_reads :: "controller_setup list \<Rightarrow> cache_options \<Rightarrow> call list \<Rightarrow> bool" where
  "whole_reads cs opts log =
     list_all (\<lambda>c. case c of KGet rd k key \<Rightarrow> rd = APIReader \<or> held_in_full cs opts k | _ \<Rightarrow> True) log"

lemma served_whole_held:
  "served_whole Cached k \<longleftrightarrow> held_in_full (controllers E) (BuildCacheOptions sel all cluster) k"
  by (cases k; cases cluster; cases all; cases sel)
    (simp_all add: held_in_full_def setup_defs kinds_in_full_def kinds_by_metadata_def untransformed_def
      BuildCacheOptions_def buildCacheByObject_def Let_def mget_Cons)

lemma log_ok_whole: "log_ok E log \<Longrightarrow> whole_reads (controllers E) (BuildCacheOptions sel all cluster) log"
proof (induction log)
  case (Cons c log)
  have "served_whole rd k \<Longrightarrow> rd = APIReader \<or> held_in_full (controllers E) (BuildCacheOptions sel all cluster) k" for rd k
    using served_whole_held [of k E sel all cluster] by (cases rd) auto
  with Cons show ?case by (cases c) (simp_all add: whole_reads_def del: served_whole.simps)
qed (simp add: whole_reads_def)

text \<open>
  C11: no read of an object that the cache holds in part. The cache has Perses objects and the objects
  that the operator owns with all their fields, but dashboards, datasources and secrets by their metadata only, and of
  secrets it cuts off the data. In the log of any reconciliation, by any of the four controllers and
  whatever the services answer, every read goes to the API server itself or is for a kind that the
  set-up of the controllers and the options of the cache hold in full: no credential is ever read
  empty, and no dashboard without its specification.
\<close>

theorem cached_reads_are_whole:
  assumes "retry_law E" and "log_ok E (calls w)"
  shows "wp (perses_Reconcile E cfg invalidator req) (\<lambda>_ w'. whole_reads (controllers E) (BuildCacheOptions sel all cluster) (calls w')) w \<and>
    wp (dashboard_Reconcile E req) (\<lambda>_ w'. whole_reads (controllers E) (BuildCacheOptions sel all cluster) (calls w')) w \<and>
    wp (datasource_Reconcile E req) (\<lambda>_ w'. whole_reads (controllers E) (BuildCacheOptions sel all cluster) (calls w')) w \<and>
    wp (globaldatasource_Reconcile E req) (\<lambda>_ w'. whole_reads (controllers E) (BuildCacheOptions sel all cluster) (calls w')) w"
  using log_ok_whole by (rule every_controller [OF assms])

section \<open>What an event wakes\<close>

definition available :: "env \<Rightarrow> perses \<Rightarrow> bool" where
  "available E p = IsStatusConditionTrue E (Status_Conditions (Status p)) TypeAvailablePerses"

lemma accepted_event:
  "PersesAvailabilityPredicate E ev \<longleftrightarrow> (\<exists>p q. ev = UpdateEvent (KPerses p) (KPerses q) \<and> \<not> available E p \<and> available E q)"
  by (cases ev) (auto simp: PersesBecameAvailable_def available_def Let_def split: kobj.splits)

lemma MetadataListToRequests_spec:
  "wp (MetadataListToRequests E k) (\<lambda>reqs w'. calls w' = KListMeta k # calls w \<and>
     reqs = (case listMeta E (calls w) k of Inl _ \<Rightarrow> [] | Inr items \<Rightarrow> map meta_key items)) w"
  by (auto simp: MetadataListToRequests_def wp_simps meta_key_def split: sum.splits)

text \<open>The provisioning section of an instance refers to a secret of this name.\<close>

definition provisions :: "perses \<Rightarrow> string \<Rightarrow> bool" where
  "provisions p n \<longleftrightarrow> (\<exists>pr ref. Spec_Provisioning (Spec p) = Some pr \<and> ref \<in> set (SecretRefs pr) \<and> SecretKey_Name ref = n)"

lemma provisions_refs: "provisions p n \<longleftrightarrow> n \<in> SecretKey_Name ` set (secret_refs p)"
  by (cases "Spec_Provisioning (Spec p)") (auto simp: provisions_def secret_refs_def)

text \<open>
  C33: what the watches wake. Each of the three controllers of dashboards, datasources and global
  datasources watches the Perses objects: it takes no event but an update with which an instance becomes
  available, neither a creation nor a deletion, and then asks for the reconciliation of every object of its own kind
  in the list, so that none misses an instance that comes up later. The Perses controller takes every event of a
  secret, and asks for the instances of the secret's namespace whose provisioning section refers to a secret of this
  name, and for no other: an instance that names the secret only for TLS or as a credential is not woken. A
  list that fails wakes nothing.
\<close>

theorem what_events_wake:
  "list_all (\<lambda>s. case Setup_Watches s of
      [wt] \<Rightarrow> Watch_kind wt = PersesKind \<and>
        (\<forall>ev. Watch_accepts wt ev \<longleftrightarrow> (\<exists>p q. ev = UpdateEvent (KPerses p) (KPerses q) \<and> \<not> available E p \<and> available E q)) \<and>
        (\<forall>ob. \<not> Watch_accepts wt (CreateEvent ob) \<and> \<not> Watch_accepts wt (DeleteEvent ob)) \<and>
        wp (Watch_handler wt ns n) (\<lambda>reqs w'. calls w' = KListMeta (Setup_For s) # calls w \<and>
          reqs = (case listMeta E (calls w) (Setup_For s) of Inl _ \<Rightarrow> [] | Inr items \<Rightarrow> map meta_key items)) w
    | _ \<Rightarrow> False) [dashboard_SetupWithManager E, datasource_SetupWithManager E, globaldatasource_SetupWithManager E] \<and>
   (case Setup_Watches (perses_SetupWithManager E) of
      [wt] \<Rightarrow> Watch_kind wt = SecretKind \<and> (\<forall>ev. Watch_accepts wt ev) \<and>
        wp (Watch_handler wt ns n) (\<lambda>reqs w'. calls w' = KList (InNamespace ns) # calls w \<and>
          (case listPerses E (calls w) (InNamespace ns) of
             Inl _ \<Rightarrow> reqs = []
           | Inr items \<Rightarrow>
               length reqs = length (filter (\<lambda>p. provisions p n) items) \<and>
               set reqs = {meta_key p | p. p \<in> set items \<and> provisions p n})) w
    | _ \<Rightarrow> False)"
  using findPersesForSecret_spec [of E ns n w] unfolding provisions_refs
  by (simp add: setup_defs accepted_event findDashboardsForPerses_def findDatasourcesForPerses_def findGlobalDatasourcesForPerses_def
      MetadataListToRequests_spec provisions_refs)

end
