(* ===== verification/Observability.thy ===== *)
theory Observability
  imports ChildSync
begin

text \<open>
  What the operator reports about itself, over any sequence of reconciliations. The tracker and the
  table of the metrics are each compared with an abstract state: the last outcome of every object,
  and the states that an object has been seen in since it was last forgotten.
\<close>

section \<open>Events\<close>

text \<open>A reconciliation ended, or the object was found to be gone.\<close>

datatype event =
    Reconciled (ev_key: string) (ev_resource: string) (ev_namespace: string) (ev_message: string) (ev_error: "error option")
  | Gone (ev_key: string)

fun observe_tracker :: "event \<Rightarrow> tracker \<Rightarrow> tracker" where
  "observe_tracker (Reconciled key res ns msg err) rt =
     (let rt = SetStatus key err rt
      in if err = None then SetReasonAndMessage key ''ReconciliationSuccessful'' msg rt else rt)"
| "observe_tracker (Gone key) rt = Tracker_ForgetObject key rt"

fun observe_metrics :: "event \<Rightarrow> metrics \<Rightarrow> metrics" where
  "observe_metrics (Reconciled key res ns msg err) m =
     (if err = None then SetSyncedResources key res ns 1 m else SetFailedResources key res ns 1 m)"
| "observe_metrics (Gone key) m = Metrics_ForgetObject key m"

text \<open>This is what the end of every \<open>Reconcile\<close> does to the two tables.\<close>

lemma track_outcome_observes:
  "wp (track_outcome controller res ns msg key err) (\<lambda>_ w'.
     w_tracker w' = map_option (observe_tracker (Reconciled key res ns msg err)) (w_tracker w) \<and>
     w_metrics w' = map_option (observe_metrics (Reconciled key res ns msg err)) (w_metrics w)) w"
  by (auto simp: track_outcome_def if_tracker_def if_metrics_def wp_simps Let_def intro!: option.map_cong split: option.splits)

section \<open>Refinement\<close>

locale event_refinement =
  fixes inv :: "'c \<Rightarrow> bool" and abs :: "'c \<Rightarrow> 'a" and cstep :: "'e \<Rightarrow> 'c \<Rightarrow> 'c" and astep :: "'e \<Rightarrow> 'a \<Rightarrow> 'a"
  assumes step_inv: "inv c \<Longrightarrow> inv (cstep e c)"
    and step_abs: "inv c \<Longrightarrow> abs (cstep e c) = astep e (abs c)"
begin

lemma run_refines: "inv c \<Longrightarrow> inv (fold cstep es c) \<and> abs (fold cstep es c) = fold astep es (abs c)"
  by (induction es arbitrary: c) (simp_all add: step_inv step_abs)

end

subsection \<open>The tracker: the last outcome of every object\<close>

fun outcome_step :: "event \<Rightarrow> (string \<rightharpoonup> error option) \<Rightarrow> (string \<rightharpoonup> error option)" where
  "outcome_step (Reconciled key res ns msg err) m = m(key \<mapsto> err)"
| "outcome_step (Gone key) m = m(key := None)"

definition outcomes_of :: "tracker \<Rightarrow> (string \<rightharpoonup> error option)" where
  "outcomes_of rt k = map_option RS_err (tracked rt k)"

interpretation trr: event_refinement tracker_inv outcomes_of observe_tracker outcome_step
proof
  fix rt e assume inv: "tracker_inv rt"
  then show "tracker_inv (observe_tracker e rt)"
    by (cases e) (simp_all add: Let_def SetStatus_modify SetReasonAndMessage_modify tr.inv_modify tr.inv_forget)
  from inv show "outcomes_of (observe_tracker e rt) = outcome_step e (outcomes_of rt)"
    by (intro ext, cases e)
      (auto simp: outcomes_of_def Let_def SetStatus_modify SetReasonAndMessage_modify tr.inv_modify tr.lookup_modify tr.lookup_forget)
qed

lemma gomap_count:
  assumes "gomap m"
  shows "length (filter (\<lambda>(k, v). P v) m) = card {k. \<exists>v. mget m k = Some v \<and> P v}"
proof -
  have inj: "inj_on fst (set m)" and dist: "distinct m"
    using assms by (auto simp: gomap_def distinct_map)
  have "{k. \<exists>v. mget m k = Some v \<and> P v} = fst ` set (filter (\<lambda>(k, v). P v) m)"
    using assms by (force simp: mget_def gomap_def)
  moreover have "inj_on fst (set (filter (\<lambda>(k, v). P v) m))"
    using inj by (rule inj_on_subset) auto
  ultimately show ?thesis
    using dist distinct_card [of "filter (\<lambda>(k, v). P v) m"] by (simp add: card_image)
qed

lemma Tracker_Collect_outcomes:
  assumes "tracker_inv rt"
  shows "Tracker_Collect rt = (card {k. outcomes_of rt k = Some None}, card {k. \<exists>e. outcomes_of rt k = Some (Some e)})"
proof -
  have g: "gomap (nilmap (statusByObject rt))" using assms by (simp add: tracker_inv_def)
  have "{k. outcomes_of rt k = Some None} = {k. \<exists>s. mget (nilmap (statusByObject rt)) k = Some s \<and> RS_Ok s}"
    by (auto simp: outcomes_of_def tracked_def RS_Ok_def)
  moreover have "{k. \<exists>e. outcomes_of rt k = Some (Some e)} = {k. \<exists>s. mget (nilmap (statusByObject rt)) k = Some s \<and> \<not> RS_Ok s}"
    by (auto simp: outcomes_of_def tracked_def RS_Ok_def)
  ultimately show ?thesis
    by (simp add: Tracker_Collect_def collect_loop_counts gomap_count [OF g])
qed

subsection \<open>The metrics: the states an object has been seen in\<close>

fun seen_step :: "event \<Rightarrow> (resource_key \<times> string) set \<Rightarrow> (resource_key \<times> string) set" where
  "seen_step (Reconciled key res ns msg err) S =
     insert (\<lparr>RKey_resource = res, RKey_state = (if err = None then synced else failed), RKey_namespace = ns\<rparr>, key) S"
| "seen_step (Gone key) S = {(r, k) \<in> S. k \<noteq> key}"

definition seen_in :: "metrics \<Rightarrow> (resource_key \<times> string) set" where
  "seen_in m = {(r, k). count_of m r k \<noteq> None}"

text \<open>Every count that a reconciliation stores is one.\<close>

definition unit_counts :: "metrics \<Rightarrow> bool" where
  "unit_counts m \<longleftrightarrow> metrics_inv m \<and> (\<forall>r k v. count_of m r k = Some v \<longrightarrow> v = 1)"

interpretation mtr: event_refinement unit_counts seen_in observe_metrics seen_step
proof
  fix m e assume inv: "unit_counts m"
  then have m: "metrics_inv m" by (simp add: unit_counts_def)
  show "unit_counts (observe_metrics e m)"
    using inv by (cases e)
      (auto simp: unit_counts_def SetSyncedResources_def SetFailedResources_def mt.inv_store mt.inv_forget mt.count_store mt.count_forget
        split: if_splits)
  show "seen_in (observe_metrics e m) = seen_step e (seen_in m)"
    using m by (cases e)
      (auto simp: seen_in_def SetSyncedResources_def SetFailedResources_def mt.count_store mt.count_forget split: if_splits)
qed

lemma sum_values_length: "\<forall>(k, v) \<in> set m. v = 1 \<Longrightarrow> sum_values m = int (length m)"
  by (induction m rule: sum_values.induct) auto

lemma unit_counts_total:
  assumes "unit_counts m" and "(rk, inner) \<in> set (resources m)"
  shows "sum_values inner = int (card {k. (rk, k) \<in> seen_in m})" and "\<exists>k. (rk, k) \<in> seen_in m"
proof -
  have "mget (resources m) rk = Some inner" and inner: "gomap inner" "inner \<noteq> []"
    using assms by (auto simp: unit_counts_def metrics_inv_def gomap_def mget_def list_all_iff)
  then have count: "count_of m rk k = mget inner k" for k by (simp add: count_of_def)
  have "v = 1" if "(k, v) \<in> set inner" for k v
    using that inner(1) count [of k] assms(1) by (auto simp: unit_counts_def gomap_def mget_def)
  then have "sum_values inner = int (length (filter (\<lambda>(k, v). True) inner))" by (subst sum_values_length) auto
  also have "\<dots> = int (card {k. (rk, k) \<in> seen_in m})"
    unfolding gomap_count [OF inner(1)] by (simp add: seen_in_def count)
  finally show "sum_values inner = int (card {k. (rk, k) \<in> seen_in m})" .
  show "\<exists>k. (rk, k) \<in> seen_in m"
    using inner(2) count by (cases inner) (auto simp: seen_in_def mget_def)
qed

lemma seen_in_resources:
  "(rk, k) \<in> seen_in m \<Longrightarrow> \<exists>inner. (rk, inner) \<in> set (resources m)"
  by (auto simp: seen_in_def count_of_def mget_def split: option.splits dest: map_of_SomeD)

lemma seen_stays:
  "(r, k) \<in> S \<Longrightarrow> Gone k \<notin> set es \<Longrightarrow> (r, k) \<in> fold seen_step es S"
proof (induction es arbitrary: S)
  case (Cons e es)
  then have "(r, k) \<in> seen_step e S" by (cases e) auto
  with Cons show ?case by simp
qed simp

section \<open>Properties\<close>

text \<open>
  The tracker knows the last outcome of every object, and nothing else. After any sequence of
  reconciliations and deletions the status that \<open>GetStatus\<close> returns is that of the last reconciliation
  of the object since it was last forgotten, an object without one is unknown, and \<open>Collect\<close> reports
  how many objects last succeeded and how many last failed.
\<close>

lemma tracker_refines_outcomes:
  "let rt = fold observe_tracker es NewReconciliationTracker; last = fold outcome_step es Map.empty
   in (\<forall>k. case last k of
         None \<Rightarrow> \<not> snd (GetStatus k rt)
       | Some err \<Rightarrow> snd (GetStatus k rt) \<and> RS_err (fst (GetStatus k rt)) = err) \<and>
      Tracker_Collect rt = (card {k. last k = Some None}, card {k. \<exists>e. last k = Some (Some e)})"
proof -
  have empty: "outcomes_of NewReconciliationTracker = Map.empty"
    by (intro ext) (simp add: outcomes_of_def tracked_def NewReconciliationTracker_def nilmap_def)
  from trr.run_refines [OF tracker_inv_New, of es]
  have run: "tracker_inv (fold observe_tracker es NewReconciliationTracker)"
    "outcomes_of (fold observe_tracker es NewReconciliationTracker) = fold outcome_step es Map.empty"
    by (simp_all add: empty)
  show ?thesis
    unfolding Let_def run(2) [symmetric] Tracker_Collect_outcomes [OF run(1)]
    by (auto simp: outcomes_of_def GetStatus_tracked split: option.splits)
qed

text \<open>
  The gauge of managed resources. After any sequence of reconciliations and deletions \<open>Collect\<close>
  reports, for every resource, state and namespace, the number of objects that a reconciliation has
  left in that state since they were last forgotten, and reports no empty group.
\<close>

lemma metrics_refine_seen:
  "let m = fold observe_metrics es NewMetrics; S = fold seen_step es {}
   in set (Metrics_Collect m) =
     {(RKey_resource rk, resource_state_String (RKey_state rk), RKey_namespace rk, int (card {k. (rk, k) \<in> S})) | rk.
        \<exists>k. (rk, k) \<in> S}"
proof -
  have start: "unit_counts NewMetrics" "seen_in NewMetrics = {}"
    by (simp_all add: unit_counts_def seen_in_def count_of_def NewMetrics_def metrics_inv_def)
  let ?m = "fold observe_metrics es NewMetrics"
  from mtr.run_refines [OF start(1), of es] have run: "unit_counts ?m" "seen_in ?m = fold seen_step es {}"
    by (simp_all add: start(2))
  have "set (Metrics_Collect ?m) = (\<lambda>rk. (RKey_resource rk, resource_state_String (RKey_state rk), RKey_namespace rk,
      int (card {k. (rk, k) \<in> seen_in ?m}))) ` fst ` set (resources ?m)"
    using unit_counts_total(1) [OF run(1)] by (force simp: Metrics_Collect_def image_iff)
  moreover have "fst ` set (resources ?m) = {rk. \<exists>k. (rk, k) \<in> seen_in ?m}"
    using unit_counts_total(2) [OF run(1)] seen_in_resources by (force simp: image_iff)
  ultimately show ?thesis unfolding Let_def run(2) [symmetric] by (auto simp: image_iff)
qed

text \<open>
  C37: a recovered object is still counted as failed. Once a reconciliation of an object has failed,
  the object stays in the count of failed resources, however often it succeeds afterwards, until it is
  forgotten; after a success it is counted as synced and as failed at the same time.
\<close>

theorem failed_count_is_stale:
  assumes "Gone k \<notin> set mid"
  shows "\<forall>st. (\<lparr>RKey_resource = res, RKey_state = st, RKey_namespace = ns\<rparr>, k) \<in>
    seen_in (fold observe_metrics (before @ Reconciled k res ns msg (Some e) # mid @ [Reconciled k res ns msg' None]) NewMetrics)"
proof
  fix st
  have start: "unit_counts NewMetrics"
    by (simp add: unit_counts_def count_of_def NewMetrics_def metrics_inv_def)
  let ?r = "\<lambda>st. \<lparr>RKey_resource = res, RKey_state = st, RKey_namespace = ns\<rparr>"
  have "(?r failed, k) \<in> fold seen_step mid (seen_step (Reconciled k res ns msg (Some e)) S)" for S
    using seen_stays [OF _ assms] by simp
  then show "(?r st, k) \<in> seen_in (fold observe_metrics
      (before @ Reconciled k res ns msg (Some e) # mid @ [Reconciled k res ns msg' None]) NewMetrics)"
    unfolding conjunct2 [OF mtr.run_refines [OF start]] by (cases st) simp_all
qed

end
