(* ===== verification/GoHeap.thy ===== *)
theory GoHeap
  imports ApiTypes
begin

text \<open>
  A heap of Go values, for the code whose point is aliasing: the deep copies of the API types. In all
  other theories a struct is an immutable value; this theory and \<open>DeepCopy\<close> justify that.

  A value is a basic value, a reference (a pointer, a map or a slice, which may be \<open>nil\<close>) or a struct
  with its named fields; a cell of the heap is the target of a pointer, the array of a slice or the
  entries of a map. The type of a value decides how it is read: \<open>view\<close> follows all references of a value
  and yields the tree that it stands for and the addresses that it owns.
\<close>

section \<open>Values and heaps\<close>

type_synonym addr = nat

datatype gval = Prim json | Ref "addr option" | Struct "(string \<times> gval) list"

datatype cell = Cell gval | Arr "gval list" | Dict "(string \<times> gval) list"

record heap =
  mem :: "addr \<Rightarrow> cell option"
  next_addr :: addr

text \<open>A computation on the heap; \<open>None\<close> is a panic.\<close>

type_synonym 'a hp = "heap \<Rightarrow> ('a \<times> heap) option"

definition hreturn :: "'a \<Rightarrow> 'a hp" where
  "hreturn x h = Some (x, h)"

definition hbind :: "'a hp \<Rightarrow> ('a \<Rightarrow> 'b hp) \<Rightarrow> 'b hp" where
  "hbind m k h = (case m h of None \<Rightarrow> None | Some (x, h') \<Rightarrow> k x h')"

definition panic :: "'a hp" where
  "panic h = None"

definition load :: "addr \<Rightarrow> cell hp" where
  "load a h = map_option (\<lambda>c. (c, h)) (mem h a)"

definition store :: "addr \<Rightarrow> cell \<Rightarrow> unit hp" where
  "store a c h = Some ((), h\<lparr>mem := (mem h)(a := Some c)\<rparr>)"

definition alloc :: "cell \<Rightarrow> addr hp" where
  "alloc c h = Some (next_addr h, h\<lparr>mem := (mem h)(next_addr h := Some c), next_addr := Suc (next_addr h)\<rparr>)"

section \<open>The statements of a deep copy\<close>

text \<open>A copier takes the value to copy and returns the value to put in its place.\<close>

type_synonym copier = "gval \<Rightarrow> gval hp"

fun hmap :: "('a \<Rightarrow> 'b hp) \<Rightarrow> 'a list \<Rightarrow> 'b list hp" where
  "hmap f [] = hreturn []"
| "hmap f (x # xs) = hbind (f x) (\<lambda>y. hbind (hmap f xs) (\<lambda>ys. hreturn (y # ys)))"

text \<open>\<open>**out = **in\<close>, \<open>out.X = in.X\<close>, \<open>copy(*out, *in)\<close> and \<open>(*out)[key] = val\<close> copy as assignment does.\<close>

definition assign :: copier where
  "assign v = hreturn v"

text \<open>\<open>if in.X != nil { *out = new(T); ... }\<close>\<close>

definition copy_pointer :: "copier \<Rightarrow> copier" where
  "copy_pointer f v =
     (case v of
        Ref None \<Rightarrow> hreturn v
      | Ref (Some a) \<Rightarrow>
          hbind (load a) (\<lambda>c. case c of
            Cell x \<Rightarrow> hbind (alloc (Cell (Prim JNull))) (\<lambda>b. hbind (f x) (\<lambda>y. hbind (store b (Cell y)) (\<lambda>_. hreturn (Ref (Some b)))))
          | _ \<Rightarrow> panic)
      | _ \<Rightarrow> panic)"

text \<open>\<open>if in.X != nil { *out = make([]T, len( *in)); for i := range *in { ... } }\<close>\<close>

definition copy_slice :: "copier \<Rightarrow> copier" where
  "copy_slice f v =
     (case v of
        Ref None \<Rightarrow> hreturn v
      | Ref (Some a) \<Rightarrow>
          hbind (load a) (\<lambda>c. case c of
            Arr xs \<Rightarrow> hbind (alloc (Arr (replicate (length xs) (Prim JNull)))) (\<lambda>b.
                      hbind (hmap f xs) (\<lambda>ys. hbind (store b (Arr ys)) (\<lambda>_. hreturn (Ref (Some b)))))
          | _ \<Rightarrow> panic)
      | _ \<Rightarrow> panic)"

text \<open>\<open>if in.X != nil { *out = make(map[string]T, len( *in)); for key, val := range *in { ... } }\<close>\<close>

definition copy_map :: "copier \<Rightarrow> copier" where
  "copy_map f v =
     (case v of
        Ref None \<Rightarrow> hreturn v
      | Ref (Some a) \<Rightarrow>
          hbind (load a) (\<lambda>c. case c of
            Dict kvs \<Rightarrow> hbind (alloc (Dict [])) (\<lambda>b.
                        hbind (hmap (\<lambda>(k, x). hbind (f x) (\<lambda>y. hreturn (k, y))) kvs) (\<lambda>ys.
                        hbind (store b (Dict ys)) (\<lambda>_. hreturn (Ref (Some b)))))
          | _ \<Rightarrow> panic)
      | _ \<Rightarrow> panic)"

text \<open>
  The body of a generated \<open>DeepCopyInto\<close>: \<open>*out = *in\<close>, and then one statement for each of the listed
  fields, in their order.
\<close>

fun set_field :: "string \<Rightarrow> gval \<Rightarrow> (string \<times> gval) list \<Rightarrow> (string \<times> gval) list" where
  "set_field n v [] = []"
| "set_field n v ((m, w) # fs) = (if m = n then (m, v) # fs else (m, w) # set_field n v fs)"

fun copy_fields :: "(string \<times> copier) list \<Rightarrow> (string \<times> gval) list \<Rightarrow> (string \<times> gval) list \<Rightarrow> gval hp" where
  "copy_fields [] i out = hreturn (Struct out)"
| "copy_fields ((n, f) # ss) i out =
     (case map_of i n of
        None \<Rightarrow> panic
      | Some x \<Rightarrow> hbind (f x) (\<lambda>y. copy_fields ss i (set_field n y out)))"

definition deep_copy_into :: "(string \<times> copier) list \<Rightarrow> copier" where
  "deep_copy_into ss v = (case v of Struct i \<Rightarrow> copy_fields ss i i | _ \<Rightarrow> panic)"

text \<open>\<open>DeepCopy\<close> copies the target of a pointer into a new value; \<open>DeepCopyObject\<close> returns it as an interface.\<close>

definition deep_copy :: "copier \<Rightarrow> copier" where
  "deep_copy f v = copy_pointer f v"

definition deep_copy_object :: "copier \<Rightarrow> gval \<Rightarrow> (gval option) hp" where
  "deep_copy_object g v = hbind (g v) (\<lambda>c. hreturn (if c \<noteq> Ref None then Some c else None))"

section \<open>Types and views\<close>

datatype ty = TPrim | TPtr ty | TSlice ty | TMap ty | TStruct "(string \<times> ty) list"

datatype tree = Leaf json | Absent | Target tree | Elements "tree list" | Entries "(string \<times> tree) list" | Fields "(string \<times> tree) list"

fun view_all :: "('x \<Rightarrow> ('y \<times> addr list) option) \<Rightarrow> 'x list \<Rightarrow> ('y list \<times> addr list) option" where
  "view_all r [] = Some ([], [])"
| "view_all r (x # xs) =
     (case r x of
        None \<Rightarrow> None
      | Some (y, A) \<Rightarrow> (case view_all r xs of None \<Rightarrow> None | Some (ys, B) \<Rightarrow> Some (y # ys, A @ B)))"

fun view :: "heap \<Rightarrow> ty \<Rightarrow> gval \<Rightarrow> (tree \<times> addr list) option"
  and view_fields :: "heap \<Rightarrow> (string \<times> ty) list \<Rightarrow> (string \<times> gval) list \<Rightarrow> ((string \<times> tree) list \<times> addr list) option" where
  "view h TPrim (Prim j) = Some (Leaf j, [])"
| "view h (TPtr t) (Ref None) = Some (Absent, [])"
| "view h (TPtr t) (Ref (Some a)) =
     (case mem h a of
        Some (Cell x) \<Rightarrow> map_option (\<lambda>(tr, A). (Target tr, a # A)) (view h t x)
      | _ \<Rightarrow> None)"
| "view h (TSlice t) (Ref None) = Some (Absent, [])"
| "view h (TSlice t) (Ref (Some a)) =
     (case mem h a of
        Some (Arr xs) \<Rightarrow> map_option (\<lambda>(trs, A). (Elements trs, a # A)) (view_all (view h t) xs)
      | _ \<Rightarrow> None)"
| "view h (TMap t) (Ref None) = Some (Absent, [])"
| "view h (TMap t) (Ref (Some a)) =
     (case mem h a of
        Some (Dict kvs) \<Rightarrow>
          map_option (\<lambda>(trs, A). (Entries trs, a # A)) (view_all (\<lambda>(k, x). map_option (\<lambda>(tr, A). ((k, tr), A)) (view h t x)) kvs)
      | _ \<Rightarrow> None)"
| "view h (TStruct fs) (Struct vs) = map_option (\<lambda>(trs, A). (Fields trs, A)) (view_fields h fs vs)"
| "view h _ _ = None"
| "view_fields h [] [] = Some ([], [])"
| "view_fields h ((n, t) # fs) ((m, v) # vs) =
     (if n = m then
        (case view h t v of
           None \<Rightarrow> None
         | Some (tr, A) \<Rightarrow> (case view_fields h fs vs of None \<Rightarrow> None | Some (trs, B) \<Rightarrow> Some ((n, tr) # trs, A @ B)))
      else None)"
| "view_fields h _ _ = None"

text \<open>A type without references.\<close>

fun flat :: "ty \<Rightarrow> bool" where
  "flat TPrim = True"
| "flat (TStruct fs) = list_all (\<lambda>(n, t). flat t) fs"
| "flat _ = False"

end
