(* ===== verification/CopySpec.thy ===== *)
theory CopySpec
  imports GoHeap
begin

text \<open>
  What a deep copy promises, and that the statements of the generated code keep the promise: from
  copiers of the parts they make copiers of pointers, slices, maps and structs.
\<close>

section \<open>Frames\<close>

definition heap_ok :: "heap \<Rightarrow> bool" where
  "heap_ok h \<longleftrightarrow> (\<forall>a. mem h a \<noteq> None \<longrightarrow> a < next_addr h)"

text \<open>The heap only grew: what was there is as it was.\<close>

definition grows :: "heap \<Rightarrow> heap \<Rightarrow> bool" where
  "grows h h' \<longleftrightarrow> next_addr h \<le> next_addr h' \<and> (\<forall>a < next_addr h. mem h' a = mem h a)"

lemma grows_refl [simp]: "grows h h"
  by (simp add: grows_def)

lemma grows_trans: "grows h h1 \<Longrightarrow> grows h1 h2 \<Longrightarrow> grows h h2"
  by (simp add: grows_def)

lemma view_all_cong:
  assumes "view_all r xs = Some (ys, A)"
    and "\<And>x y B. x \<in> set xs \<Longrightarrow> r x = Some (y, B) \<Longrightarrow> set B \<subseteq> set A \<Longrightarrow> r' x = Some (y, B)"
  shows "view_all r' xs = Some (ys, A)"
  using assms
proof (induction xs arbitrary: ys A)
  case (Cons x xs)
  from Cons.prems(1) obtain y B zs C where *: "r x = Some (y, B)" "view_all r xs = Some (zs, C)" "ys = y # zs" "A = B @ C"
    by (auto split: option.splits)
  have "r' x = Some (y, B)" using Cons.prems(2) * by simp
  moreover have "view_all r' xs = Some (zs, C)" by (rule Cons.IH [OF *(2)]) (rule Cons.prems(2), use *(4) in auto)
  ultimately show ?case using * by simp
qed simp

text \<open>A view depends on the addresses it owns only, and these are in use.\<close>

lemma view_frame:
  "view h t v = Some (tr, A) \<Longrightarrow> \<forall>a \<in> set A. mem h' a = mem h a \<Longrightarrow> view h' t v = Some (tr, A)"
  "view_fields h fs vs = Some (trs, A) \<Longrightarrow> \<forall>a \<in> set A. mem h' a = mem h a \<Longrightarrow> view_fields h' fs vs = Some (trs, A)"
proof (induction h t v and h fs vs arbitrary: tr A and trs A rule: view_view_fields.induct)
  case (5 h t a)
  then obtain xs trs B where *: "mem h a = Some (Arr xs)" "view_all (view h t) xs = Some (trs, B)" "tr = Elements trs" "A = a # B"
    by (auto split: option.splits cell.splits)
  have IH: "view h' t x = Some (y, C)" if "x \<in> set xs" "view h t x = Some (y, C)" "set C \<subseteq> set B" for x y C
    by (rule 5(1) [OF *(1) refl that(2)]) (use 5(3) that(3) *(4) in auto)
  have "view_all (view h' t) xs = Some (trs, B)"
    by (rule view_all_cong [OF *(2)]) (rule IH)
  with 5 * show ?case by simp
next
  case (7 h t a)
  then obtain kvs trs B where *: "mem h a = Some (Dict kvs)"
      "view_all (\<lambda>(k, x). map_option (\<lambda>(tr, A). ((k, tr), A)) (view h t x)) kvs = Some (trs, B)" "tr = Entries trs" "A = a # B"
    by (auto split: option.splits cell.splits)
  have IH: "view h' t x = Some (y, C)" if "view h t x = Some (y, C)" "set C \<subseteq> set B" for x y C
    by (rule 7(1) [OF *(1) refl that(1)]) (use 7(3) that(2) *(4) in auto)
  have "view_all (\<lambda>(k, x). map_option (\<lambda>(tr, A). ((k, tr), A)) (view h' t x)) kvs = Some (trs, B)"
    by (rule view_all_cong [OF *(2)]) (use IH in \<open>auto split: prod.splits\<close>)
  with 7 * show ?case by simp
qed (auto split: option.splits cell.splits if_splits, blast)

lemma view_all_owned:
  assumes "view_all r xs = Some (ys, A)" and "\<And>x y B a. x \<in> set xs \<Longrightarrow> r x = Some (y, B) \<Longrightarrow> a \<in> set B \<Longrightarrow> P a"
  shows "\<forall>a \<in> set A. P a"
  using assms
proof (induction xs arbitrary: ys A)
  case (Cons x xs)
  from Cons.prems(1) obtain y B zs C where *: "r x = Some (y, B)" "view_all r xs = Some (zs, C)" "A = B @ C"
    by (auto split: option.splits)
  have "\<forall>a \<in> set C. P a" by (rule Cons.IH [OF *(2)]) (use Cons.prems(2) in auto)
  with * Cons.prems(2) show ?case by auto
qed simp

lemma view_owned:
  "view h t v = Some (tr, A) \<Longrightarrow> \<forall>a \<in> set A. mem h a \<noteq> None"
  "view_fields h fs vs = Some (trs, A) \<Longrightarrow> \<forall>a \<in> set A. mem h a \<noteq> None"
proof (induction h t v and h fs vs arbitrary: tr A and trs A rule: view_view_fields.induct)
  case (5 h t a)
  then obtain xs trs B where *: "mem h a = Some (Arr xs)" "view_all (view h t) xs = Some (trs, B)" "A = a # B"
    by (auto split: option.splits cell.splits)
  have "\<forall>a \<in> set B. mem h a \<noteq> None" by (rule view_all_owned [OF *(2)]) (use 5 * in blast)
  with * show ?case by simp
next
  case (7 h t a)
  then obtain kvs trs B where *: "mem h a = Some (Dict kvs)"
      "view_all (\<lambda>(k, x). map_option (\<lambda>(tr, A). ((k, tr), A)) (view h t x)) kvs = Some (trs, B)" "A = a # B"
    by (auto split: option.splits cell.splits)
  have "\<forall>a \<in> set B. mem h a \<noteq> None" by (rule view_all_owned [OF *(2)]) (use 7 * in \<open>auto split: prod.splits\<close>)
  with * show ?case by simp
qed (auto split: option.splits cell.splits if_splits)


section \<open>The promise\<close>

text \<open>
  A reader of values from the heap: it depends on the addresses it reports only, and these are in use.
\<close>

locale reader =
  fixes R :: "heap \<Rightarrow> 'x \<Rightarrow> ('y \<times> addr list) option"
  assumes frame: "R h x = Some (y, A) \<Longrightarrow> \<forall>a \<in> set A. mem h' a = mem h a \<Longrightarrow> R h' x = Some (y, A)"
    and owned: "R h x = Some (y, A) \<Longrightarrow> \<forall>a \<in> set A. mem h a \<noteq> None"
begin

lemma below: "heap_ok h \<Longrightarrow> R h x = Some (y, A) \<Longrightarrow> set A \<subseteq> {..<next_addr h}"
  by (rule subsetI) (drule owned, simp add: heap_ok_def)

lemma stable: "heap_ok h \<Longrightarrow> grows h h' \<Longrightarrow> R h x = Some (y, A) \<Longrightarrow> R h' x = Some (y, A)"
  by (rule frame, assumption) (drule (1) below, auto simp: grows_def)

end

interpretation viewed: reader "\<lambda>h. view h t"
  by unfold_locales (fact view_frame(1), fact view_owned(1))

interpretation fields_viewed: reader "\<lambda>h. view_fields h fs"
  by unfold_locales (fact view_frame(2), fact view_owned(2))

text \<open>
  Copying a value yields a value that stands for the same tree, owns only addresses that were not in
  use before, and leaves the heap that was there alone.
\<close>

definition copied :: "(heap \<Rightarrow> 'x \<Rightarrow> ('y \<times> addr list) option) \<Rightarrow> heap \<Rightarrow> 'y \<Rightarrow> ('x \<times> heap) option \<Rightarrow> bool" where
  "copied R h y r \<longleftrightarrow>
     (case r of
        None \<Rightarrow> False
      | Some (w, h') \<Rightarrow>
          heap_ok h' \<and> grows h h' \<and>
          (case R h' w of None \<Rightarrow> False | Some (z, B) \<Rightarrow> z = y \<and> (\<forall>a \<in> set B. next_addr h \<le> a \<and> a < next_addr h')))"

lemma copied_Some:
  "copied R h y r \<longleftrightarrow>
     (\<exists>w h' B. r = Some (w, h') \<and> heap_ok h' \<and> grows h h' \<and> R h' w = Some (y, B) \<and> (\<forall>a \<in> set B. next_addr h \<le> a \<and> a < next_addr h'))"
  by (auto simp: copied_def split: option.splits)

locale part_copier = reader R for R :: "heap \<Rightarrow> 'x \<Rightarrow> ('y \<times> addr list) option" +
  fixes f :: "'x \<Rightarrow> 'x hp"
  assumes copies: "heap_ok h \<Longrightarrow> R h v = Some (y, A) \<Longrightarrow> copied R h y (f v h)"
begin

lemma reads_all: "reader (\<lambda>h. view_all (R h))"
proof
  fix h h' :: heap and xs ys A
  assume v: "view_all (R h) xs = Some (ys, A)"
  show "\<forall>a \<in> set A. mem h a \<noteq> None" by (rule view_all_owned [OF v]) (use owned in blast)
  assume "\<forall>a \<in> set A. mem h' a = mem h a"
  then show "view_all (R h') xs = Some (ys, A)" by (intro view_all_cong [OF v]) (rule frame, blast+)
qed

lemma copies_all: "part_copier (\<lambda>h. view_all (R h)) (hmap f)"
proof (rule part_copier.intro [OF reads_all], unfold_locales)
  fix h xs ys A
  assume "heap_ok h" and "view_all (R h) xs = Some (ys, A)"
  then show "copied (\<lambda>h. view_all (R h)) h ys (hmap f xs h)"
  proof (induction xs arbitrary: h ys A)
    case Nil
    then show ?case by (simp add: copied_def hreturn_def)
  next
    case (Cons x xs)
    from Cons.prems(2) obtain y A1 zs A2 where *: "R h x = Some (y, A1)" "view_all (R h) xs = Some (zs, A2)" "ys = y # zs"
      by (auto split: option.splits)
    from copies [OF Cons.prems(1) *(1)] obtain w h1 B1 where w: "f x h = Some (w, h1)" "heap_ok h1" "grows h h1" "R h1 w = Some (y, B1)"
        "\<forall>a \<in> set B1. next_addr h \<le> a \<and> a < next_addr h1"
      by (auto simp: copied_Some)
    from Cons.IH [OF w(2) reader.stable [OF reads_all Cons.prems(1) w(3) *(2)]] obtain ws h2 B2 where
      ws: "hmap f xs h1 = Some (ws, h2)" "heap_ok h2" "grows h1 h2" "view_all (R h2) ws = Some (zs, B2)"
        "\<forall>a \<in> set B2. next_addr h1 \<le> a \<and> a < next_addr h2"
      by (auto simp: copied_Some)
    have "R h2 w = Some (y, B1)" by (rule stable [OF w(2) ws(3) w(4)])
    moreover have "\<forall>a \<in> set B1 \<union> set B2. next_addr h \<le> a \<and> a < next_addr h2"
      using w(3,5) ws(3,5) by (auto simp: grows_def)
    ultimately show ?case
      using * w ws grows_trans [OF w(3) ws(3)] by (simp add: copied_def hbind_def hreturn_def)
  qed
qed

text \<open>The common shape of the copies behind a reference: allocate, copy the contents, fill in.\<close>

lemma boxed:
  assumes "heap_ok h" and "R h v = Some (y, A)"
  obtains b w h' B where
    "hbind (alloc c0) (\<lambda>b. hbind (f v) (\<lambda>w. hbind (store b (c w)) (\<lambda>_. hreturn (Ref (Some b))))) h = Some (Ref (Some b), h')"
    "heap_ok h'" "grows h h'" "mem h' b = Some (c w)" "R h' w = Some (y, B)"
    "\<forall>a \<in> set (b # B). next_addr h \<le> a \<and> a < next_addr h'"
proof -
  define h1 where "h1 = h\<lparr>mem := (mem h)(next_addr h := Some c0), next_addr := Suc (next_addr h)\<rparr>"
  have h1: "alloc c0 h = Some (next_addr h, h1)" "heap_ok h1" "grows h h1" "next_addr h1 = Suc (next_addr h)"
    using assms(1) by (auto simp: h1_def alloc_def heap_ok_def grows_def less_Suc_eq)
  from copies [OF h1(2) stable [OF assms(1) h1(3) assms(2)]] obtain w h2 B where
    w: "f v h1 = Some (w, h2)" "heap_ok h2" "grows h1 h2" "R h2 w = Some (y, B)" "\<forall>a \<in> set B. next_addr h1 \<le> a \<and> a < next_addr h2"
    by (auto simp: copied_Some)
  define h3 where "h3 = h2\<lparr>mem := (mem h2)(next_addr h := Some (c w))\<rparr>"
  have le: "next_addr h < next_addr h2" using h1(4) w(3) by (simp add: grows_def)
  have h3: "heap_ok h3" "next_addr h3 = next_addr h2" "mem h3 (next_addr h) = Some (c w)"
    using w(2) le by (simp_all add: h3_def heap_ok_def)
  have grows: "grows h h3" using h1(3,4) w(3) le by (simp add: h3_def grows_def)
  have read: "R h3 w = Some (y, B)" by (rule frame [OF w(4)]) (use w(5) h1(4) in \<open>auto simp: h3_def\<close>)
  have bounds: "\<forall>a \<in> set (next_addr h # B). next_addr h \<le> a \<and> a < next_addr h3" using w(5) h1(4) h3(2) le by auto
  have "hbind (alloc c0) (\<lambda>b. hbind (f v) (\<lambda>w. hbind (store b (c w)) (\<lambda>_. hreturn (Ref (Some b))))) h = Some (Ref (Some (next_addr h)), h3)"
    using h1(1) w(1) by (simp add: hbind_def store_def hreturn_def h3_def)
  from that [OF this h3(1) grows h3(3) read bounds] show thesis .
qed

end

section \<open>Copiers of typed values\<close>

locale deep_copier =
  fixes t :: ty and f :: copier
  assumes copies_view: "heap_ok h \<Longrightarrow> view h t v = Some (tr, A) \<Longrightarrow> copied (\<lambda>h. view h t) h tr (f v h)"

sublocale deep_copier \<subseteq> elem: part_copier "\<lambda>h. view h t" f
  by unfold_locales (fact copies_view)

sublocale deep_copier \<subseteq> entry: part_copier
  "\<lambda>h (k :: string, x). map_option (\<lambda>(tr, A). ((k, tr), A)) (view h t x)" "\<lambda>(k, x). hbind (f x) (\<lambda>y. hreturn (k, y))"
proof
  fix h h' :: heap and kv :: "string \<times> gval" and y :: "string \<times> tree" and A
  obtain k x where kv: "kv = (k, x)" by force
  assume v: "(case kv of (k, x) \<Rightarrow> map_option (\<lambda>(tr, A). ((k, tr), A)) (view h t x)) = Some (y, A)"
  then obtain tr where tr: "view h t x = Some (tr, A)" "y = (k, tr)" by (auto simp: kv)
  show "\<forall>a \<in> set A. mem h a \<noteq> None" by (rule view_owned(1) [OF tr(1)])
  show "(case kv of (k, x) \<Rightarrow> map_option (\<lambda>(tr, A). ((k, tr), A)) (view h' t x)) = Some (y, A)" if "\<forall>a \<in> set A. mem h' a = mem h a"
    using view_frame(1) [OF tr(1) that] by (simp add: kv tr(2))
  show "copied (\<lambda>h (k, x). map_option (\<lambda>(tr, A). ((k, tr), A)) (view h t x)) h y
      ((case kv of (k, x) \<Rightarrow> hbind (f x) (\<lambda>y. hreturn (k, y))) h)" if "heap_ok h"
    using copies_view [OF that tr(1)] by (auto simp: copied_Some kv tr(2) hbind_def hreturn_def)
qed

lemma bind_load: "mem h a = Some c \<Longrightarrow> hbind (load a) k h = k c h"
  by (simp add: hbind_def load_def)

context deep_copier
begin

lemma pointer: "deep_copier (TPtr t) (copy_pointer f)"
proof
  fix h v tr A
  assume h: "heap_ok h" and v: "view h (TPtr t) v = Some (tr, A)"
  from v consider "v = Ref None" | a x tr' A' where "v = Ref (Some a)" "mem h a = Some (Cell x)" "view h t x = Some (tr', A')" "tr = Target tr'"
    by (cases "(h, TPtr t, v)" rule: view.cases) (auto split: option.splits cell.splits)
  then show "copied (\<lambda>h. view h (TPtr t)) h tr (copy_pointer f v h)"
  proof cases
    case 1
    with h v show ?thesis by (simp add: copy_pointer_def hreturn_def copied_def)
  next
    case 2
    obtain b w h' B where "copy_pointer f v h = Some (Ref (Some b), h')" "heap_ok h'" "grows h h'" "mem h' b = Some (Cell w)"
        "view h' t w = Some (tr', B)" "\<forall>a \<in> set (b # B). next_addr h \<le> a \<and> a < next_addr h'"
      by (rule elem.boxed [OF h 2(3), where c = Cell and ?c0.0 = "Cell (Prim JNull)"]) (simp add: copy_pointer_def bind_load 2)
    with 2(4) show ?thesis by (simp add: copied_def)
  qed
qed

lemma slice: "deep_copier (TSlice t) (copy_slice f)"
proof
  fix h v tr A
  assume h: "heap_ok h" and v: "view h (TSlice t) v = Some (tr, A)"
  from v consider "v = Ref None" | a x tr' A' where "v = Ref (Some a)" "mem h a = Some (Arr x)" "view_all (view h t) x = Some (tr', A')" "tr = Elements tr'"
    by (cases "(h, TSlice t, v)" rule: view.cases) (auto split: option.splits cell.splits)
  then show "copied (\<lambda>h. view h (TSlice t)) h tr (copy_slice f v h)"
  proof cases
    case 1
    with h v show ?thesis by (simp add: copy_slice_def hreturn_def copied_def)
  next
    case 2
    obtain b w h' B where "copy_slice f v h = Some (Ref (Some b), h')" "heap_ok h'" "grows h h'" "mem h' b = Some (Arr w)"
        "view_all (view h' t) w = Some (tr', B)" "\<forall>a \<in> set (b # B). next_addr h \<le> a \<and> a < next_addr h'"
      by (rule part_copier.boxed [OF elem.copies_all h 2(3), where c = Arr and ?c0.0 = "Arr (replicate (length x) (Prim JNull))"]) (simp add: copy_slice_def bind_load 2)
    with 2(4) show ?thesis by (simp add: copied_def)
  qed
qed

lemma dict: "deep_copier (TMap t) (copy_map f)"
proof
  fix h v tr A
  assume h: "heap_ok h" and v: "view h (TMap t) v = Some (tr, A)"
  from v consider "v = Ref None" | a x tr' A' where "v = Ref (Some a)" "mem h a = Some (Dict x)" "view_all (\<lambda>(k, x). map_option (\<lambda>(tr, A). ((k, tr), A)) (view h t x)) x = Some (tr', A')" "tr = Entries tr'"
    by (cases "(h, TMap t, v)" rule: view.cases) (auto split: option.splits cell.splits)
  then show "copied (\<lambda>h. view h (TMap t)) h tr (copy_map f v h)"
  proof cases
    case 1
    with h v show ?thesis by (simp add: copy_map_def hreturn_def copied_def)
  next
    case 2
    obtain b w h' B where "copy_map f v h = Some (Ref (Some b), h')" "heap_ok h'" "grows h h'" "mem h' b = Some (Dict w)"
        "view_all (\<lambda>(k, x). map_option (\<lambda>(tr, A). ((k, tr), A)) (view h' t x)) w = Some (tr', B)" "\<forall>a \<in> set (b # B). next_addr h \<le> a \<and> a < next_addr h'"
      by (rule part_copier.boxed [OF entry.copies_all h 2(3), where c = Dict and ?c0.0 = "Dict []"]) (simp add: copy_map_def bind_load 2)
    with 2(4) show ?thesis by (simp add: copied_def)
  qed
qed

end

section \<open>Assignment and structs\<close>

lemma flat_owns_nothing:
  "view h t v = Some (tr, A) \<Longrightarrow> flat t \<Longrightarrow> A = []"
  "view_fields h fs vs = Some (trs, A) \<Longrightarrow> list_all (\<lambda>(n, t). flat t) fs \<Longrightarrow> A = []"
  by (induction h t v and h fs vs arbitrary: tr A and trs A rule: view_view_fields.induct) (auto split: option.splits if_splits)

text \<open>\<open>*out = *in\<close> is a deep copy of a value without references.\<close>

lemma assign_flat: "flat t \<Longrightarrow> deep_copier t assign"
proof
  fix h v tr A
  assume "flat t" "heap_ok h" "view h t v = Some (tr, A)"
  then show "copied (\<lambda>h. view h t) h tr (assign v h)"
    using flat_owns_nothing(1) [of h t v tr A] by (simp add: copied_def assign_def hreturn_def)
qed

text \<open>
  The fields of \<open>out\<close> while the statements run: all of them stand for the tree of \<open>in\<close>, and those of \<open>D\<close>
  own new addresses only.
\<close>

fun fields_so_far :: "addr \<Rightarrow> heap \<Rightarrow> string set \<Rightarrow> (string \<times> ty) list \<Rightarrow> (string \<times> tree) list \<Rightarrow> (string \<times> gval) list \<Rightarrow> bool" where
  "fields_so_far N h D [] [] [] = True"
| "fields_so_far N h D ((n, t) # fs) ((m, tr) # trs) ((k, v) # vs) \<longleftrightarrow>
     n = m \<and> n = k \<and> (\<exists>B. view h t v = Some (tr, B) \<and> (n \<in> D \<longrightarrow> (\<forall>a \<in> set B. N \<le> a \<and> a < next_addr h))) \<and> fields_so_far N h D fs trs vs"
| "fields_so_far N h D _ _ _ = False"

lemma view_fields_Cons:
  "view_fields h ((n, t) # fs) vs = Some (trs, A) \<longleftrightarrow>
     (\<exists>v vs' tr trs' B C. vs = (n, v) # vs' \<and> trs = (n, tr) # trs' \<and> A = B @ C \<and> view h t v = Some (tr, B) \<and> view_fields h fs vs' = Some (trs', C))"
  by (cases vs) (auto split: option.splits if_splits)

lemma fields_start:
  "view_fields h fs vs = Some (trs, A) \<Longrightarrow> distinct (map fst fs) \<Longrightarrow> \<forall>(n, t) \<in> set fs. n \<in> D \<longrightarrow> flat t \<Longrightarrow> fields_so_far N h D fs trs vs"
proof (induction fs arbitrary: vs trs A)
  case Nil
  then show ?case by (cases vs) auto
next
  case (Cons nt fs)
  obtain n t where nt: "nt = (n, t)" by force
  from Cons.prems(1) obtain v vs' tr trs' B C where *: "vs = (n, v) # vs'" "view h t v = Some (tr, B)" "view_fields h fs vs' = Some (trs', C)" "trs = (n, tr) # trs'"
    by (auto simp: nt view_fields_Cons)
  have "n \<in> D \<longrightarrow> B = []" using Cons.prems(3) flat_owns_nothing(1) [OF *(2)] by (auto simp: nt)
  moreover have "fields_so_far N h D fs trs' vs'" using Cons.IH [OF *(3)] Cons.prems(2,3) by simp
  ultimately show ?case using * by (auto simp: nt)
qed

lemma fields_stable:
  "fields_so_far N h D fs trs vs \<Longrightarrow> heap_ok h \<Longrightarrow> grows h h' \<Longrightarrow> fields_so_far N h' D fs trs vs"
proof (induction N h D fs trs vs rule: fields_so_far.induct)
  case (2 N h D n t fs m tr trs k v vs)
  from 2(2) obtain B where B: "view h t v = Some (tr, B)" "n \<in> D \<longrightarrow> (\<forall>a \<in> set B. N \<le> a \<and> a < next_addr h)" by auto
  have "view h' t v = Some (tr, B)" by (rule viewed.stable [OF 2(3,4) B(1)])
  moreover have "n \<in> D \<longrightarrow> (\<forall>a \<in> set B. N \<le> a \<and> a < next_addr h')" using B(2) 2(4) by (auto simp: grows_def)
  ultimately show ?case using 2 by auto
qed auto

lemma fields_other: "fields_so_far N h D fs trs vs \<Longrightarrow> n \<notin> fst ` set fs \<Longrightarrow> fields_so_far N h (insert n D) fs trs vs"
  by (induction N h D fs trs vs rule: fields_so_far.induct) auto

lemma fields_set:
  assumes "fields_so_far N h D fs trs vs" and "distinct (map fst fs)" and "map_of fs n = Some t" and "map_of trs n = Some tr"
    and "view h t w = Some (tr, B)" and "\<forall>a \<in> set B. N \<le> a \<and> a < next_addr h"
  shows "fields_so_far N h (insert n D) fs trs (set_field n w vs)"
  using assms
  by (induction N h D fs trs vs rule: fields_so_far.induct) (auto split: if_splits intro: fields_other)

lemma fields_finish:
  "fields_so_far N h D fs trs vs \<Longrightarrow> \<forall>(n, t) \<in> set fs. n \<in> D \<Longrightarrow>
   \<exists>B. view_fields h fs vs = Some (trs, B) \<and> (\<forall>a \<in> set B. N \<le> a \<and> a < next_addr h)"
  by (induction N h D fs trs vs rule: fields_so_far.induct) fastforce+

lemma field_of:
  "view_fields h fs vs = Some (trs, A) \<Longrightarrow> map_of fs n = Some t \<Longrightarrow>
   \<exists>x tr B. map_of vs n = Some x \<and> map_of trs n = Some tr \<and> view h t x = Some (tr, B)"
proof (induction fs arbitrary: vs trs A)
  case (Cons nt fs)
  then show ?case by (cases nt) (auto simp: view_fields_Cons split: if_splits)
qed simp

text \<open>
  A struct with named fields, and the statements of its \<open>DeepCopyInto\<close>: each of them copies a field of
  the struct, and the fields without a statement have no references.
\<close>

lemma run_statements:
  assumes names: "distinct (map fst fs)" and "heap_ok h" and "view_fields h fs i = Some (trs, A)"
    and "fields_so_far N h D fs trs out" and "N \<le> next_addr h"
    and "list_all (\<lambda>(n, f). \<exists>t. map_of fs n = Some t \<and> deep_copier t f) ss'"
  shows "\<exists>vs h'. copy_fields ss' i out h = Some (Struct vs, h') \<and> heap_ok h' \<and> grows h h' \<and> fields_so_far N h' (D \<union> set (map fst ss')) fs trs vs"
  using assms(2-)
proof (induction ss' arbitrary: h out D)
  case Nil
  then show ?case by (simp add: hreturn_def)
next
  case (Cons s ss')
  obtain n f where s: "s = (n, f)" by force
  with Cons.prems(5) obtain t where t: "map_of fs n = Some t" "deep_copier t f" by auto
  from field_of [OF Cons.prems(2) t(1)] obtain x tr B where x: "map_of i n = Some x" "map_of trs n = Some tr" "view h t x = Some (tr, B)" by blast
  from deep_copier.copies_view [OF t(2) Cons.prems(1) x(3)] obtain w h1 C where w: "f x h = Some (w, h1)" "heap_ok h1" "grows h h1" "view h1 t w = Some (tr, C)"
      "\<forall>a \<in> set C. next_addr h \<le> a \<and> a < next_addr h1"
    by (auto simp: copied_Some)
  have N: "N \<le> next_addr h1" "\<forall>a \<in> set C. N \<le> a \<and> a < next_addr h1" using Cons.prems(4) w(3,5) by (auto simp: grows_def)
  have "view_fields h1 fs i = Some (trs, A)" by (rule fields_viewed.stable [OF Cons.prems(1) w(3) Cons.prems(2)])
  moreover have "fields_so_far N h1 (insert n D) fs trs (set_field n w out)"
    by (rule fields_set [OF fields_stable [OF Cons.prems(3,1) w(3)] names t(1) x(2) w(4) N(2)])
  ultimately obtain vs h' where *: "copy_fields ss' i (set_field n w out) h1 = Some (Struct vs, h')" "heap_ok h'" "grows h1 h'"
      "fields_so_far N h' (insert n D \<union> set (map fst ss')) fs trs vs"
    using Cons.IH [OF w(2) _ _ N(1)] Cons.prems(5) by fastforce
  have "copy_fields (s # ss') i out h = Some (Struct vs, h')" using * w(1) x(1) by (simp add: s hbind_def)
  then show ?case using * grows_trans [OF w(3) *(3)] by (simp add: s)
qed

lemma struct_copier:
  assumes "t = TStruct fs" and "f = deep_copy_into ss" and names: "distinct (map fst fs)"
    and statements: "list_all (\<lambda>(n, f). \<exists>t. map_of fs n = Some t \<and> deep_copier t f) ss"
    and rest: "list_all (\<lambda>(n, t). n \<in> set (map fst ss) \<or> flat t) fs"
  shows "deep_copier t f"
  unfolding assms(1,2)
proof
  fix h v tr A
  assume h: "heap_ok h" and v: "view h (TStruct fs) v = Some (tr, A)"
  then obtain i trs where i: "v = Struct i" "tr = Fields trs" "view_fields h fs i = Some (trs, A)"
    by (cases "(h, TStruct fs, v)" rule: view.cases) auto
  have "fields_so_far (next_addr h) h {n. \<exists>t. (n, t) \<in> set fs \<and> flat t} fs trs i"
    by (rule fields_start [OF i(3) names]) (use names in \<open>auto dest: eq_key_imp_eq_value\<close>)
  from run_statements [OF names h i(3) this order_refl statements] obtain vs h' where
    *: "copy_fields ss i i h = Some (Struct vs, h')" "heap_ok h'" "grows h h'"
      "fields_so_far (next_addr h) h' ({n. \<exists>t. (n, t) \<in> set fs \<and> flat t} \<union> set (map fst ss)) fs trs vs" by blast
  from fields_finish [OF *(4)] rest have
    "\<exists>B. view_fields h' fs vs = Some (trs, B) \<and> (\<forall>a \<in> set B. next_addr h \<le> a \<and> a < next_addr h')"
    by (fastforce simp: list_all_iff)
  with * i show "copied (\<lambda>h. view h (TStruct fs)) h tr (deep_copy_into ss v h)"
    by (auto simp: copied_Some deep_copy_into_def)
qed

lemmas copiers = assign_flat deep_copier.pointer deep_copier.slice deep_copier.dict

section \<open>Copies of whole objects\<close>

text \<open>
  \<open>DeepCopyObject\<close> of a reference: a nil reference gives a nil interface. Otherwise the copy stands for
  the same tree, the two share no address, and whatever is written to the cells of one of the two,
  the other still stands for the tree.
\<close>

definition isolated :: "heap \<Rightarrow> ty \<Rightarrow> gval \<Rightarrow> addr list \<Rightarrow> bool" where
  "isolated h t v W \<longleftrightarrow> (\<forall>h'. (\<forall>a. a \<notin> set W \<longrightarrow> mem h' a = mem h a) \<longrightarrow> view h' t v = view h t v)"

lemma isolatedI: "view h t v = Some (tr, A) \<Longrightarrow> set A \<inter> set W = {} \<Longrightarrow> isolated h t v W"
  unfolding isolated_def by (metis disjoint_iff view_frame(1))

context deep_copier
begin

lemma object_nil: "deep_copy_object (deep_copy f) (Ref None) h = Some (None, h)"
  by (simp add: deep_copy_object_def deep_copy_def copy_pointer_def hbind_def hreturn_def)

lemma object_copied:
  assumes "heap_ok h" and "view h (TPtr t) (Ref (Some a)) = Some (tr, A)"
  shows "\<exists>w h' B. deep_copy_object (deep_copy f) (Ref (Some a)) h = Some (Some w, h') \<and> view h' (TPtr t) w = Some (tr, B) \<and>
    view h' (TPtr t) (Ref (Some a)) = Some (tr, A) \<and> set A \<inter> set B = {} \<and>
    isolated h' (TPtr t) (Ref (Some a)) B \<and> isolated h' (TPtr t) w A"
proof -
  from deep_copier.copies_view [OF pointer assms] obtain w h' B where w: "copy_pointer f (Ref (Some a)) h = Some (w, h')" "grows h h'"
      "view h' (TPtr t) w = Some (tr, B)" "\<forall>a \<in> set B. next_addr h \<le> a \<and> a < next_addr h'"
    by (auto simp: copied_Some)
  have A: "set A \<subseteq> {..<next_addr h}" "view h' (TPtr t) (Ref (Some a)) = Some (tr, A)"
    by (rule viewed.below [OF assms], rule viewed.stable [OF assms(1) w(2) assms(2)])
  have disjoint: "set A \<inter> set B = {}" using A(1) w(4) by force
  have "w \<noteq> Ref None" using w(3) A(2) by (auto split: option.splits cell.splits)
  then have "deep_copy_object (deep_copy f) (Ref (Some a)) h = Some (Some w, h')"
    using w(1) by (simp add: deep_copy_object_def deep_copy_def hbind_def hreturn_def)
  then show ?thesis
    using w(3) A(2) disjoint isolatedI [OF A(2) disjoint] isolatedI [OF w(3), of A] by blast
qed

end

end
