(* ===== verification/CopyLibraries.thy ===== *)
theory CopyLibraries
  imports CopySpec
begin

text \<open>
  The libraries that the deep copies call: the types of Kubernetes and of Perses with their own
  \<open>DeepCopyInto\<close> (or \<open>DeepCopy\<close>, of a quantity), and \<open>deep.Copy\<close> of the package \<open>github.com/brunoga/deep\<close>.
  They are parameters of the model.
\<close>

record copy_libs =
  lib_ty :: "string \<Rightarrow> ty"
  lib_DeepCopyInto :: "string \<Rightarrow> copier"
  deep_Copy :: "ty \<Rightarrow> gval \<Rightarrow> (gval option) hp"

text \<open>\<open>deep.Copy(in)\<close> of a reference to a value of a type: the value behind the reference it returns, or an error.\<close>

definition lib_copied_types :: "string list" where
  "lib_copied_types = [
     ''corev1.Affinity'', ''corev1.EmptyDirVolumeSource'', ''corev1.EnvFromSource'', ''corev1.EnvVar'',
     ''corev1.PersistentVolumeClaimSpec'', ''corev1.PodSecurityContext'', ''corev1.Probe'',
     ''corev1.ResourceRequirements'', ''corev1.SecretKeySelector'', ''corev1.SecurityContext'', ''corev1.Toleration'',
     ''corev1.Volume'', ''corev1.VolumeMount'', ''metav1.Condition'', ''metav1.LabelSelector'', ''metav1.ListMeta'',
     ''metav1.ObjectMeta'', ''resource.Quantity'']"

definition deep_types :: "copy_libs \<Rightarrow> ty list" where
  "deep_types L = [
     TStruct [(''Config'', lib_ty L ''config.Config'')], TStruct [(''Spec'', lib_ty L ''dashboardSpec.Spec'')],
     TStruct [(''Spec'', lib_ty L ''datasource.Spec'')]]"

text \<open>
  What the code relies on: \<open>metav1.TypeMeta\<close> holds no references, the library types copy themselves
  deeply, and \<open>deep.Copy\<close> copies the three wrapped types without an error.
\<close>

definition libs_ok :: "copy_libs \<Rightarrow> bool" where
  "libs_ok L \<longleftrightarrow>
     flat (lib_ty L ''metav1.TypeMeta'') \<and>
     (\<forall>n \<in> set lib_copied_types. deep_copier (lib_ty L n) (lib_DeepCopyInto L n)) \<and>
     (\<forall>t \<in> set (deep_types L). deep_copier t (\<lambda>v h. case deep_Copy L t v h of Some (Some w, h') \<Rightarrow> Some (w, h') | _ \<Rightarrow> None))"

lemma libs_ok_simps:
  "libs_ok L \<Longrightarrow> flat (lib_ty L ''metav1.TypeMeta'')"
  "libs_ok L \<Longrightarrow> n \<in> set lib_copied_types \<Longrightarrow> deep_copier (lib_ty L n) (lib_DeepCopyInto L n)"
  by (simp_all add: libs_ok_def)

lemma deep_Copy_copies:
  assumes "libs_ok L" and "t \<in> set (deep_types L)"
  shows "deep_copier t (\<lambda>v. hbind (deep_Copy L t v) (\<lambda>copied. case copied of None \<Rightarrow> panic | Some w \<Rightarrow> hreturn w))"
proof -
  have "(\<lambda>v. hbind (deep_Copy L t v) (\<lambda>copied. case copied of None \<Rightarrow> panic | Some w \<Rightarrow> hreturn w)) =
      (\<lambda>v h. case deep_Copy L t v h of Some (Some w, h') \<Rightarrow> Some (w, h') | _ \<Rightarrow> None)"
    by (auto simp: fun_eq_iff hbind_def panic_def hreturn_def split: option.splits)
  with assms show ?thesis by (simp add: libs_ok_def)
qed

text \<open>An API object as the scheme knows it: its kind, its type and its \<open>DeepCopyObject\<close>.\<close>

record api_object =
  object_kind :: string
  object_ty :: ty
  DeepCopyObject :: "gval \<Rightarrow> (gval option) hp"

definition object_copies :: "api_object \<Rightarrow> bool" where
  "object_copies obj \<longleftrightarrow> (\<exists>f. DeepCopyObject obj = deep_copy_object (deep_copy f) \<and> deep_copier (object_ty obj) f)"

lemma object_copiesI: "deep_copier t f \<Longrightarrow> object_copies \<lparr>object_kind = k, object_ty = t, DeepCopyObject = deep_copy_object (deep_copy f)\<rparr>"
  by (auto simp: object_copies_def)

end
