(* ===== verification/DeepCopyV1alpha1.thy ===== *)
theory DeepCopyV1alpha1
  imports CopyLibraries
begin

text \<open>
  The deep copies of the API types of v1alpha1: the types with their fields, the generated functions
  statement by statement, the three hand-written ones, and that each of them makes a deep copy. The
  last section has the objects that the package registers in its \<open>init\<close> functions.
\<close>

section \<open>\<open>PersesConfig\<close>\<close>

definition v1alpha1_PersesConfig_ty :: "copy_libs \<Rightarrow> ty" where
  "v1alpha1_PersesConfig_ty L = TStruct [
     (''Config'', lib_ty L ''config.Config'')]"

definition v1alpha1_PersesConfig_DeepCopyInto :: "copy_libs \<Rightarrow> copier" where
  "v1alpha1_PersesConfig_DeepCopyInto L v = hbind (deep_Copy L (v1alpha1_PersesConfig_ty L) v) (\<lambda>copied. case copied of None \<Rightarrow> panic | Some w \<Rightarrow> hreturn w)"

definition v1alpha1_PersesConfig_DeepCopy :: "copy_libs \<Rightarrow> copier" where
  "v1alpha1_PersesConfig_DeepCopy L = deep_copy (v1alpha1_PersesConfig_DeepCopyInto L)"

lemma v1alpha1_PersesConfig_copies: "libs_ok L \<Longrightarrow> deep_copier (v1alpha1_PersesConfig_ty L) (v1alpha1_PersesConfig_DeepCopyInto L)"
  unfolding v1alpha1_PersesConfig_DeepCopyInto_def by (rule deep_Copy_copies) (simp_all add: v1alpha1_PersesConfig_ty_def deep_types_def)

section \<open>\<open>Dashboard\<close>\<close>

definition v1alpha1_Dashboard_ty :: "copy_libs \<Rightarrow> ty" where
  "v1alpha1_Dashboard_ty L = TStruct [
     (''Spec'', lib_ty L ''dashboardSpec.Spec'')]"

definition v1alpha1_Dashboard_DeepCopyInto :: "copy_libs \<Rightarrow> copier" where
  "v1alpha1_Dashboard_DeepCopyInto L v = hbind (deep_Copy L (v1alpha1_Dashboard_ty L) v) (\<lambda>copied. case copied of None \<Rightarrow> panic | Some w \<Rightarrow> hreturn w)"

definition v1alpha1_Dashboard_DeepCopy :: "copy_libs \<Rightarrow> copier" where
  "v1alpha1_Dashboard_DeepCopy L = deep_copy (v1alpha1_Dashboard_DeepCopyInto L)"

lemma v1alpha1_Dashboard_copies: "libs_ok L \<Longrightarrow> deep_copier (v1alpha1_Dashboard_ty L) (v1alpha1_Dashboard_DeepCopyInto L)"
  unfolding v1alpha1_Dashboard_DeepCopyInto_def by (rule deep_Copy_copies) (simp_all add: v1alpha1_Dashboard_ty_def deep_types_def)

section \<open>\<open>Datasource\<close>\<close>

definition v1alpha1_Datasource_ty :: "copy_libs \<Rightarrow> ty" where
  "v1alpha1_Datasource_ty L = TStruct [
     (''Spec'', lib_ty L ''datasource.Spec'')]"

definition v1alpha1_Datasource_DeepCopyInto :: "copy_libs \<Rightarrow> copier" where
  "v1alpha1_Datasource_DeepCopyInto L v = hbind (deep_Copy L (v1alpha1_Datasource_ty L) v) (\<lambda>copied. case copied of None \<Rightarrow> panic | Some w \<Rightarrow> hreturn w)"

definition v1alpha1_Datasource_DeepCopy :: "copy_libs \<Rightarrow> copier" where
  "v1alpha1_Datasource_DeepCopy L = deep_copy (v1alpha1_Datasource_DeepCopyInto L)"

lemma v1alpha1_Datasource_copies: "libs_ok L \<Longrightarrow> deep_copier (v1alpha1_Datasource_ty L) (v1alpha1_Datasource_DeepCopyInto L)"
  unfolding v1alpha1_Datasource_DeepCopyInto_def by (rule deep_Copy_copies) (simp_all add: v1alpha1_Datasource_ty_def deep_types_def)

section \<open>\<open>Metadata\<close>\<close>

definition v1alpha1_Metadata_ty :: "ty" where
  "v1alpha1_Metadata_ty = TStruct [
     (''Labels'', TMap TPrim), (''Annotations'', TMap TPrim)]"

definition v1alpha1_Metadata_DeepCopyInto :: "copier" where
  "v1alpha1_Metadata_DeepCopyInto = deep_copy_into [
     (''Labels'', copy_map assign), (''Annotations'', copy_map assign)]"

definition v1alpha1_Metadata_DeepCopy :: "copier" where
  "v1alpha1_Metadata_DeepCopy = deep_copy v1alpha1_Metadata_DeepCopyInto"

interpretation v1alpha1_Metadata: deep_copier v1alpha1_Metadata_ty v1alpha1_Metadata_DeepCopyInto
  by (rule struct_copier [OF v1alpha1_Metadata_ty_def v1alpha1_Metadata_DeepCopyInto_def])
    (simp_all add: copiers)

lemmas v1alpha1_Metadata_copies = v1alpha1_Metadata.deep_copier_axioms

section \<open>\<open>SecretSource\<close>\<close>

definition v1alpha1_SecretSource_ty :: "ty" where
  "v1alpha1_SecretSource_ty = TStruct [
     (''Type'', TPrim), (''Name'', TPrim), (''Namespace'', TPrim)]"

definition v1alpha1_SecretSource_DeepCopyInto :: "copier" where
  "v1alpha1_SecretSource_DeepCopyInto = deep_copy_into []"

definition v1alpha1_SecretSource_DeepCopy :: "copier" where
  "v1alpha1_SecretSource_DeepCopy = deep_copy v1alpha1_SecretSource_DeepCopyInto"

interpretation v1alpha1_SecretSource: deep_copier v1alpha1_SecretSource_ty v1alpha1_SecretSource_DeepCopyInto
  by (rule struct_copier [OF v1alpha1_SecretSource_ty_def v1alpha1_SecretSource_DeepCopyInto_def])
    (simp_all add: copiers)

lemmas v1alpha1_SecretSource_copies = v1alpha1_SecretSource.deep_copier_axioms

section \<open>\<open>BasicAuth\<close>\<close>

definition v1alpha1_BasicAuth_ty :: "ty" where
  "v1alpha1_BasicAuth_ty = TStruct [
     (''SecretSource'', v1alpha1_SecretSource_ty), (''Username'', TPrim), (''PasswordPath'', TPrim)]"

definition v1alpha1_BasicAuth_DeepCopyInto :: "copier" where
  "v1alpha1_BasicAuth_DeepCopyInto = deep_copy_into [
     (''SecretSource'', assign)]"

definition v1alpha1_BasicAuth_DeepCopy :: "copier" where
  "v1alpha1_BasicAuth_DeepCopy = deep_copy v1alpha1_BasicAuth_DeepCopyInto"

interpretation v1alpha1_BasicAuth: deep_copier v1alpha1_BasicAuth_ty v1alpha1_BasicAuth_DeepCopyInto
  by (rule struct_copier [OF v1alpha1_BasicAuth_ty_def v1alpha1_BasicAuth_DeepCopyInto_def])
    (simp_all add: copiers v1alpha1_SecretSource_ty_def)

lemmas v1alpha1_BasicAuth_copies = v1alpha1_BasicAuth.deep_copier_axioms

section \<open>\<open>OAuth\<close>\<close>

definition v1alpha1_OAuth_ty :: "ty" where
  "v1alpha1_OAuth_ty = TStruct [
     (''SecretSource'', v1alpha1_SecretSource_ty), (''ClientIDPath'', TPrim), (''ClientSecretPath'', TPrim),
     (''TokenURL'', TPrim), (''Scopes'', TSlice TPrim), (''EndpointParams'', TMap (TSlice TPrim)),
     (''AuthStyle'', TPrim)]"

definition v1alpha1_OAuth_DeepCopyInto :: "copier" where
  "v1alpha1_OAuth_DeepCopyInto = deep_copy_into [
     (''SecretSource'', assign), (''Scopes'', copy_slice assign), (''EndpointParams'', copy_map (copy_slice assign))]"

definition v1alpha1_OAuth_DeepCopy :: "copier" where
  "v1alpha1_OAuth_DeepCopy = deep_copy v1alpha1_OAuth_DeepCopyInto"

interpretation v1alpha1_OAuth: deep_copier v1alpha1_OAuth_ty v1alpha1_OAuth_DeepCopyInto
  by (rule struct_copier [OF v1alpha1_OAuth_ty_def v1alpha1_OAuth_DeepCopyInto_def])
    (simp_all add: copiers v1alpha1_SecretSource_ty_def)

lemmas v1alpha1_OAuth_copies = v1alpha1_OAuth.deep_copier_axioms

section \<open>\<open>Certificate\<close>\<close>

definition v1alpha1_Certificate_ty :: "ty" where
  "v1alpha1_Certificate_ty = TStruct [
     (''SecretSource'', v1alpha1_SecretSource_ty), (''CertPath'', TPrim), (''PrivateKeyPath'', TPrim)]"

definition v1alpha1_Certificate_DeepCopyInto :: "copier" where
  "v1alpha1_Certificate_DeepCopyInto = deep_copy_into [
     (''SecretSource'', assign)]"

definition v1alpha1_Certificate_DeepCopy :: "copier" where
  "v1alpha1_Certificate_DeepCopy = deep_copy v1alpha1_Certificate_DeepCopyInto"

interpretation v1alpha1_Certificate: deep_copier v1alpha1_Certificate_ty v1alpha1_Certificate_DeepCopyInto
  by (rule struct_copier [OF v1alpha1_Certificate_ty_def v1alpha1_Certificate_DeepCopyInto_def])
    (simp_all add: copiers v1alpha1_SecretSource_ty_def)

lemmas v1alpha1_Certificate_copies = v1alpha1_Certificate.deep_copier_axioms

section \<open>\<open>TLS\<close>\<close>

definition v1alpha1_TLS_ty :: "ty" where
  "v1alpha1_TLS_ty = TStruct [
     (''Enable'', TPrim), (''CaCert'', TPtr v1alpha1_Certificate_ty), (''UserCert'', TPtr v1alpha1_Certificate_ty),
     (''InsecureSkipVerify'', TPrim)]"

definition v1alpha1_TLS_DeepCopyInto :: "copier" where
  "v1alpha1_TLS_DeepCopyInto = deep_copy_into [
     (''CaCert'', copy_pointer assign), (''UserCert'', copy_pointer assign)]"

definition v1alpha1_TLS_DeepCopy :: "copier" where
  "v1alpha1_TLS_DeepCopy = deep_copy v1alpha1_TLS_DeepCopyInto"

interpretation v1alpha1_TLS: deep_copier v1alpha1_TLS_ty v1alpha1_TLS_DeepCopyInto
  by (rule struct_copier [OF v1alpha1_TLS_ty_def v1alpha1_TLS_DeepCopyInto_def])
    (simp_all add: copiers v1alpha1_Certificate_ty_def v1alpha1_SecretSource_ty_def)

lemmas v1alpha1_TLS_copies = v1alpha1_TLS.deep_copier_axioms

section \<open>\<open>KubernetesAuth\<close>\<close>

definition v1alpha1_KubernetesAuth_ty :: "ty" where
  "v1alpha1_KubernetesAuth_ty = TStruct [
     (''Enable'', TPrim)]"

definition v1alpha1_KubernetesAuth_DeepCopyInto :: "copier" where
  "v1alpha1_KubernetesAuth_DeepCopyInto = deep_copy_into []"

definition v1alpha1_KubernetesAuth_DeepCopy :: "copier" where
  "v1alpha1_KubernetesAuth_DeepCopy = deep_copy v1alpha1_KubernetesAuth_DeepCopyInto"

interpretation v1alpha1_KubernetesAuth: deep_copier v1alpha1_KubernetesAuth_ty v1alpha1_KubernetesAuth_DeepCopyInto
  by (rule struct_copier [OF v1alpha1_KubernetesAuth_ty_def v1alpha1_KubernetesAuth_DeepCopyInto_def])
    (simp_all add: copiers)

lemmas v1alpha1_KubernetesAuth_copies = v1alpha1_KubernetesAuth.deep_copier_axioms

section \<open>\<open>Client\<close>\<close>

definition v1alpha1_Client_ty :: "ty" where
  "v1alpha1_Client_ty = TStruct [
     (''BasicAuth'', TPtr v1alpha1_BasicAuth_ty), (''OAuth'', TPtr v1alpha1_OAuth_ty),
     (''TLS'', TPtr v1alpha1_TLS_ty), (''KubernetesAuth'', TPtr v1alpha1_KubernetesAuth_ty)]"

definition v1alpha1_Client_DeepCopyInto :: "copier" where
  "v1alpha1_Client_DeepCopyInto = deep_copy_into [
     (''BasicAuth'', copy_pointer assign), (''OAuth'', copy_pointer v1alpha1_OAuth_DeepCopyInto),
     (''TLS'', copy_pointer v1alpha1_TLS_DeepCopyInto), (''KubernetesAuth'', copy_pointer assign)]"

definition v1alpha1_Client_DeepCopy :: "copier" where
  "v1alpha1_Client_DeepCopy = deep_copy v1alpha1_Client_DeepCopyInto"

interpretation v1alpha1_Client: deep_copier v1alpha1_Client_ty v1alpha1_Client_DeepCopyInto
  by (rule struct_copier [OF v1alpha1_Client_ty_def v1alpha1_Client_DeepCopyInto_def])
    (simp_all add: copiers v1alpha1_OAuth_copies v1alpha1_TLS_copies v1alpha1_BasicAuth_ty_def v1alpha1_KubernetesAuth_ty_def v1alpha1_SecretSource_ty_def)

lemmas v1alpha1_Client_copies = v1alpha1_Client.deep_copier_axioms

section \<open>\<open>PersesService\<close>\<close>

definition v1alpha1_PersesService_ty :: "ty" where
  "v1alpha1_PersesService_ty = TStruct [
     (''Name'', TPrim), (''Annotations'', TMap TPrim)]"

definition v1alpha1_PersesService_DeepCopyInto :: "copier" where
  "v1alpha1_PersesService_DeepCopyInto = deep_copy_into [
     (''Annotations'', copy_map assign)]"

definition v1alpha1_PersesService_DeepCopy :: "copier" where
  "v1alpha1_PersesService_DeepCopy = deep_copy v1alpha1_PersesService_DeepCopyInto"

interpretation v1alpha1_PersesService: deep_copier v1alpha1_PersesService_ty v1alpha1_PersesService_DeepCopyInto
  by (rule struct_copier [OF v1alpha1_PersesService_ty_def v1alpha1_PersesService_DeepCopyInto_def])
    (simp_all add: copiers)

lemmas v1alpha1_PersesService_copies = v1alpha1_PersesService.deep_copier_axioms

section \<open>\<open>StorageConfiguration\<close>\<close>

definition v1alpha1_StorageConfiguration_ty :: "copy_libs \<Rightarrow> ty" where
  "v1alpha1_StorageConfiguration_ty L = TStruct [
     (''StorageClass'', TPtr TPrim), (''Size'', lib_ty L ''resource.Quantity'')]"

definition v1alpha1_StorageConfiguration_DeepCopyInto :: "copy_libs \<Rightarrow> copier" where
  "v1alpha1_StorageConfiguration_DeepCopyInto L = deep_copy_into [
     (''StorageClass'', copy_pointer assign), (''Size'', lib_DeepCopyInto L ''resource.Quantity'')]"

definition v1alpha1_StorageConfiguration_DeepCopy :: "copy_libs \<Rightarrow> copier" where
  "v1alpha1_StorageConfiguration_DeepCopy L = deep_copy (v1alpha1_StorageConfiguration_DeepCopyInto L)"

lemma v1alpha1_StorageConfiguration_copies: "libs_ok L \<Longrightarrow> deep_copier (v1alpha1_StorageConfiguration_ty L) (v1alpha1_StorageConfiguration_DeepCopyInto L)"
  by (rule struct_copier [OF v1alpha1_StorageConfiguration_ty_def v1alpha1_StorageConfiguration_DeepCopyInto_def])
    (simp_all add: copiers libs_ok_simps lib_copied_types_def)

section \<open>\<open>PersesSpec\<close>\<close>

definition v1alpha1_PersesSpec_ty :: "copy_libs \<Rightarrow> ty" where
  "v1alpha1_PersesSpec_ty L = TStruct [
     (''Metadata'', TPtr v1alpha1_Metadata_ty), (''Client'', TPtr v1alpha1_Client_ty),
     (''Config'', v1alpha1_PersesConfig_ty L), (''Args'', TSlice TPrim), (''ContainerPort'', TPrim),
     (''Replicas'', TPtr TPrim), (''NodeSelector'', TMap TPrim),
     (''Tolerations'', TSlice (lib_ty L ''corev1.Toleration'')), (''Affinity'', TPtr (lib_ty L ''corev1.Affinity'')),
     (''Image'', TPrim), (''Service'', TPtr v1alpha1_PersesService_ty),
     (''LivenessProbe'', TPtr (lib_ty L ''corev1.Probe'')), (''ReadinessProbe'', TPtr (lib_ty L ''corev1.Probe'')),
     (''TLS'', TPtr v1alpha1_TLS_ty), (''Storage'', TPtr (v1alpha1_StorageConfiguration_ty L)),
     (''ServiceAccountName'', TPrim)]"

definition v1alpha1_PersesSpec_DeepCopyInto :: "copy_libs \<Rightarrow> copier" where
  "v1alpha1_PersesSpec_DeepCopyInto L = deep_copy_into [
     (''Metadata'', copy_pointer v1alpha1_Metadata_DeepCopyInto),
     (''Client'', copy_pointer v1alpha1_Client_DeepCopyInto), (''Config'', v1alpha1_PersesConfig_DeepCopyInto L),
     (''Args'', copy_slice assign), (''Replicas'', copy_pointer assign), (''NodeSelector'', copy_map assign),
     (''Tolerations'', copy_slice (lib_DeepCopyInto L ''corev1.Toleration'')),
     (''Affinity'', copy_pointer (lib_DeepCopyInto L ''corev1.Affinity'')),
     (''Service'', copy_pointer v1alpha1_PersesService_DeepCopyInto),
     (''LivenessProbe'', copy_pointer (lib_DeepCopyInto L ''corev1.Probe'')),
     (''ReadinessProbe'', copy_pointer (lib_DeepCopyInto L ''corev1.Probe'')),
     (''TLS'', copy_pointer v1alpha1_TLS_DeepCopyInto),
     (''Storage'', copy_pointer (v1alpha1_StorageConfiguration_DeepCopyInto L))]"

definition v1alpha1_PersesSpec_DeepCopy :: "copy_libs \<Rightarrow> copier" where
  "v1alpha1_PersesSpec_DeepCopy L = deep_copy (v1alpha1_PersesSpec_DeepCopyInto L)"

lemma v1alpha1_PersesSpec_copies: "libs_ok L \<Longrightarrow> deep_copier (v1alpha1_PersesSpec_ty L) (v1alpha1_PersesSpec_DeepCopyInto L)"
  by (rule struct_copier [OF v1alpha1_PersesSpec_ty_def v1alpha1_PersesSpec_DeepCopyInto_def])
    (simp_all add: copiers v1alpha1_Client_copies v1alpha1_Metadata_copies v1alpha1_PersesConfig_copies v1alpha1_PersesService_copies v1alpha1_StorageConfiguration_copies v1alpha1_TLS_copies libs_ok_simps lib_copied_types_def)

section \<open>\<open>PersesStatus\<close>\<close>

definition v1alpha1_PersesStatus_ty :: "copy_libs \<Rightarrow> ty" where
  "v1alpha1_PersesStatus_ty L = TStruct [
     (''Conditions'', TSlice (lib_ty L ''metav1.Condition''))]"

definition v1alpha1_PersesStatus_DeepCopyInto :: "copy_libs \<Rightarrow> copier" where
  "v1alpha1_PersesStatus_DeepCopyInto L = deep_copy_into [
     (''Conditions'', copy_slice (lib_DeepCopyInto L ''metav1.Condition''))]"

definition v1alpha1_PersesStatus_DeepCopy :: "copy_libs \<Rightarrow> copier" where
  "v1alpha1_PersesStatus_DeepCopy L = deep_copy (v1alpha1_PersesStatus_DeepCopyInto L)"

lemma v1alpha1_PersesStatus_copies: "libs_ok L \<Longrightarrow> deep_copier (v1alpha1_PersesStatus_ty L) (v1alpha1_PersesStatus_DeepCopyInto L)"
  by (rule struct_copier [OF v1alpha1_PersesStatus_ty_def v1alpha1_PersesStatus_DeepCopyInto_def])
    (simp_all add: copiers libs_ok_simps lib_copied_types_def)

section \<open>\<open>Perses\<close>\<close>

definition v1alpha1_Perses_ty :: "copy_libs \<Rightarrow> ty" where
  "v1alpha1_Perses_ty L = TStruct [
     (''TypeMeta'', lib_ty L ''metav1.TypeMeta''), (''ObjectMeta'', lib_ty L ''metav1.ObjectMeta''),
     (''Spec'', v1alpha1_PersesSpec_ty L), (''Status'', v1alpha1_PersesStatus_ty L)]"

definition v1alpha1_Perses_DeepCopyInto :: "copy_libs \<Rightarrow> copier" where
  "v1alpha1_Perses_DeepCopyInto L = deep_copy_into [
     (''TypeMeta'', assign), (''ObjectMeta'', lib_DeepCopyInto L ''metav1.ObjectMeta''),
     (''Spec'', v1alpha1_PersesSpec_DeepCopyInto L), (''Status'', v1alpha1_PersesStatus_DeepCopyInto L)]"

definition v1alpha1_Perses_DeepCopy :: "copy_libs \<Rightarrow> copier" where
  "v1alpha1_Perses_DeepCopy L = deep_copy (v1alpha1_Perses_DeepCopyInto L)"

definition v1alpha1_Perses_DeepCopyObject :: "copy_libs \<Rightarrow> gval \<Rightarrow> (gval option) hp" where
  "v1alpha1_Perses_DeepCopyObject L = deep_copy_object (v1alpha1_Perses_DeepCopy L)"

lemma v1alpha1_Perses_copies: "libs_ok L \<Longrightarrow> deep_copier (v1alpha1_Perses_ty L) (v1alpha1_Perses_DeepCopyInto L)"
  by (rule struct_copier [OF v1alpha1_Perses_ty_def v1alpha1_Perses_DeepCopyInto_def])
    (simp_all add: copiers v1alpha1_PersesSpec_copies v1alpha1_PersesStatus_copies libs_ok_simps lib_copied_types_def)

section \<open>\<open>PersesList\<close>\<close>

definition v1alpha1_PersesList_ty :: "copy_libs \<Rightarrow> ty" where
  "v1alpha1_PersesList_ty L = TStruct [
     (''TypeMeta'', lib_ty L ''metav1.TypeMeta''), (''ListMeta'', lib_ty L ''metav1.ListMeta''),
     (''Items'', TSlice (v1alpha1_Perses_ty L))]"

definition v1alpha1_PersesList_DeepCopyInto :: "copy_libs \<Rightarrow> copier" where
  "v1alpha1_PersesList_DeepCopyInto L = deep_copy_into [
     (''TypeMeta'', assign), (''ListMeta'', lib_DeepCopyInto L ''metav1.ListMeta''),
     (''Items'', copy_slice (v1alpha1_Perses_DeepCopyInto L))]"

definition v1alpha1_PersesList_DeepCopy :: "copy_libs \<Rightarrow> copier" where
  "v1alpha1_PersesList_DeepCopy L = deep_copy (v1alpha1_PersesList_DeepCopyInto L)"

definition v1alpha1_PersesList_DeepCopyObject :: "copy_libs \<Rightarrow> gval \<Rightarrow> (gval option) hp" where
  "v1alpha1_PersesList_DeepCopyObject L = deep_copy_object (v1alpha1_PersesList_DeepCopy L)"

lemma v1alpha1_PersesList_copies: "libs_ok L \<Longrightarrow> deep_copier (v1alpha1_PersesList_ty L) (v1alpha1_PersesList_DeepCopyInto L)"
  by (rule struct_copier [OF v1alpha1_PersesList_ty_def v1alpha1_PersesList_DeepCopyInto_def])
    (simp_all add: copiers v1alpha1_Perses_copies libs_ok_simps lib_copied_types_def)

section \<open>\<open>PersesDashboardStatus\<close>\<close>

definition v1alpha1_PersesDashboardStatus_ty :: "copy_libs \<Rightarrow> ty" where
  "v1alpha1_PersesDashboardStatus_ty L = TStruct [
     (''Conditions'', TSlice (lib_ty L ''metav1.Condition''))]"

definition v1alpha1_PersesDashboardStatus_DeepCopyInto :: "copy_libs \<Rightarrow> copier" where
  "v1alpha1_PersesDashboardStatus_DeepCopyInto L = deep_copy_into [
     (''Conditions'', copy_slice (lib_DeepCopyInto L ''metav1.Condition''))]"

definition v1alpha1_PersesDashboardStatus_DeepCopy :: "copy_libs \<Rightarrow> copier" where
  "v1alpha1_PersesDashboardStatus_DeepCopy L = deep_copy (v1alpha1_PersesDashboardStatus_DeepCopyInto L)"

lemma v1alpha1_PersesDashboardStatus_copies: "libs_ok L \<Longrightarrow> deep_copier (v1alpha1_PersesDashboardStatus_ty L) (v1alpha1_PersesDashboardStatus_DeepCopyInto L)"
  by (rule struct_copier [OF v1alpha1_PersesDashboardStatus_ty_def v1alpha1_PersesDashboardStatus_DeepCopyInto_def])
    (simp_all add: copiers libs_ok_simps lib_copied_types_def)

section \<open>\<open>PersesDashboard\<close>\<close>

definition v1alpha1_PersesDashboard_ty :: "copy_libs \<Rightarrow> ty" where
  "v1alpha1_PersesDashboard_ty L = TStruct [
     (''TypeMeta'', lib_ty L ''metav1.TypeMeta''), (''ObjectMeta'', lib_ty L ''metav1.ObjectMeta''),
     (''Spec'', v1alpha1_Dashboard_ty L), (''Status'', v1alpha1_PersesDashboardStatus_ty L)]"

definition v1alpha1_PersesDashboard_DeepCopyInto :: "copy_libs \<Rightarrow> copier" where
  "v1alpha1_PersesDashboard_DeepCopyInto L = deep_copy_into [
     (''TypeMeta'', assign), (''ObjectMeta'', lib_DeepCopyInto L ''metav1.ObjectMeta''),
     (''Spec'', v1alpha1_Dashboard_DeepCopyInto L), (''Status'', v1alpha1_PersesDashboardStatus_DeepCopyInto L)]"

definition v1alpha1_PersesDashboard_DeepCopy :: "copy_libs \<Rightarrow> copier" where
  "v1alpha1_PersesDashboard_DeepCopy L = deep_copy (v1alpha1_PersesDashboard_DeepCopyInto L)"

definition v1alpha1_PersesDashboard_DeepCopyObject :: "copy_libs \<Rightarrow> gval \<Rightarrow> (gval option) hp" where
  "v1alpha1_PersesDashboard_DeepCopyObject L = deep_copy_object (v1alpha1_PersesDashboard_DeepCopy L)"

lemma v1alpha1_PersesDashboard_copies: "libs_ok L \<Longrightarrow> deep_copier (v1alpha1_PersesDashboard_ty L) (v1alpha1_PersesDashboard_DeepCopyInto L)"
  by (rule struct_copier [OF v1alpha1_PersesDashboard_ty_def v1alpha1_PersesDashboard_DeepCopyInto_def])
    (simp_all add: copiers v1alpha1_Dashboard_copies v1alpha1_PersesDashboardStatus_copies libs_ok_simps lib_copied_types_def)

section \<open>\<open>PersesDashboardList\<close>\<close>

definition v1alpha1_PersesDashboardList_ty :: "copy_libs \<Rightarrow> ty" where
  "v1alpha1_PersesDashboardList_ty L = TStruct [
     (''TypeMeta'', lib_ty L ''metav1.TypeMeta''), (''ListMeta'', lib_ty L ''metav1.ListMeta''),
     (''Items'', TSlice (v1alpha1_PersesDashboard_ty L))]"

definition v1alpha1_PersesDashboardList_DeepCopyInto :: "copy_libs \<Rightarrow> copier" where
  "v1alpha1_PersesDashboardList_DeepCopyInto L = deep_copy_into [
     (''TypeMeta'', assign), (''ListMeta'', lib_DeepCopyInto L ''metav1.ListMeta''),
     (''Items'', copy_slice (v1alpha1_PersesDashboard_DeepCopyInto L))]"

definition v1alpha1_PersesDashboardList_DeepCopy :: "copy_libs \<Rightarrow> copier" where
  "v1alpha1_PersesDashboardList_DeepCopy L = deep_copy (v1alpha1_PersesDashboardList_DeepCopyInto L)"

definition v1alpha1_PersesDashboardList_DeepCopyObject :: "copy_libs \<Rightarrow> gval \<Rightarrow> (gval option) hp" where
  "v1alpha1_PersesDashboardList_DeepCopyObject L = deep_copy_object (v1alpha1_PersesDashboardList_DeepCopy L)"

lemma v1alpha1_PersesDashboardList_copies: "libs_ok L \<Longrightarrow> deep_copier (v1alpha1_PersesDashboardList_ty L) (v1alpha1_PersesDashboardList_DeepCopyInto L)"
  by (rule struct_copier [OF v1alpha1_PersesDashboardList_ty_def v1alpha1_PersesDashboardList_DeepCopyInto_def])
    (simp_all add: copiers v1alpha1_PersesDashboard_copies libs_ok_simps lib_copied_types_def)

section \<open>\<open>PersesDatasourceStatus\<close>\<close>

definition v1alpha1_PersesDatasourceStatus_ty :: "copy_libs \<Rightarrow> ty" where
  "v1alpha1_PersesDatasourceStatus_ty L = TStruct [
     (''Conditions'', TSlice (lib_ty L ''metav1.Condition''))]"

definition v1alpha1_PersesDatasourceStatus_DeepCopyInto :: "copy_libs \<Rightarrow> copier" where
  "v1alpha1_PersesDatasourceStatus_DeepCopyInto L = deep_copy_into [
     (''Conditions'', copy_slice (lib_DeepCopyInto L ''metav1.Condition''))]"

definition v1alpha1_PersesDatasourceStatus_DeepCopy :: "copy_libs \<Rightarrow> copier" where
  "v1alpha1_PersesDatasourceStatus_DeepCopy L = deep_copy (v1alpha1_PersesDatasourceStatus_DeepCopyInto L)"

lemma v1alpha1_PersesDatasourceStatus_copies: "libs_ok L \<Longrightarrow> deep_copier (v1alpha1_PersesDatasourceStatus_ty L) (v1alpha1_PersesDatasourceStatus_DeepCopyInto L)"
  by (rule struct_copier [OF v1alpha1_PersesDatasourceStatus_ty_def v1alpha1_PersesDatasourceStatus_DeepCopyInto_def])
    (simp_all add: copiers libs_ok_simps lib_copied_types_def)

section \<open>\<open>DatasourceSpec\<close>\<close>

definition v1alpha1_DatasourceSpec_ty :: "copy_libs \<Rightarrow> ty" where
  "v1alpha1_DatasourceSpec_ty L = TStruct [
     (''Config'', v1alpha1_Datasource_ty L), (''Client'', TPtr v1alpha1_Client_ty)]"

definition v1alpha1_DatasourceSpec_DeepCopyInto :: "copy_libs \<Rightarrow> copier" where
  "v1alpha1_DatasourceSpec_DeepCopyInto L = deep_copy_into [
     (''Config'', v1alpha1_Datasource_DeepCopyInto L), (''Client'', copy_pointer v1alpha1_Client_DeepCopyInto)]"

definition v1alpha1_DatasourceSpec_DeepCopy :: "copy_libs \<Rightarrow> copier" where
  "v1alpha1_DatasourceSpec_DeepCopy L = deep_copy (v1alpha1_DatasourceSpec_DeepCopyInto L)"

lemma v1alpha1_DatasourceSpec_copies: "libs_ok L \<Longrightarrow> deep_copier (v1alpha1_DatasourceSpec_ty L) (v1alpha1_DatasourceSpec_DeepCopyInto L)"
  by (rule struct_copier [OF v1alpha1_DatasourceSpec_ty_def v1alpha1_DatasourceSpec_DeepCopyInto_def])
    (simp_all add: copiers v1alpha1_Client_copies v1alpha1_Datasource_copies libs_ok_simps lib_copied_types_def)

section \<open>\<open>PersesDatasource\<close>\<close>

definition v1alpha1_PersesDatasource_ty :: "copy_libs \<Rightarrow> ty" where
  "v1alpha1_PersesDatasource_ty L = TStruct [
     (''TypeMeta'', lib_ty L ''metav1.TypeMeta''), (''ObjectMeta'', lib_ty L ''metav1.ObjectMeta''),
     (''Spec'', v1alpha1_DatasourceSpec_ty L), (''Status'', v1alpha1_PersesDatasourceStatus_ty L)]"

definition v1alpha1_PersesDatasource_DeepCopyInto :: "copy_libs \<Rightarrow> copier" where
  "v1alpha1_PersesDatasource_DeepCopyInto L = deep_copy_into [
     (''TypeMeta'', assign), (''ObjectMeta'', lib_DeepCopyInto L ''metav1.ObjectMeta''),
     (''Spec'', v1alpha1_DatasourceSpec_DeepCopyInto L), (''Status'', v1alpha1_PersesDatasourceStatus_DeepCopyInto L)]"

definition v1alpha1_PersesDatasource_DeepCopy :: "copy_libs \<Rightarrow> copier" where
  "v1alpha1_PersesDatasource_DeepCopy L = deep_copy (v1alpha1_PersesDatasource_DeepCopyInto L)"

definition v1alpha1_PersesDatasource_DeepCopyObject :: "copy_libs \<Rightarrow> gval \<Rightarrow> (gval option) hp" where
  "v1alpha1_PersesDatasource_DeepCopyObject L = deep_copy_object (v1alpha1_PersesDatasource_DeepCopy L)"

lemma v1alpha1_PersesDatasource_copies: "libs_ok L \<Longrightarrow> deep_copier (v1alpha1_PersesDatasource_ty L) (v1alpha1_PersesDatasource_DeepCopyInto L)"
  by (rule struct_copier [OF v1alpha1_PersesDatasource_ty_def v1alpha1_PersesDatasource_DeepCopyInto_def])
    (simp_all add: copiers v1alpha1_DatasourceSpec_copies v1alpha1_PersesDatasourceStatus_copies libs_ok_simps lib_copied_types_def)

section \<open>\<open>PersesDatasourceList\<close>\<close>

definition v1alpha1_PersesDatasourceList_ty :: "copy_libs \<Rightarrow> ty" where
  "v1alpha1_PersesDatasourceList_ty L = TStruct [
     (''TypeMeta'', lib_ty L ''metav1.TypeMeta''), (''ListMeta'', lib_ty L ''metav1.ListMeta''),
     (''Items'', TSlice (v1alpha1_PersesDatasource_ty L))]"

definition v1alpha1_PersesDatasourceList_DeepCopyInto :: "copy_libs \<Rightarrow> copier" where
  "v1alpha1_PersesDatasourceList_DeepCopyInto L = deep_copy_into [
     (''TypeMeta'', assign), (''ListMeta'', lib_DeepCopyInto L ''metav1.ListMeta''),
     (''Items'', copy_slice (v1alpha1_PersesDatasource_DeepCopyInto L))]"

definition v1alpha1_PersesDatasourceList_DeepCopy :: "copy_libs \<Rightarrow> copier" where
  "v1alpha1_PersesDatasourceList_DeepCopy L = deep_copy (v1alpha1_PersesDatasourceList_DeepCopyInto L)"

definition v1alpha1_PersesDatasourceList_DeepCopyObject :: "copy_libs \<Rightarrow> gval \<Rightarrow> (gval option) hp" where
  "v1alpha1_PersesDatasourceList_DeepCopyObject L = deep_copy_object (v1alpha1_PersesDatasourceList_DeepCopy L)"

lemma v1alpha1_PersesDatasourceList_copies: "libs_ok L \<Longrightarrow> deep_copier (v1alpha1_PersesDatasourceList_ty L) (v1alpha1_PersesDatasourceList_DeepCopyInto L)"
  by (rule struct_copier [OF v1alpha1_PersesDatasourceList_ty_def v1alpha1_PersesDatasourceList_DeepCopyInto_def])
    (simp_all add: copiers v1alpha1_PersesDatasource_copies libs_ok_simps lib_copied_types_def)

definition v1alpha1_init_perses :: "copy_libs \<Rightarrow> api_object list" where
  "v1alpha1_init_perses L = [
     \<lparr>object_kind = ''Perses'', object_ty = v1alpha1_Perses_ty L, DeepCopyObject = v1alpha1_Perses_DeepCopyObject L\<rparr>,
     \<lparr>object_kind = ''PersesList'', object_ty = v1alpha1_PersesList_ty L, DeepCopyObject = v1alpha1_PersesList_DeepCopyObject L\<rparr>]"

definition v1alpha1_init_persesdashboard :: "copy_libs \<Rightarrow> api_object list" where
  "v1alpha1_init_persesdashboard L = [
     \<lparr>object_kind = ''PersesDashboard'', object_ty = v1alpha1_PersesDashboard_ty L, DeepCopyObject = v1alpha1_PersesDashboard_DeepCopyObject L\<rparr>,
     \<lparr>object_kind = ''PersesDashboardList'', object_ty = v1alpha1_PersesDashboardList_ty L, DeepCopyObject = v1alpha1_PersesDashboardList_DeepCopyObject L\<rparr>]"

definition v1alpha1_init_persesdatasource :: "copy_libs \<Rightarrow> api_object list" where
  "v1alpha1_init_persesdatasource L = [
     \<lparr>object_kind = ''PersesDatasource'', object_ty = v1alpha1_PersesDatasource_ty L, DeepCopyObject = v1alpha1_PersesDatasource_DeepCopyObject L\<rparr>,
     \<lparr>object_kind = ''PersesDatasourceList'', object_ty = v1alpha1_PersesDatasourceList_ty L, DeepCopyObject = v1alpha1_PersesDatasourceList_DeepCopyObject L\<rparr>]"

definition v1alpha1_objects :: "copy_libs \<Rightarrow> api_object list" where
  "v1alpha1_objects L = v1alpha1_init_perses L @ v1alpha1_init_persesdashboard L @ v1alpha1_init_persesdatasource L"

lemma v1alpha1_objects_copied: "libs_ok L \<Longrightarrow> obj \<in> set (v1alpha1_objects L) \<Longrightarrow> object_copies obj"
  by (auto simp: v1alpha1_objects_def v1alpha1_init_perses_def v1alpha1_init_persesdashboard_def
      v1alpha1_init_persesdatasource_def object_copiesI v1alpha1_Perses_DeepCopyObject_def v1alpha1_Perses_DeepCopy_def
      v1alpha1_Perses_copies v1alpha1_PersesList_DeepCopyObject_def v1alpha1_PersesList_DeepCopy_def
      v1alpha1_PersesList_copies v1alpha1_PersesDashboard_DeepCopyObject_def v1alpha1_PersesDashboard_DeepCopy_def
      v1alpha1_PersesDashboard_copies v1alpha1_PersesDashboardList_DeepCopyObject_def
      v1alpha1_PersesDashboardList_DeepCopy_def v1alpha1_PersesDashboardList_copies
      v1alpha1_PersesDatasource_DeepCopyObject_def v1alpha1_PersesDatasource_DeepCopy_def
      v1alpha1_PersesDatasource_copies v1alpha1_PersesDatasourceList_DeepCopyObject_def
      v1alpha1_PersesDatasourceList_DeepCopy_def v1alpha1_PersesDatasourceList_copies)

end
