(* ===== verification/DeepCopyV1alpha2.thy ===== *)
theory DeepCopyV1alpha2
  imports CopyLibraries
begin

text \<open>
  The deep copies of the API types of v1alpha2: the types with their fields, the generated functions
  statement by statement, the three hand-written ones, and that each of them makes a deep copy. The
  last section has the objects that the package registers in its \<open>init\<close> functions.
\<close>

section \<open>\<open>ProvisioningSecret\<close>\<close>

definition v1alpha2_ProvisioningSecret_ty :: "copy_libs \<Rightarrow> ty" where
  "v1alpha2_ProvisioningSecret_ty L = TStruct [
     (''SecretKeySelector'', lib_ty L ''corev1.SecretKeySelector'')]"

definition v1alpha2_ProvisioningSecret_DeepCopyInto :: "copy_libs \<Rightarrow> copier" where
  "v1alpha2_ProvisioningSecret_DeepCopyInto L = deep_copy_into [
     (''SecretKeySelector'', lib_DeepCopyInto L ''corev1.SecretKeySelector'')]"

definition v1alpha2_ProvisioningSecret_DeepCopy :: "copy_libs \<Rightarrow> copier" where
  "v1alpha2_ProvisioningSecret_DeepCopy L = deep_copy (v1alpha2_ProvisioningSecret_DeepCopyInto L)"

lemma v1alpha2_ProvisioningSecret_copies: "libs_ok L \<Longrightarrow> deep_copier (v1alpha2_ProvisioningSecret_ty L) (v1alpha2_ProvisioningSecret_DeepCopyInto L)"
  by (rule struct_copier [OF v1alpha2_ProvisioningSecret_ty_def v1alpha2_ProvisioningSecret_DeepCopyInto_def])
    (simp_all add: copiers libs_ok_simps lib_copied_types_def)

section \<open>\<open>Provisioning\<close>\<close>

definition v1alpha2_Provisioning_ty :: "copy_libs \<Rightarrow> ty" where
  "v1alpha2_Provisioning_ty L = TStruct [
     (''SecretRefs'', TSlice (TPtr (v1alpha2_ProvisioningSecret_ty L)))]"

definition v1alpha2_Provisioning_DeepCopyInto :: "copy_libs \<Rightarrow> copier" where
  "v1alpha2_Provisioning_DeepCopyInto L = deep_copy_into [
     (''SecretRefs'', copy_slice (copy_pointer (v1alpha2_ProvisioningSecret_DeepCopyInto L)))]"

definition v1alpha2_Provisioning_DeepCopy :: "copy_libs \<Rightarrow> copier" where
  "v1alpha2_Provisioning_DeepCopy L = deep_copy (v1alpha2_Provisioning_DeepCopyInto L)"

lemma v1alpha2_Provisioning_copies: "libs_ok L \<Longrightarrow> deep_copier (v1alpha2_Provisioning_ty L) (v1alpha2_Provisioning_DeepCopyInto L)"
  by (rule struct_copier [OF v1alpha2_Provisioning_ty_def v1alpha2_Provisioning_DeepCopyInto_def])
    (simp_all add: copiers v1alpha2_ProvisioningSecret_copies libs_ok_simps lib_copied_types_def)

section \<open>\<open>SecretVersion\<close>\<close>

definition v1alpha2_SecretVersion_ty :: "ty" where
  "v1alpha2_SecretVersion_ty = TStruct [
     (''Name'', TPrim), (''Version'', TPrim)]"

definition v1alpha2_SecretVersion_DeepCopyInto :: "copier" where
  "v1alpha2_SecretVersion_DeepCopyInto = deep_copy_into []"

definition v1alpha2_SecretVersion_DeepCopy :: "copier" where
  "v1alpha2_SecretVersion_DeepCopy = deep_copy v1alpha2_SecretVersion_DeepCopyInto"

interpretation v1alpha2_SecretVersion: deep_copier v1alpha2_SecretVersion_ty v1alpha2_SecretVersion_DeepCopyInto
  by (rule struct_copier [OF v1alpha2_SecretVersion_ty_def v1alpha2_SecretVersion_DeepCopyInto_def])
    (simp_all add: copiers)

lemmas v1alpha2_SecretVersion_copies = v1alpha2_SecretVersion.deep_copier_axioms

section \<open>\<open>PersesConfig\<close>\<close>

definition v1alpha2_PersesConfig_ty :: "copy_libs \<Rightarrow> ty" where
  "v1alpha2_PersesConfig_ty L = TStruct [
     (''Config'', lib_ty L ''config.Config'')]"

definition v1alpha2_PersesConfig_DeepCopyInto :: "copy_libs \<Rightarrow> copier" where
  "v1alpha2_PersesConfig_DeepCopyInto L v = hbind (deep_Copy L (v1alpha2_PersesConfig_ty L) v) (\<lambda>copied. case copied of None \<Rightarrow> panic | Some w \<Rightarrow> hreturn w)"

definition v1alpha2_PersesConfig_DeepCopy :: "copy_libs \<Rightarrow> copier" where
  "v1alpha2_PersesConfig_DeepCopy L = deep_copy (v1alpha2_PersesConfig_DeepCopyInto L)"

lemma v1alpha2_PersesConfig_copies: "libs_ok L \<Longrightarrow> deep_copier (v1alpha2_PersesConfig_ty L) (v1alpha2_PersesConfig_DeepCopyInto L)"
  unfolding v1alpha2_PersesConfig_DeepCopyInto_def by (rule deep_Copy_copies) (simp_all add: v1alpha2_PersesConfig_ty_def deep_types_def)

section \<open>\<open>Dashboard\<close>\<close>

definition v1alpha2_Dashboard_ty :: "copy_libs \<Rightarrow> ty" where
  "v1alpha2_Dashboard_ty L = TStruct [
     (''Spec'', lib_ty L ''dashboardSpec.Spec'')]"

definition v1alpha2_Dashboard_DeepCopyInto :: "copy_libs \<Rightarrow> copier" where
  "v1alpha2_Dashboard_DeepCopyInto L v = hbind (deep_Copy L (v1alpha2_Dashboard_ty L) v) (\<lambda>copied. case copied of None \<Rightarrow> panic | Some w \<Rightarrow> hreturn w)"

definition v1alpha2_Dashboard_DeepCopy :: "copy_libs \<Rightarrow> copier" where
  "v1alpha2_Dashboard_DeepCopy L = deep_copy (v1alpha2_Dashboard_DeepCopyInto L)"

lemma v1alpha2_Dashboard_copies: "libs_ok L \<Longrightarrow> deep_copier (v1alpha2_Dashboard_ty L) (v1alpha2_Dashboard_DeepCopyInto L)"
  unfolding v1alpha2_Dashboard_DeepCopyInto_def by (rule deep_Copy_copies) (simp_all add: v1alpha2_Dashboard_ty_def deep_types_def)

section \<open>\<open>Datasource\<close>\<close>

definition v1alpha2_Datasource_ty :: "copy_libs \<Rightarrow> ty" where
  "v1alpha2_Datasource_ty L = TStruct [
     (''Spec'', lib_ty L ''datasource.Spec'')]"

definition v1alpha2_Datasource_DeepCopyInto :: "copy_libs \<Rightarrow> copier" where
  "v1alpha2_Datasource_DeepCopyInto L v = hbind (deep_Copy L (v1alpha2_Datasource_ty L) v) (\<lambda>copied. case copied of None \<Rightarrow> panic | Some w \<Rightarrow> hreturn w)"

definition v1alpha2_Datasource_DeepCopy :: "copy_libs \<Rightarrow> copier" where
  "v1alpha2_Datasource_DeepCopy L = deep_copy (v1alpha2_Datasource_DeepCopyInto L)"

lemma v1alpha2_Datasource_copies: "libs_ok L \<Longrightarrow> deep_copier (v1alpha2_Datasource_ty L) (v1alpha2_Datasource_DeepCopyInto L)"
  unfolding v1alpha2_Datasource_DeepCopyInto_def by (rule deep_Copy_copies) (simp_all add: v1alpha2_Datasource_ty_def deep_types_def)

section \<open>\<open>Metadata\<close>\<close>

definition v1alpha2_Metadata_ty :: "ty" where
  "v1alpha2_Metadata_ty = TStruct [
     (''Labels'', TMap TPrim), (''Annotations'', TMap TPrim)]"

definition v1alpha2_Metadata_DeepCopyInto :: "copier" where
  "v1alpha2_Metadata_DeepCopyInto = deep_copy_into [
     (''Labels'', copy_map assign), (''Annotations'', copy_map assign)]"

definition v1alpha2_Metadata_DeepCopy :: "copier" where
  "v1alpha2_Metadata_DeepCopy = deep_copy v1alpha2_Metadata_DeepCopyInto"

interpretation v1alpha2_Metadata: deep_copier v1alpha2_Metadata_ty v1alpha2_Metadata_DeepCopyInto
  by (rule struct_copier [OF v1alpha2_Metadata_ty_def v1alpha2_Metadata_DeepCopyInto_def])
    (simp_all add: copiers)

lemmas v1alpha2_Metadata_copies = v1alpha2_Metadata.deep_copier_axioms

section \<open>\<open>SecretSource\<close>\<close>

definition v1alpha2_SecretSource_ty :: "ty" where
  "v1alpha2_SecretSource_ty = TStruct [
     (''Type'', TPrim), (''Name'', TPtr TPrim), (''Namespace'', TPtr TPrim)]"

definition v1alpha2_SecretSource_DeepCopyInto :: "copier" where
  "v1alpha2_SecretSource_DeepCopyInto = deep_copy_into [
     (''Name'', copy_pointer assign), (''Namespace'', copy_pointer assign)]"

definition v1alpha2_SecretSource_DeepCopy :: "copier" where
  "v1alpha2_SecretSource_DeepCopy = deep_copy v1alpha2_SecretSource_DeepCopyInto"

interpretation v1alpha2_SecretSource: deep_copier v1alpha2_SecretSource_ty v1alpha2_SecretSource_DeepCopyInto
  by (rule struct_copier [OF v1alpha2_SecretSource_ty_def v1alpha2_SecretSource_DeepCopyInto_def])
    (simp_all add: copiers)

lemmas v1alpha2_SecretSource_copies = v1alpha2_SecretSource.deep_copier_axioms

section \<open>\<open>BasicAuth\<close>\<close>

definition v1alpha2_BasicAuth_ty :: "ty" where
  "v1alpha2_BasicAuth_ty = TStruct [
     (''SecretSource'', v1alpha2_SecretSource_ty), (''Username'', TPrim), (''PasswordPath'', TPrim)]"

definition v1alpha2_BasicAuth_DeepCopyInto :: "copier" where
  "v1alpha2_BasicAuth_DeepCopyInto = deep_copy_into [
     (''SecretSource'', v1alpha2_SecretSource_DeepCopyInto)]"

definition v1alpha2_BasicAuth_DeepCopy :: "copier" where
  "v1alpha2_BasicAuth_DeepCopy = deep_copy v1alpha2_BasicAuth_DeepCopyInto"

interpretation v1alpha2_BasicAuth: deep_copier v1alpha2_BasicAuth_ty v1alpha2_BasicAuth_DeepCopyInto
  by (rule struct_copier [OF v1alpha2_BasicAuth_ty_def v1alpha2_BasicAuth_DeepCopyInto_def])
    (simp_all add: copiers v1alpha2_SecretSource_copies)

lemmas v1alpha2_BasicAuth_copies = v1alpha2_BasicAuth.deep_copier_axioms

section \<open>\<open>OAuth\<close>\<close>

definition v1alpha2_OAuth_ty :: "ty" where
  "v1alpha2_OAuth_ty = TStruct [
     (''SecretSource'', v1alpha2_SecretSource_ty), (''ClientIDPath'', TPtr TPrim),
     (''ClientSecretPath'', TPtr TPrim), (''TokenURL'', TPrim), (''Scopes'', TSlice TPrim),
     (''EndpointParams'', TMap (TSlice TPrim)), (''AuthStyle'', TPtr TPrim)]"

definition v1alpha2_OAuth_DeepCopyInto :: "copier" where
  "v1alpha2_OAuth_DeepCopyInto = deep_copy_into [
     (''SecretSource'', v1alpha2_SecretSource_DeepCopyInto), (''ClientIDPath'', copy_pointer assign),
     (''ClientSecretPath'', copy_pointer assign), (''Scopes'', copy_slice assign),
     (''EndpointParams'', copy_map (copy_slice assign)), (''AuthStyle'', copy_pointer assign)]"

definition v1alpha2_OAuth_DeepCopy :: "copier" where
  "v1alpha2_OAuth_DeepCopy = deep_copy v1alpha2_OAuth_DeepCopyInto"

interpretation v1alpha2_OAuth: deep_copier v1alpha2_OAuth_ty v1alpha2_OAuth_DeepCopyInto
  by (rule struct_copier [OF v1alpha2_OAuth_ty_def v1alpha2_OAuth_DeepCopyInto_def])
    (simp_all add: copiers v1alpha2_SecretSource_copies)

lemmas v1alpha2_OAuth_copies = v1alpha2_OAuth.deep_copier_axioms

section \<open>\<open>Certificate\<close>\<close>

definition v1alpha2_Certificate_ty :: "ty" where
  "v1alpha2_Certificate_ty = TStruct [
     (''SecretSource'', v1alpha2_SecretSource_ty), (''CertPath'', TPrim), (''PrivateKeyPath'', TPtr TPrim)]"

definition v1alpha2_Certificate_DeepCopyInto :: "copier" where
  "v1alpha2_Certificate_DeepCopyInto = deep_copy_into [
     (''SecretSource'', v1alpha2_SecretSource_DeepCopyInto), (''PrivateKeyPath'', copy_pointer assign)]"

definition v1alpha2_Certificate_DeepCopy :: "copier" where
  "v1alpha2_Certificate_DeepCopy = deep_copy v1alpha2_Certificate_DeepCopyInto"

interpretation v1alpha2_Certificate: deep_copier v1alpha2_Certificate_ty v1alpha2_Certificate_DeepCopyInto
  by (rule struct_copier [OF v1alpha2_Certificate_ty_def v1alpha2_Certificate_DeepCopyInto_def])
    (simp_all add: copiers v1alpha2_SecretSource_copies)

lemmas v1alpha2_Certificate_copies = v1alpha2_Certificate.deep_copier_axioms

section \<open>\<open>TLS\<close>\<close>

definition v1alpha2_TLS_ty :: "ty" where
  "v1alpha2_TLS_ty = TStruct [
     (''Enable'', TPtr TPrim), (''CaCert'', TPtr v1alpha2_Certificate_ty),
     (''UserCert'', TPtr v1alpha2_Certificate_ty), (''InsecureSkipVerify'', TPtr TPrim)]"

definition v1alpha2_TLS_DeepCopyInto :: "copier" where
  "v1alpha2_TLS_DeepCopyInto = deep_copy_into [
     (''Enable'', copy_pointer assign), (''CaCert'', copy_pointer v1alpha2_Certificate_DeepCopyInto),
     (''UserCert'', copy_pointer v1alpha2_Certificate_DeepCopyInto), (''InsecureSkipVerify'', copy_pointer assign)]"

definition v1alpha2_TLS_DeepCopy :: "copier" where
  "v1alpha2_TLS_DeepCopy = deep_copy v1alpha2_TLS_DeepCopyInto"

interpretation v1alpha2_TLS: deep_copier v1alpha2_TLS_ty v1alpha2_TLS_DeepCopyInto
  by (rule struct_copier [OF v1alpha2_TLS_ty_def v1alpha2_TLS_DeepCopyInto_def])
    (simp_all add: copiers v1alpha2_Certificate_copies)

lemmas v1alpha2_TLS_copies = v1alpha2_TLS.deep_copier_axioms

section \<open>\<open>KubernetesAuth\<close>\<close>

definition v1alpha2_KubernetesAuth_ty :: "ty" where
  "v1alpha2_KubernetesAuth_ty = TStruct [
     (''Enable'', TPtr TPrim)]"

definition v1alpha2_KubernetesAuth_DeepCopyInto :: "copier" where
  "v1alpha2_KubernetesAuth_DeepCopyInto = deep_copy_into [
     (''Enable'', copy_pointer assign)]"

definition v1alpha2_KubernetesAuth_DeepCopy :: "copier" where
  "v1alpha2_KubernetesAuth_DeepCopy = deep_copy v1alpha2_KubernetesAuth_DeepCopyInto"

interpretation v1alpha2_KubernetesAuth: deep_copier v1alpha2_KubernetesAuth_ty v1alpha2_KubernetesAuth_DeepCopyInto
  by (rule struct_copier [OF v1alpha2_KubernetesAuth_ty_def v1alpha2_KubernetesAuth_DeepCopyInto_def])
    (simp_all add: copiers)

lemmas v1alpha2_KubernetesAuth_copies = v1alpha2_KubernetesAuth.deep_copier_axioms

section \<open>\<open>Client\<close>\<close>

definition v1alpha2_Client_ty :: "ty" where
  "v1alpha2_Client_ty = TStruct [
     (''BasicAuth'', TPtr v1alpha2_BasicAuth_ty), (''OAuth'', TPtr v1alpha2_OAuth_ty),
     (''TLS'', TPtr v1alpha2_TLS_ty), (''KubernetesAuth'', TPtr v1alpha2_KubernetesAuth_ty)]"

definition v1alpha2_Client_DeepCopyInto :: "copier" where
  "v1alpha2_Client_DeepCopyInto = deep_copy_into [
     (''BasicAuth'', copy_pointer v1alpha2_BasicAuth_DeepCopyInto),
     (''OAuth'', copy_pointer v1alpha2_OAuth_DeepCopyInto), (''TLS'', copy_pointer v1alpha2_TLS_DeepCopyInto),
     (''KubernetesAuth'', copy_pointer v1alpha2_KubernetesAuth_DeepCopyInto)]"

definition v1alpha2_Client_DeepCopy :: "copier" where
  "v1alpha2_Client_DeepCopy = deep_copy v1alpha2_Client_DeepCopyInto"

interpretation v1alpha2_Client: deep_copier v1alpha2_Client_ty v1alpha2_Client_DeepCopyInto
  by (rule struct_copier [OF v1alpha2_Client_ty_def v1alpha2_Client_DeepCopyInto_def])
    (simp_all add: copiers v1alpha2_BasicAuth_copies v1alpha2_KubernetesAuth_copies v1alpha2_OAuth_copies v1alpha2_TLS_copies)

lemmas v1alpha2_Client_copies = v1alpha2_Client.deep_copier_axioms

section \<open>\<open>PersesService\<close>\<close>

definition v1alpha2_PersesService_ty :: "ty" where
  "v1alpha2_PersesService_ty = TStruct [
     (''Name'', TPtr TPrim), (''Annotations'', TMap TPrim)]"

definition v1alpha2_PersesService_DeepCopyInto :: "copier" where
  "v1alpha2_PersesService_DeepCopyInto = deep_copy_into [
     (''Name'', copy_pointer assign), (''Annotations'', copy_map assign)]"

definition v1alpha2_PersesService_DeepCopy :: "copier" where
  "v1alpha2_PersesService_DeepCopy = deep_copy v1alpha2_PersesService_DeepCopyInto"

interpretation v1alpha2_PersesService: deep_copier v1alpha2_PersesService_ty v1alpha2_PersesService_DeepCopyInto
  by (rule struct_copier [OF v1alpha2_PersesService_ty_def v1alpha2_PersesService_DeepCopyInto_def])
    (simp_all add: copiers)

lemmas v1alpha2_PersesService_copies = v1alpha2_PersesService.deep_copier_axioms

section \<open>\<open>StorageConfiguration\<close>\<close>

definition v1alpha2_StorageConfiguration_ty :: "copy_libs \<Rightarrow> ty" where
  "v1alpha2_StorageConfiguration_ty L = TStruct [
     (''EmptyDir'', TPtr (lib_ty L ''corev1.EmptyDirVolumeSource'')),
     (''PersistentVolumeClaimTemplate'', TPtr (lib_ty L ''corev1.PersistentVolumeClaimSpec''))]"

definition v1alpha2_StorageConfiguration_DeepCopyInto :: "copy_libs \<Rightarrow> copier" where
  "v1alpha2_StorageConfiguration_DeepCopyInto L = deep_copy_into [
     (''EmptyDir'', copy_pointer (lib_DeepCopyInto L ''corev1.EmptyDirVolumeSource'')),
     (''PersistentVolumeClaimTemplate'', copy_pointer (lib_DeepCopyInto L ''corev1.PersistentVolumeClaimSpec''))]"

definition v1alpha2_StorageConfiguration_DeepCopy :: "copy_libs \<Rightarrow> copier" where
  "v1alpha2_StorageConfiguration_DeepCopy L = deep_copy (v1alpha2_StorageConfiguration_DeepCopyInto L)"

lemma v1alpha2_StorageConfiguration_copies: "libs_ok L \<Longrightarrow> deep_copier (v1alpha2_StorageConfiguration_ty L) (v1alpha2_StorageConfiguration_DeepCopyInto L)"
  by (rule struct_copier [OF v1alpha2_StorageConfiguration_ty_def v1alpha2_StorageConfiguration_DeepCopyInto_def])
    (simp_all add: copiers libs_ok_simps lib_copied_types_def)

section \<open>\<open>PersesSpec\<close>\<close>

definition v1alpha2_PersesSpec_ty :: "copy_libs \<Rightarrow> ty" where
  "v1alpha2_PersesSpec_ty L = TStruct [
     (''Metadata'', TPtr v1alpha2_Metadata_ty), (''Client'', TPtr v1alpha2_Client_ty),
     (''Config'', v1alpha2_PersesConfig_ty L), (''Args'', TSlice TPrim), (''ContainerPort'', TPtr TPrim),
     (''Replicas'', TPtr TPrim), (''Resources'', TPtr (lib_ty L ''corev1.ResourceRequirements'')),
     (''NodeSelector'', TMap TPrim), (''Tolerations'', TSlice (lib_ty L ''corev1.Toleration'')),
     (''Affinity'', TPtr (lib_ty L ''corev1.Affinity'')), (''PriorityClassName'', TPtr TPrim),
     (''Image'', TPtr TPrim), (''Service'', TPtr v1alpha2_PersesService_ty),
     (''LivenessProbe'', TPtr (lib_ty L ''corev1.Probe'')), (''ReadinessProbe'', TPtr (lib_ty L ''corev1.Probe'')),
     (''TLS'', TPtr v1alpha2_TLS_ty), (''Storage'', TPtr (v1alpha2_StorageConfiguration_ty L)),
     (''ServiceAccountName'', TPtr TPrim), (''PodSecurityContext'', TPtr (lib_ty L ''corev1.PodSecurityContext'')),
     (''ContainerSecurityContext'', TPtr (lib_ty L ''corev1.SecurityContext'')), (''LogLevel'', TPtr TPrim),
     (''LogMethodTrace'', TPtr TPrim), (''Provisioning'', TPtr (v1alpha2_Provisioning_ty L)),
     (''Volumes'', TSlice (lib_ty L ''corev1.Volume'')),
     (''VolumeMounts'', TSlice (lib_ty L ''corev1.VolumeMount'')), (''Env'', TSlice (lib_ty L ''corev1.EnvVar'')),
     (''EnvFrom'', TSlice (lib_ty L ''corev1.EnvFromSource''))]"

definition v1alpha2_PersesSpec_DeepCopyInto :: "copy_libs \<Rightarrow> copier" where
  "v1alpha2_PersesSpec_DeepCopyInto L = deep_copy_into [
     (''Metadata'', copy_pointer v1alpha2_Metadata_DeepCopyInto),
     (''Client'', copy_pointer v1alpha2_Client_DeepCopyInto), (''Config'', v1alpha2_PersesConfig_DeepCopyInto L),
     (''Args'', copy_slice assign), (''ContainerPort'', copy_pointer assign), (''Replicas'', copy_pointer assign),
     (''Resources'', copy_pointer (lib_DeepCopyInto L ''corev1.ResourceRequirements'')),
     (''NodeSelector'', copy_map assign), (''Tolerations'', copy_slice (lib_DeepCopyInto L ''corev1.Toleration'')),
     (''Affinity'', copy_pointer (lib_DeepCopyInto L ''corev1.Affinity'')),
     (''PriorityClassName'', copy_pointer assign), (''Image'', copy_pointer assign),
     (''Service'', copy_pointer v1alpha2_PersesService_DeepCopyInto),
     (''LivenessProbe'', copy_pointer (lib_DeepCopyInto L ''corev1.Probe'')),
     (''ReadinessProbe'', copy_pointer (lib_DeepCopyInto L ''corev1.Probe'')),
     (''TLS'', copy_pointer v1alpha2_TLS_DeepCopyInto),
     (''Storage'', copy_pointer (v1alpha2_StorageConfiguration_DeepCopyInto L)),
     (''ServiceAccountName'', copy_pointer assign),
     (''PodSecurityContext'', copy_pointer (lib_DeepCopyInto L ''corev1.PodSecurityContext'')),
     (''ContainerSecurityContext'', copy_pointer (lib_DeepCopyInto L ''corev1.SecurityContext'')),
     (''LogLevel'', copy_pointer assign), (''LogMethodTrace'', copy_pointer assign),
     (''Provisioning'', copy_pointer (v1alpha2_Provisioning_DeepCopyInto L)),
     (''Volumes'', copy_slice (lib_DeepCopyInto L ''corev1.Volume'')),
     (''VolumeMounts'', copy_slice (lib_DeepCopyInto L ''corev1.VolumeMount'')),
     (''Env'', copy_slice (lib_DeepCopyInto L ''corev1.EnvVar'')),
     (''EnvFrom'', copy_slice (lib_DeepCopyInto L ''corev1.EnvFromSource''))]"

definition v1alpha2_PersesSpec_DeepCopy :: "copy_libs \<Rightarrow> copier" where
  "v1alpha2_PersesSpec_DeepCopy L = deep_copy (v1alpha2_PersesSpec_DeepCopyInto L)"

lemma v1alpha2_PersesSpec_copies: "libs_ok L \<Longrightarrow> deep_copier (v1alpha2_PersesSpec_ty L) (v1alpha2_PersesSpec_DeepCopyInto L)"
  by (rule struct_copier [OF v1alpha2_PersesSpec_ty_def v1alpha2_PersesSpec_DeepCopyInto_def])
    (simp_all add: copiers v1alpha2_Client_copies v1alpha2_Metadata_copies v1alpha2_PersesConfig_copies v1alpha2_PersesService_copies v1alpha2_Provisioning_copies v1alpha2_StorageConfiguration_copies v1alpha2_TLS_copies libs_ok_simps lib_copied_types_def)

section \<open>\<open>PersesStatus\<close>\<close>

definition v1alpha2_PersesStatus_ty :: "copy_libs \<Rightarrow> ty" where
  "v1alpha2_PersesStatus_ty L = TStruct [
     (''Conditions'', TSlice (lib_ty L ''metav1.Condition'')), (''Provisioning'', TSlice v1alpha2_SecretVersion_ty)]"

definition v1alpha2_PersesStatus_DeepCopyInto :: "copy_libs \<Rightarrow> copier" where
  "v1alpha2_PersesStatus_DeepCopyInto L = deep_copy_into [
     (''Conditions'', copy_slice (lib_DeepCopyInto L ''metav1.Condition'')), (''Provisioning'', copy_slice assign)]"

definition v1alpha2_PersesStatus_DeepCopy :: "copy_libs \<Rightarrow> copier" where
  "v1alpha2_PersesStatus_DeepCopy L = deep_copy (v1alpha2_PersesStatus_DeepCopyInto L)"

lemma v1alpha2_PersesStatus_copies: "libs_ok L \<Longrightarrow> deep_copier (v1alpha2_PersesStatus_ty L) (v1alpha2_PersesStatus_DeepCopyInto L)"
  by (rule struct_copier [OF v1alpha2_PersesStatus_ty_def v1alpha2_PersesStatus_DeepCopyInto_def])
    (simp_all add: copiers v1alpha2_SecretVersion_ty_def libs_ok_simps lib_copied_types_def)

section \<open>\<open>Perses\<close>\<close>

definition v1alpha2_Perses_ty :: "copy_libs \<Rightarrow> ty" where
  "v1alpha2_Perses_ty L = TStruct [
     (''TypeMeta'', lib_ty L ''metav1.TypeMeta''), (''ObjectMeta'', lib_ty L ''metav1.ObjectMeta''),
     (''Spec'', v1alpha2_PersesSpec_ty L), (''Status'', v1alpha2_PersesStatus_ty L)]"

definition v1alpha2_Perses_DeepCopyInto :: "copy_libs \<Rightarrow> copier" where
  "v1alpha2_Perses_DeepCopyInto L = deep_copy_into [
     (''TypeMeta'', assign), (''ObjectMeta'', lib_DeepCopyInto L ''metav1.ObjectMeta''),
     (''Spec'', v1alpha2_PersesSpec_DeepCopyInto L), (''Status'', v1alpha2_PersesStatus_DeepCopyInto L)]"

definition v1alpha2_Perses_DeepCopy :: "copy_libs \<Rightarrow> copier" where
  "v1alpha2_Perses_DeepCopy L = deep_copy (v1alpha2_Perses_DeepCopyInto L)"

definition v1alpha2_Perses_DeepCopyObject :: "copy_libs \<Rightarrow> gval \<Rightarrow> (gval option) hp" where
  "v1alpha2_Perses_DeepCopyObject L = deep_copy_object (v1alpha2_Perses_DeepCopy L)"

lemma v1alpha2_Perses_copies: "libs_ok L \<Longrightarrow> deep_copier (v1alpha2_Perses_ty L) (v1alpha2_Perses_DeepCopyInto L)"
  by (rule struct_copier [OF v1alpha2_Perses_ty_def v1alpha2_Perses_DeepCopyInto_def])
    (simp_all add: copiers v1alpha2_PersesSpec_copies v1alpha2_PersesStatus_copies libs_ok_simps lib_copied_types_def)

section \<open>\<open>PersesList\<close>\<close>

definition v1alpha2_PersesList_ty :: "copy_libs \<Rightarrow> ty" where
  "v1alpha2_PersesList_ty L = TStruct [
     (''TypeMeta'', lib_ty L ''metav1.TypeMeta''), (''ListMeta'', lib_ty L ''metav1.ListMeta''),
     (''Items'', TSlice (v1alpha2_Perses_ty L))]"

definition v1alpha2_PersesList_DeepCopyInto :: "copy_libs \<Rightarrow> copier" where
  "v1alpha2_PersesList_DeepCopyInto L = deep_copy_into [
     (''TypeMeta'', assign), (''ListMeta'', lib_DeepCopyInto L ''metav1.ListMeta''),
     (''Items'', copy_slice (v1alpha2_Perses_DeepCopyInto L))]"

definition v1alpha2_PersesList_DeepCopy :: "copy_libs \<Rightarrow> copier" where
  "v1alpha2_PersesList_DeepCopy L = deep_copy (v1alpha2_PersesList_DeepCopyInto L)"

definition v1alpha2_PersesList_DeepCopyObject :: "copy_libs \<Rightarrow> gval \<Rightarrow> (gval option) hp" where
  "v1alpha2_PersesList_DeepCopyObject L = deep_copy_object (v1alpha2_PersesList_DeepCopy L)"

lemma v1alpha2_PersesList_copies: "libs_ok L \<Longrightarrow> deep_copier (v1alpha2_PersesList_ty L) (v1alpha2_PersesList_DeepCopyInto L)"
  by (rule struct_copier [OF v1alpha2_PersesList_ty_def v1alpha2_PersesList_DeepCopyInto_def])
    (simp_all add: copiers v1alpha2_Perses_copies libs_ok_simps lib_copied_types_def)

section \<open>\<open>PersesDashboardStatus\<close>\<close>

definition v1alpha2_PersesDashboardStatus_ty :: "copy_libs \<Rightarrow> ty" where
  "v1alpha2_PersesDashboardStatus_ty L = TStruct [
     (''Conditions'', TSlice (lib_ty L ''metav1.Condition''))]"

definition v1alpha2_PersesDashboardStatus_DeepCopyInto :: "copy_libs \<Rightarrow> copier" where
  "v1alpha2_PersesDashboardStatus_DeepCopyInto L = deep_copy_into [
     (''Conditions'', copy_slice (lib_DeepCopyInto L ''metav1.Condition''))]"

definition v1alpha2_PersesDashboardStatus_DeepCopy :: "copy_libs \<Rightarrow> copier" where
  "v1alpha2_PersesDashboardStatus_DeepCopy L = deep_copy (v1alpha2_PersesDashboardStatus_DeepCopyInto L)"

lemma v1alpha2_PersesDashboardStatus_copies: "libs_ok L \<Longrightarrow> deep_copier (v1alpha2_PersesDashboardStatus_ty L) (v1alpha2_PersesDashboardStatus_DeepCopyInto L)"
  by (rule struct_copier [OF v1alpha2_PersesDashboardStatus_ty_def v1alpha2_PersesDashboardStatus_DeepCopyInto_def])
    (simp_all add: copiers libs_ok_simps lib_copied_types_def)

section \<open>\<open>PersesDashboardSpec\<close>\<close>

definition v1alpha2_PersesDashboardSpec_ty :: "copy_libs \<Rightarrow> ty" where
  "v1alpha2_PersesDashboardSpec_ty L = TStruct [
     (''Config'', v1alpha2_Dashboard_ty L), (''InstanceSelector'', TPtr (lib_ty L ''metav1.LabelSelector''))]"

definition v1alpha2_PersesDashboardSpec_DeepCopyInto :: "copy_libs \<Rightarrow> copier" where
  "v1alpha2_PersesDashboardSpec_DeepCopyInto L = deep_copy_into [
     (''Config'', v1alpha2_Dashboard_DeepCopyInto L),
     (''InstanceSelector'', copy_pointer (lib_DeepCopyInto L ''metav1.LabelSelector''))]"

definition v1alpha2_PersesDashboardSpec_DeepCopy :: "copy_libs \<Rightarrow> copier" where
  "v1alpha2_PersesDashboardSpec_DeepCopy L = deep_copy (v1alpha2_PersesDashboardSpec_DeepCopyInto L)"

lemma v1alpha2_PersesDashboardSpec_copies: "libs_ok L \<Longrightarrow> deep_copier (v1alpha2_PersesDashboardSpec_ty L) (v1alpha2_PersesDashboardSpec_DeepCopyInto L)"
  by (rule struct_copier [OF v1alpha2_PersesDashboardSpec_ty_def v1alpha2_PersesDashboardSpec_DeepCopyInto_def])
    (simp_all add: copiers v1alpha2_Dashboard_copies libs_ok_simps lib_copied_types_def)

section \<open>\<open>PersesDashboard\<close>\<close>

definition v1alpha2_PersesDashboard_ty :: "copy_libs \<Rightarrow> ty" where
  "v1alpha2_PersesDashboard_ty L = TStruct [
     (''TypeMeta'', lib_ty L ''metav1.TypeMeta''), (''ObjectMeta'', lib_ty L ''metav1.ObjectMeta''),
     (''Spec'', v1alpha2_PersesDashboardSpec_ty L), (''Status'', v1alpha2_PersesDashboardStatus_ty L)]"

definition v1alpha2_PersesDashboard_DeepCopyInto :: "copy_libs \<Rightarrow> copier" where
  "v1alpha2_PersesDashboard_DeepCopyInto L = deep_copy_into [
     (''TypeMeta'', assign), (''ObjectMeta'', lib_DeepCopyInto L ''metav1.ObjectMeta''),
     (''Spec'', v1alpha2_PersesDashboardSpec_DeepCopyInto L),
     (''Status'', v1alpha2_PersesDashboardStatus_DeepCopyInto L)]"

definition v1alpha2_PersesDashboard_DeepCopy :: "copy_libs \<Rightarrow> copier" where
  "v1alpha2_PersesDashboard_DeepCopy L = deep_copy (v1alpha2_PersesDashboard_DeepCopyInto L)"

definition v1alpha2_PersesDashboard_DeepCopyObject :: "copy_libs \<Rightarrow> gval \<Rightarrow> (gval option) hp" where
  "v1alpha2_PersesDashboard_DeepCopyObject L = deep_copy_object (v1alpha2_PersesDashboard_DeepCopy L)"

lemma v1alpha2_PersesDashboard_copies: "libs_ok L \<Longrightarrow> deep_copier (v1alpha2_PersesDashboard_ty L) (v1alpha2_PersesDashboard_DeepCopyInto L)"
  by (rule struct_copier [OF v1alpha2_PersesDashboard_ty_def v1alpha2_PersesDashboard_DeepCopyInto_def])
    (simp_all add: copiers v1alpha2_PersesDashboardSpec_copies v1alpha2_PersesDashboardStatus_copies libs_ok_simps lib_copied_types_def)

section \<open>\<open>PersesDashboardList\<close>\<close>

definition v1alpha2_PersesDashboardList_ty :: "copy_libs \<Rightarrow> ty" where
  "v1alpha2_PersesDashboardList_ty L = TStruct [
     (''TypeMeta'', lib_ty L ''metav1.TypeMeta''), (''ListMeta'', lib_ty L ''metav1.ListMeta''),
     (''Items'', TSlice (v1alpha2_PersesDashboard_ty L))]"

definition v1alpha2_PersesDashboardList_DeepCopyInto :: "copy_libs \<Rightarrow> copier" where
  "v1alpha2_PersesDashboardList_DeepCopyInto L = deep_copy_into [
     (''TypeMeta'', assign), (''ListMeta'', lib_DeepCopyInto L ''metav1.ListMeta''),
     (''Items'', copy_slice (v1alpha2_PersesDashboard_DeepCopyInto L))]"

definition v1alpha2_PersesDashboardList_DeepCopy :: "copy_libs \<Rightarrow> copier" where
  "v1alpha2_PersesDashboardList_DeepCopy L = deep_copy (v1alpha2_PersesDashboardList_DeepCopyInto L)"

definition v1alpha2_PersesDashboardList_DeepCopyObject :: "copy_libs \<Rightarrow> gval \<Rightarrow> (gval option) hp" where
  "v1alpha2_PersesDashboardList_DeepCopyObject L = deep_copy_object (v1alpha2_PersesDashboardList_DeepCopy L)"

lemma v1alpha2_PersesDashboardList_copies: "libs_ok L \<Longrightarrow> deep_copier (v1alpha2_PersesDashboardList_ty L) (v1alpha2_PersesDashboardList_DeepCopyInto L)"
  by (rule struct_copier [OF v1alpha2_PersesDashboardList_ty_def v1alpha2_PersesDashboardList_DeepCopyInto_def])
    (simp_all add: copiers v1alpha2_PersesDashboard_copies libs_ok_simps lib_copied_types_def)

section \<open>\<open>PersesDatasourceStatus\<close>\<close>

definition v1alpha2_PersesDatasourceStatus_ty :: "copy_libs \<Rightarrow> ty" where
  "v1alpha2_PersesDatasourceStatus_ty L = TStruct [
     (''Conditions'', TSlice (lib_ty L ''metav1.Condition''))]"

definition v1alpha2_PersesDatasourceStatus_DeepCopyInto :: "copy_libs \<Rightarrow> copier" where
  "v1alpha2_PersesDatasourceStatus_DeepCopyInto L = deep_copy_into [
     (''Conditions'', copy_slice (lib_DeepCopyInto L ''metav1.Condition''))]"

definition v1alpha2_PersesDatasourceStatus_DeepCopy :: "copy_libs \<Rightarrow> copier" where
  "v1alpha2_PersesDatasourceStatus_DeepCopy L = deep_copy (v1alpha2_PersesDatasourceStatus_DeepCopyInto L)"

lemma v1alpha2_PersesDatasourceStatus_copies: "libs_ok L \<Longrightarrow> deep_copier (v1alpha2_PersesDatasourceStatus_ty L) (v1alpha2_PersesDatasourceStatus_DeepCopyInto L)"
  by (rule struct_copier [OF v1alpha2_PersesDatasourceStatus_ty_def v1alpha2_PersesDatasourceStatus_DeepCopyInto_def])
    (simp_all add: copiers libs_ok_simps lib_copied_types_def)

section \<open>\<open>DatasourceSpec\<close>\<close>

definition v1alpha2_DatasourceSpec_ty :: "copy_libs \<Rightarrow> ty" where
  "v1alpha2_DatasourceSpec_ty L = TStruct [
     (''Config'', v1alpha2_Datasource_ty L), (''Client'', TPtr v1alpha2_Client_ty),
     (''InstanceSelector'', TPtr (lib_ty L ''metav1.LabelSelector''))]"

definition v1alpha2_DatasourceSpec_DeepCopyInto :: "copy_libs \<Rightarrow> copier" where
  "v1alpha2_DatasourceSpec_DeepCopyInto L = deep_copy_into [
     (''Config'', v1alpha2_Datasource_DeepCopyInto L), (''Client'', copy_pointer v1alpha2_Client_DeepCopyInto),
     (''InstanceSelector'', copy_pointer (lib_DeepCopyInto L ''metav1.LabelSelector''))]"

definition v1alpha2_DatasourceSpec_DeepCopy :: "copy_libs \<Rightarrow> copier" where
  "v1alpha2_DatasourceSpec_DeepCopy L = deep_copy (v1alpha2_DatasourceSpec_DeepCopyInto L)"

lemma v1alpha2_DatasourceSpec_copies: "libs_ok L \<Longrightarrow> deep_copier (v1alpha2_DatasourceSpec_ty L) (v1alpha2_DatasourceSpec_DeepCopyInto L)"
  by (rule struct_copier [OF v1alpha2_DatasourceSpec_ty_def v1alpha2_DatasourceSpec_DeepCopyInto_def])
    (simp_all add: copiers v1alpha2_Client_copies v1alpha2_Datasource_copies libs_ok_simps lib_copied_types_def)

section \<open>\<open>PersesDatasource\<close>\<close>

definition v1alpha2_PersesDatasource_ty :: "copy_libs \<Rightarrow> ty" where
  "v1alpha2_PersesDatasource_ty L = TStruct [
     (''TypeMeta'', lib_ty L ''metav1.TypeMeta''), (''ObjectMeta'', lib_ty L ''metav1.ObjectMeta''),
     (''Spec'', v1alpha2_DatasourceSpec_ty L), (''Status'', v1alpha2_PersesDatasourceStatus_ty L)]"

definition v1alpha2_PersesDatasource_DeepCopyInto :: "copy_libs \<Rightarrow> copier" where
  "v1alpha2_PersesDatasource_DeepCopyInto L = deep_copy_into [
     (''TypeMeta'', assign), (''ObjectMeta'', lib_DeepCopyInto L ''metav1.ObjectMeta''),
     (''Spec'', v1alpha2_DatasourceSpec_DeepCopyInto L), (''Status'', v1alpha2_PersesDatasourceStatus_DeepCopyInto L)]"

definition v1alpha2_PersesDatasource_DeepCopy :: "copy_libs \<Rightarrow> copier" where
  "v1alpha2_PersesDatasource_DeepCopy L = deep_copy (v1alpha2_PersesDatasource_DeepCopyInto L)"

definition v1alpha2_PersesDatasource_DeepCopyObject :: "copy_libs \<Rightarrow> gval \<Rightarrow> (gval option) hp" where
  "v1alpha2_PersesDatasource_DeepCopyObject L = deep_copy_object (v1alpha2_PersesDatasource_DeepCopy L)"

lemma v1alpha2_PersesDatasource_copies: "libs_ok L \<Longrightarrow> deep_copier (v1alpha2_PersesDatasource_ty L) (v1alpha2_PersesDatasource_DeepCopyInto L)"
  by (rule struct_copier [OF v1alpha2_PersesDatasource_ty_def v1alpha2_PersesDatasource_DeepCopyInto_def])
    (simp_all add: copiers v1alpha2_DatasourceSpec_copies v1alpha2_PersesDatasourceStatus_copies libs_ok_simps lib_copied_types_def)

section \<open>\<open>PersesDatasourceList\<close>\<close>

definition v1alpha2_PersesDatasourceList_ty :: "copy_libs \<Rightarrow> ty" where
  "v1alpha2_PersesDatasourceList_ty L = TStruct [
     (''TypeMeta'', lib_ty L ''metav1.TypeMeta''), (''ListMeta'', lib_ty L ''metav1.ListMeta''),
     (''Items'', TSlice (v1alpha2_PersesDatasource_ty L))]"

definition v1alpha2_PersesDatasourceList_DeepCopyInto :: "copy_libs \<Rightarrow> copier" where
  "v1alpha2_PersesDatasourceList_DeepCopyInto L = deep_copy_into [
     (''TypeMeta'', assign), (''ListMeta'', lib_DeepCopyInto L ''metav1.ListMeta''),
     (''Items'', copy_slice (v1alpha2_PersesDatasource_DeepCopyInto L))]"

definition v1alpha2_PersesDatasourceList_DeepCopy :: "copy_libs \<Rightarrow> copier" where
  "v1alpha2_PersesDatasourceList_DeepCopy L = deep_copy (v1alpha2_PersesDatasourceList_DeepCopyInto L)"

definition v1alpha2_PersesDatasourceList_DeepCopyObject :: "copy_libs \<Rightarrow> gval \<Rightarrow> (gval option) hp" where
  "v1alpha2_PersesDatasourceList_DeepCopyObject L = deep_copy_object (v1alpha2_PersesDatasourceList_DeepCopy L)"

lemma v1alpha2_PersesDatasourceList_copies: "libs_ok L \<Longrightarrow> deep_copier (v1alpha2_PersesDatasourceList_ty L) (v1alpha2_PersesDatasourceList_DeepCopyInto L)"
  by (rule struct_copier [OF v1alpha2_PersesDatasourceList_ty_def v1alpha2_PersesDatasourceList_DeepCopyInto_def])
    (simp_all add: copiers v1alpha2_PersesDatasource_copies libs_ok_simps lib_copied_types_def)

section \<open>\<open>PersesGlobalDatasourceStatus\<close>\<close>

definition v1alpha2_PersesGlobalDatasourceStatus_ty :: "copy_libs \<Rightarrow> ty" where
  "v1alpha2_PersesGlobalDatasourceStatus_ty L = TStruct [
     (''Conditions'', TSlice (lib_ty L ''metav1.Condition''))]"

definition v1alpha2_PersesGlobalDatasourceStatus_DeepCopyInto :: "copy_libs \<Rightarrow> copier" where
  "v1alpha2_PersesGlobalDatasourceStatus_DeepCopyInto L = deep_copy_into [
     (''Conditions'', copy_slice (lib_DeepCopyInto L ''metav1.Condition''))]"

definition v1alpha2_PersesGlobalDatasourceStatus_DeepCopy :: "copy_libs \<Rightarrow> copier" where
  "v1alpha2_PersesGlobalDatasourceStatus_DeepCopy L = deep_copy (v1alpha2_PersesGlobalDatasourceStatus_DeepCopyInto L)"

lemma v1alpha2_PersesGlobalDatasourceStatus_copies: "libs_ok L \<Longrightarrow> deep_copier (v1alpha2_PersesGlobalDatasourceStatus_ty L) (v1alpha2_PersesGlobalDatasourceStatus_DeepCopyInto L)"
  by (rule struct_copier [OF v1alpha2_PersesGlobalDatasourceStatus_ty_def v1alpha2_PersesGlobalDatasourceStatus_DeepCopyInto_def])
    (simp_all add: copiers libs_ok_simps lib_copied_types_def)

section \<open>\<open>PersesGlobalDatasource\<close>\<close>

definition v1alpha2_PersesGlobalDatasource_ty :: "copy_libs \<Rightarrow> ty" where
  "v1alpha2_PersesGlobalDatasource_ty L = TStruct [
     (''TypeMeta'', lib_ty L ''metav1.TypeMeta''), (''ObjectMeta'', lib_ty L ''metav1.ObjectMeta''),
     (''Spec'', v1alpha2_DatasourceSpec_ty L), (''Status'', v1alpha2_PersesGlobalDatasourceStatus_ty L)]"

definition v1alpha2_PersesGlobalDatasource_DeepCopyInto :: "copy_libs \<Rightarrow> copier" where
  "v1alpha2_PersesGlobalDatasource_DeepCopyInto L = deep_copy_into [
     (''TypeMeta'', assign), (''ObjectMeta'', lib_DeepCopyInto L ''metav1.ObjectMeta''),
     (''Spec'', v1alpha2_DatasourceSpec_DeepCopyInto L),
     (''Status'', v1alpha2_PersesGlobalDatasourceStatus_DeepCopyInto L)]"

definition v1alpha2_PersesGlobalDatasource_DeepCopy :: "copy_libs \<Rightarrow> copier" where
  "v1alpha2_PersesGlobalDatasource_DeepCopy L = deep_copy (v1alpha2_PersesGlobalDatasource_DeepCopyInto L)"

definition v1alpha2_PersesGlobalDatasource_DeepCopyObject :: "copy_libs \<Rightarrow> gval \<Rightarrow> (gval option) hp" where
  "v1alpha2_PersesGlobalDatasource_DeepCopyObject L = deep_copy_object (v1alpha2_PersesGlobalDatasource_DeepCopy L)"

lemma v1alpha2_PersesGlobalDatasource_copies: "libs_ok L \<Longrightarrow> deep_copier (v1alpha2_PersesGlobalDatasource_ty L) (v1alpha2_PersesGlobalDatasource_DeepCopyInto L)"
  by (rule struct_copier [OF v1alpha2_PersesGlobalDatasource_ty_def v1alpha2_PersesGlobalDatasource_DeepCopyInto_def])
    (simp_all add: copiers v1alpha2_DatasourceSpec_copies v1alpha2_PersesGlobalDatasourceStatus_copies libs_ok_simps lib_copied_types_def)

section \<open>\<open>PersesGlobalDatasourceList\<close>\<close>

definition v1alpha2_PersesGlobalDatasourceList_ty :: "copy_libs \<Rightarrow> ty" where
  "v1alpha2_PersesGlobalDatasourceList_ty L = TStruct [
     (''TypeMeta'', lib_ty L ''metav1.TypeMeta''), (''ListMeta'', lib_ty L ''metav1.ListMeta''),
     (''Items'', TSlice (v1alpha2_PersesGlobalDatasource_ty L))]"

definition v1alpha2_PersesGlobalDatasourceList_DeepCopyInto :: "copy_libs \<Rightarrow> copier" where
  "v1alpha2_PersesGlobalDatasourceList_DeepCopyInto L = deep_copy_into [
     (''TypeMeta'', assign), (''ListMeta'', lib_DeepCopyInto L ''metav1.ListMeta''),
     (''Items'', copy_slice (v1alpha2_PersesGlobalDatasource_DeepCopyInto L))]"

definition v1alpha2_PersesGlobalDatasourceList_DeepCopy :: "copy_libs \<Rightarrow> copier" where
  "v1alpha2_PersesGlobalDatasourceList_DeepCopy L = deep_copy (v1alpha2_PersesGlobalDatasourceList_DeepCopyInto L)"

definition v1alpha2_PersesGlobalDatasourceList_DeepCopyObject :: "copy_libs \<Rightarrow> gval \<Rightarrow> (gval option) hp" where
  "v1alpha2_PersesGlobalDatasourceList_DeepCopyObject L = deep_copy_object (v1alpha2_PersesGlobalDatasourceList_DeepCopy L)"

lemma v1alpha2_PersesGlobalDatasourceList_copies: "libs_ok L \<Longrightarrow> deep_copier (v1alpha2_PersesGlobalDatasourceList_ty L) (v1alpha2_PersesGlobalDatasourceList_DeepCopyInto L)"
  by (rule struct_copier [OF v1alpha2_PersesGlobalDatasourceList_ty_def v1alpha2_PersesGlobalDatasourceList_DeepCopyInto_def])
    (simp_all add: copiers v1alpha2_PersesGlobalDatasource_copies libs_ok_simps lib_copied_types_def)

definition v1alpha2_init_perses :: "copy_libs \<Rightarrow> api_object list" where
  "v1alpha2_init_perses L = [
     \<lparr>object_kind = ''Perses'', object_ty = v1alpha2_Perses_ty L, DeepCopyObject = v1alpha2_Perses_DeepCopyObject L\<rparr>,
     \<lparr>object_kind = ''PersesList'', object_ty = v1alpha2_PersesList_ty L, DeepCopyObject = v1alpha2_PersesList_DeepCopyObject L\<rparr>]"

definition v1alpha2_init_persesdashboard :: "copy_libs \<Rightarrow> api_object list" where
  "v1alpha2_init_persesdashboard L = [
     \<lparr>object_kind = ''PersesDashboard'', object_ty = v1alpha2_PersesDashboard_ty L, DeepCopyObject = v1alpha2_PersesDashboard_DeepCopyObject L\<rparr>,
     \<lparr>object_kind = ''PersesDashboardList'', object_ty = v1alpha2_PersesDashboardList_ty L, DeepCopyObject = v1alpha2_PersesDashboardList_DeepCopyObject L\<rparr>]"

definition v1alpha2_init_persesdatasource :: "copy_libs \<Rightarrow> api_object list" where
  "v1alpha2_init_persesdatasource L = [
     \<lparr>object_kind = ''PersesDatasource'', object_ty = v1alpha2_PersesDatasource_ty L, DeepCopyObject = v1alpha2_PersesDatasource_DeepCopyObject L\<rparr>,
     \<lparr>object_kind = ''PersesDatasourceList'', object_ty = v1alpha2_PersesDatasourceList_ty L, DeepCopyObject = v1alpha2_PersesDatasourceList_DeepCopyObject L\<rparr>]"

definition v1alpha2_init_persesglobaldatasource :: "copy_libs \<Rightarrow> api_object list" where
  "v1alpha2_init_persesglobaldatasource L = [
     \<lparr>object_kind = ''PersesGlobalDatasource'', object_ty = v1alpha2_PersesGlobalDatasource_ty L, DeepCopyObject = v1alpha2_PersesGlobalDatasource_DeepCopyObject L\<rparr>,
     \<lparr>object_kind = ''PersesGlobalDatasourceList'', object_ty = v1alpha2_PersesGlobalDatasourceList_ty L, DeepCopyObject = v1alpha2_PersesGlobalDatasourceList_DeepCopyObject L\<rparr>]"

definition v1alpha2_objects :: "copy_libs \<Rightarrow> api_object list" where
  "v1alpha2_objects L = v1alpha2_init_perses L @ v1alpha2_init_persesdashboard L @ v1alpha2_init_persesdatasource L @ v1alpha2_init_persesglobaldatasource L"

lemma v1alpha2_objects_copied: "libs_ok L \<Longrightarrow> obj \<in> set (v1alpha2_objects L) \<Longrightarrow> object_copies obj"
  by (auto simp: v1alpha2_objects_def v1alpha2_init_perses_def v1alpha2_init_persesdashboard_def
      v1alpha2_init_persesdatasource_def v1alpha2_init_persesglobaldatasource_def object_copiesI
      v1alpha2_Perses_DeepCopyObject_def v1alpha2_Perses_DeepCopy_def v1alpha2_Perses_copies
      v1alpha2_PersesList_DeepCopyObject_def v1alpha2_PersesList_DeepCopy_def v1alpha2_PersesList_copies
      v1alpha2_PersesDashboard_DeepCopyObject_def v1alpha2_PersesDashboard_DeepCopy_def v1alpha2_PersesDashboard_copies
      v1alpha2_PersesDashboardList_DeepCopyObject_def v1alpha2_PersesDashboardList_DeepCopy_def
      v1alpha2_PersesDashboardList_copies v1alpha2_PersesDatasource_DeepCopyObject_def
      v1alpha2_PersesDatasource_DeepCopy_def v1alpha2_PersesDatasource_copies
      v1alpha2_PersesDatasourceList_DeepCopyObject_def v1alpha2_PersesDatasourceList_DeepCopy_def
      v1alpha2_PersesDatasourceList_copies v1alpha2_PersesGlobalDatasource_DeepCopyObject_def
      v1alpha2_PersesGlobalDatasource_DeepCopy_def v1alpha2_PersesGlobalDatasource_copies
      v1alpha2_PersesGlobalDatasourceList_DeepCopyObject_def v1alpha2_PersesGlobalDatasourceList_DeepCopy_def
      v1alpha2_PersesGlobalDatasourceList_copies)

end
