(* ===== verification/Isolation.thy ===== *)
theory Isolation
  imports DeepCopyV1alpha1 DeepCopyV1alpha2
begin

text \<open>
  The deep copies of all registered objects of both versions, and concrete libraries and a concrete
  heap on which they run.
\<close>

section \<open>The copies of registered objects\<close>

lemma registered_copies:
  assumes "libs_ok L" and "obj \<in> set (v1alpha1_objects L @ v1alpha2_objects L)"
  shows "object_copies obj"
  using assms v1alpha1_objects_copied v1alpha2_objects_copied by auto

text \<open>
  C10: The \<open>DeepCopyObject\<close> of every registered object, of both API versions and of lists too, returns a
  copy that stands for the same object: all that hangs off its pointers, slices and maps is equal. The
  original is unchanged, the two share no address, and whatever is later written through one of them is
  not seen through the other. This is what lets a reconciler change the object it read without changing
  the informer's cache.
\<close>

theorem DeepCopyObject_isolates:
  assumes "libs_ok L" and "obj \<in> set (v1alpha1_objects L @ v1alpha2_objects L)"
    and "heap_ok h" and "view h (TPtr (object_ty obj)) (Ref (Some a)) = Some (tr, A)"
  shows "\<exists>w h' B. DeepCopyObject obj (Ref (Some a)) h = Some (Some w, h') \<and>
    view h' (TPtr (object_ty obj)) w = Some (tr, B) \<and> view h' (TPtr (object_ty obj)) (Ref (Some a)) = Some (tr, A) \<and>
    set A \<inter> set B = {} \<and> isolated h' (TPtr (object_ty obj)) (Ref (Some a)) B \<and> isolated h' (TPtr (object_ty obj)) w A"
proof -
  from registered_copies [OF assms(1,2)] obtain f where f: "DeepCopyObject obj = deep_copy_object (deep_copy f)" "deep_copier (object_ty obj) f"
    by (auto simp: object_copies_def)
  from deep_copier.object_copied [OF f(2) assms(3,4)] show ?thesis by (simp add: f(1))
qed

section \<open>Concrete libraries\<close>

text \<open>Library types with one reference each, \<open>metav1.TypeMeta\<close> apart, and copies of them.\<close>

definition sample_libs :: copy_libs where
  "sample_libs =
     \<lparr>lib_ty = (\<lambda>n. if n = ''metav1.TypeMeta'' then TPrim else TPtr TPrim),
      lib_DeepCopyInto = (\<lambda>n. copy_pointer assign),
      deep_Copy = (\<lambda>t v. case t of
         TStruct [(n, _)] \<Rightarrow> hbind (deep_copy_into [(n, copy_pointer assign)] v) (\<lambda>w. hreturn (Some w))
       | _ \<Rightarrow> hreturn None)\<rparr>"

lemma sample_libs_ok: "libs_ok sample_libs"
proof -
  have "deep_copier (TStruct [(n, TPtr TPrim)]) (deep_copy_into [(n, copy_pointer assign)])" for n
    by (rule struct_copier [OF refl refl]) (simp_all add: copiers)
  moreover have "(\<lambda>v h. case hbind (f v) (\<lambda>w. hreturn (Some w)) h of None \<Rightarrow> None | Some (None, h') \<Rightarrow> None | Some (Some w, h') \<Rightarrow> Some (w, h')) = f" for f :: copier
    by (auto simp: fun_eq_iff hbind_def hreturn_def split: option.splits)
  ultimately show ?thesis
    by (auto simp: libs_ok_def sample_libs_def lib_copied_types_def deep_types_def copiers)
qed

definition sample_heap :: heap where
  "sample_heap =
     \<lparr>mem = map_of [
        (0, Cell (Struct [
           (''TypeMeta'', Prim (JStr ''PersesDashboard'')), (''ObjectMeta'', Ref (Some 1)),
           (''Spec'', Struct [(''Config'', Struct [(''Spec'', Ref (Some 2))]), (''InstanceSelector'', Ref None)]),
           (''Status'', Struct [(''Conditions'', Ref (Some 3))])])),
        (1, Cell (Prim (JStr ''overview''))), (2, Cell (Prim (JStr ''panels''))),
        (3, Arr [Ref (Some 4)]), (4, Cell (Prim (JStr ''Available'')))],
      next_addr = 5\<rparr>"

definition sample_object :: api_object where
  "sample_object = v1alpha2_init_persesdashboard sample_libs ! 0"

lemma sample_heap_ok: "heap_ok sample_heap"
  by (auto simp: heap_ok_def sample_heap_def split: if_splits)

lemma sample_object_view:
  "view sample_heap (TPtr (object_ty sample_object)) (Ref (Some 0)) =
     Some (Target (Fields [
       (''TypeMeta'', Leaf (JStr ''PersesDashboard'')), (''ObjectMeta'', Target (Leaf (JStr ''overview''))),
       (''Spec'', Fields [(''Config'', Fields [(''Spec'', Target (Leaf (JStr ''panels'')))]), (''InstanceSelector'', Absent)]),
       (''Status'', Fields [(''Conditions'', Elements [Target (Leaf (JStr ''Available''))])])]), [0, 1, 2, 3, 4])"
  by (simp add: sample_heap_def sample_object_def sample_libs_def v1alpha2_init_persesdashboard_def v1alpha2_PersesDashboard_ty_def
    v1alpha2_PersesDashboardSpec_ty_def v1alpha2_PersesDashboardStatus_ty_def v1alpha2_Dashboard_ty_def)

theorem DeepCopyObject_isolates_witness:
  "\<exists>w h' B. DeepCopyObject sample_object (Ref (Some 0)) sample_heap = Some (Some w, h') \<and> set [0, 1, 2, 3, 4] \<inter> set B = {} \<and>
    isolated h' (TPtr (object_ty sample_object)) (Ref (Some 0)) B"
proof -
  have "sample_object \<in> set (v1alpha1_objects sample_libs @ v1alpha2_objects sample_libs)"
    by (simp add: sample_object_def v1alpha2_objects_def v1alpha2_init_persesdashboard_def)
  from DeepCopyObject_isolates [OF sample_libs_ok this sample_heap_ok sample_object_view] show ?thesis by blast
qed

end
