(* ===== verification/ApiPointers.thy ===== *)
theory ApiPointers
  imports Conversion
begin

text \<open>
  The pointers that a conversion function of the scheme gets: it is registered for two types of the two
  versions, takes values of type \<open>any\<close>, and asserts that they are pointers of these types.
\<close>

datatype api_version = V1alpha1 | V1alpha2

type_synonym api_type = "api_version \<times> string"

text \<open>A pointer to each type of either version that has a conversion function, with what it points to.\<close>

datatype api_pointer =
    P1_BasicAuth v1alpha1_basic_auth
  | P1_Certificate v1alpha1_certificate
  | P1_Client v1alpha1_client
  | P1_Dashboard json
  | P1_Datasource json
  | P1_DatasourceSpec v1alpha1_datasource_spec
  | P1_KubernetesAuth v1alpha1_kubernetes_auth
  | P1_Metadata v1alpha1_metadata
  | P1_OAuth v1alpha1_oauth
  | P1_Perses v1alpha1_perses
  | P1_PersesConfig perses_config
  | P1_PersesDashboard v1alpha1_persesdashboard
  | P1_PersesDashboardList "v1alpha1_persesdashboard list_object"
  | P1_PersesDashboardStatus v1alpha1_persesdashboard_status
  | P1_PersesDatasource v1alpha1_persesdatasource
  | P1_PersesDatasourceList "v1alpha1_persesdatasource list_object"
  | P1_PersesDatasourceStatus v1alpha1_persesdatasource_status
  | P1_PersesList "v1alpha1_perses list_object"
  | P1_PersesService v1alpha1_perses_service
  | P1_PersesSpec v1alpha1_perses_spec
  | P1_PersesStatus v1alpha1_perses_status
  | P1_SecretSource v1alpha1_secret_source
  | P1_StorageConfiguration v1alpha1_storage_configuration
  | P1_TLS v1alpha1_tls
  | P2_BasicAuth basic_auth
  | P2_Certificate certificate
  | P2_Client client
  | P2_Dashboard json
  | P2_Datasource json
  | P2_DatasourceSpec datasource_spec
  | P2_KubernetesAuth kubernetes_auth
  | P2_Metadata metadata
  | P2_OAuth oauth
  | P2_Perses perses
  | P2_PersesConfig perses_config
  | P2_PersesDashboard persesdashboard
  | P2_PersesDashboardList "persesdashboard list_object"
  | P2_PersesDashboardSpec persesdashboard_spec
  | P2_PersesDashboardStatus persesdashboard_status
  | P2_PersesDatasource persesdatasource
  | P2_PersesDatasourceList "persesdatasource list_object"
  | P2_PersesDatasourceStatus persesdatasource_status
  | P2_PersesList "perses list_object"
  | P2_PersesService perses_service
  | P2_PersesSpec perses_spec
  | P2_PersesStatus perses_status
  | P2_SecretSource secret_source
  | P2_StorageConfiguration storage_configuration
  | P2_TLS tls

fun pointer_type :: "api_pointer \<Rightarrow> api_type" where
  "pointer_type (P1_BasicAuth x) = (V1alpha1, ''BasicAuth'')"
| "pointer_type (P1_Certificate x) = (V1alpha1, ''Certificate'')"
| "pointer_type (P1_Client x) = (V1alpha1, ''Client'')"
| "pointer_type (P1_Dashboard x) = (V1alpha1, ''Dashboard'')"
| "pointer_type (P1_Datasource x) = (V1alpha1, ''Datasource'')"
| "pointer_type (P1_DatasourceSpec x) = (V1alpha1, ''DatasourceSpec'')"
| "pointer_type (P1_KubernetesAuth x) = (V1alpha1, ''KubernetesAuth'')"
| "pointer_type (P1_Metadata x) = (V1alpha1, ''Metadata'')"
| "pointer_type (P1_OAuth x) = (V1alpha1, ''OAuth'')"
| "pointer_type (P1_Perses x) = (V1alpha1, ''Perses'')"
| "pointer_type (P1_PersesConfig x) = (V1alpha1, ''PersesConfig'')"
| "pointer_type (P1_PersesDashboard x) = (V1alpha1, ''PersesDashboard'')"
| "pointer_type (P1_PersesDashboardList x) = (V1alpha1, ''PersesDashboardList'')"
| "pointer_type (P1_PersesDashboardStatus x) = (V1alpha1, ''PersesDashboardStatus'')"
| "pointer_type (P1_PersesDatasource x) = (V1alpha1, ''PersesDatasource'')"
| "pointer_type (P1_PersesDatasourceList x) = (V1alpha1, ''PersesDatasourceList'')"
| "pointer_type (P1_PersesDatasourceStatus x) = (V1alpha1, ''PersesDatasourceStatus'')"
| "pointer_type (P1_PersesList x) = (V1alpha1, ''PersesList'')"
| "pointer_type (P1_PersesService x) = (V1alpha1, ''PersesService'')"
| "pointer_type (P1_PersesSpec x) = (V1alpha1, ''PersesSpec'')"
| "pointer_type (P1_PersesStatus x) = (V1alpha1, ''PersesStatus'')"
| "pointer_type (P1_SecretSource x) = (V1alpha1, ''SecretSource'')"
| "pointer_type (P1_StorageConfiguration x) = (V1alpha1, ''StorageConfiguration'')"
| "pointer_type (P1_TLS x) = (V1alpha1, ''TLS'')"
| "pointer_type (P2_BasicAuth x) = (V1alpha2, ''BasicAuth'')"
| "pointer_type (P2_Certificate x) = (V1alpha2, ''Certificate'')"
| "pointer_type (P2_Client x) = (V1alpha2, ''Client'')"
| "pointer_type (P2_Dashboard x) = (V1alpha2, ''Dashboard'')"
| "pointer_type (P2_Datasource x) = (V1alpha2, ''Datasource'')"
| "pointer_type (P2_DatasourceSpec x) = (V1alpha2, ''DatasourceSpec'')"
| "pointer_type (P2_KubernetesAuth x) = (V1alpha2, ''KubernetesAuth'')"
| "pointer_type (P2_Metadata x) = (V1alpha2, ''Metadata'')"
| "pointer_type (P2_OAuth x) = (V1alpha2, ''OAuth'')"
| "pointer_type (P2_Perses x) = (V1alpha2, ''Perses'')"
| "pointer_type (P2_PersesConfig x) = (V1alpha2, ''PersesConfig'')"
| "pointer_type (P2_PersesDashboard x) = (V1alpha2, ''PersesDashboard'')"
| "pointer_type (P2_PersesDashboardList x) = (V1alpha2, ''PersesDashboardList'')"
| "pointer_type (P2_PersesDashboardSpec x) = (V1alpha2, ''PersesDashboardSpec'')"
| "pointer_type (P2_PersesDashboardStatus x) = (V1alpha2, ''PersesDashboardStatus'')"
| "pointer_type (P2_PersesDatasource x) = (V1alpha2, ''PersesDatasource'')"
| "pointer_type (P2_PersesDatasourceList x) = (V1alpha2, ''PersesDatasourceList'')"
| "pointer_type (P2_PersesDatasourceStatus x) = (V1alpha2, ''PersesDatasourceStatus'')"
| "pointer_type (P2_PersesList x) = (V1alpha2, ''PersesList'')"
| "pointer_type (P2_PersesService x) = (V1alpha2, ''PersesService'')"
| "pointer_type (P2_PersesSpec x) = (V1alpha2, ''PersesSpec'')"
| "pointer_type (P2_PersesStatus x) = (V1alpha2, ''PersesStatus'')"
| "pointer_type (P2_SecretSource x) = (V1alpha2, ''SecretSource'')"
| "pointer_type (P2_StorageConfiguration x) = (V1alpha2, ''StorageConfiguration'')"
| "pointer_type (P2_TLS x) = (V1alpha2, ''TLS'')"

section \<open>Type assertions\<close>

definition as_P1_BasicAuth :: "api_pointer \<Rightarrow> v1alpha1_basic_auth option" where
  "as_P1_BasicAuth p = (case p of P1_BasicAuth x \<Rightarrow> Some x | _ \<Rightarrow> None)"

definition as_P1_Certificate :: "api_pointer \<Rightarrow> v1alpha1_certificate option" where
  "as_P1_Certificate p = (case p of P1_Certificate x \<Rightarrow> Some x | _ \<Rightarrow> None)"

definition as_P1_Client :: "api_pointer \<Rightarrow> v1alpha1_client option" where
  "as_P1_Client p = (case p of P1_Client x \<Rightarrow> Some x | _ \<Rightarrow> None)"

definition as_P1_Dashboard :: "api_pointer \<Rightarrow> json option" where
  "as_P1_Dashboard p = (case p of P1_Dashboard x \<Rightarrow> Some x | _ \<Rightarrow> None)"

definition as_P1_Datasource :: "api_pointer \<Rightarrow> json option" where
  "as_P1_Datasource p = (case p of P1_Datasource x \<Rightarrow> Some x | _ \<Rightarrow> None)"

definition as_P1_DatasourceSpec :: "api_pointer \<Rightarrow> v1alpha1_datasource_spec option" where
  "as_P1_DatasourceSpec p = (case p of P1_DatasourceSpec x \<Rightarrow> Some x | _ \<Rightarrow> None)"

definition as_P1_KubernetesAuth :: "api_pointer \<Rightarrow> v1alpha1_kubernetes_auth option" where
  "as_P1_KubernetesAuth p = (case p of P1_KubernetesAuth x \<Rightarrow> Some x | _ \<Rightarrow> None)"

definition as_P1_Metadata :: "api_pointer \<Rightarrow> v1alpha1_metadata option" where
  "as_P1_Metadata p = (case p of P1_Metadata x \<Rightarrow> Some x | _ \<Rightarrow> None)"

definition as_P1_OAuth :: "api_pointer \<Rightarrow> v1alpha1_oauth option" where
  "as_P1_OAuth p = (case p of P1_OAuth x \<Rightarrow> Some x | _ \<Rightarrow> None)"

definition as_P1_Perses :: "api_pointer \<Rightarrow> v1alpha1_perses option" where
  "as_P1_Perses p = (case p of P1_Perses x \<Rightarrow> Some x | _ \<Rightarrow> None)"

definition as_P1_PersesConfig :: "api_pointer \<Rightarrow> perses_config option" where
  "as_P1_PersesConfig p = (case p of P1_PersesConfig x \<Rightarrow> Some x | _ \<Rightarrow> None)"

definition as_P1_PersesDashboard :: "api_pointer \<Rightarrow> v1alpha1_persesdashboard option" where
  "as_P1_PersesDashboard p = (case p of P1_PersesDashboard x \<Rightarrow> Some x | _ \<Rightarrow> None)"

definition as_P1_PersesDashboardList :: "api_pointer \<Rightarrow> v1alpha1_persesdashboard list_object option" where
  "as_P1_PersesDashboardList p = (case p of P1_PersesDashboardList x \<Rightarrow> Some x | _ \<Rightarrow> None)"

definition as_P1_PersesDashboardStatus :: "api_pointer \<Rightarrow> v1alpha1_persesdashboard_status option" where
  "as_P1_PersesDashboardStatus p = (case p of P1_PersesDashboardStatus x \<Rightarrow> Some x | _ \<Rightarrow> None)"

definition as_P1_PersesDatasource :: "api_pointer \<Rightarrow> v1alpha1_persesdatasource option" where
  "as_P1_PersesDatasource p = (case p of P1_PersesDatasource x \<Rightarrow> Some x | _ \<Rightarrow> None)"

definition as_P1_PersesDatasourceList :: "api_pointer \<Rightarrow> v1alpha1_persesdatasource list_object option" where
  "as_P1_PersesDatasourceList p = (case p of P1_PersesDatasourceList x \<Rightarrow> Some x | _ \<Rightarrow> None)"

definition as_P1_PersesDatasourceStatus :: "api_pointer \<Rightarrow> v1alpha1_persesdatasource_status option" where
  "as_P1_PersesDatasourceStatus p = (case p of P1_PersesDatasourceStatus x \<Rightarrow> Some x | _ \<Rightarrow> None)"

definition as_P1_PersesList :: "api_pointer \<Rightarrow> v1alpha1_perses list_object option" where
  "as_P1_PersesList p = (case p of P1_PersesList x \<Rightarrow> Some x | _ \<Rightarrow> None)"

definition as_P1_PersesService :: "api_pointer \<Rightarrow> v1alpha1_perses_service option" where
  "as_P1_PersesService p = (case p of P1_PersesService x \<Rightarrow> Some x | _ \<Rightarrow> None)"

definition as_P1_PersesSpec :: "api_pointer \<Rightarrow> v1alpha1_perses_spec option" where
  "as_P1_PersesSpec p = (case p of P1_PersesSpec x \<Rightarrow> Some x | _ \<Rightarrow> None)"

definition as_P1_PersesStatus :: "api_pointer \<Rightarrow> v1alpha1_perses_status option" where
  "as_P1_PersesStatus p = (case p of P1_PersesStatus x \<Rightarrow> Some x | _ \<Rightarrow> None)"

definition as_P1_SecretSource :: "api_pointer \<Rightarrow> v1alpha1_secret_source option" where
  "as_P1_SecretSource p = (case p of P1_SecretSource x \<Rightarrow> Some x | _ \<Rightarrow> None)"

definition as_P1_StorageConfiguration :: "api_pointer \<Rightarrow> v1alpha1_storage_configuration option" where
  "as_P1_StorageConfiguration p = (case p of P1_StorageConfiguration x \<Rightarrow> Some x | _ \<Rightarrow> None)"

definition as_P1_TLS :: "api_pointer \<Rightarrow> v1alpha1_tls option" where
  "as_P1_TLS p = (case p of P1_TLS x \<Rightarrow> Some x | _ \<Rightarrow> None)"

definition as_P2_BasicAuth :: "api_pointer \<Rightarrow> basic_auth option" where
  "as_P2_BasicAuth p = (case p of P2_BasicAuth x \<Rightarrow> Some x | _ \<Rightarrow> None)"

definition as_P2_Certificate :: "api_pointer \<Rightarrow> certificate option" where
  "as_P2_Certificate p = (case p of P2_Certificate x \<Rightarrow> Some x | _ \<Rightarrow> None)"

definition as_P2_Client :: "api_pointer \<Rightarrow> client option" where
  "as_P2_Client p = (case p of P2_Client x \<Rightarrow> Some x | _ \<Rightarrow> None)"

definition as_P2_Dashboard :: "api_pointer \<Rightarrow> json option" where
  "as_P2_Dashboard p = (case p of P2_Dashboard x \<Rightarrow> Some x | _ \<Rightarrow> None)"

definition as_P2_Datasource :: "api_pointer \<Rightarrow> json option" where
  "as_P2_Datasource p = (case p of P2_Datasource x \<Rightarrow> Some x | _ \<Rightarrow> None)"

definition as_P2_DatasourceSpec :: "api_pointer \<Rightarrow> datasource_spec option" where
  "as_P2_DatasourceSpec p = (case p of P2_DatasourceSpec x \<Rightarrow> Some x | _ \<Rightarrow> None)"

definition as_P2_KubernetesAuth :: "api_pointer \<Rightarrow> kubernetes_auth option" where
  "as_P2_KubernetesAuth p = (case p of P2_KubernetesAuth x \<Rightarrow> Some x | _ \<Rightarrow> None)"

definition as_P2_Metadata :: "api_pointer \<Rightarrow> metadata option" where
  "as_P2_Metadata p = (case p of P2_Metadata x \<Rightarrow> Some x | _ \<Rightarrow> None)"

definition as_P2_OAuth :: "api_pointer \<Rightarrow> oauth option" where
  "as_P2_OAuth p = (case p of P2_OAuth x \<Rightarrow> Some x | _ \<Rightarrow> None)"

definition as_P2_Perses :: "api_pointer \<Rightarrow> perses option" where
  "as_P2_Perses p = (case p of P2_Perses x \<Rightarrow> Some x | _ \<Rightarrow> None)"

definition as_P2_PersesConfig :: "api_pointer \<Rightarrow> perses_config option" where
  "as_P2_PersesConfig p = (case p of P2_PersesConfig x \<Rightarrow> Some x | _ \<Rightarrow> None)"

definition as_P2_PersesDashboard :: "api_pointer \<Rightarrow> persesdashboard option" where
  "as_P2_PersesDashboard p = (case p of P2_PersesDashboard x \<Rightarrow> Some x | _ \<Rightarrow> None)"

definition as_P2_PersesDashboardList :: "api_pointer \<Rightarrow> persesdashboard list_object option" where
  "as_P2_PersesDashboardList p = (case p of P2_PersesDashboardList x \<Rightarrow> Some x | _ \<Rightarrow> None)"

definition as_P2_PersesDashboardSpec :: "api_pointer \<Rightarrow> persesdashboard_spec option" where
  "as_P2_PersesDashboardSpec p = (case p of P2_PersesDashboardSpec x \<Rightarrow> Some x | _ \<Rightarrow> None)"

definition as_P2_PersesDashboardStatus :: "api_pointer \<Rightarrow> persesdashboard_status option" where
  "as_P2_PersesDashboardStatus p = (case p of P2_PersesDashboardStatus x \<Rightarrow> Some x | _ \<Rightarrow> None)"

definition as_P2_PersesDatasource :: "api_pointer \<Rightarrow> persesdatasource option" where
  "as_P2_PersesDatasource p = (case p of P2_PersesDatasource x \<Rightarrow> Some x | _ \<Rightarrow> None)"

definition as_P2_PersesDatasourceList :: "api_pointer \<Rightarrow> persesdatasource list_object option" where
  "as_P2_PersesDatasourceList p = (case p of P2_PersesDatasourceList x \<Rightarrow> Some x | _ \<Rightarrow> None)"

definition as_P2_PersesDatasourceStatus :: "api_pointer \<Rightarrow> persesdatasource_status option" where
  "as_P2_PersesDatasourceStatus p = (case p of P2_PersesDatasourceStatus x \<Rightarrow> Some x | _ \<Rightarrow> None)"

definition as_P2_PersesList :: "api_pointer \<Rightarrow> perses list_object option" where
  "as_P2_PersesList p = (case p of P2_PersesList x \<Rightarrow> Some x | _ \<Rightarrow> None)"

definition as_P2_PersesService :: "api_pointer \<Rightarrow> perses_service option" where
  "as_P2_PersesService p = (case p of P2_PersesService x \<Rightarrow> Some x | _ \<Rightarrow> None)"

definition as_P2_PersesSpec :: "api_pointer \<Rightarrow> perses_spec option" where
  "as_P2_PersesSpec p = (case p of P2_PersesSpec x \<Rightarrow> Some x | _ \<Rightarrow> None)"

definition as_P2_PersesStatus :: "api_pointer \<Rightarrow> perses_status option" where
  "as_P2_PersesStatus p = (case p of P2_PersesStatus x \<Rightarrow> Some x | _ \<Rightarrow> None)"

definition as_P2_SecretSource :: "api_pointer \<Rightarrow> secret_source option" where
  "as_P2_SecretSource p = (case p of P2_SecretSource x \<Rightarrow> Some x | _ \<Rightarrow> None)"

definition as_P2_StorageConfiguration :: "api_pointer \<Rightarrow> storage_configuration option" where
  "as_P2_StorageConfiguration p = (case p of P2_StorageConfiguration x \<Rightarrow> Some x | _ \<Rightarrow> None)"

definition as_P2_TLS :: "api_pointer \<Rightarrow> tls option" where
  "as_P2_TLS p = (case p of P2_TLS x \<Rightarrow> Some x | _ \<Rightarrow> None)"

lemmas as_defs =
    as_P1_BasicAuth_def as_P1_Certificate_def as_P1_Client_def as_P1_Dashboard_def as_P1_Datasource_def
    as_P1_DatasourceSpec_def as_P1_KubernetesAuth_def as_P1_Metadata_def as_P1_OAuth_def as_P1_Perses_def
    as_P1_PersesConfig_def as_P1_PersesDashboard_def as_P1_PersesDashboardList_def as_P1_PersesDashboardStatus_def
    as_P1_PersesDatasource_def as_P1_PersesDatasourceList_def as_P1_PersesDatasourceStatus_def
    as_P1_PersesList_def as_P1_PersesService_def as_P1_PersesSpec_def as_P1_PersesStatus_def
    as_P1_SecretSource_def as_P1_StorageConfiguration_def as_P1_TLS_def as_P2_BasicAuth_def as_P2_Certificate_def
    as_P2_Client_def as_P2_Dashboard_def as_P2_Datasource_def as_P2_DatasourceSpec_def as_P2_KubernetesAuth_def
    as_P2_Metadata_def as_P2_OAuth_def as_P2_Perses_def as_P2_PersesConfig_def as_P2_PersesDashboard_def
    as_P2_PersesDashboardList_def as_P2_PersesDashboardSpec_def as_P2_PersesDashboardStatus_def
    as_P2_PersesDatasource_def as_P2_PersesDatasourceList_def as_P2_PersesDatasourceStatus_def
    as_P2_PersesList_def as_P2_PersesService_def as_P2_PersesSpec_def as_P2_PersesStatus_def
    as_P2_SecretSource_def as_P2_StorageConfiguration_def as_P2_TLS_def

text \<open>An assertion passes exactly for the pointers of its type.\<close>

lemma as_Some:
  "as_P1_BasicAuth p = Some x1 \<longleftrightarrow> p = P1_BasicAuth x1"
  "as_P1_Certificate p = Some x2 \<longleftrightarrow> p = P1_Certificate x2"
  "as_P1_Client p = Some x3 \<longleftrightarrow> p = P1_Client x3"
  "as_P1_Dashboard p = Some x4 \<longleftrightarrow> p = P1_Dashboard x4"
  "as_P1_Datasource p = Some x5 \<longleftrightarrow> p = P1_Datasource x5"
  "as_P1_DatasourceSpec p = Some x6 \<longleftrightarrow> p = P1_DatasourceSpec x6"
  "as_P1_KubernetesAuth p = Some x7 \<longleftrightarrow> p = P1_KubernetesAuth x7"
  "as_P1_Metadata p = Some x8 \<longleftrightarrow> p = P1_Metadata x8"
  "as_P1_OAuth p = Some x9 \<longleftrightarrow> p = P1_OAuth x9"
  "as_P1_Perses p = Some x10 \<longleftrightarrow> p = P1_Perses x10"
  "as_P1_PersesConfig p = Some x11 \<longleftrightarrow> p = P1_PersesConfig x11"
  "as_P1_PersesDashboard p = Some x12 \<longleftrightarrow> p = P1_PersesDashboard x12"
  "as_P1_PersesDashboardList p = Some x13 \<longleftrightarrow> p = P1_PersesDashboardList x13"
  "as_P1_PersesDashboardStatus p = Some x14 \<longleftrightarrow> p = P1_PersesDashboardStatus x14"
  "as_P1_PersesDatasource p = Some x15 \<longleftrightarrow> p = P1_PersesDatasource x15"
  "as_P1_PersesDatasourceList p = Some x16 \<longleftrightarrow> p = P1_PersesDatasourceList x16"
  "as_P1_PersesDatasourceStatus p = Some x17 \<longleftrightarrow> p = P1_PersesDatasourceStatus x17"
  "as_P1_PersesList p = Some x18 \<longleftrightarrow> p = P1_PersesList x18"
  "as_P1_PersesService p = Some x19 \<longleftrightarrow> p = P1_PersesService x19"
  "as_P1_PersesSpec p = Some x20 \<longleftrightarrow> p = P1_PersesSpec x20"
  "as_P1_PersesStatus p = Some x21 \<longleftrightarrow> p = P1_PersesStatus x21"
  "as_P1_SecretSource p = Some x22 \<longleftrightarrow> p = P1_SecretSource x22"
  "as_P1_StorageConfiguration p = Some x23 \<longleftrightarrow> p = P1_StorageConfiguration x23"
  "as_P1_TLS p = Some x24 \<longleftrightarrow> p = P1_TLS x24"
  "as_P2_BasicAuth p = Some x25 \<longleftrightarrow> p = P2_BasicAuth x25"
  "as_P2_Certificate p = Some x26 \<longleftrightarrow> p = P2_Certificate x26"
  "as_P2_Client p = Some x27 \<longleftrightarrow> p = P2_Client x27"
  "as_P2_Dashboard p = Some x28 \<longleftrightarrow> p = P2_Dashboard x28"
  "as_P2_Datasource p = Some x29 \<longleftrightarrow> p = P2_Datasource x29"
  "as_P2_DatasourceSpec p = Some x30 \<longleftrightarrow> p = P2_DatasourceSpec x30"
  "as_P2_KubernetesAuth p = Some x31 \<longleftrightarrow> p = P2_KubernetesAuth x31"
  "as_P2_Metadata p = Some x32 \<longleftrightarrow> p = P2_Metadata x32"
  "as_P2_OAuth p = Some x33 \<longleftrightarrow> p = P2_OAuth x33"
  "as_P2_Perses p = Some x34 \<longleftrightarrow> p = P2_Perses x34"
  "as_P2_PersesConfig p = Some x35 \<longleftrightarrow> p = P2_PersesConfig x35"
  "as_P2_PersesDashboard p = Some x36 \<longleftrightarrow> p = P2_PersesDashboard x36"
  "as_P2_PersesDashboardList p = Some x37 \<longleftrightarrow> p = P2_PersesDashboardList x37"
  "as_P2_PersesDashboardSpec p = Some x38 \<longleftrightarrow> p = P2_PersesDashboardSpec x38"
  "as_P2_PersesDashboardStatus p = Some x39 \<longleftrightarrow> p = P2_PersesDashboardStatus x39"
  "as_P2_PersesDatasource p = Some x40 \<longleftrightarrow> p = P2_PersesDatasource x40"
  "as_P2_PersesDatasourceList p = Some x41 \<longleftrightarrow> p = P2_PersesDatasourceList x41"
  "as_P2_PersesDatasourceStatus p = Some x42 \<longleftrightarrow> p = P2_PersesDatasourceStatus x42"
  "as_P2_PersesList p = Some x43 \<longleftrightarrow> p = P2_PersesList x43"
  "as_P2_PersesService p = Some x44 \<longleftrightarrow> p = P2_PersesService x44"
  "as_P2_PersesSpec p = Some x45 \<longleftrightarrow> p = P2_PersesSpec x45"
  "as_P2_PersesStatus p = Some x46 \<longleftrightarrow> p = P2_PersesStatus x46"
  "as_P2_SecretSource p = Some x47 \<longleftrightarrow> p = P2_SecretSource x47"
  "as_P2_StorageConfiguration p = Some x48 \<longleftrightarrow> p = P2_StorageConfiguration x48"
  "as_P2_TLS p = Some x49 \<longleftrightarrow> p = P2_TLS x49"
  by (cases p; simp add: as_defs)+

text \<open>
  The closure that is registered for a pair of types: both assertions, then the conversion into the second
  pointer. A failed assertion is a panic, which is \<open>None\<close>.
\<close>

type_synonym conversion_func = "conv_lib \<Rightarrow> api_pointer \<Rightarrow> api_pointer \<Rightarrow> (error + api_pointer) option"

definition converting ::
  "(api_pointer \<Rightarrow> 'a option) \<Rightarrow> (api_pointer \<Rightarrow> 'b option) \<Rightarrow> ('b \<Rightarrow> api_pointer) \<Rightarrow> (conv_lib \<Rightarrow> 'a \<Rightarrow> 'b \<Rightarrow> error + 'b) \<Rightarrow>
   conversion_func" where
  "converting as_a as_b pointer convert L a b =
     Option.bind (as_a a) (\<lambda>x. Option.bind (as_b b) (\<lambda>y. Some (map_sum id pointer (convert L x y))))"

section \<open>Closures\<close>

text \<open>The type of a pointer tells its constructor.\<close>

lemma pointer_type_is:
  "pointer_type p = (V1alpha1, ''BasicAuth'') \<longleftrightarrow> (\<exists>x. p = P1_BasicAuth x)"
  "pointer_type p = (V1alpha1, ''Certificate'') \<longleftrightarrow> (\<exists>x. p = P1_Certificate x)"
  "pointer_type p = (V1alpha1, ''Client'') \<longleftrightarrow> (\<exists>x. p = P1_Client x)"
  "pointer_type p = (V1alpha1, ''Dashboard'') \<longleftrightarrow> (\<exists>x. p = P1_Dashboard x)"
  "pointer_type p = (V1alpha1, ''Datasource'') \<longleftrightarrow> (\<exists>x. p = P1_Datasource x)"
  "pointer_type p = (V1alpha1, ''DatasourceSpec'') \<longleftrightarrow> (\<exists>x. p = P1_DatasourceSpec x)"
  "pointer_type p = (V1alpha1, ''KubernetesAuth'') \<longleftrightarrow> (\<exists>x. p = P1_KubernetesAuth x)"
  "pointer_type p = (V1alpha1, ''Metadata'') \<longleftrightarrow> (\<exists>x. p = P1_Metadata x)"
  "pointer_type p = (V1alpha1, ''OAuth'') \<longleftrightarrow> (\<exists>x. p = P1_OAuth x)"
  "pointer_type p = (V1alpha1, ''Perses'') \<longleftrightarrow> (\<exists>x. p = P1_Perses x)"
  "pointer_type p = (V1alpha1, ''PersesConfig'') \<longleftrightarrow> (\<exists>x. p = P1_PersesConfig x)"
  "pointer_type p = (V1alpha1, ''PersesDashboard'') \<longleftrightarrow> (\<exists>x. p = P1_PersesDashboard x)"
  "pointer_type p = (V1alpha1, ''PersesDashboardList'') \<longleftrightarrow> (\<exists>x. p = P1_PersesDashboardList x)"
  "pointer_type p = (V1alpha1, ''PersesDashboardStatus'') \<longleftrightarrow> (\<exists>x. p = P1_PersesDashboardStatus x)"
  "pointer_type p = (V1alpha1, ''PersesDatasource'') \<longleftrightarrow> (\<exists>x. p = P1_PersesDatasource x)"
  "pointer_type p = (V1alpha1, ''PersesDatasourceList'') \<longleftrightarrow> (\<exists>x. p = P1_PersesDatasourceList x)"
  "pointer_type p = (V1alpha1, ''PersesDatasourceStatus'') \<longleftrightarrow> (\<exists>x. p = P1_PersesDatasourceStatus x)"
  "pointer_type p = (V1alpha1, ''PersesList'') \<longleftrightarrow> (\<exists>x. p = P1_PersesList x)"
  "pointer_type p = (V1alpha1, ''PersesService'') \<longleftrightarrow> (\<exists>x. p = P1_PersesService x)"
  "pointer_type p = (V1alpha1, ''PersesSpec'') \<longleftrightarrow> (\<exists>x. p = P1_PersesSpec x)"
  "pointer_type p = (V1alpha1, ''PersesStatus'') \<longleftrightarrow> (\<exists>x. p = P1_PersesStatus x)"
  "pointer_type p = (V1alpha1, ''SecretSource'') \<longleftrightarrow> (\<exists>x. p = P1_SecretSource x)"
  "pointer_type p = (V1alpha1, ''StorageConfiguration'') \<longleftrightarrow> (\<exists>x. p = P1_StorageConfiguration x)"
  "pointer_type p = (V1alpha1, ''TLS'') \<longleftrightarrow> (\<exists>x. p = P1_TLS x)"
  "pointer_type p = (V1alpha2, ''BasicAuth'') \<longleftrightarrow> (\<exists>x. p = P2_BasicAuth x)"
  "pointer_type p = (V1alpha2, ''Certificate'') \<longleftrightarrow> (\<exists>x. p = P2_Certificate x)"
  "pointer_type p = (V1alpha2, ''Client'') \<longleftrightarrow> (\<exists>x. p = P2_Client x)"
  "pointer_type p = (V1alpha2, ''Dashboard'') \<longleftrightarrow> (\<exists>x. p = P2_Dashboard x)"
  "pointer_type p = (V1alpha2, ''Datasource'') \<longleftrightarrow> (\<exists>x. p = P2_Datasource x)"
  "pointer_type p = (V1alpha2, ''DatasourceSpec'') \<longleftrightarrow> (\<exists>x. p = P2_DatasourceSpec x)"
  "pointer_type p = (V1alpha2, ''KubernetesAuth'') \<longleftrightarrow> (\<exists>x. p = P2_KubernetesAuth x)"
  "pointer_type p = (V1alpha2, ''Metadata'') \<longleftrightarrow> (\<exists>x. p = P2_Metadata x)"
  "pointer_type p = (V1alpha2, ''OAuth'') \<longleftrightarrow> (\<exists>x. p = P2_OAuth x)"
  "pointer_type p = (V1alpha2, ''Perses'') \<longleftrightarrow> (\<exists>x. p = P2_Perses x)"
  "pointer_type p = (V1alpha2, ''PersesConfig'') \<longleftrightarrow> (\<exists>x. p = P2_PersesConfig x)"
  "pointer_type p = (V1alpha2, ''PersesDashboard'') \<longleftrightarrow> (\<exists>x. p = P2_PersesDashboard x)"
  "pointer_type p = (V1alpha2, ''PersesDashboardList'') \<longleftrightarrow> (\<exists>x. p = P2_PersesDashboardList x)"
  "pointer_type p = (V1alpha2, ''PersesDashboardSpec'') \<longleftrightarrow> (\<exists>x. p = P2_PersesDashboardSpec x)"
  "pointer_type p = (V1alpha2, ''PersesDashboardStatus'') \<longleftrightarrow> (\<exists>x. p = P2_PersesDashboardStatus x)"
  "pointer_type p = (V1alpha2, ''PersesDatasource'') \<longleftrightarrow> (\<exists>x. p = P2_PersesDatasource x)"
  "pointer_type p = (V1alpha2, ''PersesDatasourceList'') \<longleftrightarrow> (\<exists>x. p = P2_PersesDatasourceList x)"
  "pointer_type p = (V1alpha2, ''PersesDatasourceStatus'') \<longleftrightarrow> (\<exists>x. p = P2_PersesDatasourceStatus x)"
  "pointer_type p = (V1alpha2, ''PersesList'') \<longleftrightarrow> (\<exists>x. p = P2_PersesList x)"
  "pointer_type p = (V1alpha2, ''PersesService'') \<longleftrightarrow> (\<exists>x. p = P2_PersesService x)"
  "pointer_type p = (V1alpha2, ''PersesSpec'') \<longleftrightarrow> (\<exists>x. p = P2_PersesSpec x)"
  "pointer_type p = (V1alpha2, ''PersesStatus'') \<longleftrightarrow> (\<exists>x. p = P2_PersesStatus x)"
  "pointer_type p = (V1alpha2, ''SecretSource'') \<longleftrightarrow> (\<exists>x. p = P2_SecretSource x)"
  "pointer_type p = (V1alpha2, ''StorageConfiguration'') \<longleftrightarrow> (\<exists>x. p = P2_StorageConfiguration x)"
  "pointer_type p = (V1alpha2, ''TLS'') \<longleftrightarrow> (\<exists>x. p = P2_TLS x)"
  by (cases p; simp)+

text \<open>A closure panics unless it gets pointers of its two types, and it gives a pointer of the second one.\<close>

definition wired :: "api_type \<Rightarrow> api_type \<Rightarrow> conversion_func \<Rightarrow> bool" where
  "wired a b f \<longleftrightarrow> (\<forall>L x y. (f L x y \<noteq> None \<longleftrightarrow> pointer_type x = a \<and> pointer_type y = b) \<and>
     (\<forall>z. f L x y = Some (Inr z) \<longrightarrow> pointer_type z = b))"

lemma converting_wired:
  assumes "\<And>p x. as_a p = Some x \<longleftrightarrow> p = A x" and "\<And>p. pointer_type p = a \<longleftrightarrow> (\<exists>x. p = A x)"
    and "\<And>p x. as_b p = Some x \<longleftrightarrow> p = B x" and "\<And>p. pointer_type p = b \<longleftrightarrow> (\<exists>x. p = B x)"
  shows "wired a b (converting as_a as_b B convert)"
proof -
  have right: "map_sum id B r = Inr z \<Longrightarrow> \<exists>x. z = B x" for r z by (cases r) auto
  show ?thesis
    unfolding wired_def converting_def assms(2,4) by (auto simp: assms(1,3) bind_eq_Some_conv dest!: right)
qed

end
