(* ===== verification/Scheme.thy ===== *)
theory Scheme
  imports DeepCopyV1alpha1 DeepCopyV1alpha2 ApiPointers
begin

text \<open>
  The scheme of the program: the group versions with their kinds, the conversion functions, and the
  \<open>init\<close> functions that enter them. The scheme of the library is the sequence of the calls that it
  accepted. The library decides which calls fail; its \<open>SchemeBuilder\<close>, a list of set-up functions, is a
  parameter too, and documented of it is that it applies the functions in their order and abandons the
  attempt when one fails.
\<close>

section \<open>The scheme and its library\<close>

record group_version =
  GV_Group :: string
  GV_Version :: string

datatype scheme_call =
    AddKnownTypes group_version "string list"
  | AddToGroupVersion group_version
  | AddGeneratedConversionFunc api_type api_type conversion_func
  | AddConversionFunc api_type api_type conversion_func
  | ClientGo_AddToScheme

type_synonym scheme = "scheme_call list"
type_synonym scheme_fn = "scheme \<Rightarrow> error option \<times> scheme"

record scheme_lib =
  call_error :: "scheme_call \<Rightarrow> scheme \<Rightarrow> error option"
  SchemeBuilder_AddToScheme :: "scheme_fn list \<Rightarrow> scheme_fn"

fun apply_all :: "scheme_fn list \<Rightarrow> scheme_fn" where
  "apply_all [] s = (None, s)"
| "apply_all (f # fs) s = (case f s of (Some e, s') \<Rightarrow> (Some e, s') | (None, s') \<Rightarrow> apply_all fs s')"

definition builder_law :: "scheme_lib \<Rightarrow> bool" where
  "builder_law L \<longleftrightarrow> (\<forall>fs s. SchemeBuilder_AddToScheme L fs s = apply_all fs s)"

definition call :: "scheme_lib \<Rightarrow> scheme_call \<Rightarrow> scheme_fn" where
  "call L c s = (case call_error L c s of Some e \<Rightarrow> (Some e, s) | None \<Rightarrow> (None, s @ [c]))"

section \<open>The registrars of the two versions\<close>

record registrar =
  registrar_gv :: group_version
  SchemeBuilder :: "scheme_fn list"

definition Register :: "registrar \<Rightarrow> api_object list \<Rightarrow> registrar" where
  "Register r objs = r\<lparr>SchemeBuilder := SchemeBuilder r @
     [\<lambda>s. (None, s @ [AddKnownTypes (registrar_gv r) (map object_kind objs), AddToGroupVersion (registrar_gv r)])]\<rparr>"

definition AddToScheme :: "scheme_lib \<Rightarrow> registrar \<Rightarrow> scheme_fn" where
  "AddToScheme L r = SchemeBuilder_AddToScheme L (SchemeBuilder r)"

definition v1alpha1_GroupVersion :: group_version where
  "v1alpha1_GroupVersion = \<lparr>GV_Group = ''perses.dev'', GV_Version = ''v1alpha1''\<rparr>"

definition v1alpha2_GroupVersion :: group_version where
  "v1alpha2_GroupVersion = \<lparr>GV_Group = ''perses.dev'', GV_Version = ''v1alpha2''\<rparr>"

text \<open>The builders after the \<open>init\<close> functions of the package have run, in the order of the files.\<close>

definition v1alpha1_SchemeBuilder :: "copy_libs \<Rightarrow> registrar" where
  "v1alpha1_SchemeBuilder C =
     foldl Register \<lparr>registrar_gv = v1alpha1_GroupVersion, SchemeBuilder = []\<rparr>
       [v1alpha1_init_perses C, v1alpha1_init_persesdashboard C, v1alpha1_init_persesdatasource C]"

definition v1alpha2_SchemeBuilder :: "copy_libs \<Rightarrow> registrar" where
  "v1alpha2_SchemeBuilder C =
     foldl Register \<lparr>registrar_gv = v1alpha2_GroupVersion, SchemeBuilder = []\<rparr>
       [v1alpha2_init_perses C, v1alpha2_init_persesdashboard C, v1alpha2_init_persesdatasource C, v1alpha2_init_persesglobaldatasource C]"

section \<open>The conversion functions\<close>

text \<open>\<open>if err := s.Add...; err != nil { return err }\<close>, once for each entry, and at the end \<open>return nil\<close>.\<close>

definition if_ok :: "scheme_fn \<Rightarrow> scheme_fn \<Rightarrow> scheme_fn" where
  "if_ok f rest s = (case f s of (Some err, s') \<Rightarrow> (Some err, s') | (None, s') \<Rightarrow> rest s')"

definition return_nil :: scheme_fn where
  "return_nil s = (None, s)"

text \<open>The function is cut into three parts, each of which goes on to the rest.\<close>

definition generated_conversions_1 :: "scheme_lib \<Rightarrow> scheme_fn \<Rightarrow> scheme_fn" where
  "generated_conversions_1 L rest =
     if_ok (call L (AddGeneratedConversionFunc (V1alpha1, ''BasicAuth'') (V1alpha2, ''BasicAuth'')
       (converting as_P1_BasicAuth as_P2_BasicAuth P2_BasicAuth Convert_v1alpha1_BasicAuth_To_v1alpha2_BasicAuth))) (
     if_ok (call L (AddGeneratedConversionFunc (V1alpha2, ''BasicAuth'') (V1alpha1, ''BasicAuth'')
       (converting as_P2_BasicAuth as_P1_BasicAuth P1_BasicAuth Convert_v1alpha2_BasicAuth_To_v1alpha1_BasicAuth))) (
     if_ok (call L (AddGeneratedConversionFunc (V1alpha1, ''Certificate'') (V1alpha2, ''Certificate'')
       (converting as_P1_Certificate as_P2_Certificate P2_Certificate Convert_v1alpha1_Certificate_To_v1alpha2_Certificate))) (
     if_ok (call L (AddGeneratedConversionFunc (V1alpha2, ''Certificate'') (V1alpha1, ''Certificate'')
       (converting as_P2_Certificate as_P1_Certificate P1_Certificate Convert_v1alpha2_Certificate_To_v1alpha1_Certificate))) (
     if_ok (call L (AddGeneratedConversionFunc (V1alpha1, ''Client'') (V1alpha2, ''Client'')
       (converting as_P1_Client as_P2_Client P2_Client Convert_v1alpha1_Client_To_v1alpha2_Client))) (
     if_ok (call L (AddGeneratedConversionFunc (V1alpha2, ''Client'') (V1alpha1, ''Client'')
       (converting as_P2_Client as_P1_Client P1_Client Convert_v1alpha2_Client_To_v1alpha1_Client))) (
     if_ok (call L (AddGeneratedConversionFunc (V1alpha1, ''Dashboard'') (V1alpha2, ''Dashboard'')
       (converting as_P1_Dashboard as_P2_Dashboard P2_Dashboard Convert_v1alpha1_Dashboard_To_v1alpha2_Dashboard))) (
     if_ok (call L (AddGeneratedConversionFunc (V1alpha2, ''Dashboard'') (V1alpha1, ''Dashboard'')
       (converting as_P2_Dashboard as_P1_Dashboard P1_Dashboard Convert_v1alpha2_Dashboard_To_v1alpha1_Dashboard))) (
     if_ok (call L (AddGeneratedConversionFunc (V1alpha1, ''Datasource'') (V1alpha2, ''Datasource'')
       (converting as_P1_Datasource as_P2_Datasource P2_Datasource Convert_v1alpha1_Datasource_To_v1alpha2_Datasource))) (
     if_ok (call L (AddGeneratedConversionFunc (V1alpha2, ''Datasource'') (V1alpha1, ''Datasource'')
       (converting as_P2_Datasource as_P1_Datasource P1_Datasource Convert_v1alpha2_Datasource_To_v1alpha1_Datasource))) (
     if_ok (call L (AddGeneratedConversionFunc (V1alpha1, ''DatasourceSpec'') (V1alpha2, ''DatasourceSpec'')
       (converting as_P1_DatasourceSpec as_P2_DatasourceSpec P2_DatasourceSpec Convert_v1alpha1_DatasourceSpec_To_v1alpha2_DatasourceSpec))) (
     if_ok (call L (AddGeneratedConversionFunc (V1alpha1, ''KubernetesAuth'') (V1alpha2, ''KubernetesAuth'')
       (converting as_P1_KubernetesAuth as_P2_KubernetesAuth P2_KubernetesAuth Convert_v1alpha1_KubernetesAuth_To_v1alpha2_KubernetesAuth))) (
     if_ok (call L (AddGeneratedConversionFunc (V1alpha2, ''KubernetesAuth'') (V1alpha1, ''KubernetesAuth'')
       (converting as_P2_KubernetesAuth as_P1_KubernetesAuth P1_KubernetesAuth Convert_v1alpha2_KubernetesAuth_To_v1alpha1_KubernetesAuth))) (
     if_ok (call L (AddGeneratedConversionFunc (V1alpha1, ''Metadata'') (V1alpha2, ''Metadata'')
       (converting as_P1_Metadata as_P2_Metadata P2_Metadata Convert_v1alpha1_Metadata_To_v1alpha2_Metadata))) (
     if_ok (call L (AddGeneratedConversionFunc (V1alpha2, ''Metadata'') (V1alpha1, ''Metadata'')
       (converting as_P2_Metadata as_P1_Metadata P1_Metadata Convert_v1alpha2_Metadata_To_v1alpha1_Metadata))) (
     if_ok (call L (AddGeneratedConversionFunc (V1alpha1, ''Perses'') (V1alpha2, ''Perses'')
       (converting as_P1_Perses as_P2_Perses P2_Perses Convert_v1alpha1_Perses_To_v1alpha2_Perses))) (
     if_ok (call L (AddGeneratedConversionFunc (V1alpha2, ''Perses'') (V1alpha1, ''Perses'')
       (converting as_P2_Perses as_P1_Perses P1_Perses Convert_v1alpha2_Perses_To_v1alpha1_Perses))) (
     if_ok (call L (AddGeneratedConversionFunc (V1alpha1, ''PersesConfig'') (V1alpha2, ''PersesConfig'')
       (converting as_P1_PersesConfig as_P2_PersesConfig P2_PersesConfig Convert_v1alpha1_PersesConfig_To_v1alpha2_PersesConfig))) (
     if_ok (call L (AddGeneratedConversionFunc (V1alpha2, ''PersesConfig'') (V1alpha1, ''PersesConfig'')
       (converting as_P2_PersesConfig as_P1_PersesConfig P1_PersesConfig Convert_v1alpha2_PersesConfig_To_v1alpha1_PersesConfig))) (
     if_ok (call L (AddGeneratedConversionFunc (V1alpha1, ''PersesDashboard'') (V1alpha2, ''PersesDashboard'')
       (converting as_P1_PersesDashboard as_P2_PersesDashboard P2_PersesDashboard Convert_v1alpha1_PersesDashboard_To_v1alpha2_PersesDashboard))) (
     if_ok (call L (AddGeneratedConversionFunc (V1alpha2, ''PersesDashboard'') (V1alpha1, ''PersesDashboard'')
       (converting as_P2_PersesDashboard as_P1_PersesDashboard P1_PersesDashboard Convert_v1alpha2_PersesDashboard_To_v1alpha1_PersesDashboard))) (
     if_ok (call L (AddGeneratedConversionFunc (V1alpha1, ''PersesDashboardList'') (V1alpha2, ''PersesDashboardList'')
       (converting as_P1_PersesDashboardList as_P2_PersesDashboardList P2_PersesDashboardList Convert_v1alpha1_PersesDashboardList_To_v1alpha2_PersesDashboardList))) (
     if_ok (call L (AddGeneratedConversionFunc (V1alpha2, ''PersesDashboardList'') (V1alpha1, ''PersesDashboardList'')
       (converting as_P2_PersesDashboardList as_P1_PersesDashboardList P1_PersesDashboardList Convert_v1alpha2_PersesDashboardList_To_v1alpha1_PersesDashboardList))) (
     if_ok (call L (AddGeneratedConversionFunc (V1alpha1, ''PersesDashboardStatus'') (V1alpha2, ''PersesDashboardStatus'')
       (converting as_P1_PersesDashboardStatus as_P2_PersesDashboardStatus P2_PersesDashboardStatus Convert_v1alpha1_PersesDashboardStatus_To_v1alpha2_PersesDashboardStatus))) (
     if_ok (call L (AddGeneratedConversionFunc (V1alpha2, ''PersesDashboardStatus'') (V1alpha1, ''PersesDashboardStatus'')
       (converting as_P2_PersesDashboardStatus as_P1_PersesDashboardStatus P1_PersesDashboardStatus Convert_v1alpha2_PersesDashboardStatus_To_v1alpha1_PersesDashboardStatus))) (
     if_ok (call L (AddGeneratedConversionFunc (V1alpha1, ''PersesDatasource'') (V1alpha2, ''PersesDatasource'')
       (converting as_P1_PersesDatasource as_P2_PersesDatasource P2_PersesDatasource Convert_v1alpha1_PersesDatasource_To_v1alpha2_PersesDatasource))) (
     rest))))))))))))))))))))))))))"

definition generated_conversions_2 :: "scheme_lib \<Rightarrow> scheme_fn \<Rightarrow> scheme_fn" where
  "generated_conversions_2 L rest =
     if_ok (call L (AddGeneratedConversionFunc (V1alpha2, ''PersesDatasource'') (V1alpha1, ''PersesDatasource'')
       (converting as_P2_PersesDatasource as_P1_PersesDatasource P1_PersesDatasource Convert_v1alpha2_PersesDatasource_To_v1alpha1_PersesDatasource))) (
     if_ok (call L (AddGeneratedConversionFunc (V1alpha1, ''PersesDatasourceList'') (V1alpha2, ''PersesDatasourceList'')
       (converting as_P1_PersesDatasourceList as_P2_PersesDatasourceList P2_PersesDatasourceList Convert_v1alpha1_PersesDatasourceList_To_v1alpha2_PersesDatasourceList))) (
     if_ok (call L (AddGeneratedConversionFunc (V1alpha2, ''PersesDatasourceList'') (V1alpha1, ''PersesDatasourceList'')
       (converting as_P2_PersesDatasourceList as_P1_PersesDatasourceList P1_PersesDatasourceList Convert_v1alpha2_PersesDatasourceList_To_v1alpha1_PersesDatasourceList))) (
     if_ok (call L (AddGeneratedConversionFunc (V1alpha1, ''PersesDatasourceStatus'') (V1alpha2, ''PersesDatasourceStatus'')
       (converting as_P1_PersesDatasourceStatus as_P2_PersesDatasourceStatus P2_PersesDatasourceStatus Convert_v1alpha1_PersesDatasourceStatus_To_v1alpha2_PersesDatasourceStatus))) (
     if_ok (call L (AddGeneratedConversionFunc (V1alpha2, ''PersesDatasourceStatus'') (V1alpha1, ''PersesDatasourceStatus'')
       (converting as_P2_PersesDatasourceStatus as_P1_PersesDatasourceStatus P1_PersesDatasourceStatus Convert_v1alpha2_PersesDatasourceStatus_To_v1alpha1_PersesDatasourceStatus))) (
     if_ok (call L (AddGeneratedConversionFunc (V1alpha1, ''PersesList'') (V1alpha2, ''PersesList'')
       (converting as_P1_PersesList as_P2_PersesList P2_PersesList Convert_v1alpha1_PersesList_To_v1alpha2_PersesList))) (
     if_ok (call L (AddGeneratedConversionFunc (V1alpha2, ''PersesList'') (V1alpha1, ''PersesList'')
       (converting as_P2_PersesList as_P1_PersesList P1_PersesList Convert_v1alpha2_PersesList_To_v1alpha1_PersesList))) (
     if_ok (call L (AddGeneratedConversionFunc (V1alpha1, ''PersesService'') (V1alpha2, ''PersesService'')
       (converting as_P1_PersesService as_P2_PersesService P2_PersesService Convert_v1alpha1_PersesService_To_v1alpha2_PersesService))) (
     if_ok (call L (AddGeneratedConversionFunc (V1alpha2, ''PersesService'') (V1alpha1, ''PersesService'')
       (converting as_P2_PersesService as_P1_PersesService P1_PersesService Convert_v1alpha2_PersesService_To_v1alpha1_PersesService))) (
     if_ok (call L (AddGeneratedConversionFunc (V1alpha1, ''PersesSpec'') (V1alpha2, ''PersesSpec'')
       (converting as_P1_PersesSpec as_P2_PersesSpec P2_PersesSpec Convert_v1alpha1_PersesSpec_To_v1alpha2_PersesSpec))) (
     if_ok (call L (AddGeneratedConversionFunc (V1alpha1, ''PersesStatus'') (V1alpha2, ''PersesStatus'')
       (converting as_P1_PersesStatus as_P2_PersesStatus P2_PersesStatus Convert_v1alpha1_PersesStatus_To_v1alpha2_PersesStatus))) (
     if_ok (call L (AddGeneratedConversionFunc (V1alpha1, ''SecretSource'') (V1alpha2, ''SecretSource'')
       (converting as_P1_SecretSource as_P2_SecretSource P2_SecretSource Convert_v1alpha1_SecretSource_To_v1alpha2_SecretSource))) (
     if_ok (call L (AddGeneratedConversionFunc (V1alpha2, ''SecretSource'') (V1alpha1, ''SecretSource'')
       (converting as_P2_SecretSource as_P1_SecretSource P1_SecretSource Convert_v1alpha2_SecretSource_To_v1alpha1_SecretSource))) (
     if_ok (call L (AddGeneratedConversionFunc (V1alpha1, ''TLS'') (V1alpha2, ''TLS'')
       (converting as_P1_TLS as_P2_TLS P2_TLS Convert_v1alpha1_TLS_To_v1alpha2_TLS))) (
     if_ok (call L (AddGeneratedConversionFunc (V1alpha2, ''TLS'') (V1alpha1, ''TLS'')
       (converting as_P2_TLS as_P1_TLS P1_TLS Convert_v1alpha2_TLS_To_v1alpha1_TLS))) (
     rest)))))))))))))))"

definition manual_conversions :: "scheme_lib \<Rightarrow> scheme_fn \<Rightarrow> scheme_fn" where
  "manual_conversions L rest =
     if_ok (call L (AddConversionFunc (V1alpha1, ''Dashboard'') (V1alpha2, ''PersesDashboardSpec'')
       (converting as_P1_Dashboard as_P2_PersesDashboardSpec P2_PersesDashboardSpec Convert_v1alpha1_Dashboard_To_v1alpha2_PersesDashboardSpec))) (
     if_ok (call L (AddConversionFunc (V1alpha1, ''OAuth'') (V1alpha2, ''OAuth'')
       (converting as_P1_OAuth as_P2_OAuth P2_OAuth Convert_v1alpha1_OAuth_To_v1alpha2_OAuth))) (
     if_ok (call L (AddConversionFunc (V1alpha1, ''StorageConfiguration'') (V1alpha2, ''StorageConfiguration'')
       (converting as_P1_StorageConfiguration as_P2_StorageConfiguration P2_StorageConfiguration Convert_v1alpha1_StorageConfiguration_To_v1alpha2_StorageConfiguration))) (
     if_ok (call L (AddConversionFunc (V1alpha2, ''DatasourceSpec'') (V1alpha1, ''DatasourceSpec'')
       (converting as_P2_DatasourceSpec as_P1_DatasourceSpec P1_DatasourceSpec Convert_v1alpha2_DatasourceSpec_To_v1alpha1_DatasourceSpec))) (
     if_ok (call L (AddConversionFunc (V1alpha2, ''OAuth'') (V1alpha1, ''OAuth'')
       (converting as_P2_OAuth as_P1_OAuth P1_OAuth Convert_v1alpha2_OAuth_To_v1alpha1_OAuth))) (
     if_ok (call L (AddConversionFunc (V1alpha2, ''PersesDashboardSpec'') (V1alpha1, ''Dashboard'')
       (converting as_P2_PersesDashboardSpec as_P1_Dashboard P1_Dashboard Convert_v1alpha2_PersesDashboardSpec_To_v1alpha1_Dashboard))) (
     if_ok (call L (AddConversionFunc (V1alpha2, ''PersesSpec'') (V1alpha1, ''PersesSpec'')
       (converting as_P2_PersesSpec as_P1_PersesSpec P1_PersesSpec Convert_v1alpha2_PersesSpec_To_v1alpha1_PersesSpec))) (
     if_ok (call L (AddConversionFunc (V1alpha2, ''PersesStatus'') (V1alpha1, ''PersesStatus'')
       (converting as_P2_PersesStatus as_P1_PersesStatus P1_PersesStatus Convert_v1alpha2_PersesStatus_To_v1alpha1_PersesStatus))) (
     if_ok (call L (AddConversionFunc (V1alpha2, ''StorageConfiguration'') (V1alpha1, ''StorageConfiguration'')
       (converting as_P2_StorageConfiguration as_P1_StorageConfiguration P1_StorageConfiguration Convert_v1alpha2_StorageConfiguration_To_v1alpha1_StorageConfiguration))) (
     rest)))))))))"

definition RegisterConversions :: "scheme_lib \<Rightarrow> scheme_fn" where
  "RegisterConversions L =
     generated_conversions_1 L (generated_conversions_2 L (manual_conversions L return_nil))"

text \<open>The generated file registers them with a builder of their own.\<close>

definition localSchemeBuilder :: "scheme_lib \<Rightarrow> scheme_fn list" where
  "localSchemeBuilder L = [RegisterConversions L]"

section \<open>The scheme of the program\<close>

text \<open>\<open>utilruntime.Must\<close> panics on an error: \<open>None\<close>.\<close>

definition Must :: "error option \<times> scheme \<Rightarrow> scheme option" where
  "Must r = (case r of (Some e, s) \<Rightarrow> None | (None, s) \<Rightarrow> Some s)"

definition main_init :: "scheme_lib \<Rightarrow> copy_libs \<Rightarrow> scheme option" where
  "main_init L C =
     Option.bind (Must (call L ClientGo_AddToScheme [])) (\<lambda>s.
     Option.bind (Must (AddToScheme L (v1alpha1_SchemeBuilder C) s)) (\<lambda>s.
     Must (AddToScheme L (v1alpha2_SchemeBuilder C) s)))"

text \<open>
  The kinds that the packages of the program enter. (\<open>AddToGroupVersion\<close> and the scheme of client-go enter types and
  conversions of Kubernetes, which are not represented here.)
\<close>

fun own_kinds :: "scheme \<Rightarrow> (string \<times> string) list" where
  "own_kinds [] = []"
| "own_kinds (AddKnownTypes gv ks # s) = map (\<lambda>k. (GV_Version gv, k)) ks @ own_kinds s"
| "own_kinds (_ # s) = own_kinds s"

text \<open>What \<open>RegisterConversions\<close> enters where the library accepts every call.\<close>

definition accepting :: scheme_lib where
  "accepting = \<lparr>call_error = \<lambda>_ _. None, SchemeBuilder_AddToScheme = apply_all\<rparr>"

definition conversion_table :: scheme where
  "conversion_table = snd (RegisterConversions accepting [])"

fun entry :: "scheme_call \<Rightarrow> (api_type \<times> api_type \<times> conversion_func) option" where
  "entry (AddGeneratedConversionFunc a b f) = Some (a, b, f)"
| "entry (AddConversionFunc a b f) = Some (a, b, f)"
| "entry _ = None"

definition registered :: "((api_type \<times> api_type) \<times> conversion_func) list" where
  "registered = List.map_filter (\<lambda>c. map_option (\<lambda>(a, b, f). ((a, b), f)) (entry c)) conversion_table"

section \<open>Lemmas\<close>

text \<open>A sequence of calls either runs to its end or stops at the first call that fails.\<close>

lemma call_simps:
  "call_error L c s = None \<Longrightarrow> call L c s = (None, s @ [c])"
  "call_error L c s = Some e \<Longrightarrow> call L c s = (Some e, s)"
  by (simp_all add: call_def)

lemma apply_calls:
  "apply_all (map (call L) cs) s = (None, s') \<longleftrightarrow> s' = s @ cs \<and> (\<forall>ps c qs. cs = ps @ c # qs \<longrightarrow> call_error L c (s @ ps) = None)"
proof (induction cs arbitrary: s)
  case (Cons c cs)
  have split: "c # cs = ps @ d # qs \<longleftrightarrow> ps = [] \<and> d = c \<and> qs = cs \<or> (\<exists>ps'. ps = c # ps' \<and> cs = ps' @ d # qs)" for ps d qs
    by (cases ps) auto
  show ?case
  proof (cases "call_error L c s")
    case None
    then show ?thesis using Cons.IH [of "s @ [c]"] unfolding split by (auto simp: call_simps)
  next
    case (Some e)
    then show ?thesis unfolding split by (auto simp: call_simps)
  qed
qed auto

lemma apply_calls_error:
  "apply_all (map (call L) cs) s = (Some e, s') \<longleftrightarrow>
     (\<exists>ps c qs. cs = ps @ c # qs \<and> s' = s @ ps \<and> apply_all (map (call L) ps) s = (None, s @ ps) \<and> call_error L c (s @ ps) = Some e)"
proof (induction cs arbitrary: s)
  case (Cons c cs)
  have split: "(\<exists>ps d qs. c # cs = ps @ d # qs \<and> P ps d) \<longleftrightarrow> P [] c \<or> (\<exists>ps d qs. cs = ps @ d # qs \<and> P (c # ps) d)" for P
    by (metis append_Cons append_Nil list.inject neq_Nil_conv)
  show ?case
  proof (cases "call_error L c s")
    case None
    then show ?thesis unfolding split using Cons.IH [of "s @ [c]"] by (simp add: call_simps)
  next
    case (Some e)
    then show ?thesis unfolding split by (auto simp: call_simps)
  qed
qed simp

lemmas table_parts = RegisterConversions_def generated_conversions_1_def generated_conversions_2_def manual_conversions_def

lemma if_ok_accepting: "if_ok (call accepting c) rest s = rest (s @ [c])"
  by (simp add: if_ok_def call_def accepting_def)

lemma conversion_table_eq:
  "conversion_table = snd (generated_conversions_1 accepting (generated_conversions_2 accepting (manual_conversions accepting return_nil)) [])"
  by (simp add: conversion_table_def RegisterConversions_def)

lemmas table_simps = conversion_table_eq generated_conversions_1_def generated_conversions_2_def manual_conversions_def
  if_ok_accepting return_nil_def append.simps snd_conv

text \<open>The early returns amount to one pass over the table that stops at the first error.\<close>

lemma if_ok_apply_all: "if_ok f (apply_all fs) = apply_all (f # fs)"
  by (intro ext) (simp add: if_ok_def split: prod.split option.split)

lemma return_nil_apply_all: "return_nil = apply_all []"
  by (intro ext) (simp add: return_nil_def)

lemma RegisterConversions_pass: "RegisterConversions L = apply_all (map (call L) conversion_table)"
  unfolding table_parts return_nil_apply_all if_ok_apply_all
  by (simp only: table_simps list.map)

lemma main_init_scheme:
  assumes "builder_law L" and "call_error L ClientGo_AddToScheme [] = None"
  shows "main_init L C = Some (ClientGo_AddToScheme #
    concat (map (\<lambda>ks. [AddKnownTypes v1alpha1_GroupVersion ks, AddToGroupVersion v1alpha1_GroupVersion])
      [[''Perses'', ''PersesList''], [''PersesDashboard'', ''PersesDashboardList''], [''PersesDatasource'', ''PersesDatasourceList'']]) @
    concat (map (\<lambda>ks. [AddKnownTypes v1alpha2_GroupVersion ks, AddToGroupVersion v1alpha2_GroupVersion])
      [[''Perses'', ''PersesList''], [''PersesDashboard'', ''PersesDashboardList''], [''PersesDatasource'', ''PersesDatasourceList''],
       [''PersesGlobalDatasource'', ''PersesGlobalDatasourceList'']]))"
  using assms
  by (simp add: main_init_def Must_def call_simps AddToScheme_def builder_law_def v1alpha1_SchemeBuilder_def v1alpha2_SchemeBuilder_def
    Register_def v1alpha1_init_perses_def v1alpha1_init_persesdashboard_def v1alpha1_init_persesdatasource_def
    v1alpha2_init_perses_def v1alpha2_init_persesdashboard_def v1alpha2_init_persesdatasource_def v1alpha2_init_persesglobaldatasource_def)

lemma registered_wired: "list_all (\<lambda>((a, b), f). wired a b f) registered"
  by (simp add: registered_def table_simps List.map_filter_simps)
    (rule conjI converting_wired as_Some pointer_type_is)+

lemma registered_pairs: "map fst registered = [
    ((V1alpha1, ''BasicAuth''), (V1alpha2, ''BasicAuth'')),
    ((V1alpha2, ''BasicAuth''), (V1alpha1, ''BasicAuth'')),
    ((V1alpha1, ''Certificate''), (V1alpha2, ''Certificate'')),
    ((V1alpha2, ''Certificate''), (V1alpha1, ''Certificate'')),
    ((V1alpha1, ''Client''), (V1alpha2, ''Client'')),
    ((V1alpha2, ''Client''), (V1alpha1, ''Client'')),
    ((V1alpha1, ''Dashboard''), (V1alpha2, ''Dashboard'')),
    ((V1alpha2, ''Dashboard''), (V1alpha1, ''Dashboard'')),
    ((V1alpha1, ''Datasource''), (V1alpha2, ''Datasource'')),
    ((V1alpha2, ''Datasource''), (V1alpha1, ''Datasource'')),
    ((V1alpha1, ''DatasourceSpec''), (V1alpha2, ''DatasourceSpec'')),
    ((V1alpha1, ''KubernetesAuth''), (V1alpha2, ''KubernetesAuth'')),
    ((V1alpha2, ''KubernetesAuth''), (V1alpha1, ''KubernetesAuth'')),
    ((V1alpha1, ''Metadata''), (V1alpha2, ''Metadata'')),
    ((V1alpha2, ''Metadata''), (V1alpha1, ''Metadata'')),
    ((V1alpha1, ''Perses''), (V1alpha2, ''Perses'')),
    ((V1alpha2, ''Perses''), (V1alpha1, ''Perses'')),
    ((V1alpha1, ''PersesConfig''), (V1alpha2, ''PersesConfig'')),
    ((V1alpha2, ''PersesConfig''), (V1alpha1, ''PersesConfig'')),
    ((V1alpha1, ''PersesDashboard''), (V1alpha2, ''PersesDashboard'')),
    ((V1alpha2, ''PersesDashboard''), (V1alpha1, ''PersesDashboard'')),
    ((V1alpha1, ''PersesDashboardList''), (V1alpha2, ''PersesDashboardList'')),
    ((V1alpha2, ''PersesDashboardList''), (V1alpha1, ''PersesDashboardList'')),
    ((V1alpha1, ''PersesDashboardStatus''), (V1alpha2, ''PersesDashboardStatus'')),
    ((V1alpha2, ''PersesDashboardStatus''), (V1alpha1, ''PersesDashboardStatus'')),
    ((V1alpha1, ''PersesDatasource''), (V1alpha2, ''PersesDatasource'')),
    ((V1alpha2, ''PersesDatasource''), (V1alpha1, ''PersesDatasource'')),
    ((V1alpha1, ''PersesDatasourceList''), (V1alpha2, ''PersesDatasourceList'')),
    ((V1alpha2, ''PersesDatasourceList''), (V1alpha1, ''PersesDatasourceList'')),
    ((V1alpha1, ''PersesDatasourceStatus''), (V1alpha2, ''PersesDatasourceStatus'')),
    ((V1alpha2, ''PersesDatasourceStatus''), (V1alpha1, ''PersesDatasourceStatus'')),
    ((V1alpha1, ''PersesList''), (V1alpha2, ''PersesList'')),
    ((V1alpha2, ''PersesList''), (V1alpha1, ''PersesList'')),
    ((V1alpha1, ''PersesService''), (V1alpha2, ''PersesService'')),
    ((V1alpha2, ''PersesService''), (V1alpha1, ''PersesService'')),
    ((V1alpha1, ''PersesSpec''), (V1alpha2, ''PersesSpec'')),
    ((V1alpha1, ''PersesStatus''), (V1alpha2, ''PersesStatus'')),
    ((V1alpha1, ''SecretSource''), (V1alpha2, ''SecretSource'')),
    ((V1alpha2, ''SecretSource''), (V1alpha1, ''SecretSource'')),
    ((V1alpha1, ''TLS''), (V1alpha2, ''TLS'')),
    ((V1alpha2, ''TLS''), (V1alpha1, ''TLS'')),
    ((V1alpha1, ''Dashboard''), (V1alpha2, ''PersesDashboardSpec'')),
    ((V1alpha1, ''OAuth''), (V1alpha2, ''OAuth'')),
    ((V1alpha1, ''StorageConfiguration''), (V1alpha2, ''StorageConfiguration'')),
    ((V1alpha2, ''DatasourceSpec''), (V1alpha1, ''DatasourceSpec'')),
    ((V1alpha2, ''OAuth''), (V1alpha1, ''OAuth'')),
    ((V1alpha2, ''PersesDashboardSpec''), (V1alpha1, ''Dashboard'')),
    ((V1alpha2, ''PersesSpec''), (V1alpha1, ''PersesSpec'')),
    ((V1alpha2, ''PersesStatus''), (V1alpha1, ''PersesStatus'')),
    ((V1alpha2, ''StorageConfiguration''), (V1alpha1, ''StorageConfiguration''))]"
  by (simp add: registered_def table_simps List.map_filter_simps)

lemma registered_symmetric: "list_all (\<lambda>(a, b). (b, a) \<in> set (map fst registered)) (map fst registered)"
  unfolding registered_pairs by code_simp

lemma registered_distinct: "distinct (map fst registered)"
  unfolding registered_pairs by code_simp

lemma registered_covers: "pointer_type p \<in> fst ` set (map fst registered)"
  unfolding registered_pairs by (cases p; simp only: pointer_type.simps; code_simp)

lemma registered_objects:
  "map_of registered ((V1alpha1, ''Perses''), (V1alpha2, ''Perses'')) =
     Some (converting as_P1_Perses as_P2_Perses P2_Perses Convert_v1alpha1_Perses_To_v1alpha2_Perses)"
  "map_of registered ((V1alpha1, ''PersesDashboard''), (V1alpha2, ''PersesDashboard'')) =
     Some (converting as_P1_PersesDashboard as_P2_PersesDashboard P2_PersesDashboard
       Convert_v1alpha1_PersesDashboard_To_v1alpha2_PersesDashboard)"
  "map_of registered ((V1alpha1, ''PersesDatasource''), (V1alpha2, ''PersesDatasource'')) =
     Some (converting as_P1_PersesDatasource as_P2_PersesDatasource P2_PersesDatasource
       Convert_v1alpha1_PersesDatasource_To_v1alpha2_PersesDatasource)"
  by (simp_all add: registered_def table_simps List.map_filter_simps)

lemma converting_inject: "as_a a = Some x \<Longrightarrow> as_b b = Some y \<Longrightarrow> converting as_a as_b B f L a b = Some (map_sum id B (f L x y))"
  by (simp add: converting_def)

section \<open>Properties\<close>

text \<open>
  C39: the conversion functions are wired to their types. What \<open>RegisterConversions\<close> enters for a pair of types
  panics unless it gets pointers of exactly these two types, and gives a pointer of the second one; no pair is
  entered twice, and where one direction is entered the other one is too; every type of the older version,
  and every type of the newer one that it knows, has an entry. For the three kinds of objects the closure
  gives what the method \<open>ConvertTo\<close> of the webhook gives. The registration returns no error exactly when
  the library accepts every call, and then all of them were made; otherwise it returns the error of the first
  call that fails, and exactly the calls before it were made.
\<close>

theorem RegisterConversions_wired:
  "list_all (\<lambda>((a, b), f). wired a b f) registered \<and> distinct (map fst registered) \<and>
    list_all (\<lambda>(a, b). (b, a) \<in> set (map fst registered)) (map fst registered) \<and>
    (\<forall>p. pointer_type p \<in> fst ` set (map fst registered)) \<and>
    (\<exists>f g h. map_of registered ((V1alpha1, ''Perses''), (V1alpha2, ''Perses'')) = Some f \<and>
       map_of registered ((V1alpha1, ''PersesDashboard''), (V1alpha2, ''PersesDashboard'')) = Some g \<and>
       map_of registered ((V1alpha1, ''PersesDatasource''), (V1alpha2, ''PersesDatasource'')) = Some h \<and>
       (\<forall>C p q. \<exists>r. Perses_ConvertTo C p (HubPerses q) = Some (map_sum id HubPerses r) \<and>
          f C (P1_Perses p) (P2_Perses q) = Some (map_sum id P2_Perses r)) \<and>
       (\<forall>C p q. \<exists>r. PersesDashboard_ConvertTo C p (HubDashboard q) = Some (map_sum id HubDashboard r) \<and>
          g C (P1_PersesDashboard p) (P2_PersesDashboard q) = Some (map_sum id P2_PersesDashboard r)) \<and>
       (\<forall>C p q. \<exists>r. PersesDatasource_ConvertTo C p (HubDatasource q) = Some (map_sum id HubDatasource r) \<and>
          h C (P1_PersesDatasource p) (P2_PersesDatasource q) = Some (map_sum id P2_PersesDatasource r))) \<and>
    (RegisterConversions L s = (None, s') \<longleftrightarrow>
      s' = s @ conversion_table \<and> (\<forall>ps c qs. conversion_table = ps @ c # qs \<longrightarrow> call_error L c (s @ ps) = None)) \<and>
    (RegisterConversions L s = (Some e, s') \<longleftrightarrow>
      (\<exists>ps c qs. conversion_table = ps @ c # qs \<and> s' = s @ ps \<and> call_error L c (s @ ps) = Some e \<and>
        (\<forall>ps1 c1 ps2. ps = ps1 @ c1 # ps2 \<longrightarrow> call_error L c1 (s @ ps1) = None)))"
proof (intro conjI)
  show "list_all (\<lambda>((a, b), f). wired a b f) registered" by (rule registered_wired)
  show "distinct (map fst registered)" by (rule registered_distinct)
  show "list_all (\<lambda>(a, b). (b, a) \<in> set (map fst registered)) (map fst registered)" by (rule registered_symmetric)
  show "\<forall>p. pointer_type p \<in> fst ` set (map fst registered)" by (intro allI registered_covers)
  show "\<exists>f g h. map_of registered ((V1alpha1, ''Perses''), (V1alpha2, ''Perses'')) = Some f \<and>
       map_of registered ((V1alpha1, ''PersesDashboard''), (V1alpha2, ''PersesDashboard'')) = Some g \<and>
       map_of registered ((V1alpha1, ''PersesDatasource''), (V1alpha2, ''PersesDatasource'')) = Some h \<and>
       (\<forall>C p q. \<exists>r. Perses_ConvertTo C p (HubPerses q) = Some (map_sum id HubPerses r) \<and>
          f C (P1_Perses p) (P2_Perses q) = Some (map_sum id P2_Perses r)) \<and>
       (\<forall>C p q. \<exists>r. PersesDashboard_ConvertTo C p (HubDashboard q) = Some (map_sum id HubDashboard r) \<and>
          g C (P1_PersesDashboard p) (P2_PersesDashboard q) = Some (map_sum id P2_PersesDashboard r)) \<and>
       (\<forall>C p q. \<exists>r. PersesDatasource_ConvertTo C p (HubDatasource q) = Some (map_sum id HubDatasource r) \<and>
          h C (P1_PersesDatasource p) (P2_PersesDatasource q) = Some (map_sum id P2_PersesDatasource r))"
    unfolding registered_objects option.inject
    by (auto simp: converting_def as_P1_Perses_def as_P2_Perses_def as_P1_PersesDashboard_def as_P2_PersesDashboard_def
        as_P1_PersesDatasource_def as_P2_PersesDatasource_def Perses_ConvertTo_def PersesDashboard_ConvertTo_def
        PersesDatasource_ConvertTo_def)
qed (simp_all only: RegisterConversions_pass apply_calls apply_calls_error, auto)

theorem RegisterConversions_wired_witness: "RegisterConversions accepting [] = (None, conversion_table)"
proof -
  have "call_error accepting c h = None" for c h by (simp add: accepting_def)
  then show ?thesis
    using RegisterConversions_wired [of accepting "[]" conversion_table, THEN conjunct2, THEN conjunct2, THEN conjunct2, THEN conjunct2,
      THEN conjunct2, THEN conjunct1] by (simp only: append_Nil simp_thms)
qed

text \<open>
  C40: what the program enters into its scheme. When the client library enters its own types, the start of
  the program does not panic, and the packages of the program have entered the kinds of both versions with
  their lists, the global datasource in v1alpha2 only. Of the conversion functions that \<open>RegisterConversions\<close> would
  enter none is there: the generated file hands it to a builder that no scheme is built from; applied to
  the scheme, that builder would enter all of them, where the library accepts them.
\<close>

theorem main_init_registers:
  assumes "builder_law L" and "call_error L ClientGo_AddToScheme [] = None"
  shows "\<exists>s. main_init L C = Some s \<and>
    own_kinds s =
      map (Pair ''v1alpha1'') [''Perses'', ''PersesList'', ''PersesDashboard'', ''PersesDashboardList'', ''PersesDatasource'', ''PersesDatasourceList''] @
      map (Pair ''v1alpha2'') [''Perses'', ''PersesList'', ''PersesDashboard'', ''PersesDashboardList'', ''PersesDatasource'', ''PersesDatasourceList'',
        ''PersesGlobalDatasource'', ''PersesGlobalDatasourceList''] \<and>
    set s \<inter> set conversion_table = {} \<and>
    ((\<forall>c h. call_error L c h = None) \<longrightarrow>
       SchemeBuilder_AddToScheme L (localSchemeBuilder L) s = (None, s @ conversion_table))"
proof -
  have "list_all (\<lambda>c. entry c \<noteq> None) conversion_table" by (simp add: table_simps)
  then have absent: "c \<notin> set conversion_table" if "entry c = None" for c using that by (auto simp: list_all_iff)
  have enters: "SchemeBuilder_AddToScheme L (localSchemeBuilder L) s = (None, s @ conversion_table)"
    if "\<forall>c h. call_error L c h = None" for s
    using assms(1) apply_calls [of L conversion_table s "s @ conversion_table"] that
    by (simp add: builder_law_def localSchemeBuilder_def RegisterConversions_pass)
  show ?thesis
    unfolding main_init_scheme [OF assms] option.inject
    by (rule exI, rule conjI, rule refl)
      (auto simp: v1alpha1_GroupVersion_def v1alpha2_GroupVersion_def absent enters)
qed

theorem main_init_registers_witness:
  "main_init accepting
     \<lparr>lib_ty = (\<lambda>_. TPrim), lib_DeepCopyInto = (\<lambda>_. assign), deep_Copy = (\<lambda>_ v. hreturn (Some v))\<rparr> \<noteq> None"
  using main_init_registers [of accepting] by (auto simp: builder_law_def accepting_def)

end
