(* ===== verification/Webhooks.thy ===== *)
theory Webhooks
  imports Scheme Startup "HOL-Library.Sublist"
begin

text \<open>
  The conversion webhooks: the marker methods that make a type a hub or a spoke of the conversion, and the
  methods \<open>SetupWebhookWithManager\<close> that \<open>main\<close> calls for every kind that has two versions. With them, what \<open>main\<close> has
  registered when it starts the manager, against the kinds of the scheme.
\<close>

section \<open>Hubs and spokes\<close>

text \<open>The types with a method \<open>Hub\<close> (it does nothing), and those with \<open>ConvertTo\<close> and \<open>ConvertFrom\<close>.\<close>

definition hub_types :: "api_type list" where
  "hub_types = [(V1alpha2, ''Perses''), (V1alpha2, ''PersesDashboard''), (V1alpha2, ''PersesDatasource'')]"

definition spoke_types :: "api_type list" where
  "spoke_types = [(V1alpha1, ''Perses''), (V1alpha1, ''PersesDashboard''), (V1alpha1, ''PersesDatasource'')]"

fun version_name :: "api_version \<Rightarrow> string" where
  "version_name V1alpha1 = ''v1alpha1''"
| "version_name V1alpha2 = ''v1alpha2''"

text \<open>The versions that a scheme knows of a kind.\<close>

definition versions_of :: "scheme \<Rightarrow> string \<Rightarrow> api_version list" where
  "versions_of s k = filter (\<lambda>v. (version_name v, k) \<in> set (own_kinds s)) [V1alpha1, V1alpha2]"

section \<open>The set-up\<close>

text \<open>
  \<open>ctrl.NewWebhookManagedBy\<close> with \<open>Complete\<close> is a function of the library: of a type of a scheme it gives an error, or
  tells whether the manager now serves conversions of its kind. Documented of it is that it does where one of
  the versions of the kind is the hub and all others are spokes.
\<close>

record webhook_lib =
  NewWebhookManagedBy_Complete :: "scheme \<Rightarrow> api_type \<Rightarrow> error + bool"

definition webhook_law :: "webhook_lib \<Rightarrow> bool" where
  "webhook_law W \<longleftrightarrow> (\<forall>s v k h.
     v \<in> set (versions_of s k) \<longrightarrow> h \<in> set (versions_of s k) \<longrightarrow> (h, k) \<in> set hub_types \<longrightarrow>
     (\<forall>u \<in> set (versions_of s k) - {h}. (u, k) \<notin> set hub_types \<and> (u, k) \<in> set spoke_types) \<longrightarrow>
     NewWebhookManagedBy_Complete W s (v, k) = Inr True)"

definition Perses_SetupWebhookWithManager :: "webhook_lib \<Rightarrow> scheme \<Rightarrow> error + bool" where
  "Perses_SetupWebhookWithManager W mgr = NewWebhookManagedBy_Complete W mgr (V1alpha1, ''Perses'')"

definition PersesDashboard_SetupWebhookWithManager :: "webhook_lib \<Rightarrow> scheme \<Rightarrow> error + bool" where
  "PersesDashboard_SetupWebhookWithManager W mgr = NewWebhookManagedBy_Complete W mgr (V1alpha1, ''PersesDashboard'')"

definition PersesDatasource_SetupWebhookWithManager :: "webhook_lib \<Rightarrow> scheme \<Rightarrow> error + bool" where
  "PersesDatasource_SetupWebhookWithManager W mgr = NewWebhookManagedBy_Complete W mgr (V1alpha1, ''PersesDatasource'')"

section \<open>Every kind with two versions is converted\<close>

lemma main_init_versions:
  assumes "builder_law L" and "call_error L ClientGo_AddToScheme [] = None"
  shows "\<exists>s. main_init L C = Some s \<and>
    (\<forall>k \<in> {''Perses'', ''PersesDashboard'', ''PersesDatasource''}. versions_of s k = [V1alpha1, V1alpha2]) \<and>
    versions_of s ''PersesGlobalDatasource'' = [V1alpha2]"
  unfolding main_init_scheme [OF assms]
  by (simp add: versions_of_def v1alpha1_GroupVersion_def v1alpha2_GroupVersion_def)

text \<open>
  With the scheme that the program builds, the three set-ups succeed and the manager serves the conversions of
  their kinds; the remaining kind has one version and no webhook.
\<close>

lemma webhooks_convert:
  assumes "webhook_law W" and "builder_law L" and "call_error L ClientGo_AddToScheme [] = None"
  shows "\<exists>s. main_init L C = Some s \<and>
      Perses_SetupWebhookWithManager W s = Inr True \<and>
      PersesDashboard_SetupWebhookWithManager W s = Inr True \<and>
      PersesDatasource_SetupWebhookWithManager W s = Inr True"
proof -
  obtain s where s: "main_init L C = Some s"
    and two: "\<And>k. k \<in> {''Perses'', ''PersesDashboard'', ''PersesDatasource''} \<Longrightarrow> versions_of s k = [V1alpha1, V1alpha2]"
    using main_init_versions [OF assms(2,3)] by blast
  have serves: "NewWebhookManagedBy_Complete W s (V1alpha1, k) = Inr True"
    if k: "k \<in> {''Perses'', ''PersesDashboard'', ''PersesDatasource''}" for k
    using assms(1) [unfolded webhook_law_def, rule_format, of V1alpha1 s k V1alpha2] k
    by (auto simp: two hub_types_def spoke_types_def)
  with s serves show ?thesis
    by (simp add: Perses_SetupWebhookWithManager_def PersesDashboard_SetupWebhookWithManager_def PersesDatasource_SetupWebhookWithManager_def)
qed

text \<open>
  A conversion to or from a hub panics exactly when it is handed the hub of another kind, which the webhook of its
  own kind never does.
\<close>

lemma spoke_panics_iff:
  "Perses_ConvertTo L p h = None \<longleftrightarrow> (\<forall>q. h \<noteq> HubPerses q)"
  "Perses_ConvertFrom L p h = None \<longleftrightarrow> (\<forall>q. h \<noteq> HubPerses q)"
  "PersesDashboard_ConvertTo L d h = None \<longleftrightarrow> (\<forall>q. h \<noteq> HubDashboard q)"
  "PersesDashboard_ConvertFrom L d h = None \<longleftrightarrow> (\<forall>q. h \<noteq> HubDashboard q)"
  "PersesDatasource_ConvertTo L s h = None \<longleftrightarrow> (\<forall>q. h \<noteq> HubDatasource q)"
  "PersesDatasource_ConvertFrom L s h = None \<longleftrightarrow> (\<forall>q. h \<noteq> HubDatasource q)"
  by (cases h; simp add: Perses_ConvertTo_def Perses_ConvertFrom_def PersesDashboard_ConvertTo_def PersesDashboard_ConvertFrom_def
      PersesDatasource_ConvertTo_def PersesDatasource_ConvertFrom_def)+

section \<open>What the start has registered\<close>















end
