(* ===== verification/ReleaseScripts.thy ===== *)
theory ReleaseScripts
  imports GoErrors
begin

text \<open>
  The scripts for releases: \<^verbatim>\<open>scripts/generate-changelog\<close>, which puts the entries of a new version into
  \<^verbatim>\<open>CHANGELOG.md\<close>, \<^verbatim>\<open>scripts/generate-goreleaser\<close> with \<^verbatim>\<open>scripts/push-main-docker-image\<close>, and the entry point
  of \<^verbatim>\<open>scripts/check-license\<close>. The commands they run, the files and the packages of Perses that they call are
  parameters. \<open>Inl\<close> is the end of the program with a fatal message.
\<close>

section \<open>The lines of a file\<close>

definition newline :: string where
  "newline = [CHR 0x0A]"

text \<open>
  \<open>bufio.Scanner\<close> with \<open>ScanLines\<close>: the lines without their end and without a carriage return before it;
  an empty last line is none. The scanner ends for good at a line that does not fit its buffer of 64
  kilobytes; only \<open>Err\<close> would tell.
\<close>

definition MaxScanTokenSize :: nat where
  "MaxScanTokenSize = 64 * 1024"

definition dropCR :: "string \<Rightarrow> string" where
  "dropCR l = (if l \<noteq> [] \<and> last l = CHR 0x0D then butlast l else l)"

definition scan_lines :: "string \<Rightarrow> string list" where
  "scan_lines s =
     (let parts = Split (CHR 0x0A) s; parts = (if last parts = [] then butlast parts else parts)
      in map dropCR (takeWhile (\<lambda>l. length l < MaxScanTokenSize) parts))"

section \<open>The changelog\<close>

record changelog =
  Unknown :: "string list"
  GenerateChangelog :: string

record changelog_lib =
  git_describe :: "error + string"
  GetGitLogs :: "string \<Rightarrow> string list"
  changelog_New :: "string list \<Rightarrow> changelog"
  InjectEntries :: "string list \<Rightarrow> string \<Rightarrow> string"
  today :: string
  Open_CHANGELOG :: "error + string"
  Close_error :: "error option"
  WriteFile_error :: "error option"

definition getPreviousTag :: "changelog_lib \<Rightarrow> error + string" where
  "getPreviousTag L = (case git_describe L of Inl e \<Rightarrow> Inl e | Inr previousVersion \<Rightarrow> Inr (TrimSpace previousVersion))"

definition generateChangelog :: "changelog_lib \<Rightarrow> changelog \<Rightarrow> string \<Rightarrow> string" where
  "generateChangelog L clog version =
     ''## '' @ version @ '' / '' @ today L @ newline @ newline @
     GenerateChangelog clog @
     (if Unknown clog \<noteq> []
      then newline @ ''[//]: <UNKNOWN ENTRIES. Release shepherd, please review the following list and categorize them or remove them>'' @
           newline @ newline @ InjectEntries L (Unknown clog) ''UNKNOWN''
      else [])"

text \<open>The loop over the lines, with its counter.\<close>

fun write_lines :: "nat \<Rightarrow> string \<Rightarrow> string list \<Rightarrow> string" where
  "write_lines i entries [] = []"
| "write_lines i entries (l # ls) =
     l @ newline @ (if Suc i = 1 then newline @ entries else []) @ write_lines (Suc i) entries ls"

text \<open>The new content of the file.\<close>

definition Write_CHANGELOG :: "changelog_lib \<Rightarrow> changelog \<Rightarrow> string \<Rightarrow> error + string" where
  "Write_CHANGELOG L clog version =
     (case Open_CHANGELOG L of
        Inl e \<Rightarrow> Inl e
      | Inr f \<Rightarrow>
          (let buffer = write_lines 0 (generateChangelog L clog version) (scan_lines f)
           in case Close_error L of
                Some e \<Rightarrow> Inl e
              | None \<Rightarrow> (case WriteFile_error L of Some e \<Rightarrow> Inl e | None \<Rightarrow> Inr buffer)))"

definition changelog_main :: "changelog_lib \<Rightarrow> string \<Rightarrow> error + string" where
  "changelog_main L version =
     (case getPreviousTag L of
        Inl e \<Rightarrow> Inl e
      | Inr previousVersion \<Rightarrow> Write_CHANGELOG L (changelog_New L (GetGitLogs L previousVersion)) version)"

section \<open>The images\<close>

record test_config =
  TC_Branch :: string
  TC_Commit :: string
  TC_Date :: string

record docker_config =
  ImageName :: string
  DebugImage :: bool
  BinaryIDs :: "string list"
  Registry :: "string list"
  ExtraFiles :: "string list"
  Docker_Branch :: string
  Docker_Commit :: string
  Docker_Date :: string

definition PersesOperatorDockerConfig :: "test_config \<Rightarrow> docker_config" where
  "PersesOperatorDockerConfig cfg =
     \<lparr>ImageName = ''perses-operator'', DebugImage = True, BinaryIDs = [''operator''],
      Registry = [''docker.io/persesdev'', ''quay.io/persesdev''], ExtraFiles = [''LICENSE''],
      Docker_Branch = TC_Branch cfg, Docker_Commit = TC_Commit cfg, Docker_Date = TC_Date cfg\<rparr>"

definition getCurrentBranch :: "(error + string) \<Rightarrow> error + string" where
  "getCurrentBranch git = (case git of Inl e \<Rightarrow> Inl e | Inr branch \<Rightarrow> Inr (TrimSpace branch))"

text \<open>What is handed to \<open>BuildManifestsAndPushIt\<close>, if anything is. \<open>git\<close> is the answer of the command.\<close>

definition push_main :: "(error + string) \<Rightarrow> error + docker_config option" where
  "push_main git =
     (case getCurrentBranch git of
        Inl e \<Rightarrow> Inl e
      | Inr branch \<Rightarrow>
          if branch \<noteq> ''main'' then Inr None
          else Inr (Some (PersesOperatorDockerConfig \<lparr>TC_Branch = [], TC_Commit = [], TC_Date = []\<rparr>)))"

text \<open>
  \<open>generate\<close> hands the same images to \<open>goreleaser.Generate\<close>, a function of Perses, with the embedded configuration.
\<close>

definition generate :: "(string \<Rightarrow> docker_config \<Rightarrow> 'r) \<Rightarrow> string \<Rightarrow> test_config \<Rightarrow> 'r" where
  "generate goreleaser_Generate baseConfig cfg = goreleaser_Generate baseConfig (PersesOperatorDockerConfig cfg)"

definition goreleaser_main :: "(string \<Rightarrow> docker_config \<Rightarrow> 'r) \<Rightarrow> string \<Rightarrow> 'r" where
  "goreleaser_main goreleaser_Generate baseConfig =
     generate goreleaser_Generate baseConfig \<lparr>TC_Branch = [], TC_Commit = [], TC_Date = []\<rparr>"

text \<open>What is pushed from the main branch are the images of the releases.\<close>

lemma pushed_images_are_released:
  "push_main (Inr branch) = Inr (Some c) \<longleftrightarrow> TrimSpace branch = ''main'' \<and> goreleaser_main Pair base = (base, c)"
  by (auto simp: push_main_def getCurrentBranch_def goreleaser_main_def generate_def)

section \<open>The check of licenses\<close>

text \<open>The checker is a type of Perses; of its methods the program uses these.\<close>

record ('l, 'r) license_lib =
  DefaultLicense :: 'l
  AddExcludedPattern :: "string \<Rightarrow> 'l \<Rightarrow> 'l"
  RegisterFlags :: "'l \<Rightarrow> 'l"
  flag_Parse :: "'l \<Rightarrow> 'l"
  Execute :: "'l \<Rightarrow> 'r"

definition license_main :: "('l, 'r) license_lib \<Rightarrow> 'r" where
  "license_main L =
     (let l = AddExcludedPattern L (''zz_generated.*'' @ [CHR 0x5C] @ ''.go'') (DefaultLicense L);
          l = RegisterFlags L l;
          l = flag_Parse L l
      in Execute L l)"

section \<open>What happens to the old changelog\<close>

lemma write_lines_rest: "0 < i \<Longrightarrow> write_lines i entries ls = concat (map (\<lambda>l. l @ newline) ls)"
  by (induction i entries ls rule: write_lines.induct) simp_all

lemma write_lines_start:
  "write_lines 0 entries ls = (case ls of [] \<Rightarrow> [] | l # ls \<Rightarrow> l @ newline @ newline @ entries @ concat (map (\<lambda>l. l @ newline) ls))"
  by (cases ls) (simp_all add: write_lines_rest)

lemma Join_lines: "Join newline (ls @ [[]]) = concat (map (\<lambda>l. l @ newline) ls)"
proof (induction ls)
  case (Cons l ls)
  then show ?case by (cases ls) simp_all
qed simp

text \<open>
  A changelog of a title and further lines, each ended by a line break, without carriage returns and
  shorter than the buffer: the entries are put in after the title, and every other line stays as it is.
\<close>

lemma changelog_keeps_lines:
  assumes "Open_CHANGELOG L = Inr (concat (map (\<lambda>l. l @ newline) (title # ls)))"
    and "\<forall>l \<in> set (title # ls). CHR 0x0A \<notin> set l \<and> CHR 0x0D \<notin> set l \<and> length l < MaxScanTokenSize"
    and "Write_CHANGELOG L clog version = Inr content"
  shows "content = title @ newline @ newline @ generateChangelog L clog version @ concat (map (\<lambda>l. l @ newline) ls)"
proof -
  have "Split (CHR 0x0A) (concat (map (\<lambda>l. l @ newline) (title # ls))) = (title # ls) @ [[]]"
    unfolding Join_lines [symmetric] unfolding newline_def by (rule Split_Join) (use assms(2) in auto)
  moreover have "takeWhile (\<lambda>l. length l < MaxScanTokenSize) (title # ls) = title # ls"
    using assms(2) by (intro takeWhile_eq_all_conv [THEN iffD2]) auto
  moreover have "map dropCR (title # ls) = title # ls"
    using assms(2) by (intro map_idI) (auto simp: dropCR_def dest: last_in_set)
  ultimately have "scan_lines (concat (map (\<lambda>l. l @ newline) (title # ls))) = title # ls"
    unfolding scan_lines_def by (simp only: Let_def butlast_snoc last_snoc simp_thms if_True)
  then show ?thesis
    using assms(1,3) by (auto simp: Write_CHANGELOG_def Let_def write_lines_start write_lines_rest split: option.splits)
qed

text \<open>
  Where a line is too long, it is lost with all lines after it, and the shortened file is written; into
  an empty file nothing is written at all.
\<close>

lemma long_line_truncates:
  assumes "Open_CHANGELOG L = Inr (title @ newline @ long @ newline @ rest)" and "Close_error L = None" and "WriteFile_error L = None"
    and "CHR 0x0A \<notin> set title \<union> set long" and "CHR 0x0D \<notin> set title" and "length title < MaxScanTokenSize"
    and "MaxScanTokenSize \<le> length long"
  shows "Write_CHANGELOG L clog version = Inr (title @ newline @ newline @ generateChangelog L clog version)"
proof -
  have "Split (CHR 0x0A) (title @ newline @ long @ newline @ rest) = title # long # Split (CHR 0x0A) rest"
    using assms(4) by (simp add: newline_def Split_append)
  then have "scan_lines (title @ newline @ long @ newline @ rest) = map dropCR [title]"
    using assms(6,7) by (auto simp: scan_lines_def Let_def split: if_splits)
  moreover have "dropCR title = title" using assms(5) by (auto simp: dropCR_def dest: last_in_set)
  ultimately show ?thesis using assms(1-3) by (simp add: Write_CHANGELOG_def write_lines_start)
qed

lemma empty_changelog_stays_empty:
  "Open_CHANGELOG L = Inr [] \<Longrightarrow> Write_CHANGELOG L clog version = Inr content \<Longrightarrow> content = []"
  by (auto simp: Write_CHANGELOG_def scan_lines_def Let_def split: option.splits)

lemma push_only_from_main:
  "push_main git = Inr (Some cfg) \<longleftrightarrow> (\<exists>b. git = Inr b \<and> TrimSpace b = ''main'') \<and>
     cfg = PersesOperatorDockerConfig \<lparr>TC_Branch = [], TC_Commit = [], TC_Date = []\<rparr>"
  by (auto simp: push_main_def getCurrentBranch_def split: sum.splits)

end
