(* ===== verification/Witnesses.thy ===== *)
theory Witnesses
  imports Samples WorkloadProperties Provisioning RoundTrips Watches Observability Isolation Webhooks ReleaseScripts
begin

text \<open>
  Each property that has hypotheses, applied where they hold: the environment and the objects of
  theory \<open>Samples\<close>.
\<close>

lemma concurrent_clients_match_instance_witness:
  "\<exists>s. reachable sample_env s \<and>
     (\<forall>i p c. routines s i = Returned p (Inr c) \<longrightarrow> made_for sample_env (ns_name p) (configFingerprint sample_env p) c)"
proof -
  have "reachable sample_env \<lparr>sys_world = sample_world, routines = \<lambda>i. Idle\<rparr>"
    by (rule reachable.start) simp_all
  then show ?thesis using concurrent_clients_match_instance by blast
qed

lemma dashboard_Reconcile_disciplined_witness:
  "wp (dashboard_Reconcile sample_env (sample_key ''d'')) (\<lambda>_ w'. log_ok sample_env (calls w')) sample_world"
  by (rule dashboard_Reconcile_disciplined) simp_all

lemma dashboard_on_every_available_instance_witness:
  "wp (reconcileDashboardInAllInstances sample_env (Some sample_dashboard) (sample_key ''d''))
     (\<lambda>r w'. all_have sample_env (has_entity sample_env PDashboard (Namespace sample_dashboard)
        (desired_dashboard sample_dashboard)) [sample_perses] (calls w')) sample_world"
  using dashboard_on_every_available_instance [OF sample_factory_ok, of sample_env sample_dashboard "sample_key ''d''"]
    sample_all_instances(1) [OF sample_factory, of "sample_key ''d''"]
  by (simp add: wp_def sample_ops case_prod_unfold)

lemma datasource_Reconcile_disciplined_witness:
  "wp (datasource_Reconcile sample_env (sample_key ''s'')) (\<lambda>_ w'. log_ok sample_env (calls w')) sample_world"
  by (rule datasource_Reconcile_disciplined) simp_all

lemma datasource_on_every_available_instance_witness:
  "wp (reconcileDatasourcesInAllInstances sample_env (Some sample_datasource) (sample_key ''s''))
     (\<lambda>r w'. all_have sample_env (has_entity sample_env PDatasource (Namespace sample_datasource)
        (desired_datasource sample_datasource)) [sample_perses] (calls w')) sample_world"
  using datasource_on_every_available_instance [OF sample_factory_ok, of sample_env sample_datasource "sample_key ''s''"]
    sample_all_instances(2) [OF sample_factory, of "sample_key ''s''"]
  by (simp add: wp_def sample_ops case_prod_unfold)

text \<open>The same cluster with a server that holds the datasource already.\<close>

definition synced_env :: env where
  "synced_env = sample_env\<lparr>getEntity := \<lambda>h c k ns n. Inr (desired_datasource sample_datasource)\<rparr>"

lemma datasource_credentials_not_updated_witness:
  "wp (datasource_write_entity synced_env sample_client sample_datasource)
     (\<lambda>r w'. r = (None, [], None) \<and> length (calls w') = 1) sample_world"
  by (rule wp_mono [OF datasource_credentials_not_updated [of _ _ _ _ "desired_datasource sample_datasource"]])
    (auto simp: synced_env_def DatasourceInSync_def tags_Equal_def sample_ops sample_world_def split: option.splits)

lemma datasource_delete_also_deletes_secret_witness:
  "wp (datasource_delete_with sample_env ''mon'' ''s'' sample_client)
     (\<lambda>r w'. length (calls w') = 2 \<and> snd r = None) sample_world"
  by (rule wp_mono [OF datasource_delete_also_deletes_secret [of _ _ _ _ _ None]])
    (auto simp: sample_ops sample_world_def)

lemma globaldatasource_Reconcile_disciplined_witness:
  "wp (globaldatasource_Reconcile sample_env (sample_key ''g'')) (\<lambda>_ w'. log_ok sample_env (calls w')) sample_world"
  by (rule globaldatasource_Reconcile_disciplined) simp_all

section \<open>The Perses controller\<close>

lemma perses_Reconcile_disciplined_witness:
  "wp (perses_Reconcile sample_env sample_cfg True (sample_key ''p'')) (\<lambda>_ w'. log_ok sample_env (calls w')) sample_world"
  by (rule perses_Reconcile_disciplined) simp_all

lemma submitted_pods_have_their_volumes_witness:
  "wp (perses_Reconcile sample_env sample_cfg True (sample_key ''p''))
    (\<lambda>_ w'. \<exists>cs. calls w' = cs @ calls sample_world \<and> (\<forall>c \<in> set cs. \<forall>ob. submits c = Some ob \<longrightarrow> pod_ok ob)) sample_world"
  by (rule submitted_pods_have_their_volumes) simp_all

text \<open>The same cluster while its Perses object is being deleted.\<close>

definition deleting_env :: env where
  "deleting_env = sample_env\<lparr>getPerses := \<lambda>h rd key. Inr (sample_perses\<lparr>DeletionTimestamp := Some 5\<rparr>)\<rparr>"

lemma perses_deleted_not_rebuilt_witness:
  "wp (perses_Reconcile deleting_env sample_cfg True (sample_key ''p''))
    (\<lambda>_ w'. \<exists>cs. calls w' = cs @ calls sample_world \<and> deletion_calls deleting_env (sample_key ''p'') (calls sample_world) cs) sample_world"
  by (rule perses_deleted_not_rebuilt [of _ _ _ "sample_perses\<lparr>DeletionTimestamp := Some 5\<rparr>"])
    (simp_all add: deleting_env_def retry_law_def sample_env_def retries.last_try)

lemma perses_Reconcile_forgets_witness:
  "wp (perses_Reconcile sample_env sample_cfg True (sample_key ''x''))
    (\<lambda>r w'. r = Some (Result_zero, None) \<and>
       (\<exists>f. w_factory w' = PersesClientFactoryWithConfig f \<and> mget (cache f) (ns_name (sample_perses\<lparr>Name := ''x''\<rparr>)) = None)) sample_world"
  by (rule wp_mono [OF perses_Reconcile_forgets [where p = "sample_perses\<lparr>Name := ''x''\<rparr>"]])
    (auto simp: sample_ops, simp_all add: sample_key_def)

section \<open>The owned objects\<close>

definition sample_service :: service where
  "sample_service = projr (snd (createPersesService sample_env ''p'' sample_perses))"

definition sample_config_map :: config_map where
  "sample_config_map = projr (createPersesConfigMap sample_env sample_perses)"

lemma sample_created:
  "snd (createPersesService sample_env ''p'' sample_perses) = Inr sample_service"
  "createPersesConfigMap sample_env sample_perses = Inr sample_config_map"
  unfolding sample_service_def sample_config_map_def
  by (simp_all add: createPersesService_def createPersesConfigMap_def Let_def sample_env_def)

text \<open>
  The same cluster with a Service in it: as it should be, but with a resource version and a label that it got there; then
  with another type.
\<close>

definition steady_env :: "service \<Rightarrow> env" where
  "steady_env old = sample_env\<lparr>getService := \<lambda>h rd key. Inr old,
     DeepEqual_strmap := \<lambda>x y. mget (nilmap x) = mget (nilmap y)\<rparr>"

lemma steady_created: "createPersesService (steady_env old) = createPersesService sample_env"
  "LabelsForPerses (steady_env old) = LabelsForPerses sample_env"
proof -
  have ops: "LabelValueMaxLength (steady_env old) = LabelValueMaxLength sample_env"
    "setControllerReference (steady_env old) = setControllerReference sample_env"
    by (simp_all add: steady_env_def)
  then have "default_labels (steady_env old) = default_labels sample_env"
    by (intro ext) (simp only: default_labels_def sanitizeLabel_def)
  then show "LabelsForPerses (steady_env old) = LabelsForPerses sample_env"
    by (intro ext) (simp only: LabelsForPerses_def)
  with ops show "createPersesService (steady_env old) = createPersesService sample_env"
    by (intro ext, simp only: createPersesService_def)
qed

definition kept_service :: service where
  "kept_service = sample_service\<lparr>ResourceVersion := ''7'', Labels := map_option (\<lambda>ls. (''owner'', ''x'') # ls) (Labels sample_service)\<rparr>"

definition drifted_service :: service where
  "drifted_service = kept_service\<lparr>Service_Spec := (Service_Spec kept_service)\<lparr>ServiceSpec_Type := ''NodePort''\<rparr>\<rparr>"

lemma sample_labels:
  "LabelsForPerses sample_env ''p'' sample_perses =
     [(''app.kubernetes.io/name'', ''p''), (''app.kubernetes.io/instance'', ''p''),
      (''app.kubernetes.io/part-of'', ''perses-operator''), (''app.kubernetes.io/created-by'', ''controller-manager''),
      (''app.kubernetes.io/managed-by'', ''perses-operator''), (''team'', ''a'')]"
  by code_simp

lemma created_service_type: "createPersesService E n p = (q, Inr s) \<Longrightarrow> ServiceSpec_Type (Service_Spec s) = ''ClusterIP''"
  by (auto simp: createPersesService_def Let_def service.defs object_meta.defs split: sum.splits)

lemma only_drift_is_written_witness:
  "wp (reconcileService (steady_env kept_service)) (\<lambda>r w'. r = ContinueReconciling \<and> length (calls w') = 2)
     (sample_world\<lparr>ctx_perses := Some sample_perses\<rparr>) \<and>
   wp (reconcileService (steady_env drifted_service)) (\<lambda>r w'. r = ContinueReconciling \<and> hd (calls w') = KUpdate False (KService sample_service))
     (sample_world\<lparr>ctx_perses := Some sample_perses\<rparr>)"
proof -
  let ?w = "sample_world\<lparr>ctx_perses := Some sample_perses\<rparr>"
  have name: "service_name sample_perses = ''p''" "Name sample_perses = ''p''"
    by (simp_all add: service_name_def sample_perses_def perses.defs object_meta.defs sample_meta_def sample_spec_def)
  have laws: "equality_law (steady_env old)" for old by (simp add: equality_law_def steady_env_def sample_env_def)
  obtain q where q: "createPersesService sample_env ''p'' sample_perses = (q, Inr sample_service)"
    using sample_created(1) by (cases "createPersesService sample_env ''p'' sample_perses") auto
  note shape = createPersesService_shape [OF q]
  have ops: "getService (steady_env old) h rd k = Inr old" "respond (steady_env old) h c = None" "dryRunService (steady_env old) h s = s"
    for old h rd k c s
    by (simp_all add: steady_env_def sample_env_def)
  have written: "writes_drift (steady_env old) (reconcileService (steady_env old)) ServiceKind (object_key service_name sample_perses)
      (KService sample_service) (KService sample_service)
      (owned_service (LabelsForPerses sample_env ''p'' sample_perses) old = owned_service (LabelsForPerses sample_env ''p'' sample_perses) sample_service) ?w"
    if "gomap (nilmap (ServiceSpec_Selector (Service_Spec old)))" for old
    using only_drift_is_written [OF _ laws, of ?w sample_perses old sample_cfg] that
    by (simp add: name steady_created ops q) (simp add: sample_labels)
  have fields: "Namespace kept_service = Namespace sample_service" "Name kept_service = Name sample_service"
      "Annotations kept_service = Annotations sample_service" "Service_Spec kept_service = Service_Spec sample_service"
      "own_labels (LabelsForPerses sample_env ''p'' sample_perses) (Labels kept_service) =
       own_labels (LabelsForPerses sample_env ''p'' sample_perses) (Labels sample_service)"
    by (simp_all add: kept_service_def shape(3) own_labels_def nilmap_def name, simp add: sample_labels mget0_def)
  have type: "ServiceSpec_Type (Service_Spec sample_service) = ''ClusterIP''"
    by (rule created_service_type [OF q])
  have selector: "gomap (nilmap (ServiceSpec_Selector (Service_Spec kept_service)))"
      "gomap (nilmap (ServiceSpec_Selector (Service_Spec drifted_service)))"
    by (simp_all add: drifted_service_def fields(4) shape(4) nilmap_def name gomap_LabelsForPerses)
  have kept: "owned_service (LabelsForPerses sample_env ''p'' sample_perses) kept_service =
      owned_service (LabelsForPerses sample_env ''p'' sample_perses) sample_service"
    and drifted: "owned_service (LabelsForPerses sample_env ''p'' sample_perses) drifted_service \<noteq>
      owned_service (LabelsForPerses sample_env ''p'' sample_perses) sample_service"
    by (simp_all add: owned_service_def fields type drifted_service_def)
  show ?thesis
    by (rule conjI; rule wp_mono [OF written [OF selector(1), unfolded writes_drift_def]]
        wp_mono [OF written [OF selector(2), unfolded writes_drift_def]])
      (simp_all add: kept drifted ops sample_world_def)
qed

lemma sample_deployment:
  assumes "Status_Provisioning (Status p) = None" and "Spec_Image (Spec p) = Some ''perses:v1''"
  shows "\<exists>d. snd (createPersesDeployment sample_env sample_cfg p) = Inr d"
  using assms by (simp add: createPersesDeployment_def workload_annotations_def GetProvisioningHash_def ImageForPerses_def Let_def sample_env_def)

lemma sample_service_status:
  "Status_Provisioning (Status (fst (createPersesService E n p))) = Status_Provisioning (Status p)"
  "Spec_Image (Spec (fst (createPersesService E n p))) = Spec_Image (Spec p)"
  by (simp_all add: createPersesService_def Let_def alias_annotations_def split: option.splits)

lemma sample_pod_fields [simp]: "Status_Provisioning (Status sample_perses) = None" "Spec_Image (Spec sample_perses) = Some ''perses:v1''"
  by (simp_all add: sample_perses_def perses.defs object_meta.defs sample_meta_def sample_spec_def sample_status_def)

lemma service_selects_pods_witness:
  "\<exists>d. snd (createPersesDeployment sample_env sample_cfg (fst (createPersesService sample_env ''p'' sample_perses))) = Inr d \<and>
     ServiceSpec_Selector (Service_Spec sample_service) = Template_Labels (Deployment_Template (Deployment_Spec d))"
proof -
  let ?p = "fst (createPersesService sample_env ''p'' sample_perses)"
  obtain d where "snd (createPersesDeployment sample_env sample_cfg ?p) = Inr d"
    using sample_deployment [of ?p] by (auto simp: sample_service_status)
  with service_selects_pods [of sample_env "''p''" sample_perses ?p sample_service sample_cfg]
    sample_created(1) show ?thesis
    by (auto simp: prod_eq_iff)
qed

text \<open>A Perses object that asks for an annotation on its Service only.\<close>

definition sample_leak :: perses where
  "sample_leak = sample_perses\<lparr>Spec := sample_spec\<lparr>Spec_Service := Some
     \<lparr>Service_Name = None, Service_Annotations = Some [(''only'', ''service'')]\<rparr>\<rparr>\<rparr>"

lemma service_annotations_leak_witness:
  "\<exists>d. snd (createPersesDeployment sample_env sample_cfg (fst (createPersesService sample_env ''p'' sample_leak))) = Inr d \<and>
     mget (nilmap (Annotations d)) ''only'' = Some ''service''"
proof -
  let ?p = "fst (createPersesService sample_env ''p'' sample_leak)"
  obtain d where d: "snd (createPersesDeployment sample_env sample_cfg ?p) = Inr d"
    using sample_deployment [of ?p] by (auto simp: sample_service_status sample_leak_def sample_spec_def)
  have "mget (nilmap (Annotations d)) ''only'' = Some ''service'' \<and>
      Template_Annotations (Deployment_Template (Deployment_Spec d)) = Annotations d"
    by (rule service_annotations_leak [where m = "[(''note'', ''x'')]" and extra = "[(''only'', ''service'')]", OF _ _ _ _ _ _ _ d])
      (simp_all add: sample_leak_def sample_spec_def gomap_def mget_def PersesProvisioningVersion_def, simp_all)
  with d show ?thesis by blast
qed

lemma unwanted_workload_deleted_witness:
  "wp (reconcileDeployment sample_env sample_cfg)
     (\<lambda>r w'. r = ContinueReconciling \<and> calls w' = [KGet Cached DeploymentKind (sample_key ''p'')])
     (sample_world\<lparr>ctx_perses := Some sample_perses\<rparr>)"
proof -
  have "\<not> RequiresDeployment sample_perses"
    by (simp add: RequiresDeployment_def sample_perses_def perses.defs object_meta.defs sample_meta_def sample_spec_def sample_config_def)
  with unwanted_workload_deleted [of "sample_world\<lparr>ctx_perses := Some sample_perses\<rparr>" sample_perses sample_env sample_cfg]
  show ?thesis
    by (simp add: sample_env_def meta_key_def sample_key_def sample_world_def)
qed

section \<open>Provisioning\<close>

lemma sorted_versions_canonical_witness:
  "sorted_versions [(''b'', ''2''), (''a'', ''1'')] = sorted_versions [(''a'', ''1''), (''b'', ''2'')]"
proof -
  have "mget [(''b'', ''2''), (''a'', ''1'')] = mget [(''a'', ''1''), (''b'', ''2'')]"
    by (auto simp: mget_conv_map_of)
  from sorted_versions_canonical [OF _ _ this] show ?thesis by (simp add: gomap_def)
qed

section \<open>Conversion\<close>

definition sample_conv :: conv_lib where
  "sample_conv =
     \<lparr>Convert_string_To_Pointer_string = \<lambda>x. Inr (Some x),
      Convert_Pointer_string_To_string = \<lambda>p. Inr (case p of None \<Rightarrow> [] | Some x \<Rightarrow> x),
      Convert_bool_To_Pointer_bool = \<lambda>x. Inr (Some x),
      Convert_Pointer_bool_To_bool = \<lambda>p. Inr (case p of None \<Rightarrow> False | Some x \<Rightarrow> x),
      Convert_int32_To_Pointer_int32 = \<lambda>x. Inr (Some x),
      Convert_Pointer_int32_To_int32 = \<lambda>p. Inr (case p of None \<Rightarrow> 0 | Some x \<Rightarrow> x),
      Quantity_IsZero = \<lambda>q. q = [] \<or> q = ''0'', Quantity_zero = []\<rparr>"

lemma sample_conv_law: "conv_law sample_conv"
  by (simp add: conv_law_def sample_conv_def)

definition sample_oauth :: v1alpha1_oauth where
  "sample_oauth = new_v1alpha1_OAuth\<lparr>V1_Source_Type := ''secret'', V1_Source_Name := ''creds'', V1_AuthStyle := 2\<rparr>"

definition sample_v1alpha1_perses :: v1alpha1_perses where
  "sample_v1alpha1_perses = new_v1alpha1_Perses\<lparr>Name := ''p'', V1_Spec := new_v1alpha1_PersesSpec\<lparr>
     V1_Spec_Client := Some (new_v1alpha1_Client\<lparr>V1_Client_OAuth := Some sample_oauth\<rparr>),
     V1_Spec_ContainerPort := 8080,
     V1_Spec_Storage := Some \<lparr>V1_Storage_StorageClass = None, V1_Storage_Size = ''1Gi''\<rparr>\<rparr>\<rparr>"

lemma sample_exact: "exact_spec sample_conv (V1_Spec sample_v1alpha1_perses)"
  by (simp add: exact_spec_def exact_client_def exact_oauth_def exact_storage_def sample_oauth_def sample_v1alpha1_perses_def sample_conv_def
      new_v1alpha1_PersesSpec_def new_v1alpha1_Client_def new_v1alpha1_OAuth_def)

lemma conversion_round_trip_witness:
  "\<exists>h. Perses_ConvertTo sample_conv sample_v1alpha1_perses (HubPerses new_v1alpha2_Perses) = Some (Inr h) \<and>
     Perses_ConvertFrom sample_conv new_v1alpha1_Perses h = Some (Inr sample_v1alpha1_perses)"
  using conversion_round_trip [OF sample_conv_law sample_exact, of "\<lparr>ListMeta = JNull, Items = Some [sample_v1alpha1_perses]\<rparr>"] sample_exact
  by simp

lemma downgrade_loses_witness:
  "\<exists>q p'. Perses_ConvertFrom sample_conv new_v1alpha1_Perses (HubPerses sample_perses) = Some (Inr q) \<and>
     Perses_ConvertTo sample_conv q (HubPerses new_v1alpha2_Perses) = Some (Inr (HubPerses p')) \<and> Spec_Volumes (Spec p') = []"
  using downgrade_loses [OF sample_conv_law, of sample_perses] by blast

lemma auth_style_survives_iff_witness:
  "\<exists>y x'. Convert_v1alpha1_OAuth_To_v1alpha2_OAuth sample_conv sample_oauth new_v1alpha2_OAuth = Inr y \<and>
     Convert_v1alpha2_OAuth_To_v1alpha1_OAuth sample_conv y new_v1alpha1_OAuth = Inr x' \<and> x' = sample_oauth"
  using auth_style_survives_iff [OF sample_conv_law, of sample_oauth] by (simp add: sample_oauth_def)

section \<open>The start of the program\<close>

fun sample_matches :: "selector \<Rightarrow> strmap \<Rightarrow> bool" where
  "sample_matches (SelectorFromSet m) ls = list_all (\<lambda>(k, v). mget ls k = Some v) m"
| "sample_matches _ ls = True"

lemma created_objects_are_cached_witness:
  "cached_with sample_matches (BuildCacheOptions None False False) AService (nilmap (Labels sample_service))"
proof -
  have "selector_law sample_matches" by (auto simp: selector_law_def list_all_iff)
  from created_objects_are_cached [OF this, of sample_env "''p''" sample_perses None False False sample_cfg]
    sample_created(1) show ?thesis by blast
qed

definition sample_lib :: start_lib where
  "sample_lib =
     \<lparr>labels_Parse = \<lambda>s. Inr (ParsedSelector s), flag_TLSVersion = \<lambda>v. Inr 772,
      flag_TLSCipherSuites = \<lambda>names. Inr (map (\<lambda>_. 1) names),
      FetchAPIServerTLSProfile = Inr \<lparr>Profile_Ciphers = [''A''], Profile_MinTLSVersion = ''VersionTLS13''\<rparr>,
      OpenSSLToIANACipherSuites = \<lambda>names. map (\<lambda>n. ''TLS'' @ n) names,
      step_error = \<lambda>s. None, env_ENABLE_WEBHOOKS = []\<rparr>"

lemma startup_tls_consistent_witness:
  "\<exists>s. main_settings sample_lib default_flags = Inr s \<and> TLSMinVersion (reconcilerConfig s) = tlsMinVersion default_flags"
proof -
  obtain s where s: "main_settings sample_lib default_flags = Inr s"
    by (simp add: main_settings_def tls_settings_def ParseSecretLabelSelector_def ParseTLSVersion_def ParseCipherSuites_def default_flags_def)
  with startup_tls_consistent [OF s] show ?thesis by (auto simp: default_flags_def)
qed

lemma cluster_ciphers_survive_witness:
  "\<exists>v cs. FetchTLSProfile sample_lib = Inr (v, cs, \<lparr>Profile_Ciphers = [''A''], Profile_MinTLSVersion = ''VersionTLS13''\<rparr>) \<and>
     ParseCipherSuites sample_lib cs = Inr [1]"
  using cluster_ciphers_survive [of sample_lib "\<lparr>Profile_Ciphers = [''A''], Profile_MinTLSVersion = ''VersionTLS13''\<rparr>" "[''TLSA'']"]
  by (auto simp: sample_lib_def is_space_def)


section \<open>Observability\<close>

lemma failed_count_is_stale_witness:
  "(\<lparr>RKey_resource = ''perses'', RKey_state = failed, RKey_namespace = ''mon''\<rparr>, ''mon/p'') \<in>
     seen_in (fold observe_metrics [Reconciled ''mon/p'' ''perses'' ''mon'' [] (Some (errorf ''x'')),
       Reconciled ''mon/p'' ''perses'' ''mon'' [] None] NewMetrics)"
  using failed_count_is_stale [of "''mon/p''" "[]" "''perses''" "''mon''" "[]" "[]" "errorf ''x''" "[]"]
  by (simp del: observe_metrics.simps)

section \<open>All controllers\<close>

lemma cached_reads_are_whole_witness:
  "wp (dashboard_Reconcile sample_env (sample_key ''d'')) (\<lambda>_ w'. whole_reads (controllers sample_env) (BuildCacheOptions None False False) (calls w')) sample_world"
  using cached_reads_are_whole [of sample_env sample_world sample_cfg True "sample_key ''d''" None False False] by simp

end
