(* ===== verification/Operator.thy ===== *)
theory Operator
  imports Watches Observability
begin

text \<open>
  The operator as a whole: the four controllers on one world, with the tables and the client cache that
  \<^verbatim>\<open>main.go\<close> makes once and hands to each of them. A history is any list
  of requests, in any order and with any repetition, so it covers every choice that the work queues make.
  What the rest of the cluster does in between is part of the services, whose answers depend on the
  whole log. Here a reconciliation is one step; the interleaving of reconciliations inside the client cache,
  the only state that they use before their end, is the subject of theory \<open>ClientCache\<close>.
\<close>

section \<open>Requests and histories\<close>

datatype request =
    ReconcilePerses namespaced_name
  | ReconcileDashboard namespaced_name
  | ReconcileDatasource namespaced_name
  | ReconcileGlobalDatasource namespaced_name

type_synonym reconcile_result = "(ctrl_result \<times> error option) option"

text \<open>\<open>main\<close> sets \<open>ClientCacheInvalidator\<close> to the factory that the other three controllers use.\<close>

fun handle :: "env \<Rightarrow> config \<Rightarrow> request \<Rightarrow> reconcile_result go" where
  "handle E cfg (ReconcilePerses req) = perses_Reconcile E cfg True req"
| "handle E cfg (ReconcileDashboard req) = dashboard_Reconcile E req"
| "handle E cfg (ReconcileDatasource req) = datasource_Reconcile E req"
| "handle E cfg (ReconcileGlobalDatasource req) = globaldatasource_Reconcile E req"

fun operate :: "env \<Rightarrow> config \<Rightarrow> request list \<Rightarrow> (reconcile_result list) go" where
  "operate E cfg [] = State_Monad.return []"
| "operate E cfg (rq # rqs) = do {
     r \<leftarrow> handle E cfg rq;
     rs \<leftarrow> operate E cfg rqs;
     State_Monad.return (r # rs)
   }"

text \<open>The world when the manager starts: nothing reconciled, nothing cached.\<close>

definition operator_start :: world where
  "operator_start =
     \<lparr>calls = [], w_metrics = Some NewMetrics, w_tracker = Some NewReconciliationTracker,
      w_factory = PersesClientFactoryWithConfig NewWithConfig, ctx_perses = None, needs_requeue = False\<rparr>"

text \<open>What one request preserves, every history preserves.\<close>

lemma wp_operate_invariant:
  assumes "\<And>rq w. I w \<Longrightarrow> wp (handle E cfg rq) (\<lambda>r w'. I w' \<and> ok r) w" and "I w"
  shows "wp (operate E cfg rqs) (\<lambda>rs w'. I w' \<and> length rs = length rqs \<and> list_all ok rs) w"
  using assms(2)
proof (induction rqs arbitrary: w)
  case Nil
  then show ?case by (simp add: wp_simps)
next
  case (Cons rq rqs)
  show ?case
    unfolding operate.simps wp_bind wp_return
    by (rule wp_mono [OF assms(1) [OF Cons.prems]], rule wp_mono [OF Cons.IH]) auto
qed

section \<open>The cache of clients\<close>

definition keeps_factory :: "env \<Rightarrow> world \<Rightarrow> world \<Rightarrow> bool" where
  "keeps_factory E w w' \<longleftrightarrow> (factory_ok E w \<longrightarrow> factory_ok E w')"

interpretation kf: frame "keeps_factory E" for E :: env
  by unfold_locales (simp_all add: keeps_factory_def)

lemma keeps_factory_call [simp]: "keeps_factory E w (w\<lparr>calls := cs\<rparr>)"
  by (simp add: keeps_factory_def)

lemma along_same_factory: "along same_factory m \<Longrightarrow> along (keeps_factory E) m"
  by (erule along_mono) (auto simp: keeps_factory_def same_factory_def factory_ok_def)

lemma CreateClient_keeps_factory: "along (keeps_factory E) (CreateClient E rd p)"
  unfolding along_def keeps_factory_def
proof
  fix w
  show "wp (CreateClient E rd p) (\<lambda>_ w'. factory_ok E w \<longrightarrow> factory_ok E w') w"
    by (cases "factory_ok E w") (auto simp: wp_any intro: wp_mono [OF wp_CreateClient])
qed

lemma ForgetInstance_keeps_factory: "along (keeps_factory E) (ForgetInstance k)"
  unfolding along_def keeps_factory_def
proof
  fix w
  show "wp (ForgetInstance k) (\<lambda>_ w'. factory_ok E w \<longrightarrow> factory_ok E w') w"
  proof (cases "factory_ok E w")
    case True
    then obtain f where "cache_ok E f" "w_factory w = PersesClientFactoryWithConfig f" by (auto simp: factory_ok_def)
    from wp_ForgetInstance [OF this] show ?thesis
      by (rule wp_mono) (auto simp: factory_ok_def cache_ok_forget [OF \<open>cache_ok E f\<close>])
  qed (simp add: wp_any)
qed

lemma keeps_factory_from_spec:
  assumes "\<And>w. factory_ok E w \<Longrightarrow> wp m (\<lambda>r w'. factory_ok E w' \<and> Q w r w') w"
  shows "along (keeps_factory E) m"
  unfolding along_def keeps_factory_def
proof
  fix w
  show "wp m (\<lambda>_ w'. factory_ok E w \<longrightarrow> factory_ok E w') w"
    by (cases "factory_ok E w") (auto simp: wp_any intro: wp_mono [OF assms])
qed

lemma sync_instances_keeps_factory:
  "(\<And>p. along (keeps_factory E) (sync p)) \<Longrightarrow> along (keeps_factory E) (sync_instances E sync ty ps)"
  by (induction ps) (auto intro!: along_intros)

lemma delete_instances_keeps_factory:
  "(\<And>p. along (keeps_factory E) (del p)) \<Longrightarrow> along (keeps_factory E) (delete_instances del ps)"
  by (induction ps) (auto intro!: along_intros)

lemma tables_keep_factory:
  "along same_factory (track_outcome controller resource ns msg k err)"
  "along same_factory (forget_object k)"
  "along same_factory (if_metrics cs f)"
  unfolding track_outcome_def forget_object_def if_tracker_def if_metrics_def
  by (auto simp: same_factory_def intro!: along_intros split: option.splits)

lemmas factory_frames = tables_keep_factory [THEN along_same_factory] CreateClient_keeps_factory ForgetInstance_keeps_factory
  sync_instances_keeps_factory delete_instances_keeps_factory along_chain [OF kf.frame_axioms]

subsection \<open>The status of a child object leaves the cache alone\<close>

lemma dashboard_status_factory:
  assumes "retry_law E"
  shows "along same_factory (dashboard_setStatusToUnknown E ctx req)"
    and "along same_factory (dashboard_setStatusToComplete E ctx req)"
    and "along same_factory (dashboard_setStatusToDegraded E ctx req res reason err)"
  unfolding dashboard_setStatusToUnknown_def dashboard_setStatusToComplete_def dashboard_setStatusToDegraded_def
    updateDashboardStatus_def dashboard_status_try_def dashboard_SetCondition_def Let_def
  by (auto intro!: along_intros assms)

lemma datasource_status_factory:
  assumes "retry_law E"
  shows "along same_factory (datasource_setStatusToUnknown E ctx req)"
    and "along same_factory (datasource_setStatusToComplete E ctx req)"
    and "along same_factory (datasource_setStatusToDegraded E ctx req res reason err)"
  unfolding datasource_setStatusToUnknown_def datasource_setStatusToComplete_def datasource_setStatusToDegraded_def
    updateDatasourceStatus_def datasource_status_try_def datasource_SetCondition_def Let_def
  by (auto intro!: along_intros assms)

lemma globaldatasource_status_factory:
  assumes "retry_law E"
  shows "along same_factory (globaldatasource_setStatusToUnknown E ctx req)"
    and "along same_factory (globaldatasource_setStatusToComplete E ctx req)"
    and "along same_factory (globaldatasource_setStatusToDegraded E ctx req res reason err)"
  unfolding globaldatasource_setStatusToUnknown_def globaldatasource_setStatusToComplete_def globaldatasource_setStatusToDegraded_def
    updateGlobalDatasourceStatus_def globaldatasource_status_try_def globaldatasource_SetCondition_def Let_def
  by (auto intro!: along_intros assms)

subsection \<open>The controllers keep the cache in order\<close>

lemma dashboard_keeps_factory:
  assumes "retry_law E"
  shows "along (keeps_factory E) (dashboard_Reconcile E req)"
proof -
  have "along (keeps_factory E) (syncPersesDashboard E d p)" for d p
    by (rule keeps_factory_from_spec [OF dsync.sync_spec])
  then have "along (keeps_factory E) (reconcileDashboardInAllInstances E (Some d) req)" for d
    unfolding reconcileDashboardInAllInstances_def dashboard_sync_listed_def RequeueWithError_def Let_def
    by (auto intro!: along_intros factory_frames dashboard_status_factory(3) [OF assms, THEN along_same_factory])
  moreover have "along (keeps_factory E) (deleteDashboardInAllInstances E ns n)" for ns n
    unfolding deleteDashboardInAllInstances_def deleteDashboard_def by (auto intro!: along_intros factory_frames)
  ultimately show ?thesis
    unfolding dashboard_Reconcile_def Let_def
    by (auto intro!: along_intros factory_frames dashboard_status_factory(1,2) [OF assms, THEN along_same_factory])
qed

lemma datasource_keeps_factory:
  assumes "retry_law E"
  shows "along (keeps_factory E) (datasource_Reconcile E req)"
proof -
  have "along (keeps_factory E) (syncPersesDatasource E d p)" for d p
    by (rule keeps_factory_from_spec [OF ssync.sync_spec])
  then have "along (keeps_factory E) (reconcileDatasourcesInAllInstances E (Some d) req)" for d
    unfolding reconcileDatasourcesInAllInstances_def datasource_sync_listed_def RequeueWithError_def Let_def
    by (auto intro!: along_intros factory_frames datasource_status_factory(3) [OF assms, THEN along_same_factory])
  moreover have "along (keeps_factory E) (deleteDatasourceInAllInstances E ns n)" for ns n
    unfolding deleteDatasourceInAllInstances_def deleteDatasource_def datasource_delete_with_def by (auto intro!: along_intros factory_frames)
  ultimately show ?thesis
    unfolding datasource_Reconcile_def Let_def
    by (auto intro!: along_intros factory_frames datasource_status_factory(1,2) [OF assms, THEN along_same_factory])
qed

lemma globaldatasource_keeps_factory:
  assumes "retry_law E"
  shows "along (keeps_factory E) (globaldatasource_Reconcile E req)"
proof -
  have "along (keeps_factory E) (syncPersesGlobalDatasource E d p)" for d p
    by (rule keeps_factory_from_spec [OF gsync.sync_spec])
  then have "along (keeps_factory E) (reconcileGlobalDatasourcesInAllInstances E (Some d) req)" for d
    unfolding reconcileGlobalDatasourcesInAllInstances_def globaldatasource_sync_listed_def RequeueWithError_def Let_def
    by (auto intro!: along_intros factory_frames globaldatasource_status_factory(3) [OF assms, THEN along_same_factory])
  moreover have "along (keeps_factory E) (deleteGlobalDatasourceInAllInstances E n)" for n
    unfolding deleteGlobalDatasourceInAllInstances_def deleteGlobalDatasource_def globaldatasource_delete_with_def by (auto intro!: along_intros factory_frames)
  ultimately show ?thesis
    unfolding globaldatasource_Reconcile_def Let_def
    by (auto intro!: along_intros factory_frames globaldatasource_status_factory(1,2) [OF assms, THEN along_same_factory])
qed

lemma perses_keeps_factory:
  assumes "retry_law E"
  shows "along (keeps_factory E) (perses_Reconcile E cfg invalidator req)"
proof -
  have "along same_factory f" if "f \<in> set (perses_subreconcilers E cfg req)" for f
    using that unfolding perses_subreconcilers_def
    by (auto intro: sfp.perses_steps_R [OF assms] svc.reconcile_factory cm.reconcile_factory
        dep.reconcile_factory sts.reconcile_factory)
  then have "along (keeps_factory E) (run_subreconcilers (perses_subreconcilers E cfg req))"
    by (intro factory_frames along_same_factory) auto
  moreover have "along (keeps_factory E) (set_ctx p)" "along (keeps_factory E) (if_tracker f)" for p f
    by (auto simp: set_ctx_def if_tracker_def keeps_factory_def factory_ok_def intro!: along_intros)
  ultimately show ?thesis
    unfolding perses_Reconcile_def Let_def by (auto intro!: along_intros factory_frames)
qed

section \<open>What every request does to the tables\<close>

text \<open>The object of a request as its reconciliation reads it: there, or the error of the look-up.\<close>

definition look_up :: "(error + 'o) \<Rightarrow> error option" where
  "look_up r = (case r of Inl err \<Rightarrow> Some err | Inr _ \<Rightarrow> None)"

fun read_error :: "env \<Rightarrow> request \<Rightarrow> world \<Rightarrow> error option" where
  "read_error E (ReconcilePerses req) w = look_up (getPerses E (started ''perses'' w) Cached req)"
| "read_error E (ReconcileDashboard req) w = look_up (getDashboard E (started ''persesdashboard'' w) APIReader req)"
| "read_error E (ReconcileDatasource req) w = look_up (getDatasource E (started ''persesdatasource'' w) APIReader req)"
| "read_error E (ReconcileGlobalDatasource req) w =
     look_up (getGlobalDatasource E (started ''persesglobaldatasource'' w) APIReader req)"

text \<open>The outcome of a request, as an event under the key of its object.\<close>

fun outcome_event :: "env \<Rightarrow> request \<Rightarrow> error option \<Rightarrow> event" where
  "outcome_event E (ReconcilePerses req) err =
     Reconciled (NamespacedName_String E req) ''perses'' (NN_Namespace req) ''Perses instance reconciled successfully'' err"
| "outcome_event E (ReconcileDashboard req) err =
     Reconciled (NamespacedName_String E req) ''dashboard'' (NN_Namespace req) ''Dashboard reconciled successfully'' err"
| "outcome_event E (ReconcileDatasource req) err =
     Reconciled (NamespacedName_String E req) ''datasource'' (NN_Namespace req) ''Datasource reconciled successfully'' err"
| "outcome_event E (ReconcileGlobalDatasource req) err =
     Reconciled (NamespacedName_String E req) ''globaldatasource'' [] ''GlobalDatasource reconciled successfully'' err"

fun request_key :: "request \<Rightarrow> namespaced_name" where
  "request_key (ReconcilePerses req) = req"
| "request_key (ReconcileDashboard req) = req"
| "request_key (ReconcileDatasource req) = req"
| "request_key (ReconcileGlobalDatasource req) = req"

definition status_key :: "env \<Rightarrow> request \<Rightarrow> string" where
  "status_key E rq = NamespacedName_String E (request_key rq)"

text \<open>
  What a request reports: the outcome of an object that could be read, the absence of one that is gone, and
  nothing when the look-up failed in another way.
\<close>

definition reported :: "env \<Rightarrow> request \<Rightarrow> world \<Rightarrow> reconcile_result \<Rightarrow> event list" where
  "reported E rq w r =
     (case read_error E rq w of
        None \<Rightarrow> (case r of None \<Rightarrow> [] | Some (_, err) \<Rightarrow> [outcome_event E rq err])
      | Some e \<Rightarrow> if IsNotFound E e then [Gone (status_key E rq)] else [])"

fun trace :: "env \<Rightarrow> config \<Rightarrow> request list \<Rightarrow> world \<Rightarrow> event list" where
  "trace E cfg [] w = []"
| "trace E cfg (rq # rqs) w =
     (case run_state (handle E cfg rq) w of (r, w') \<Rightarrow> reported E rq w r @ trace E cfg rqs w')"

definition observes :: "event list \<Rightarrow> world \<Rightarrow> world \<Rightarrow> bool" where
  "observes es w w' \<longleftrightarrow>
     w_tracker w' = map_option (fold observe_tracker es) (w_tracker w) \<and>
     w_metrics w' = map_option (fold observe_metrics es) (w_metrics w)"

lemma observes_Nil: "same_tables w w' \<Longrightarrow> observes [] w w'"
  by (simp add: observes_def same_tables_def option.map_ident id_def)

lemma observes_append: "observes es w w' \<Longrightarrow> observes es' w' w'' \<Longrightarrow> observes (es @ es') w w''"
  by (simp add: observes_def option.map_comp comp_def)

lemma observes_before: "same_tables w w1 \<Longrightarrow> observes es w1 w' \<Longrightarrow> observes es w w'"
  by (simp add: observes_def same_tables_def)

lemma observes_after: "observes es w w1 \<Longrightarrow> same_tables w1 w' \<Longrightarrow> observes es w w'"
  by (simp add: observes_def same_tables_def)

lemma observes_single:
  "observes [e] w w' \<longleftrightarrow> w_tracker w' = map_option (observe_tracker e) (w_tracker w) \<and>
     w_metrics w' = map_option (observe_metrics e) (w_metrics w)"
  by (simp add: observes_def del: observe_tracker.simps observe_metrics.simps)

lemma observes_calls [simp]: "observes es (w\<lparr>calls := cs\<rparr>) w' = observes es w w'"
  by (simp add: observes_def)

lemma observe_Gone: "observe_tracker (Gone k) = Tracker_ForgetObject k" "observe_metrics (Gone k) = Metrics_ForgetObject k"
  by auto

lemma track_observes:
  "wp (track_outcome controller res ns msg k err) (\<lambda>_. observes [Reconciled k res ns msg err] w) w"
  unfolding observes_single by (rule track_outcome_observes)

lemma forget_observes: "wp (forget_object k) (\<lambda>_. observes [Gone k] w) w"
  by (simp add: forget_object_def if_tracker_def if_metrics_def wp_simps observes_single observe_Gone split: option.splits)

lemma wp_reconcile_tail_observes:
  assumes "\<And>f. f \<in> set fs \<Longrightarrow> along same_tables f"
  shows "wp (do {
      err \<leftarrow> run_subreconcilers fs;
      _ \<leftarrow> track_outcome controller resource namespace msg k err;
      State_Monad.return (case err of
          Some e \<Rightarrow> Evaluate (RequeueWithError (Some e)) | None \<Rightarrow> Evaluate DoNotRequeue)
    }) (\<lambda>r w'. \<exists>err. r = Some (Result_zero, err) \<and> observes [Reconciled k resource namespace msg err] w w') w"
proof -
  have tail: "wp (track_outcome controller resource namespace msg k err)
      (\<lambda>_ w''. \<exists>err'. (case err of Some e \<Rightarrow> Evaluate (RequeueWithError (Some e)) | None \<Rightarrow> Evaluate DoNotRequeue) =
        Some (Result_zero, err') \<and> observes [Reconciled k resource namespace msg err'] w w'') w'"
    if "same_tables w w'" for err w'
    by (rule wp_mono [OF track_observes]) (use observes_before [OF that] in \<open>auto split: option.splits\<close>)
  show ?thesis
    unfolding wp_bind wp_return
    by (rule wp_mono [OF alongD [OF along_chain [OF st.frame_axioms assms]] tail])
qed

context child_controller
begin

lemma Reconcile_observes:
  assumes "retry_law E"
  shows "wp (Reconcile req) (\<lambda>r w'. case get (started controller w) req of
       Inr ob \<Rightarrow> \<exists>err. r = Some (Result_zero, err) \<and>
         observes [Reconciled (NamespacedName_String E req) resource (rns req) message err] w w'
     | Inl e \<Rightarrow> observes (if IsNotFound E e then [Gone (NamespacedName_String E req)] else []) w w') w"
proof (cases "get (started controller w) req")
  case (Inr ob)
  have "along same_tables f" if "f \<in> set [unknown ob req, all ob req, complete ob req]" for f
    using that emits_same_tables [OF all_calls [OF assms]] emits_same_tables [OF unknown_calls [OF assms]]
      emits_same_tables [OF complete_calls [OF assms]] by auto
  note tail = wp_reconcile_tail_observes [OF this]
  show ?thesis
    unfolding Reconcile_found [OF Inr]
    by (rule wp_mono [OF tail]) (simp_all add: Inr)
next
  case (Inl e)
  show ?thesis
  proof (cases "IsNotFound E e")
    case True
    let ?w = "w\<lparr>calls := KGet APIReader K req # started controller w\<rparr>"
    have del: "wp (delete_all req) (\<lambda>_. observes [Gone (NamespacedName_String E req)] w) w'"
      if "observes [Gone (NamespacedName_String E req)] ?w w'" for w'
      by (rule wp_mono [OF alongD [OF emits_same_tables [OF delete_calls]]]) (use that in \<open>simp add: observes_after\<close>)
    show ?thesis
      unfolding Reconcile_gone [OF Inl True] wp_bind wp_return
      by (rule wp_mono [OF forget_observes], rule wp_mono [OF del]) (use Inl True in simp_all)
  next
    case False
    with Inl show ?thesis
      unfolding Reconcile_eq wp_bind wp_count_operation wp_ask
      by (simp add: wp_bind wp_return wp_if_metrics_id observes_Nil)
  qed
qed

end

lemma perses_Reconcile_observes:
  assumes "retry_law E"
  shows "wp (perses_Reconcile E cfg invalidator req) (\<lambda>r w'. case getPerses E (started ''perses'' w) Cached req of
       Inr p \<Rightarrow> \<exists>err. r = Some (Result_zero, err) \<and> observes [outcome_event E (ReconcilePerses req) err] w w'
     | Inl e \<Rightarrow> (\<exists>err. r = Some (Result_zero, err)) \<and>
         observes (if IsNotFound E e then [Gone (NamespacedName_String E req)] else []) w w') w"
proof (cases "getPerses E (started ''perses'' w) Cached req")
  case (Inr p)
  have "observes es w w'" if "observes es (counted req p w) w'" for es w'
    using that by (simp add: counted_def observes_def)
  note this [intro]
  note tail = wp_reconcile_tail_observes [OF perses_subreconcilers_along(1) [OF assms, of _ cfg req]]
  show ?thesis
    unfolding perses_Reconcile_found [OF Inr] by (rule wp_mono [OF tail]) (use Inr in auto)
next
  case (Inl e)
  show ?thesis
  proof (cases "IsNotFound E e")
    case True
    note forget = alongD [OF emits_same_tables [OF emits_ForgetInstance]]
    show ?thesis
      unfolding perses_Reconcile_gone [OF Inl True] if_tracker_def if_metrics_def
      using Inl True
      by (auto simp: wp_simps observes_single observe_Gone same_tables_def intro!: wp_mono [OF forget] split: option.splits)
  next
    case False
    with Inl show ?thesis
      unfolding perses_Reconcile_def Let_def wp_bind wp_count_operation wp_ask
      by (simp add: wp_bind wp_return wp_if_metrics_id observes_Nil)
  qed
qed

text \<open>Every request returns, and the two tables move by exactly the events that it reports.\<close>

lemma handle_observes:
  assumes "retry_law E"
  shows "wp (handle E cfg rq) (\<lambda>r w'. observes (reported E rq w r) w w' \<and> (\<exists>err. r = Some (Result_zero, err))) w"
proof (cases rq)
  case (ReconcilePerses req)
  then show ?thesis
    by (auto simp: reported_def look_up_def status_key_def split: sum.splits
        intro!: wp_mono [OF perses_Reconcile_observes [OF assms]])
next
  case (ReconcileDashboard req)
  have "wp (dashboard_Reconcile E req) (\<lambda>r w'. observes (reported E rq w r) w w') w"
    by (rule wp_mono [OF dctl.Reconcile_observes [OF assms]])
      (auto simp: ReconcileDashboard reported_def look_up_def status_key_def split: sum.splits)
  then show ?thesis using dctl.Reconcile_returns by (simp add: ReconcileDashboard wp_conj)
next
  case (ReconcileDatasource req)
  have "wp (datasource_Reconcile E req) (\<lambda>r w'. observes (reported E rq w r) w w') w"
    by (rule wp_mono [OF sctl.Reconcile_observes [OF assms]])
      (auto simp: ReconcileDatasource reported_def look_up_def status_key_def split: sum.splits)
  then show ?thesis using sctl.Reconcile_returns by (simp add: ReconcileDatasource wp_conj)
next
  case (ReconcileGlobalDatasource req)
  have "wp (globaldatasource_Reconcile E req) (\<lambda>r w'. observes (reported E rq w r) w w') w"
    by (rule wp_mono [OF gctl.Reconcile_observes [OF assms]])
      (auto simp: ReconcileGlobalDatasource reported_def look_up_def status_key_def split: sum.splits)
  then show ?thesis using gctl.Reconcile_returns by (simp add: ReconcileGlobalDatasource wp_conj)
qed

lemma operate_observes:
  assumes "retry_law E"
  shows "wp (operate E cfg rqs) (\<lambda>_. observes (trace E cfg rqs w) w) w"
proof (induction rqs arbitrary: w)
  case Nil
  then show ?case by (simp add: wp_simps observes_Nil same_tables_def)
next
  case (Cons rq rqs)
  obtain r w' where run: "run_state (handle E cfg rq) w = (r, w')" by fastforce
  have "observes (reported E rq w r) w w'"
    using handle_observes [OF assms, of cfg rq w] by (simp add: wp_run [OF run])
  with Cons.IH [of w'] show ?case
    by (auto simp: wp_bind wp_return wp_run [OF run] run intro: observes_append elim!: wp_mono)
qed

section \<open>The operator keeps its invariants\<close>

definition operator_ok :: "env \<Rightarrow> world \<Rightarrow> bool" where
  "operator_ok E w \<longleftrightarrow> log_ok E (calls w) \<and> factory_ok E w \<and> tables_ok w"

lemma operator_start_ok: "operator_ok E operator_start"
  by (simp add: operator_ok_def operator_start_def factory_ok_def cache_ok_NewWithConfig tables_ok_def)

lemma tables_ok_observes:
  assumes "observes es w w'" and "tables_ok w"
  shows "tables_ok w'"
proof -
  have "tracker_inv (observe_tracker e rt)" if "tracker_inv rt" for e rt
    using that by (rule trr.step_inv)
  then have "tracker_inv (fold observe_tracker es rt)" if "tracker_inv rt" for rt
    using that by (induction es arbitrary: rt) auto
  moreover have "metrics_inv (observe_metrics e m)" if "metrics_inv m" for e m
    using that by (cases e) (simp_all add: SetSyncedResources_def SetFailedResources_def mt.inv_store mt.inv_forget)
  then have "metrics_inv (fold observe_metrics es m)" if "metrics_inv m" for m
    using that by (induction es arbitrary: m) auto
  ultimately show ?thesis using assms by (auto simp: observes_def tables_ok_def)
qed

lemma handle_keeps_factory:
  assumes "retry_law E"
  shows "along (keeps_factory E) (handle E cfg rq)"
  by (cases rq) (simp_all add: perses_keeps_factory dashboard_keeps_factory datasource_keeps_factory
      globaldatasource_keeps_factory assms)

lemma handle_ok:
  assumes "retry_law E" and "operator_ok E w"
  shows "wp (handle E cfg rq) (\<lambda>r w'. operator_ok E w' \<and> (\<exists>err. r = Some (Result_zero, err))) w"
proof -
  note handle_keeps_factory [OF assms(1)]
  moreover have "along (keeps_log E) (handle E cfg rq)"
    by (cases rq) (simp_all add: perses_Reconcile_log dctl.Reconcile_log sctl.Reconcile_log gctl.Reconcile_log assms(1))
  ultimately have "wp (handle E cfg rq) (\<lambda>r w'. (keeps_factory E w w' \<and> keeps_log E w w') \<and>
      observes (reported E rq w r) w w' \<and> (\<exists>err. r = Some (Result_zero, err))) w"
    using handle_observes [OF assms(1)] by (simp add: wp_conj alongD)
  then show ?thesis
    by (rule wp_mono) (use assms(2) tables_ok_observes in \<open>auto simp: operator_ok_def keeps_factory_def keeps_log_def\<close>)
qed

section \<open>Properties\<close>

text \<open>
  C1: the operator stays in order. From its start, after any requests to any of its four controllers, in any
  order and whatever the services answer: the log obeys its discipline, so that every write is justified, every
  read is of an object that is held in full and every metric is used with its labels; every cached client is the
  one that its instance and configuration call for; the tables are well-formed; and each request has returned,
  with no delay and no \<open>nil\<close> dereference.
\<close>

theorem operator_stays_in_order:
  assumes "retry_law E"
  shows "wp (operate E cfg rqs) (\<lambda>rs w'. log_ok E (calls w') \<and>
      whole_reads (controllers E) (BuildCacheOptions sel watch_all cluster) (calls w') \<and> list_all labelled (calls w') \<and>
      factory_ok E w' \<and> tables_ok w' \<and>
      length rs = length rqs \<and> list_all (\<lambda>r. \<exists>err. r = Some (Result_zero, err)) rs) operator_start"
  by (rule wp_mono [OF wp_operate_invariant [OF handle_ok [OF assms] operator_start_ok]])
    (auto simp: operator_ok_def log_ok_whole log_ok_labelled)

text \<open>
  C12: the tracker of the operator tells the last outcome of every object, and nothing else. After any requests
  to any of the four controllers the status that \<open>GetStatus\<close> returns is that of the last reconciliation under the
  key since the object was last found to be gone, a key without one is unknown, and \<open>Collect\<close> reports how many
  keys last succeeded and how many last failed. A request whose look-up fails without saying that the object
  is gone leaves the old status in place.
\<close>

theorem operator_status_refines:
  assumes "retry_law E"
  shows "let last = fold outcome_step (trace E cfg rqs operator_start) Map.empty in
    wp (operate E cfg rqs) (\<lambda>_ w'. \<exists>rt. w_tracker w' = Some rt \<and>
      (\<forall>k. case last k of
         None \<Rightarrow> \<not> snd (GetStatus k rt)
       | Some err \<Rightarrow> snd (GetStatus k rt) \<and> RS_err (fst (GetStatus k rt)) = err) \<and>
      Tracker_Collect rt = (card {k. last k = Some None}, card {k. \<exists>e. last k = Some (Some e)})) operator_start"
  unfolding Let_def
  by (rule wp_mono [OF operate_observes [OF assms]])
    (use tracker_refines_outcomes [of "trace E cfg rqs operator_start"] in \<open>simp add: observes_def operator_start_def Let_def\<close>)

text \<open>
  C17: the gauge of managed resources of the operator. After any requests to any of the four controllers
  \<open>Collect\<close> reports, for every resource, state and namespace, the number of keys that a reconciliation has left in
  that state since their object was last found to be gone, and reports no empty group.
\<close>

theorem operator_gauge_refines:
  assumes "retry_law E"
  shows "let S = fold seen_step (trace E cfg rqs operator_start) {} in
    wp (operate E cfg rqs) (\<lambda>_ w'. \<exists>m. w_metrics w' = Some m \<and> set (Metrics_Collect m) =
     {(RKey_resource rk, resource_state_String (RKey_state rk), RKey_namespace rk, int (card {k. (rk, k) \<in> S})) | rk.
        \<exists>k. (rk, k) \<in> S}) operator_start"
  unfolding Let_def
  by (rule wp_mono [OF operate_observes [OF assms]])
    (use metrics_refine_seen [of "trace E cfg rqs operator_start"] in \<open>simp add: observes_def operator_start_def Let_def\<close>)

text \<open>
  C21: objects of the same name share one status. The four controllers use one tracker and one table of
  metrics, with the namespace and the name as the key. So whatever the kinds of two objects of the same key are,
  the reconciliation of the one replaces the status of the other, an error of the other included, and when the one
  is found to be gone, the status and all counts of the other, which may well be there, are dropped with it.
\<close>

theorem kinds_share_status:
  assumes "retry_law E" and "tables_ok w" and "request_key a = request_key b"
  shows "wp (handle E cfg b) (\<lambda>r w'. \<forall>rt m. w_tracker w' = Some rt \<longrightarrow> w_metrics w' = Some m \<longrightarrow>
     (case read_error E b w of
        None \<Rightarrow> snd (GetStatus (status_key E a) rt) \<and> r = Some (Result_zero, RS_err (fst (GetStatus (status_key E a) rt)))
      | Some e \<Rightarrow> IsNotFound E e \<longrightarrow>
          \<not> snd (GetStatus (status_key E a) rt) \<and> (\<forall>rk. count_of m rk (status_key E a) = None))) w"
proof -
  have key: "status_key E a = status_key E b" using assms(3) by (simp add: status_key_def)
  have event: "\<exists>res ns msg. outcome_event E b err = Reconciled (status_key E b) res ns msg err" for err
    by (cases b) (simp_all add: status_key_def)
  show ?thesis
    unfolding key
  proof (rule wp_mono [OF handle_observes [OF assms(1)]], clarify)
    fix r w' rt m err
    assume obs: "observes (reported E b w (Some (Result_zero, err))) w w'" and t: "w_tracker w' = Some rt" and m: "w_metrics w' = Some m"
    obtain rt0 m0 where old: "w_tracker w = Some rt0" "w_metrics w = Some m0" and okd: "tracker_inv rt0" "metrics_inv m0"
      using obs t m assms(2) by (cases "w_tracker w"; cases "w_metrics w") (auto simp: observes_def tables_ok_def)
    show "case read_error E b w of
        None \<Rightarrow> snd (GetStatus (status_key E b) rt) \<and>
          Some (Result_zero, err) = Some (Result_zero, RS_err (fst (GetStatus (status_key E b) rt)))
      | Some e \<Rightarrow> IsNotFound E e \<longrightarrow> \<not> snd (GetStatus (status_key E b) rt) \<and> (\<forall>rk. count_of m rk (status_key E b) = None)"
      using obs t m old okd event [of err]
      by (auto simp: reported_def observes_single Let_def SetStatus_modify SetReasonAndMessage_modify GetStatus_tracked
          tr.lookup_modify tr.inv_modify tr.lookup_forget mt.count_forget split: option.splits)
  qed
qed

end
