(* ===== verification/Delivery.thy ===== *)
theory Delivery
  imports Operator "HOL-Library.Sublist"
begin

text \<open>
  What a reconciliation without an error achieves at the Perses servers, from end to end: an object that is
  there is on every available instance that it selects, and one that is gone is deleted on every
  instance. It covers the early ends of \<open>Reconcile\<close> that report no error, and what a history of the operator
  achieves for every object that an event wakes.
\<close>

section \<open>What the log says\<close>

text \<open>
  While the calls \<open>cs\<close> were added to the log \<open>h\<close>, the API server said that the object does not exist: it
  answered so to a look-up or to an update of the status.
\<close>

fun vanished :: "(call list \<Rightarrow> namespaced_name \<Rightarrow> error + 'o) \<Rightarrow> env \<Rightarrow> kind \<Rightarrow> namespaced_name \<Rightarrow> call list \<Rightarrow> call list \<Rightarrow> bool" where
  "vanished get E K req [] h = False"
| "vanished get E K req (c # cs) h =
     ((case c of
         KGet rd k key \<Rightarrow> rd = APIReader \<and> k = K \<and> key = req \<and> not_found E (get (cs @ h) req)
       | KStatusUpdate ob \<Rightarrow> kind_of ob = K \<and> (case respond E (cs @ h) c of None \<Rightarrow> False | Some e \<Rightarrow> IsNotFound E e)
       | _ \<Rightarrow> False) \<or> vanished get E K req cs h)"

text \<open>A server has deleted an entity, or had none: a request to delete it was answered so.\<close>

fun deleted :: "env \<Rightarrow> v1_client \<Rightarrow> pkind \<Rightarrow> string \<Rightarrow> string \<Rightarrow> call list \<Rightarrow> bool" where
  "deleted E c k ns n [] = False"
| "deleted E c k ns n (x # h) =
     (x = PDelete c k ns n \<and> (case respond E h x of None \<Rightarrow> True | Some e \<Rightarrow> IsRequestNotFound E e) \<or> deleted E c k ns n h)"

text \<open>All the given entities are deleted on an instance, through a client built for it.\<close>

definition removed_from :: "env \<Rightarrow> (pkind \<times> string \<times> string) list \<Rightarrow> perses \<Rightarrow> call list \<Rightarrow> bool" where
  "removed_from E es p h \<longleftrightarrow>
     (\<exists>c. made_for E (ns_name p) (configFingerprint E p) c \<and> list_all (\<lambda>(k, ns, n). deleted E c k ns n h) es)"

text \<open>
  From the log \<open>h\<close> to the log \<open>h'\<close>: an object vanished or is on every available one of the instances that its
  selector found, which are not none; and all instances were listed, and an object is removed from each.
\<close>

definition placed :: "env \<Rightarrow> (call list \<Rightarrow> namespaced_name \<Rightarrow> error + 'o) \<Rightarrow> kind \<Rightarrow> selector \<Rightarrow>
    (perses \<Rightarrow> call list \<Rightarrow> bool) \<Rightarrow> namespaced_name \<Rightarrow> call list \<Rightarrow> call list \<Rightarrow> bool" where
  "placed E get K sel has req h h' \<longleftrightarrow>
     (\<exists>cs. h' = cs @ h \<and> vanished get E K req cs h) \<or>
     (\<exists>h1 items. suffix h h1 \<and> suffix h1 h' \<and> listPerses E h1 (BySelector sel) = Inr items \<and>
        items \<noteq> [] \<and> all_have E has items h')"

definition cleared :: "env \<Rightarrow> (perses \<Rightarrow> call list \<Rightarrow> bool) \<Rightarrow> call list \<Rightarrow> call list \<Rightarrow> bool" where
  "cleared E removed h h' \<longleftrightarrow>
     (\<exists>h1 items. suffix h h1 \<and> suffix h1 h' \<and> listPerses E h1 AllObjects = Inr items \<and> (\<forall>p \<in> set items. removed p h'))"

text \<open>The promise of a reconciliation without an error, by what the look-up of the object answered.\<close>

definition settled :: "env \<Rightarrow> (call list \<Rightarrow> namespaced_name \<Rightarrow> error + 'o) \<Rightarrow> kind \<Rightarrow> ('o \<Rightarrow> selector) \<Rightarrow>
    ('o \<Rightarrow> perses \<Rightarrow> call list \<Rightarrow> bool) \<Rightarrow> (namespaced_name \<Rightarrow> perses \<Rightarrow> call list \<Rightarrow> bool) \<Rightarrow>
    namespaced_name \<Rightarrow> call list \<Rightarrow> call list \<Rightarrow> bool" where
  "settled E get K sel has removed req h h' \<longleftrightarrow>
     (\<exists>h0. suffix h h0 \<and> suffix h0 h' \<and>
       (case get h0 req of
          Inl e \<Rightarrow> IsNotFound E e \<and> cleared E (removed req) h0 h'
        | Inr ob \<Rightarrow> placed E get K (sel ob) (has ob) req h0 h'))"

lemma vanished_append: "vanished get E K req cs h \<Longrightarrow> vanished get E K req (cs' @ cs) h"
  by (induction cs') auto

lemma vanished_older: "vanished get E K req cs (cs' @ h) \<Longrightarrow> vanished get E K req (cs @ cs') h"
  by (induction cs) (auto split: call.splits)

lemma deleted_append: "deleted E c k ns n h \<Longrightarrow> deleted E c k ns n (cs @ h)"
  by (induction cs) auto

lemma removed_from_append: "removed_from E es p h \<Longrightarrow> removed_from E es p (cs @ h)"
  unfolding removed_from_def by (fastforce simp: list_all_iff case_prod_unfold intro: deleted_append)

text \<open>A statement about an instance that later calls cannot undo.\<close>

definition stays :: "(perses \<Rightarrow> call list \<Rightarrow> bool) \<Rightarrow> bool" where
  "stays P \<longleftrightarrow> (\<forall>p h h'. P p h \<longrightarrow> suffix h h' \<longrightarrow> P p h')"

lemma staysI: "(\<And>p h cs. P p h \<Longrightarrow> P p (cs @ h)) \<Longrightarrow> stays P"
  by (auto simp: stays_def suffix_def)

lemma stays_removed: "stays (removed_from E es)"
  by (rule staysI) (rule removed_from_append)

lemma stays_has_entity: "stays (has_entity E k ns e)"
  by (rule staysI) (rule has_entity_mono)

lemma placed_mono:
  assumes "stays has" and "placed E get K sel has req h0 h1" and "suffix h h0" and "suffix h1 h'"
  shows "placed E get K sel has req h h'"
proof -
  obtain cs cs' where cs: "h0 = cs @ h" "h' = cs' @ h1" using assms(3,4) by (auto simp: suffix_def)
  from assms(2) consider
      (gone) cs1 where "h1 = cs1 @ h0" "vanished get E K req cs1 h0"
    | (there) h2 items where "suffix h0 h2" "suffix h2 h1" "listPerses E h2 (BySelector sel) = Inr items" "items \<noteq> []"
        "all_have E has items h1"
    by (auto simp: placed_def)
  then show ?thesis
  proof cases
    case gone
    with cs have "vanished get E K req (cs' @ cs1 @ cs) h" by (simp add: vanished_append vanished_older)
    with gone cs show ?thesis unfolding placed_def by (intro disjI1 exI [of _ "cs' @ cs1 @ cs"]) simp
  next
    case there
    have "all_have E has items h'"
      using there(5) assms(1,4) by (auto simp: all_have_def stays_def)
    with there assms(3,4) show ?thesis
      unfolding placed_def by (intro disjI2 exI [of _ h2] exI [of _ items]) (auto intro: suffix_order.trans)
  qed
qed

lemma cleared_mono:
  assumes "stays removed" and "cleared E removed h0 h1" and "suffix h h0" and "suffix h1 h'"
  shows "cleared E removed h h'"
proof -
  obtain h2 items where h: "suffix h0 h2" "suffix h2 h1" "listPerses E h2 AllObjects = Inr items" "\<forall>p \<in> set items. removed p h1"
    using assms(2) by (auto simp: cleared_def)
  have "removed p h'" if "removed p h1" for p using assms(1,4) that by (auto simp: stays_def)
  with h assms(3,4) show ?thesis
    unfolding cleared_def by (intro exI [of _ h2] exI [of _ items]) (auto intro: suffix_order.trans)
qed

lemma settled_mono:
  assumes "\<And>ob. stays (has ob)" and "\<And>req. stays (removed req)"
    and "settled E get K sel has removed req h0 h1" and "suffix h h0" and "suffix h1 h'"
  shows "settled E get K sel has removed req h h'"
proof -
  obtain h2 where h: "suffix h0 h2" "suffix h2 h1" "case get h2 req of
          Inl e \<Rightarrow> IsNotFound E e \<and> cleared E (removed req) h2 h1
        | Inr ob \<Rightarrow> placed E get K (sel ob) (has ob) req h2 h1"
    using assms(3) by (auto simp: settled_def)
  have "case get h2 req of
          Inl e \<Rightarrow> IsNotFound E e \<and> cleared E (removed req) h2 h'
        | Inr ob \<Rightarrow> placed E get K (sel ob) (has ob) req h2 h'"
    using h(3) cleared_mono [OF assms(2) _ suffix_order.refl assms(5)]
      placed_mono [OF assms(1) _ suffix_order.refl assms(5)] by (auto split: sum.splits)
  with h assms(4,5) show ?thesis
    unfolding settled_def by (intro exI [of _ h2]) (auto intro: suffix_order.trans)
qed

section \<open>The log only grows\<close>

definition grows :: "world \<Rightarrow> world \<Rightarrow> bool" where
  "grows w w' \<longleftrightarrow> suffix (calls w) (calls w') \<and> w_factory w' = w_factory w"

interpretation gr: frame grows
  by unfold_locales (auto simp: grows_def)

lemma grows_call [simp]: "grows w (w\<lparr>calls := c # calls w\<rparr>)"
  by (simp add: grows_def suffix_def)

lemma only_adds_suffix: "only_adds P w w' \<Longrightarrow> suffix (calls w) (calls w')"
  by (auto simp: only_adds_def suffix_def)

lemma wp_grown:
  assumes "emits P m" and "wp m Q w"
  shows "wp m (\<lambda>r w'. suffix (calls w) (calls w') \<and> Q r w') w"
proof -
  have "wp m (\<lambda>r w'. only_adds P w w' \<and> Q r w') w" using alongD [OF assms(1)] assms(2) by (simp add: wp_conj)
  then show ?thesis by (rule wp_mono) (auto dest: only_adds_suffix)
qed

lemma track_longer: "wp (track_outcome controller res ns msg k err) (\<lambda>_ w'. suffix (calls w) (calls w')) w"
  unfolding track_outcome_def if_tracker_def if_metrics_def
  by (auto simp: wp_simps intro: suffix_ConsI split: option.splits)

section \<open>The update of a status\<close>

text \<open>
  The update of the status of a child object, through its two functions: one try, and the retries. It
  ends with no error and without going on only when the API server said that the object does not exist.
\<close>

locale status_update =
  fixes E :: env and K :: kind and get :: "call list \<Rightarrow> namespaced_name \<Rightarrow> error + 'o" and req :: namespaced_name
    and conditions :: "'o \<Rightarrow> condition list" and wrap :: "'o \<Rightarrow> kobj"
    and attempt :: "('o \<Rightarrow> 'o go) \<Rightarrow> (error option) go" and update :: "('o \<Rightarrow> 'o go) \<Rightarrow> sub_result go"
  assumes attempt_eq: "attempt f = do {
      r \<leftarrow> ask (\<lambda>h. get h req) (KGet APIReader K req);
      case r of
        Inl err \<Rightarrow> State_Monad.return (Some err)
      | Inr fresh \<Rightarrow> do {
          fresh' \<leftarrow> f fresh;
          if \<not> ConditionsChanged E (SnapshotConditions (conditions fresh)) (conditions fresh') then State_Monad.return None
          else exec E (KStatusUpdate (wrap fresh'))
        }
    }"
    and update_eq: "update f = do {
      err \<leftarrow> retryOnConflict E (attempt f);
      State_Monad.return (case err of
          None \<Rightarrow> ContinueReconciling
        | Some e \<Rightarrow> if IsNotFound E e then DoNotRequeue else RequeueWithError (Some e))
    }"
    and wrap_kind: "kind_of (wrap ob) = K"
begin

definition halts_vanished :: "world \<Rightarrow> error option \<Rightarrow> world \<Rightarrow> bool" where
  "halts_vanished w r w' \<longleftrightarrow> w_factory w' = w_factory w \<and>
     (\<exists>cs. calls w' = cs @ calls w \<and> (\<forall>e. r = Some e \<longrightarrow> IsNotFound E e \<longrightarrow> vanished get E K req cs (calls w)))"

lemma attempt_vanished:
  assumes "\<And>ob. along grows (f ob)"
  shows "wp (attempt f) (halts_vanished w) w"
proof (cases "get (calls w) req")
  case (Inl err)
  then show ?thesis
    by (auto simp: attempt_eq wp_simps halts_vanished_def not_found_def intro!: exI [of _ "[KGet APIReader K req]"])
next
  case (Inr fresh)
  let ?w = "w\<lparr>calls := KGet APIReader K req # calls w\<rparr>"
  have "halts_vanished w None w'" "halts_vanished w (respond E (calls w') (KStatusUpdate (wrap ob)))
      (w'\<lparr>calls := KStatusUpdate (wrap ob) # calls w'\<rparr>)" if "grows ?w w'" for w' ob
  proof -
    from that obtain cs where cs: "calls w' = cs @ KGet APIReader K req # calls w" "w_factory w' = w_factory w"
      by (auto simp: grows_def suffix_def)
    then show "halts_vanished w None w'" by (simp add: halts_vanished_def)
    from cs show "halts_vanished w (respond E (calls w') (KStatusUpdate (wrap ob))) (w'\<lparr>calls := KStatusUpdate (wrap ob) # calls w'\<rparr>)"
      unfolding halts_vanished_def
      by (intro conjI exI [of _ "KStatusUpdate (wrap ob) # cs @ [KGet APIReader K req]"]) (simp_all add: wrap_kind)
  qed
  note ends = this
  have "wp (f fresh) (\<lambda>fresh' w'. grows ?w w') ?w" by (rule alongD [OF assms])
  with Inr show ?thesis
    unfolding attempt_eq wp_bind wp_ask by (auto simp: wp_simps ends elim!: wp_mono)
qed

lemma update_vanished:
  assumes "retry_law E" and "\<And>ob. along grows (f ob)"
  shows "wp (update f) (\<lambda>r w'. w_factory w' = w_factory w \<and>
     (\<exists>cs. calls w' = cs @ calls w \<and> (r \<noteq> ContinueReconciling \<longrightarrow> snd r = None \<longrightarrow> vanished get E K req cs (calls w)))) w"
proof -
  let ?I = "\<lambda>w'. halts_vanished w None w'"
  have "wp (retryOnConflict E (attempt f)) (\<lambda>r w'. ?I w' \<and> halts_vanished w r w') w"
  proof (rule wp_retry [OF assms(1)])
    fix w1 assume "?I w1"
    then obtain cs where cs: "calls w1 = cs @ calls w" "w_factory w1 = w_factory w" by (auto simp: halts_vanished_def)
    show "wp (attempt f) (\<lambda>r w'. ?I w' \<and> halts_vanished w r w') w1"
      by (rule wp_mono [OF attempt_vanished [OF assms(2)]])
        (use cs vanished_older in \<open>fastforce simp: halts_vanished_def\<close>)
  qed (simp add: halts_vanished_def)
  then show ?thesis
    unfolding update_eq wp_bind wp_return
    by (rule wp_mono) (auto simp: halts_vanished_def go_def split: option.splits)
qed

end

section \<open>Deletion\<close>

text \<open>The deletion of one object in one instance: if it goes on, the instance has the object no more.\<close>

locale instance_removal = instance_delete +
  fixes E :: env and removed :: "perses \<Rightarrow> call list \<Rightarrow> bool"
  assumes removal: "factory_ok E w \<Longrightarrow> wp (del p)
      (\<lambda>r w'. factory_ok E w' \<and> suffix (calls w) (calls w') \<and> (snd r = None \<longrightarrow> removed p (calls w'))) w"
    and stays: "stays removed"
begin

lemma delete_instances_removes:
  assumes "factory_ok E w"
  shows "wp (delete_instances del ps)
      (\<lambda>r w'. suffix (calls w) (calls w') \<and> (snd r = None \<longrightarrow> (\<forall>p \<in> set ps. removed p (calls w')))) w"
  using assms
proof (induction ps arbitrary: w)
  case Nil
  then show ?case by (simp add: wp_simps)
next
  case (Cons p ps)
  let ?Q = "\<lambda>r w'. suffix (calls w) (calls w') \<and> (snd r = None \<longrightarrow> (\<forall>p \<in> set (p # ps). removed p (calls w')))"
  have "wp (del p) (\<lambda>r w'. delete_ok r \<and> factory_ok E w' \<and> suffix (calls w) (calls w') \<and> (snd r = None \<longrightarrow> removed p (calls w'))) w"
    using del_result removal [OF Cons.prems] by (simp add: wp_conj)
  then have "wp (del p) (\<lambda>r w'. case r of (x, err) \<Rightarrow>
      wp (if ShouldHaltOrRequeue x err then State_Monad.return (x, err) else delete_instances del ps) ?Q w') w"
  proof (rule wp_mono)
    fix r w'
    assume r: "delete_ok r \<and> factory_ok E w' \<and> suffix (calls w) (calls w') \<and> (snd r = None \<longrightarrow> removed p (calls w'))"
    show "case r of (x, err) \<Rightarrow>
      wp (if ShouldHaltOrRequeue x err then State_Monad.return (x, err) else delete_instances del ps) ?Q w'"
    proof (cases "r = ContinueReconciling")
      case True
      have "wp (delete_instances del ps) ?Q w'"
        by (rule wp_mono [OF Cons.IH]) (use r True stays in \<open>auto simp: stays_def go_def intro: suffix_order.trans\<close>)
      with True show ?thesis by (simp add: go_def)
    next
      case False
      with r show ?thesis by (auto simp: delete_ok_def wp_simps go_def)
    qed
  qed
  then show ?case by (simp add: wp_simps case_prod_unfold)
qed

end

context instance_removal
begin

lemma all_instances_removed:
  assumes "factory_ok E w"
  shows "wp (do {
       instances \<leftarrow> ask (\<lambda>h. listPerses E h AllObjects) (KList AllObjects);
       case instances of
         Inl err \<Rightarrow> State_Monad.return (RequeueWithError (Some err))
       | Inr items \<Rightarrow>
           if length items = 0 then State_Monad.return DoNotRequeue else delete_instances del items
     }) (\<lambda>r w'. suffix (calls w) (calls w') \<and> (snd r = None \<longrightarrow>
      (\<exists>items. listPerses E (calls w) AllObjects = Inr items \<and> (\<forall>p \<in> set items. removed p (calls w'))))) w"
  using assms
  by (auto simp: wp_simps go_def intro: suffix_ConsI dest: suffix_ConsD split: sum.splits intro!: wp_mono [OF delete_instances_removes])

end

lemma wp_client_removal:
  assumes "factory_ok E w"
    and "\<And>c w'. factory_ok E w' \<Longrightarrow> wp (rest c) (\<lambda>r w''. factory_ok E w'' \<and> suffix (calls w') (calls w'') \<and>
           (snd r = None \<longrightarrow> list_all (\<lambda>(k, ns, n). deleted E c k ns n (calls w'')) es)) w'"
  shows "wp (do {
       cl \<leftarrow> CreateClient E APIReader p;
       case cl of Inl err \<Rightarrow> State_Monad.return (RequeueWithError (Some err)) | Inr c \<Rightarrow> rest c
     }) (\<lambda>r w'. factory_ok E w' \<and> suffix (calls w) (calls w') \<and> (snd r = None \<longrightarrow> removed_from E es p (calls w'))) w"
proof -
  let ?Q = "\<lambda>r w'. factory_ok E w' \<and> suffix (calls w) (calls w') \<and> (snd r = None \<longrightarrow> removed_from E es p (calls w'))"
  have "wp (CreateClient E APIReader p) (\<lambda>r w'. (factory_ok E w' \<and>
      (\<forall>c. r = Inr c \<longrightarrow> made_for E (ns_name p) (configFingerprint E p) c)) \<and> only_adds factory_call w w') w"
    using wp_CreateClient [OF assms(1)] alongD [OF emits_CreateClient] by (simp add: wp_conj)
  then have "wp (CreateClient E APIReader p) (\<lambda>r. wp (case r of
      Inl err \<Rightarrow> State_Monad.return (RequeueWithError (Some err)) | Inr c \<Rightarrow> rest c) ?Q) w"
  proof (rule wp_mono)
    fix r :: "error + v1_client" and w1
    assume r: "(factory_ok E w1 \<and> (\<forall>c. r = Inr c \<longrightarrow> made_for E (ns_name p) (configFingerprint E p) c)) \<and> only_adds factory_call w w1"
    then have s: "suffix (calls w) (calls w1)" by (blast dest: only_adds_suffix)
    show "wp (case r of Inl err \<Rightarrow> State_Monad.return (RequeueWithError (Some err)) | Inr c \<Rightarrow> rest c) ?Q w1"
    proof (cases r)
      case (Inl err)
      with r s show ?thesis by (simp add: wp_simps go_def)
    next
      case (Inr c)
      with r have f: "factory_ok E w1" and m: "made_for E (ns_name p) (configFingerprint E p) c" by auto
      have "wp (rest c) ?Q w1"
        by (rule wp_mono [OF assms(2) [OF f]]) (use m s in \<open>auto simp: removed_from_def intro: suffix_order.trans\<close>)
      with Inr show ?thesis by simp
    qed
  qed
  then show ?thesis by (simp add: wp_simps)
qed

section \<open>The promise of a controller\<close>

text \<open>A synchronisation with the instances that does not go on has an error.\<close>

definition speaks :: "sub_result \<Rightarrow> bool" where
  "speaks r \<longleftrightarrow> r = ContinueReconciling \<or> snd r \<noteq> None"

definition synchronised :: "env \<Rightarrow> (perses \<Rightarrow> call list \<Rightarrow> bool) \<Rightarrow> error + perses list \<Rightarrow> sub_result \<Rightarrow> call list \<Rightarrow> bool" where
  "synchronised E has instances r h \<longleftrightarrow>
     (if r = ContinueReconciling then \<exists>items. instances = Inr items \<and> items \<noteq> [] \<and> all_have E has items h else snd r \<noteq> None)"

lemma synchronised_error [simp]: "synchronised E has instances (RequeueWithError (Some e)) h"
  by (simp add: synchronised_def go_def)

context listed_sync
begin

lemma degraded_fails: "wp (degraded res reason (Some e)) (\<lambda>r _. speaks r) w"
  by (rule wp_mono [OF degraded_result]) (auto simp: degraded_ok_def speaks_def go_def)

lemma listed_fails:
  assumes "inv w"
  shows "wp (listed instances) (\<lambda>r _. speaks r) w"
proof (cases instances)
  case (Inr items)
  have "wp (sync_instances E sync TypeAvailablePerses items) (\<lambda>r. wp (case r of
      Some (res, reason, err) \<Rightarrow> degraded res reason err | None \<Rightarrow> State_Monad.return ContinueReconciling)
    (\<lambda>r _. speaks r)) w"
    by (rule wp_mono [OF sync_instances_spec [OF assms]])
      (auto simp: wp_simps sync_end_def speaks_def [of ContinueReconciling] degraded_fails split: option.splits)
  with Inr show ?thesis unfolding listed_eq by (simp add: wp_bind degraded_fails)
qed (simp add: listed_eq degraded_fails)

lemma listed_delivers:
  assumes "inv w"
  shows "wp (listed instances) (\<lambda>r w'. synchronised E has instances r (calls w')) w"
proof -
  have "wp (listed instances) (\<lambda>r w'. (r = ContinueReconciling \<longrightarrow>
       (\<exists>items. instances = Inr items \<and> items \<noteq> [] \<and> all_have E has items (calls w'))) \<and>
     speaks r) w"
    using listed_spec [OF assms] listed_fails [OF assms] by (simp add: wp_conj)
  then show ?thesis by (rule wp_mono) (auto simp: synchronised_def speaks_def)
qed

end

locale delivering_controller = child_controller +
  fixes sel :: "'a \<Rightarrow> selector" and has :: "'a \<Rightarrow> perses \<Rightarrow> call list \<Rightarrow> bool"
    and removed :: "namespaced_name \<Rightarrow> perses \<Rightarrow> call list \<Rightarrow> bool"
  assumes unknown_vanished: "retry_law E \<Longrightarrow> wp (unknown ob req) (\<lambda>r w'. w_factory w' = w_factory w \<and>
      (\<exists>cs. calls w' = cs @ calls w \<and> (r \<noteq> ContinueReconciling \<longrightarrow> snd r = None \<longrightarrow> vanished get E K req cs (calls w)))) w"
    and all_delivers: "retry_law E \<Longrightarrow> factory_ok E w \<Longrightarrow> wp (all ob req) (\<lambda>r w'. suffix (calls w) (calls w') \<and>
      synchronised E (has ob) (listPerses E (calls w) (BySelector (sel ob))) r (calls w')) w"
    and delete_removes: "factory_ok E w \<Longrightarrow> wp (delete_all req) (\<lambda>r w'. suffix (calls w) (calls w') \<and> (snd r = None \<longrightarrow>
      (\<exists>items. listPerses E (calls w) AllObjects = Inr items \<and> (\<forall>p \<in> set items. removed req p (calls w'))))) w"
    and stays_has: "stays (has ob)"
    and stays_removed: "stays (removed req)"
begin

abbreviation promise :: "namespaced_name \<Rightarrow> call list \<Rightarrow> call list \<Rightarrow> bool" where
  "promise \<equiv> settled E get K sel has removed"

lemma chain_settles:
  assumes "retry_law E" and "factory_ok E w"
  shows "wp (run_subreconcilers [unknown ob req, all ob req, complete ob req]) (\<lambda>err w'. suffix (calls w) (calls w') \<and>
      (err = None \<longrightarrow> placed E get K (sel ob) (has ob) req (calls w) (calls w'))) w"
proof -
  let ?Q = "\<lambda>err w'. suffix (calls w) (calls w') \<and> (err = None \<longrightarrow> placed E get K (sel ob) (has ob) req (calls w) (calls w'))"
  have complete: "wp (run_subreconcilers [complete ob req]) ?Q w1"
    if "suffix (calls w) (calls w1)" "placed E get K (sel ob) (has ob) req (calls w) (calls w1)" for w1
    unfolding wp_run_subreconcilers_Cons wp_run_subreconcilers_Nil
    by (rule wp_mono [OF alongD [OF complete_calls [OF assms(1)]]])
      (use that placed_mono [OF stays_has that(2) suffix_order.refl] in
        \<open>auto intro: suffix_order.trans split: prod.splits dest!: only_adds_suffix\<close>)
  have all: "wp (run_subreconcilers [all ob req, complete ob req]) ?Q w1"
    if "suffix (calls w) (calls w1)" "factory_ok E w1" for w1
    unfolding wp_run_subreconcilers_Cons [of "all ob req"]
  proof (rule wp_mono [OF all_delivers [OF assms(1) that(2)]])
    fix r and w2 :: world
    assume r: "suffix (calls w1) (calls w2) \<and>
      synchronised E (has ob) (listPerses E (calls w1) (BySelector (sel ob))) r (calls w2)"
    then have s: "suffix (calls w) (calls w2)" using that(1) by (blast intro: suffix_order.trans)
    show "(case r of (x, err) \<Rightarrow> \<lambda>w2. if x \<noteq> None \<or> err \<noteq> None then ?Q err w2 else wp (run_subreconcilers [complete ob req]) ?Q w2) w2"
    proof (cases "r = ContinueReconciling")
      case True
      then have "placed E get K (sel ob) (has ob) req (calls w) (calls w2)"
        using r that(1) unfolding placed_def synchronised_def by auto
      with True complete [OF s] show ?thesis by (simp add: go_def)
    qed (use r s in \<open>auto simp: synchronised_def go_def\<close>)
  qed
  show ?thesis
    unfolding wp_run_subreconcilers_Cons [of "unknown ob req"]
    by (rule wp_mono [OF unknown_vanished [OF assms(1)]])
      (use all assms(2) in \<open>auto simp: go_def placed_def factory_ok_def suffix_def split: prod.splits\<close>)
qed

lemma started_grows: "suffix (calls w) (started controller w)"
  by (simp add: started_def suffix_def split: option.splits)

text \<open>The object is there: what the chain achieved is not undone by the record of the outcome.\<close>

lemma Reconcile_found_settles:
  assumes "retry_law E" and "factory_ok E w" and found: "get (started controller w) req = Inr ob"
  shows "wp (Reconcile req) (\<lambda>r w'. suffix (calls w) (calls w') \<and>
     (r = Some (Result_zero, None) \<longrightarrow> promise req (calls w) (calls w'))) w"
proof -
  let ?h = "started controller w" let ?w = "w\<lparr>calls := KGet APIReader K req # ?h\<rparr>"
  let ?P = "\<lambda>err h'. suffix (calls w) h' \<and> (err = None \<longrightarrow> promise req (calls w) h')"
  have start: "suffix (calls w) ?h" "suffix ?h (calls ?w)" "suffix (calls w) (calls ?w)"
    using started_grows by (auto intro: suffix_ConsI)
  have "?P err h'" if chain: "suffix (calls ?w) h1" "err = None \<longrightarrow> placed E get K (sel ob) (has ob) req (calls ?w) h1"
    and later: "suffix h1 h'" for err :: "error option" and h1 h'
  proof (intro conjI impI)
    show "suffix (calls w) h'" by (rule suffix_order.trans [OF suffix_order.trans [OF start(3) chain(1)] later])
    assume "err = None"
    with chain(2) have "placed E get K (sel ob) (has ob) req (calls ?w) h1" by blast
    from placed_mono [OF stays_has this start(2) later] show "promise req (calls w) h'"
      unfolding settled_def
      by (intro exI [of _ ?h]) (use start found suffix_order.trans [OF suffix_order.trans [OF start(2) chain(1)] later] in auto)
  qed
  note kept = this
  have track: "wp (track_outcome controller resource ns msg k err) (\<lambda>_ w2. ?P err (calls w2)) w1"
    if "suffix (calls ?w) (calls w1)" and "err = None \<longrightarrow> placed E get K (sel ob) (has ob) req (calls ?w) (calls w1)" for ns msg k err w1
    by (rule wp_mono [OF track_longer]) (rule kept [OF that])
  have "factory_ok E ?w" using assms(2) by simp
  from chain_settles [OF assms(1) this] show ?thesis
    unfolding Reconcile_found [OF found] wp_bind wp_return
    by (rule wp_mono) (rule wp_mono [OF track], auto split: option.splits)
qed

text \<open>The object is gone: the tables forget it, and it is removed everywhere.\<close>

lemma Reconcile_gone_settles:
  assumes "factory_ok E w" and gone: "get (started controller w) req = Inl e" "IsNotFound E e"
  shows "wp (Reconcile req) (\<lambda>r w'. suffix (calls w) (calls w') \<and>
     (r = Some (Result_zero, None) \<longrightarrow> promise req (calls w) (calls w'))) w"
proof -
  let ?h = "started controller w" let ?w = "w\<lparr>calls := KGet APIReader K req # ?h\<rparr>"
  have del: "wp (delete_all req) (\<lambda>res w2. suffix (calls w) (calls w2) \<and>
      (Evaluate res = Some (Result_zero, None) \<longrightarrow> promise req (calls w) (calls w2))) w1"
    if "calls w1 = calls ?w" and "factory_ok E w1" for w1
  proof (rule wp_mono [OF delete_removes [OF that(2)]])
    fix res :: sub_result and w2 :: world
    assume r: "suffix (calls w1) (calls w2) \<and> (snd res = None \<longrightarrow>
      (\<exists>items. listPerses E (calls w1) AllObjects = Inr items \<and> (\<forall>p \<in> set items. removed req p (calls w2))))"
    have s: "suffix (calls w1) (calls w2)" "suffix ?h (calls w1)" "suffix (calls w) ?h"
      using r that(1) started_grows by (auto intro: suffix_ConsI)
    have "promise req (calls w) (calls w2)" if "snd res = None"
    proof -
      have "cleared E (removed req) ?h (calls w2)" using r s that by (auto simp: cleared_def)
      then show ?thesis
        unfolding settled_def by (intro exI [of _ ?h]) (use s gone suffix_order.trans [OF s(2,1)] in auto)
    qed
    moreover have "snd res = None" if "Evaluate res = Some (Result_zero, None)"
      using that by (cases res) (auto simp: Evaluate_def split: option.splits)
    ultimately show "suffix (calls w) (calls w2) \<and> (Evaluate res = Some (Result_zero, None) \<longrightarrow> promise req (calls w) (calls w2))"
      using suffix_order.trans [OF suffix_order.trans [OF s(3,2)] s(1)] by simp
  qed
  have forget: "wp (forget_object k) (\<lambda>_ w'. calls w' = calls ?w \<and> factory_ok E w') ?w" for k
    using assms(1) unfolding forget_object_def if_tracker_def if_metrics_def
    by (auto simp: wp_simps factory_ok_def split: option.splits)
  show ?thesis
    unfolding Reconcile_gone [OF gone] wp_bind wp_return
    by (rule wp_mono [OF forget]) (use del in blast)
qed

lemma Reconcile_settles:
  assumes "retry_law E" and "factory_ok E w"
  shows "wp (Reconcile req) (\<lambda>r w'. suffix (calls w) (calls w') \<and>
     (r = Some (Result_zero, None) \<longrightarrow> promise req (calls w) (calls w'))) w"
proof (cases "get (started controller w) req")
  case (Inl e)
  show ?thesis
  proof (cases "IsNotFound E e")
    case False
    with Inl show ?thesis
      unfolding Reconcile_eq wp_bind wp_count_operation wp_ask
      using started_grows by (auto simp: wp_bind wp_return wp_if_metrics_id intro: suffix_ConsI)
  qed (rule Reconcile_gone_settles [OF assms(2) Inl])
qed (rule Reconcile_found_settles [OF assms])

end

section \<open>Dashboards\<close>

interpretation dup: status_update E DashboardKind "\<lambda>h. getDashboard E h APIReader" req
  "\<lambda>d. Dashboard_Conditions (Dashboard_Status d)" KDashboard "dashboard_status_try E req" "updateDashboardStatus E (Some d) req"
  for E :: env and req :: namespaced_name and d :: persesdashboard
  by unfold_locales (simp_all add: dashboard_status_try_def updateDashboardStatus_def Let_def cong: sum.case_cong)

text \<open>What is removed from every instance when a dashboard is gone.\<close>

definition dashboard_entities :: "namespaced_name \<Rightarrow> (pkind \<times> string \<times> string) list" where
  "dashboard_entities req = [(PDashboard, NN_Namespace req, NN_Name req)]"

lemma deleteDashboard_removes:
  assumes "factory_ok E w"
  shows "wp (deleteDashboard E (NN_Namespace req) (NN_Name req) p) (\<lambda>r w'. factory_ok E w' \<and> suffix (calls w) (calls w') \<and>
    (snd r = None \<longrightarrow> removed_from E (dashboard_entities req) p (calls w'))) w"
  unfolding deleteDashboard_def
  by (rule wp_client_removal [OF assms])
    (auto simp: wp_simps go_def dashboard_entities_def intro: suffix_ConsI split: option.splits)

interpretation drm: instance_removal "deleteDashboard E (NN_Namespace req) (NN_Name req)" "child_delete_call {PDashboard}" E
  "removed_from E (dashboard_entities req)"
  for E :: env and req :: namespaced_name
  by unfold_locales (auto intro: deleteDashboard_removes stays_removed)

lemma dashboard_unknown_vanished:
  assumes "retry_law E"
  shows "wp (dashboard_setStatusToUnknown E (Some d) req) (\<lambda>r w'. w_factory w' = w_factory w \<and>
      (\<exists>cs. calls w' = cs @ calls w \<and> (r \<noteq> ContinueReconciling \<longrightarrow> snd r = None \<longrightarrow>
         vanished (\<lambda>h. getDashboard E h APIReader) E DashboardKind req cs (calls w)))) w"
  unfolding dashboard_setStatusToUnknown_def
  by (rule dup.update_vanished [OF assms]) (auto simp: dashboard_SetCondition_def intro!: along_intros)

lemma dashboard_all_delivers:
  assumes "retry_law E" and "factory_ok E w"
  shows "wp (reconcileDashboardInAllInstances E (Some d) req) (\<lambda>r w'. suffix (calls w) (calls w') \<and>
      synchronised E (has_entity E PDashboard (Namespace d) (desired_dashboard d))
        (listPerses E (calls w) (BySelector (dashboard_selector d))) r (calls w')) w"
  by (rule wp_grown [OF emits_dashboard_all [OF assms(1)]])
    (use assms(2) in \<open>auto simp: reconcileDashboardInAllInstances_def dashboard_selector_def wp_simps
      intro!: dlist.listed_delivers split: option.splits sum.splits\<close>)

lemmas dashboard_delete_removes = drm.all_instances_removed [folded deleteDashboardInAllInstances_def]

interpretation ddc: delivering_controller E DashboardKind "''persesdashboard''" "''dashboard''"
  "''Dashboard reconciled successfully''" NN_Namespace "\<lambda>h. getDashboard E h APIReader"
  "\<lambda>d. dashboard_setStatusToUnknown E (Some d)" "\<lambda>d. reconcileDashboardInAllInstances E (Some d)"
  "\<lambda>d. dashboard_setStatusToComplete E (Some d)"
  "\<lambda>req. deleteDashboardInAllInstances E (NN_Namespace req) (NN_Name req)" "dashboard_Reconcile E" dashboard_selector
  "\<lambda>d. has_entity E PDashboard (Namespace d) (desired_dashboard d)" "\<lambda>req. removed_from E (dashboard_entities req)"
  for E :: env
proof
qed (rule dashboard_unknown_vanished dashboard_all_delivers dashboard_delete_removes stays_removed stays_has_entity; assumption)+

section \<open>Datasources\<close>

interpretation sup: status_update E DatasourceKind "\<lambda>h. getDatasource E h APIReader" req
  "\<lambda>d. Datasource_Conditions (Datasource_Status d)" KDatasource "datasource_status_try E req" "updateDatasourceStatus E (Some d) req"
  for E :: env and req :: namespaced_name and d :: persesdatasource
  by unfold_locales (simp_all add: datasource_status_try_def updateDatasourceStatus_def Let_def cong: sum.case_cong)

text \<open>What is removed from every instance when a datasource is gone.\<close>

definition datasource_entities :: "namespaced_name \<Rightarrow> (pkind \<times> string \<times> string) list" where
  "datasource_entities req =
     [(PDatasource, NN_Namespace req, NN_Name req), (PSecret, NN_Namespace req, NN_Name req @ SecretNameSuffix)]"

lemma deleteDatasource_removes:
  assumes "factory_ok E w"
  shows "wp (deleteDatasource E (NN_Namespace req) (NN_Name req) p) (\<lambda>r w'. factory_ok E w' \<and> suffix (calls w) (calls w') \<and>
    (snd r = None \<longrightarrow> removed_from E (datasource_entities req) p (calls w'))) w"
  unfolding deleteDatasource_def datasource_delete_with_def
  by (rule wp_client_removal [OF assms])
    (auto simp: wp_simps go_def datasource_entities_def intro: suffix_ConsI split: option.splits)

interpretation srm: instance_removal "deleteDatasource E (NN_Namespace req) (NN_Name req)" "child_delete_call {PDatasource, PSecret}" E
  "removed_from E (datasource_entities req)"
  for E :: env and req :: namespaced_name
  by unfold_locales (auto intro: deleteDatasource_removes stays_removed)

lemma datasource_unknown_vanished:
  assumes "retry_law E"
  shows "wp (datasource_setStatusToUnknown E (Some d) req) (\<lambda>r w'. w_factory w' = w_factory w \<and>
      (\<exists>cs. calls w' = cs @ calls w \<and> (r \<noteq> ContinueReconciling \<longrightarrow> snd r = None \<longrightarrow>
         vanished (\<lambda>h. getDatasource E h APIReader) E DatasourceKind req cs (calls w)))) w"
  unfolding datasource_setStatusToUnknown_def
  by (rule sup.update_vanished [OF assms]) (auto simp: datasource_SetCondition_def intro!: along_intros)

lemma datasource_all_delivers:
  assumes "retry_law E" and "factory_ok E w"
  shows "wp (reconcileDatasourcesInAllInstances E (Some d) req) (\<lambda>r w'. suffix (calls w) (calls w') \<and>
      synchronised E (has_entity E PDatasource (Namespace d) (desired_datasource d))
        (listPerses E (calls w) (BySelector (datasource_selector d))) r (calls w')) w"
  by (rule wp_grown [OF emits_datasource_all [OF assms(1)]])
    (use assms(2) in \<open>auto simp: reconcileDatasourcesInAllInstances_def datasource_selector_def wp_simps
      intro!: slist.listed_delivers split: option.splits sum.splits\<close>)

lemmas datasource_delete_removes = srm.all_instances_removed [folded deleteDatasourceInAllInstances_def]

interpretation sdc: delivering_controller E DatasourceKind "''persesdatasource''" "''datasource''"
  "''Datasource reconciled successfully''" NN_Namespace "\<lambda>h. getDatasource E h APIReader"
  "\<lambda>d. datasource_setStatusToUnknown E (Some d)" "\<lambda>d. reconcileDatasourcesInAllInstances E (Some d)"
  "\<lambda>d. datasource_setStatusToComplete E (Some d)"
  "\<lambda>req. deleteDatasourceInAllInstances E (NN_Namespace req) (NN_Name req)" "datasource_Reconcile E" datasource_selector
  "\<lambda>d. has_entity E PDatasource (Namespace d) (desired_datasource d)" "\<lambda>req. removed_from E (datasource_entities req)"
  for E :: env
proof
qed (rule datasource_unknown_vanished datasource_all_delivers datasource_delete_removes stays_removed stays_has_entity; assumption)+

section \<open>Global datasources\<close>

interpretation gup: status_update E GlobalDatasourceKind "\<lambda>h. getGlobalDatasource E h APIReader" req
  "\<lambda>d. GlobalDatasource_Conditions (GlobalDatasource_Status d)" KGlobalDatasource "globaldatasource_status_try E req" "updateGlobalDatasourceStatus E (Some d) req"
  for E :: env and req :: namespaced_name and d :: persesglobaldatasource
  by unfold_locales (simp_all add: globaldatasource_status_try_def updateGlobalDatasourceStatus_def Let_def cong: sum.case_cong)

text \<open>What is removed from every instance when a global datasource is gone.\<close>

definition globaldatasource_entities :: "namespaced_name \<Rightarrow> (pkind \<times> string \<times> string) list" where
  "globaldatasource_entities req =
     [(PGlobalDatasource, [], NN_Name req), (PGlobalSecret, [], NN_Name req @ SecretNameSuffix)]"

lemma deleteGlobalDatasource_removes:
  assumes "factory_ok E w"
  shows "wp (deleteGlobalDatasource E (NN_Name req) p) (\<lambda>r w'. factory_ok E w' \<and> suffix (calls w) (calls w') \<and>
    (snd r = None \<longrightarrow> removed_from E (globaldatasource_entities req) p (calls w'))) w"
  unfolding deleteGlobalDatasource_def globaldatasource_delete_with_def
  by (rule wp_client_removal [OF assms])
    (auto simp: wp_simps go_def globaldatasource_entities_def intro: suffix_ConsI split: option.splits)

interpretation grm: instance_removal "deleteGlobalDatasource E (NN_Name req)" "child_delete_call {PGlobalDatasource, PGlobalSecret}" E
  "removed_from E (globaldatasource_entities req)"
  for E :: env and req :: namespaced_name
  by unfold_locales (auto intro: deleteGlobalDatasource_removes stays_removed)

lemma globaldatasource_unknown_vanished:
  assumes "retry_law E"
  shows "wp (globaldatasource_setStatusToUnknown E (Some d) req) (\<lambda>r w'. w_factory w' = w_factory w \<and>
      (\<exists>cs. calls w' = cs @ calls w \<and> (r \<noteq> ContinueReconciling \<longrightarrow> snd r = None \<longrightarrow>
         vanished (\<lambda>h. getGlobalDatasource E h APIReader) E GlobalDatasourceKind req cs (calls w)))) w"
  unfolding globaldatasource_setStatusToUnknown_def
  by (rule gup.update_vanished [OF assms]) (auto simp: globaldatasource_SetCondition_def intro!: along_intros)

lemma globaldatasource_all_delivers:
  assumes "retry_law E" and "factory_ok E w"
  shows "wp (reconcileGlobalDatasourcesInAllInstances E (Some d) req) (\<lambda>r w'. suffix (calls w) (calls w') \<and>
      synchronised E (has_entity E PGlobalDatasource [] (desired_globaldatasource d))
        (listPerses E (calls w) (BySelector (globaldatasource_selector d))) r (calls w')) w"
  by (rule wp_grown [OF emits_globaldatasource_all [OF assms(1)]])
    (use assms(2) in \<open>auto simp: reconcileGlobalDatasourcesInAllInstances_def globaldatasource_selector_def wp_simps
      intro!: glist.listed_delivers split: option.splits sum.splits\<close>)

lemmas globaldatasource_delete_removes = grm.all_instances_removed [folded deleteGlobalDatasourceInAllInstances_def]

interpretation gdc: delivering_controller E GlobalDatasourceKind "''persesglobaldatasource''" "''globaldatasource''"
  "''GlobalDatasource reconciled successfully''" "\<lambda>_. []" "\<lambda>h. getGlobalDatasource E h APIReader"
  "\<lambda>d. globaldatasource_setStatusToUnknown E (Some d)" "\<lambda>d. reconcileGlobalDatasourcesInAllInstances E (Some d)"
  "\<lambda>d. globaldatasource_setStatusToComplete E (Some d)"
  "\<lambda>req. deleteGlobalDatasourceInAllInstances E (NN_Name req)" "globaldatasource_Reconcile E" globaldatasource_selector
  "\<lambda>d. has_entity E PGlobalDatasource [] (desired_globaldatasource d)" "\<lambda>req. removed_from E (globaldatasource_entities req)"
  for E :: env
proof
qed (rule globaldatasource_unknown_vanished globaldatasource_all_delivers globaldatasource_delete_removes stays_removed stays_has_entity; assumption)+
section \<open>Histories\<close>

text \<open>The promise of a request for a dashboard or datasource, by its kind.\<close>

definition dashboard_settled :: "env \<Rightarrow> namespaced_name \<Rightarrow> call list \<Rightarrow> call list \<Rightarrow> bool" where
  "dashboard_settled E = settled E (\<lambda>h. getDashboard E h APIReader) DashboardKind dashboard_selector
     (\<lambda>d. has_entity E PDashboard (Namespace d) (desired_dashboard d)) (\<lambda>req. removed_from E (dashboard_entities req))"

definition datasource_settled :: "env \<Rightarrow> namespaced_name \<Rightarrow> call list \<Rightarrow> call list \<Rightarrow> bool" where
  "datasource_settled E = settled E (\<lambda>h. getDatasource E h APIReader) DatasourceKind datasource_selector
     (\<lambda>d. has_entity E PDatasource (Namespace d) (desired_datasource d)) (\<lambda>req. removed_from E (datasource_entities req))"

definition globaldatasource_settled :: "env \<Rightarrow> namespaced_name \<Rightarrow> call list \<Rightarrow> call list \<Rightarrow> bool" where
  "globaldatasource_settled E = settled E (\<lambda>h. getGlobalDatasource E h APIReader) GlobalDatasourceKind globaldatasource_selector
     (\<lambda>d. has_entity E PGlobalDatasource [] (desired_globaldatasource d)) (\<lambda>req. removed_from E (globaldatasource_entities req))"

lemmas settled_defs = dashboard_settled_def datasource_settled_def globaldatasource_settled_def

lemma child_settles:
  assumes "retry_law E" and "factory_ok E w"
  shows "wp (dashboard_Reconcile E req) (\<lambda>r w'. suffix (calls w) (calls w') \<and>
      (r = Some (Result_zero, None) \<longrightarrow> dashboard_settled E req (calls w) (calls w'))) w"
    and "wp (datasource_Reconcile E req) (\<lambda>r w'. suffix (calls w) (calls w') \<and>
      (r = Some (Result_zero, None) \<longrightarrow> datasource_settled E req (calls w) (calls w'))) w"
    and "wp (globaldatasource_Reconcile E req) (\<lambda>r w'. suffix (calls w) (calls w') \<and>
      (r = Some (Result_zero, None) \<longrightarrow> globaldatasource_settled E req (calls w) (calls w'))) w"
  unfolding settled_defs
  by (rule ddc.Reconcile_settles [OF assms] sdc.Reconcile_settles [OF assms] gdc.Reconcile_settles [OF assms])+
text \<open>
  The promise of any request. Of a Perses object the absence of an error promises nothing by itself, since
  several of its sub-reconcilers stop without one; what its status promises is the subject of theory \<open>Completion\<close>.
\<close>

fun fulfilled :: "env \<Rightarrow> request \<Rightarrow> call list \<Rightarrow> call list \<Rightarrow> bool" where
  "fulfilled E (ReconcilePerses req) h h' = True"
| "fulfilled E (ReconcileDashboard req) h h' = dashboard_settled E req h h'"
| "fulfilled E (ReconcileDatasource req) h h' = datasource_settled E req h h'"
| "fulfilled E (ReconcileGlobalDatasource req) h h' = globaldatasource_settled E req h h'"

lemma fulfilled_mono: "fulfilled E rq h0 h1 \<Longrightarrow> suffix h h0 \<Longrightarrow> suffix h1 h' \<Longrightarrow> fulfilled E rq h h'"
  by (cases rq) (auto simp: settled_defs elim!: settled_mono [OF stays_has_entity stays_removed])

definition longer :: "world \<Rightarrow> world \<Rightarrow> bool" where
  "longer w w' \<longleftrightarrow> suffix (calls w) (calls w')"

interpretation lo: frame longer
  by unfold_locales (auto simp: longer_def)

lemma longer_call: "longer w (w\<lparr>calls := c # calls w\<rparr>)" "longer w (w\<lparr>ctx_perses := p\<rparr>)"
  by (simp_all add: longer_def suffix_ConsI)

interpretation lop: perses_frame longer E for E :: env
  by unfold_locales (auto simp: longer_def intro: suffix_ConsI)

context owned_object
begin

lemma reconcile_longer: "along longer reconcile"
  unfolding along_def longer_def
  by (auto simp: reconcile_eq protocol wp_simps intro: suffix_ConsI split: option.splits sum.splits)

end

lemma perses_Reconcile_longer:
  assumes "retry_law E"
  shows "along longer (perses_Reconcile E cfg invalidator req)"
proof -
  have steps: "along longer f" if "f \<in> set (perses_subreconcilers E cfg req)" for f
    using that unfolding perses_subreconcilers_def
    by (auto intro: lop.perses_steps_R [OF assms] svc.reconcile_longer cm.reconcile_longer dep.reconcile_longer sts.reconcile_longer)
  have tables: "along longer (track_outcome controller res ns msg k err)" "along longer (if_metrics cs f)" "along longer (if_tracker g)"
    "along longer (set_ctx p)" for controller res ns msg k err cs f g p
    unfolding track_outcome_def if_tracker_def if_metrics_def set_ctx_def
    by (auto simp: longer_def suffix_def intro!: along_intros split: option.splits)
  have "along longer (ForgetInstance k)" for k
    using emits_ForgetInstance by (rule along_mono) (auto simp: longer_def dest: only_adds_suffix)
  then show ?thesis
    unfolding perses_Reconcile_def Let_def
    by (auto intro!: along_intros tables along_chain [OF lo.frame_axioms steps] longer_call)
qed

lemma handle_fulfils:
  assumes "retry_law E" and "factory_ok E w"
  shows "wp (handle E cfg rq) (\<lambda>r w'. factory_ok E w' \<and> suffix (calls w) (calls w') \<and>
     (r = Some (Result_zero, None) \<longrightarrow> fulfilled E rq (calls w) (calls w'))) w"
proof -
  have "wp (handle E cfg rq) (\<lambda>r w'. suffix (calls w) (calls w') \<and>
     (r = Some (Result_zero, None) \<longrightarrow> fulfilled E rq (calls w) (calls w'))) w"
  proof (cases rq)
    case (ReconcilePerses req)
    then show ?thesis using alongD [OF perses_Reconcile_longer [OF assms(1)]] by (simp add: longer_def [abs_def])
  qed (simp_all add: child_settles [OF assms])
  then have "wp (handle E cfg rq) (\<lambda>r w'. keeps_factory E w w' \<and> suffix (calls w) (calls w') \<and>
     (r = Some (Result_zero, None) \<longrightarrow> fulfilled E rq (calls w) (calls w'))) w"
    using alongD [OF handle_keeps_factory [OF assms(1)]] by (simp add: wp_conj)
  then show ?thesis by (rule wp_mono) (use assms(2) in \<open>auto simp: keeps_factory_def\<close>)
qed

lemma operate_fulfils:
  assumes "retry_law E" and "factory_ok E w"
  shows "wp (operate E cfg rqs) (\<lambda>rs w'. suffix (calls w) (calls w') \<and>
     list_all2 (\<lambda>rq r. r = Some (Result_zero, None) \<longrightarrow> fulfilled E rq (calls w) (calls w')) rqs rs) w"
  using assms(2)
proof (induction rqs arbitrary: w)
  case Nil
  then show ?case by (simp add: wp_simps)
next
  case (Cons rq rqs)
  show ?case
    unfolding operate.simps wp_bind wp_return
  proof (rule wp_mono [OF handle_fulfils [OF assms(1) Cons.prems]])
    fix r :: reconcile_result and w1
    assume r: "factory_ok E w1 \<and> suffix (calls w) (calls w1) \<and> (r = Some (Result_zero, None) \<longrightarrow> fulfilled E rq (calls w) (calls w1))"
    then have "factory_ok E w1" by blast
    from Cons.IH [OF this]
    show "wp (operate E cfg rqs) (\<lambda>rs w'. suffix (calls w) (calls w') \<and>
      list_all2 (\<lambda>rq r. r = Some (Result_zero, None) \<longrightarrow> fulfilled E rq (calls w) (calls w')) (rq # rqs) (r # rs)) w1"
      by (rule wp_mono) (use r in \<open>auto elim: list_all2_mono fulfilled_mono suffix_order.trans\<close>)
  qed
qed

section \<open>Properties\<close>

text \<open>
  C2: what is reconciled without an error is delivered. After any requests to any of the four controllers, for every
  request for a dashboard, datasource or global datasource whose \<open>Reconcile\<close> returned no error: if the object
  was gone, then all Perses instances were listed and each has answered that the entity (and the secret of a
  datasource) is deleted or not there; if it was there, then it vanished from Kubernetes meanwhile, or its selector
  found instances and each of them that is available has the desired entity. All this is through clients built for
  the instance and its configuration.
\<close>

theorem operator_delivers:
  assumes "retry_law E"
  shows "wp (operate E cfg rqs) (\<lambda>rs w'.
     list_all2 (\<lambda>rq r. r = Some (Result_zero, None) \<longrightarrow> fulfilled E rq [] (calls w')) rqs rs) operator_start"
proof -
  have "factory_ok E operator_start" "calls operator_start = []"
    using operator_start_ok [of E] by (simp_all add: operator_ok_def operator_start_def)
  with operate_fulfils [OF assms this(1), of cfg rqs] show ?thesis by (auto elim!: wp_mono)
qed

lemma list_all2_fires: "list_all2 (\<lambda>x r. P r \<longrightarrow> Q x) xs rs \<Longrightarrow> list_all P rs \<Longrightarrow> list_all Q xs"
  by (induction xs rs rule: list_all2_induct) auto

text \<open>
  C15: an instance that comes up gets everything. When an instance becomes available, each of the three child
  controllers asks for the reconciliation of every object in the list of its kind; if then these requests are
  reconciled, each without an error, then each of these objects has been delivered, as by its selector, since
  the event.
\<close>

theorem availability_reaches_all:
  assumes "retry_law E" and "factory_ok E w"
  shows "list_all (\<lambda>(wake, kind, request, settled_by).
     wp (do { reqs \<leftarrow> wake; rs \<leftarrow> operate E cfg (map request reqs); State_Monad.return (reqs, rs) })
       (\<lambda>(reqs, rs) w'. reqs = (case listMeta E (calls w) kind of Inl _ \<Rightarrow> [] | Inr items \<Rightarrow> map meta_key items) \<and>
          (list_all (\<lambda>r. r = Some (Result_zero, None)) rs \<longrightarrow>
             list_all (\<lambda>req. settled_by req (calls w) (calls w')) reqs)) w)
     [(findDashboardsForPerses E, DashboardKind, ReconcileDashboard, dashboard_settled E),
      (findDatasourcesForPerses E, DatasourceKind, ReconcileDatasource, datasource_settled E),
      (findGlobalDatasourcesForPerses E, GlobalDatasourceKind, ReconcileGlobalDatasource, globaldatasource_settled E)]"
proof -
  have each: "wp (do { reqs \<leftarrow> MetadataListToRequests E k; rs \<leftarrow> operate E cfg (map f reqs); State_Monad.return (reqs, rs) })
       (\<lambda>(reqs, rs) w'. reqs = (case listMeta E (calls w) k of Inl _ \<Rightarrow> [] | Inr items \<Rightarrow> map meta_key items) \<and>
          (list_all (\<lambda>r. r = Some (Result_zero, None)) rs \<longrightarrow> list_all (\<lambda>req. fulfilled E (f req) (calls w) (calls w')) reqs)) w"
    for k f
  proof -
    let ?reqs = "case listMeta E (calls w) k of Inl _ \<Rightarrow> [] | Inr items \<Rightarrow> map meta_key items"
    let ?w = "w\<lparr>calls := KListMeta k # calls w\<rparr>"
    have run: "wp (MetadataListToRequests E k) Q w = Q ?reqs ?w" for Q
      by (simp add: MetadataListToRequests_def wp_simps meta_key_def [abs_def] split: sum.splits)
    have f: "factory_ok E ?w" using assms(2) by simp
    have "list_all (\<lambda>req. fulfilled E (f req) (calls w) h') ?reqs"
      if "list_all2 (\<lambda>rq r. P r \<longrightarrow> fulfilled E rq (calls ?w) h') (map f ?reqs) rs" and "list_all P rs"
      for rs :: "reconcile_result list" and P h'
    proof -
      have "list_all (\<lambda>req. fulfilled E (f req) (calls ?w) h') ?reqs"
        using that(1) [unfolded list_all2_map1] that(2) by (rule list_all2_fires)
      then show ?thesis
        by (rule list.pred_mono_strong) (erule fulfilled_mono, simp_all add: suffix_ConsI)
    qed
    note delivered = this
    show ?thesis
      unfolding wp_bind run wp_return
      by (rule wp_mono [OF operate_fulfils [OF assms(1) f]], unfold prod.case)
        (intro conjI refl impI, rule delivered, erule conjunct2)
  qed
  show ?thesis
    using each [of DashboardKind ReconcileDashboard] each [of DatasourceKind ReconcileDatasource]
      each [of GlobalDatasourceKind ReconcileGlobalDatasource]
    by (simp add: findDashboardsForPerses_def findDatasourcesForPerses_def findGlobalDatasourcesForPerses_def)
qed

end
