(* ===== verification/Completion.thy ===== *)
theory Completion
  imports Delivery
begin

text \<open>
  What the status of a Perses object promises. Its reconciliation may end early with no error (in the first
  reconciliation of an object, after the creation of a StatefulSet, or when the object vanishes), and then leaves
  the status alone; when it gets to \<open>setStatusToComplete\<close>, everything that the object calls for is in place.
\<close>

section \<open>How far a chain gets\<close>

text \<open>The world in which the chain of sub-reconcilers comes to its end, if none of them stops it.\<close>

fun reached :: "(sub_result go) list \<Rightarrow> world \<Rightarrow> world option" where
  "reached [] w = Some w"
| "reached (f # fs) w =
     (case run_state f w of ((r, err), w') \<Rightarrow> if ShouldHaltOrRequeue r err then None else reached fs w')"

lemma reached_append:
  "reached (fs @ gs) w = (case reached fs w of None \<Rightarrow> None | Some w' \<Rightarrow> reached gs w')"
  by (induction fs arbitrary: w) (auto split: prod.splits)

lemma reached_appendE:
  assumes "reached (fs @ gs) w = Some w1"
  obtains w' where "reached fs w = Some w'" and "reached gs w' = Some w1"
  using assms by (auto simp: reached_append split: option.splits)

lemma wp_run_reached:
  "wp (run_subreconcilers (fs @ gs)) Q w =
     (case reached fs w of None \<Rightarrow> wp (run_subreconcilers fs) Q w | Some w' \<Rightarrow> wp (run_subreconcilers gs) Q w')"
proof (induction fs arbitrary: w)
  case (Cons f fs)
  obtain r err w' where run: "run_state f w = ((r, err), w')" by (metis surj_pair)
  show ?case
    by (cases "reached fs w'") (simp_all add: wp_run_subreconcilers_Cons wp_run [OF run] run Cons.IH)
qed simp

lemma reached_Cons:
  assumes "reached (f # fs) w = Some w1"
  obtains w' where "run_state f w = (ContinueReconciling, w')" and "reached fs w' = Some w1"
proof -
  obtain r err w' where run: "run_state f w = ((r, err), w')" by (metis surj_pair)
  with assms have "r = None" "err = None" "reached fs w' = Some w1" by (auto split: if_splits)
  with run that show thesis by (simp add: go_def)
qed

section \<open>Objects in place\<close>

text \<open>
  The log says that an object is in place as it was defined: its creation was accepted; or it was there under its key,
  the dry run of the update was accepted, and what the dry run returned either does not differ from it or was
  accepted as an update.
\<close>

definition in_place :: "env \<Rightarrow> kind \<Rightarrow> ('o \<Rightarrow> kobj) \<Rightarrow> namespaced_name \<Rightarrow> (call list \<Rightarrow> namespaced_name \<Rightarrow> error + 'o) \<Rightarrow>
    (call list \<Rightarrow> 'o \<Rightarrow> 'o) \<Rightarrow> ('o \<Rightarrow> 'o \<Rightarrow> bool) \<Rightarrow> 'o \<Rightarrow> call list \<Rightarrow> bool" where
  "in_place E K wrap key get dry differs ob h \<longleftrightarrow>
     accepted E (KCreate (wrap ob)) h \<or>
     (\<exists>h' existing. suffix h' h \<and> get h' key = Inr existing \<and>
        respond E (KGet Cached K key # h') (KUpdate True (wrap ob)) = None \<and>
        (\<not> differs existing (dry (KGet Cached K key # h') ob) \<or>
         accepted E (KUpdate False (wrap (dry (KGet Cached K key # h') ob))) h))"

lemma in_place_there:
  assumes "suffix h' h" and "get h' key = Inr existing"
    and "respond E (KGet Cached K key # h') (KUpdate True (wrap ob)) = None"
    and "\<not> differs existing (dry (KGet Cached K key # h') ob) \<or>
      accepted E (KUpdate False (wrap (dry (KGet Cached K key # h') ob))) h"
  shows "in_place E K wrap key get dry differs ob h"
  using assms unfolding in_place_def by blast

lemma accepted_suffix: "accepted E v h \<Longrightarrow> suffix h h' \<Longrightarrow> accepted E v h'"
  by (auto simp: suffix_def accepted_append)

lemma in_place_mono:
  "in_place E K wrap key get dry differs ob h \<Longrightarrow> suffix h h' \<Longrightarrow> in_place E K wrap key get dry differs ob h'"
  unfolding in_place_def by (meson accepted_suffix suffix_order.trans)

text \<open>The object of one kind that the Perses object in the context calls for is in place, as it was defined for that object.\<close>

definition built :: "env \<Rightarrow> kind \<Rightarrow> ('o \<Rightarrow> kobj) \<Rightarrow> (perses \<Rightarrow> namespaced_name) \<Rightarrow> (call list \<Rightarrow> namespaced_name \<Rightarrow> error + 'o) \<Rightarrow>
    (call list \<Rightarrow> 'o \<Rightarrow> 'o) \<Rightarrow> (perses \<Rightarrow> 'o \<Rightarrow> 'o \<Rightarrow> bool) \<Rightarrow> (perses \<Rightarrow> perses \<times> (error + 'o)) \<Rightarrow> world \<Rightarrow> bool" where
  "built E K wrap key get dry differs create w \<longleftrightarrow>
     (\<exists>p q ob. ctx_perses w = Some p \<and> same_but_annotations q p \<and> snd (create q) = Inr ob \<and>
        in_place E K wrap (key q) get dry (differs (fst (create q))) ob (calls w))"

lemma built_later:
  assumes "built E K wrap key get dry differs create w" and "keeps_object w w'" and "longer w w'"
  shows "built E K wrap key get dry differs create w'"
  using assms same_but_annotations_trans unfolding built_def keeps_object_def longer_def by (metis in_place_mono)

context owned_object
begin

lemma reconcile_in_place:
  assumes "ctx_perses w = Some p" and "wanted p"
  shows "wp reconcile (\<lambda>r w'. r = ContinueReconciling \<longrightarrow>
     (\<exists>ob. snd (create p) = Inr ob \<and> in_place E K wrap (key p) get dry (differs (fst (create p))) ob (calls w'))) w"
proof (cases "get (calls w) (key p)")
  case (Inl err)
  with assms created_ok show ?thesis
    by (cases "snd (create p)") (auto simp: reconcile_eq protocol wp_simps go_def in_place_def split: option.splits)
next
  case (Inr existing)
  then show ?thesis
    using assms
    by (cases "snd (create p)")
      (auto simp: reconcile_eq protocol wp_simps go_def suffix_ConsI intro!: in_place_there [of "calls w"] split: option.splits)
qed

lemma reconcile_no_object: "ctx_perses w = None \<Longrightarrow> wp reconcile (\<lambda>r _. r \<noteq> ContinueReconciling) w"
  by (simp add: reconcile_eq protocol wp_simps not_in_context_def go_def)

text \<open>One step of the chain: the object in the context stays, and what it calls for is built.\<close>

lemma step_builds:
  assumes "run_state reconcile w = (ContinueReconciling, w')"
  shows "keeps_object w w'" and "longer w w'"
    and "\<exists>p. ctx_perses w = Some p \<and> (wanted p \<longrightarrow> built E K wrap key get dry differs create w')"
proof -
  show kept: "keeps_object w w'" using alongD [OF reconcile_object, of w] by (simp add: wp_run [OF assms])
  show "longer w w'" using alongD [OF reconcile_longer, of w] by (simp add: wp_run [OF assms])
  have "ctx_perses w \<noteq> None" using reconcile_no_object [of w] by (auto simp: wp_run [OF assms])
  then obtain p where p: "ctx_perses w = Some p" by blast
  with kept obtain q where "ctx_perses w' = Some q" "same_but_annotations p q" by (auto simp: keeps_object_def)
  then have "built E K wrap key get dry differs create w'" if "wanted p"
    using reconcile_in_place [OF p that] by (auto simp: wp_run [OF assms] built_def)
  with p show "\<exists>p. ctx_perses w = Some p \<and> (wanted p \<longrightarrow> built E K wrap key get dry differs create w')" by blast
qed

end

section \<open>The four kinds\<close>

definition service_built :: "env \<Rightarrow> world \<Rightarrow> bool" where
  "service_built E = built E ServiceKind KService (object_key service_name) (\<lambda>h. getService E h Cached) (dryRunService E)
     (\<lambda>p existing updated. serviceNeedsUpdate E existing updated (Name p) p) (\<lambda>p. createPersesService E (service_name p) p)"

definition configmap_built :: "env \<Rightarrow> world \<Rightarrow> bool" where
  "configmap_built E = built E ConfigMapKind KConfigMap (object_key (\<lambda>p. GetConfigName (Name p))) (\<lambda>h. getConfigMap E h Cached)
     (dryRunConfigMap E) (\<lambda>p existing updated. configMapNeedsUpdate E (Some existing) (Some updated) (GetConfigName (Name p)) p)
     (\<lambda>p. (p, createPersesConfigMap E p))"

definition deployment_built :: "env \<Rightarrow> config \<Rightarrow> world \<Rightarrow> bool" where
  "deployment_built E cfg = built E DeploymentKind KDeployment (object_key Name) (\<lambda>h. getDeployment E h Cached) (dryRunDeployment E)
     (\<lambda>p existing updated. \<not> DeepEqual_deployment_spec E (Deployment_Spec existing) (Deployment_Spec updated))
     (createPersesDeployment E cfg)"

definition statefulset_built :: "env \<Rightarrow> config \<Rightarrow> world \<Rightarrow> bool" where
  "statefulset_built E cfg = built E StatefulSetKind KStatefulSet (object_key Name) (\<lambda>h. getStatefulSet E h Cached) (dryRunStatefulSet E)
     (\<lambda>p existing updated. \<not> DeepEqual_statefulset_spec E (StatefulSet_Spec existing) (StatefulSet_Spec updated))
     (createPersesStatefulSet E cfg)"

lemmas built_defs = service_built_def configmap_built_def deployment_built_def statefulset_built_def
text \<open>
  Everything is in place for the Perses object in the context: its Service, its ConfigMap, and the workload
  that it requires.
\<close>

definition all_built :: "env \<Rightarrow> config \<Rightarrow> world \<Rightarrow> bool" where
  "all_built E cfg w \<longleftrightarrow> service_built E w \<and> configmap_built E w \<and>
     (\<exists>p. ctx_perses w = Some p \<and> (RequiresDeployment p \<longrightarrow> deployment_built E cfg w) \<and>
        (RequiresStatefulSet p \<longrightarrow> statefulset_built E cfg w))"

lemma objects_built:
  assumes "reached [reconcileService E, reconcileConfigMap E, reconcileDeployment E cfg, reconcileStatefulSet E cfg] w = Some w4"
  shows "all_built E cfg w4" and "keeps_object w w4"
proof -
  obtain w1 where s: "run_state (reconcileService E) w = (ContinueReconciling, w1)"
    and 1: "reached [reconcileConfigMap E, reconcileDeployment E cfg, reconcileStatefulSet E cfg] w1 = Some w4"
    using assms by (rule reached_Cons)
  obtain w2 where c: "run_state (reconcileConfigMap E) w1 = (ContinueReconciling, w2)"
    and 2: "reached [reconcileDeployment E cfg, reconcileStatefulSet E cfg] w2 = Some w4" using 1 by (rule reached_Cons)
  obtain w3 where d: "run_state (reconcileDeployment E cfg) w2 = (ContinueReconciling, w3)"
    and 3: "reached [reconcileStatefulSet E cfg] w3 = Some w4" using 2 by (rule reached_Cons)
  have t: "run_state (reconcileStatefulSet E cfg) w3 = (ContinueReconciling, w4)" using 3 by (rule reached_Cons) simp
  note keeps = ko.frame_trans and longer = lo.frame_trans
  have k3: "keeps_object w3 w4" "longer w3 w4" by (rule sts.step_builds [OF t])+
  have k2: "keeps_object w2 w4" "longer w2 w4"
    using dep.step_builds(1,2) [OF d] k3 by (blast intro: keeps longer)+
  have k1: "keeps_object w1 w4" "longer w1 w4"
    using cm.step_builds(1,2) [OF c] k2 by (blast intro: keeps longer)+
  obtain p where p: "ctx_perses w2 = Some p" "RequiresDeployment p \<longrightarrow> deployment_built E cfg w3"
    using dep.step_builds(3) [OF d] unfolding deployment_built_def by blast
  obtain q where q: "ctx_perses w3 = Some q" "RequiresStatefulSet q \<longrightarrow> statefulset_built E cfg w4"
    using sts.step_builds(3) [OF t] unfolding statefulset_built_def by blast
  obtain r where r: "ctx_perses w4 = Some r" "same_but_annotations p r" "same_but_annotations q r"
    using k2(1) k3(1) p(1) q(1) by (auto simp: keeps_object_def)
  show "keeps_object w w4" using svc.step_builds(1) [OF s] k1(1) by (rule keeps)
  have "service_built E w4"
    using svc.step_builds(3) [OF s] built_later [OF _ k1] unfolding service_built_def by blast
  moreover have "configmap_built E w4"
    using cm.step_builds(3) [OF c] built_later [OF _ k2] unfolding configmap_built_def by blast
  moreover have "deployment_built E cfg w4" if "RequiresDeployment p"
    using p(2) that built_later [OF _ k3] unfolding deployment_built_def by blast
  ultimately show "all_built E cfg w4"
    using q(2) r same_but_annotations_fields(6,7) [OF r(2)] same_but_annotations_fields(6,7) [OF r(3)]
    unfolding all_built_def by auto
qed

text \<open>
  C5: a complete instance is built. The last step of the chain, which sets the status to complete and available,
  is reached only in a world in which the Service, the ConfigMap and the workload that the Perses object requires are in
  place as they were defined for this object (created, or found with no difference to what a dry run of their update
  returned, or updated to it); and in which every mount of the object names one of its volumes. Otherwise the
  chain ends before this step, and the status is not set.
\<close>

theorem complete_means_built:
  assumes "retry_law E"
  shows "let steps = butlast (perses_subreconcilers E cfg req) in
    perses_subreconcilers E cfg req = steps @ [perses_setStatusToComplete E req] \<and>
    (case reached steps w of
       None \<Rightarrow> \<forall>Q. wp (run_subreconcilers (perses_subreconcilers E cfg req)) Q w = wp (run_subreconcilers steps) Q w
     | Some w1 \<Rightarrow> (\<forall>Q. wp (run_subreconcilers (perses_subreconcilers E cfg req)) Q w = wp (run_subreconcilers [perses_setStatusToComplete E req]) Q w1) \<and>
         all_built E cfg w1 \<and> ctx_valid w1)"
proof -
  let ?early = "[handleDelete E req, perses_setStatusToUnknown E req, removeFinalizer E req]"
  let ?objects = "[reconcileService E, reconcileConfigMap E, reconcileDeployment E cfg, reconcileStatefulSet E cfg]"
  let ?steps = "?early @ validateVolumes E req # reconcileProvisioning E req # ?objects"
  have split: "butlast (perses_subreconcilers E cfg req) = ?steps"
    "perses_subreconcilers E cfg req = ?steps @ [perses_setStatusToComplete E req]"
    by (simp_all add: perses_subreconcilers_def)
  have "all_built E cfg w1 \<and> ctx_valid w1" if reach: "reached ?steps w = Some w1" for w1
  proof -
    obtain wa where "reached ?early w = Some wa" and 1: "reached (validateVolumes E req # reconcileProvisioning E req # ?objects) wa = Some w1"
      using reach by (rule reached_appendE)
    obtain wb where v: "run_state (validateVolumes E req) wa = (ContinueReconciling, wb)"
      and 2: "reached (reconcileProvisioning E req # ?objects) wb = Some w1" using 1 by (rule reached_Cons)
    obtain wc where p: "run_state (reconcileProvisioning E req) wb = (ContinueReconciling, wc)"
      and 3: "reached ?objects wc = Some w1" using 2 by (rule reached_Cons)
    have "ctx_valid wb" using validateVolumes_valid [of E req wa] by (simp add: wp_run [OF v])
    moreover have "keeps_object wb wc"
      using alongD [OF kos.reconcileProvisioning_R [OF assms], of req wb] by (simp add: wp_run [OF p])
    ultimately show ?thesis using objects_built [OF 3] ctx_valid_kept by blast
  qed
  note ends = this
  show ?thesis
    unfolding Let_def split(1)
    by (cases "reached ?steps w") (simp_all only: split(2) wp_run_reached option.case simp_thms ends)
qed

end
