(* ===== verification/Reporting.thy ===== *)
theory Reporting
  imports Operator
begin

text \<open>
  What a reconciliation reports to Prometheus: the samples that the calls of the log stand for, with the
  labels by name, and the exact samples of every request (\<^verbatim>\<open>internal/metrics/metrics.go\<close> and the calls of the
  four controllers). The members of the vectors that the controllers report to come from the accessors of the
  metrics; an accessor that panics would be \<open>None\<close>, and the log would then have no value for it that the
  lemmas below could name.
\<close>

section \<open>Samples\<close>

text \<open>A member of a vector, counted once more, set to a value or removed; its labels are pairs of a name and a value.\<close>

datatype sample =
    Increment prom_metric "(string \<times> string) list"
  | SetTo prom_metric "(string \<times> string) list" int
  | Remove prom_metric "(string \<times> string) list"

definition named :: "prom_metric \<Rightarrow> string list \<Rightarrow> (string \<times> string) list" where
  "named v ls = zip (desc_labels (vec_desc v)) ls"

fun sample_of :: "call \<Rightarrow> sample option" where
  "sample_of (PromInc v ls) = Some (Increment v (named v ls))"
| "sample_of (PromSet v ls x) = Some (SetTo v (named v ls) x)"
| "sample_of (PromDelete v ls) = Some (Remove v (named v ls))"
| "sample_of _ = None"

text \<open>The samples of a log, which has its last call first, in the order in which they were reported.\<close>

definition telemetry :: "call list \<Rightarrow> sample list" where
  "telemetry cs = List.map_filter sample_of (rev cs)"

lemma telemetry_simps [simp]:
  "telemetry [] = []"
  "telemetry (c # cs) = telemetry cs @ (case sample_of c of None \<Rightarrow> [] | Some s \<Rightarrow> [s])"
  "telemetry (cs @ cs') = telemetry cs' @ telemetry cs"
  by (simp_all add: telemetry_def map_filter_def split: option.splits)

lemma silent_telemetry: "list_all silent cs \<Longrightarrow> telemetry cs = [] \<and> list_all labelled cs"
proof (induction cs)
  case (Cons c cs)
  then show ?case by (cases c) simp_all
qed simp

text \<open>From one state to the next: the samples that were reported, every call with one value for each label.\<close>

definition reports :: "sample list \<Rightarrow> world \<Rightarrow> world \<Rightarrow> bool" where
  "reports ss w w' \<longleftrightarrow> (\<exists>cs. calls w' = cs @ calls w \<and> telemetry cs = ss \<and> list_all labelled cs)"

lemma reports_trans: "reports ss w w1 \<Longrightarrow> reports ss' w1 w' \<Longrightarrow> reports (ss @ ss') w w'"
  unfolding reports_def by (elim exE, rule_tac x = "csa @ cs" in exI) simp

lemma reports_silent: "tells silent w w' \<Longrightarrow> reports [] w w'"
  by (auto simp: tells_def reports_def dest: silent_telemetry)

lemma reports_only_adds: "only_adds silent w w' \<Longrightarrow> reports [] w w'"
  by (rule reports_silent) (rule only_adds_tells)

lemma reports_quiet: "only_adds silent w1 w' \<Longrightarrow> reports ss w w1 \<Longrightarrow> reports ss w w'"
  using reports_trans [OF _ reports_only_adds, of ss w w1 w'] by simp

lemma emits_tells: "emits silent m \<Longrightarrow> along (tells silent) m"
  by (erule along_mono) (rule only_adds_tells)

text \<open>Only where there are metrics anything is reported.\<close>

definition reported_samples :: "world \<Rightarrow> sample list \<Rightarrow> sample list" where
  "reported_samples w ss = (if w_metrics w = None then [] else ss)"

definition error_samples :: "string \<Rightarrow> error option \<Rightarrow> sample list" where
  "error_samples controller err =
     (case err of None \<Rightarrow> []
      | Some e \<Rightarrow> [Increment ReconcileErrors
          [(''controller'', controller), (''reason'', ExtractReason (Some e) ''reconciliation_failed'')]])"

lemma reported_samples_same: "same_tables w w' \<Longrightarrow> reported_samples w' ss = reported_samples w ss"
  by (simp add: reported_samples_def same_tables_def)

lemma reported_samples_simps [simp]:
  "reported_samples w [] = []" "reported_samples (w\<lparr>calls := cs\<rparr>) ss = reported_samples w ss"
  "reported_samples (w\<lparr>ctx_perses := p\<rparr>) ss = reported_samples w ss"
  by (simp_all add: reported_samples_def)

lemmas labels_named = named_def members Metrics_DeletePersesInstance_def

lemma track_reports:
  "wp (track_outcome controller res ns msg k err) (\<lambda>_. reports (reported_samples w (error_samples controller err)) w) w"
  unfolding track_outcome_def if_tracker_def if_metrics_def
  by (auto simp: wp_simps reports_def reported_samples_def error_samples_def labels_named split: option.splits)

lemma forget_reports: "wp (forget_object k) (\<lambda>_ w'. reports [] w w') w"
  by (simp add: forget_object_def if_tracker_def if_metrics_def wp_simps reports_def split: option.splits)

section \<open>The tail of a reconciliation\<close>

lemma wp_reconcile_tail_reports:
  assumes "\<And>f. f \<in> set fs \<Longrightarrow> along same_tables f" and "\<And>f. f \<in> set fs \<Longrightarrow> along (tells silent) f"
  shows "wp (do {
      err \<leftarrow> run_subreconcilers fs;
      _ \<leftarrow> track_outcome controller resource namespace msg k err;
      State_Monad.return (case err of
          Some e \<Rightarrow> Evaluate (RequeueWithError (Some e)) | None \<Rightarrow> Evaluate DoNotRequeue)
    }) (\<lambda>r w'. \<exists>err. r = Some (Result_zero, err) \<and> reports (reported_samples w (error_samples controller err)) w w') w"
proof -
  have chain: "wp (run_subreconcilers fs) (\<lambda>_ w'. same_tables w w' \<and> tells silent w w') w"
    unfolding wp_conj
    using alongD [OF along_chain [OF st.frame_axioms assms(1)]] alongD [OF along_chain [OF tl.frame_axioms assms(2)]] by blast
  have tail: "wp (track_outcome controller resource namespace msg k err)
      (\<lambda>_ w''. \<exists>err'. (case err of Some e \<Rightarrow> Evaluate (RequeueWithError (Some e)) | None \<Rightarrow> Evaluate DoNotRequeue) =
        Some (Result_zero, err') \<and> reports (reported_samples w (error_samples controller err')) w w'') w'"
    if "same_tables w w' \<and> tells silent w w'" for err w'
    using that reports_trans [OF reports_silent, of w w']
    by (intro wp_mono [OF track_reports]) (auto simp: reported_samples_same split: option.splits)
  show ?thesis
    unfolding wp_bind wp_return by (rule wp_mono [OF chain tail])
qed

text \<open>What a controller reports about an object whose look-up ended in that way.\<close>

fun about_instance :: "request \<Rightarrow> env \<Rightarrow> world \<Rightarrow> sample list" where
  "about_instance (ReconcilePerses req) E w =
     (case getPerses E (started ''perses'' w) Cached req of
        Inr p \<Rightarrow> if DeletionTimestamp p = None
                 then [SetTo PersesInstances [(''resource_namespace'', Namespace p), (''resource_name'', Name p)] 1] else []
      | Inl e \<Rightarrow> if IsNotFound E e
                 then [Remove PersesInstances [(''resource_namespace'', NN_Namespace req), (''resource_name'', NN_Name req)]] else [])"
| "about_instance _ E w = []"

fun controller_of :: "request \<Rightarrow> string" where
  "controller_of (ReconcilePerses req) = ''perses''"
| "controller_of (ReconcileDashboard req) = ''persesdashboard''"
| "controller_of (ReconcileDatasource req) = ''persesdatasource''"
| "controller_of (ReconcileGlobalDatasource req) = ''persesglobaldatasource''"

definition about_error :: "env \<Rightarrow> request \<Rightarrow> world \<Rightarrow> error option \<Rightarrow> sample list" where
  "about_error E rq w err =
     (case read_error E rq w of
        None \<Rightarrow> error_samples (controller_of rq) err
      | Some e \<Rightarrow> if IsNotFound E e then []
                  else [Increment ReconcileErrors [(''controller'', controller_of rq), (''reason'', ''get_failed'')]])"

definition operation :: "string \<Rightarrow> sample" where
  "operation controller = Increment ReconcileOperations [(''controller'', controller)]"

text \<open>The state in which the object has been read, one call for the read and the counted operation.\<close>

lemma reports_started:
  assumes "reports (reported_samples w ss) (w\<lparr>calls := KGet rd k req # started controller w\<rparr>) w'"
  shows "reports (reported_samples w (operation controller # ss)) w w'"
proof -
  have "reports (reported_samples w [operation controller]) w (w\<lparr>calls := KGet rd k req # started controller w\<rparr>)"
    by (auto simp: reports_def started_def reported_samples_def operation_def labels_named split: option.splits)
  from reports_trans [OF this assms] show ?thesis by (simp add: reported_samples_def split: if_splits)
qed

context child_controller
begin

lemma Reconcile_reports:
  assumes "retry_law E"
  shows "wp (Reconcile req) (\<lambda>r w'. \<exists>err. r = Some (Result_zero, err) \<and>
     reports (reported_samples w (operation controller # (case get (started controller w) req of
       Inr ob \<Rightarrow> error_samples controller err
     | Inl e \<Rightarrow> if IsNotFound E e then []
               else [Increment ReconcileErrors [(''controller'', controller), (''reason'', ''get_failed'')]]))) w w') w"
proof (cases "get (started controller w) req")
  case (Inr ob)
  have "along same_tables f" "along (tells silent) f" if "f \<in> set [unknown ob req, all ob req, complete ob req]" for f
    using that emits_same_tables [OF all_calls [OF assms]] emits_same_tables [OF unknown_calls [OF assms]]
      emits_same_tables [OF complete_calls [OF assms]] emits_tells [OF all_calls [OF assms]]
      emits_tells [OF emits_mono [OF unknown_calls [OF assms]], OF status_call_silent]
      emits_tells [OF emits_mono [OF complete_calls [OF assms]], OF status_call_silent]
    by auto
  note tail = wp_reconcile_tail_reports [OF this]
  show ?thesis
    unfolding Reconcile_found [OF Inr]
    by (rule wp_mono [OF tail])
      (auto simp: Inr dest: reports_started)
next
  case (Inl e)
  show ?thesis
  proof (cases "IsNotFound E e")
    case True
    let ?w = "w\<lparr>calls := KGet APIReader K req # started controller w\<rparr>"
    have del: "wp (delete_all req) (\<lambda>r w'. \<exists>err. Evaluate r = Some (Result_zero, err) \<and> reports [] ?w w') w'"
      if "reports [] ?w w'" for w'
    proof -
      have "wp (delete_all req) (\<lambda>r w''. (r = DoNotRequeue \<or> (\<exists>e. r = RequeueWithError (Some e))) \<and> only_adds silent w' w'') w'"
        unfolding wp_conj by (intro conjI delete_result alongD [OF emits_mono [OF delete_calls child_delete_call_silent]])
      then show ?thesis
        by (rule wp_mono) (use reports_trans [OF that] reports_only_adds in fastforce)
    qed
    show ?thesis
      unfolding Reconcile_gone [OF Inl True] wp_bind wp_return
      by (rule wp_mono [OF forget_reports], rule wp_mono [OF del])
        (use Inl True reports_started [where ss = "[]"] in auto)
  next
    case False
    with Inl show ?thesis
      unfolding Reconcile_eq wp_bind wp_count_operation wp_ask
      by (auto simp: wp_bind wp_return wp_if_metrics_id reports_def started_def reported_samples_def operation_def labels_named split: option.splits)
  qed
qed

end

section \<open>The Perses controller\<close>

lemma perses_Reconcile_reports:
  assumes "retry_law E"
  shows "wp (perses_Reconcile E cfg invalidator req) (\<lambda>r w'. \<exists>err. r = Some (Result_zero, err) \<and>
     reports (reported_samples w (operation ''perses'' # about_instance (ReconcilePerses req) E w @
       about_error E (ReconcilePerses req) w err)) w w') w"
proof (cases "getPerses E (started ''perses'' w) Cached req")
  case (Inr p)
  let ?own = "about_instance (ReconcilePerses req) E w"
  have first: "reports (reported_samples w ?own) (w\<lparr>calls := KGet Cached PersesKind req # started ''perses'' w\<rparr>) (counted req p w)"
    by (simp add: Inr counted_def reports_def reported_samples_def labels_named)
  have all: "reports (reported_samples w (operation ''perses'' # ?own @ ss)) w w'"
    if "reports (reported_samples w ss) (counted req p w) w'" for ss w'
    by (rule reports_started) (use reports_trans [OF first that] in \<open>simp add: reported_samples_def split: if_splits\<close>)
  have same: "reported_samples (counted req p w) ss = reported_samples w ss" for ss
    by (simp add: counted_def)
  show ?thesis
    unfolding perses_Reconcile_found [OF Inr]
    by (rule wp_mono [OF wp_reconcile_tail_reports [OF perses_subreconcilers_along(1,3) [OF assms]]])
      (auto simp: same about_error_def look_up_def Inr simp del: about_instance.simps dest: all)
next
  case (Inl e)
  show ?thesis
  proof (cases "IsNotFound E e")
    case True
    note forget = alongD [OF emits_mono [OF emits_ForgetInstance factory_call_silent]]
    show ?thesis
      unfolding perses_Reconcile_gone [OF Inl True] if_tracker_def if_metrics_def
      using Inl True
      by (auto simp: wp_simps about_error_def look_up_def intro!: wp_mono [OF forget] elim!: reports_quiet split: option.splits)
        (auto simp: reports_def started_def reported_samples_def operation_def labels_named split: option.splits)
  next
    case False
    with Inl show ?thesis
      unfolding perses_Reconcile_def Let_def wp_bind wp_count_operation wp_ask
      by (auto simp: wp_bind wp_return wp_if_metrics_id reports_def started_def reported_samples_def operation_def labels_named
          about_error_def look_up_def split: option.splits)
  qed
qed

text \<open>A request of a child controller, from what its reconciliation reports.\<close>

lemma child_reports:
  assumes "wp m (\<lambda>r w'. \<exists>err. r = Some (Result_zero, err) \<and> reports (reported_samples w (operation c # (case found of
        Inr ob \<Rightarrow> error_samples c err
      | Inl e \<Rightarrow> if IsNotFound E e then [] else [Increment ReconcileErrors [(''controller'', c), (''reason'', ''get_failed'')]]))) w w') w"
    and "controller_of rq = c" and "read_error E rq w = look_up found" and "about_instance rq E w = []"
  shows "wp m (\<lambda>r w'. \<exists>err. r = Some (Result_zero, err) \<and>
      reports (reported_samples w (operation (controller_of rq) # about_instance rq E w @ about_error E rq w err)) w w') w"
  using assms(1) by (rule wp_mono) (use assms(2-) in \<open>auto simp: about_error_def look_up_def split: sum.splits\<close>)

section \<open>Properties\<close>

text \<open>
  C23: the samples of a request. Whatever the services answer, a request returns and reports to Prometheus exactly:
  one more operation of its controller; for a Perses object that could be read and is not being deleted, its
  member of the gauge of instances set to 1, under its namespace and name; for a Perses object that is gone, that
  member removed; and one more error of the controller, with the reason that the error carries (or
  \<open>reconciliation_failed\<close>) when a reconciliation failed, with \<open>get_failed\<close> when the look-up failed. Every label
  has its name from \<open>NewMetrics\<close>, and every call has one value for each label. An error while a
  child object that is gone is deleted from the instances is returned and not counted.
\<close>

theorem request_reports:
  assumes "retry_law E"
  shows "wp (handle E cfg rq) (\<lambda>r w'. \<exists>err. r = Some (Result_zero, err) \<and>
     (\<exists>cs. calls w' = cs @ calls w \<and> list_all labelled cs \<and>
        telemetry cs = reported_samples w (operation (controller_of rq) # about_instance rq E w @ about_error E rq w err))) w"
proof -
  have "wp (handle E cfg rq) (\<lambda>r w'. \<exists>err. r = Some (Result_zero, err) \<and>
      reports (reported_samples w (operation (controller_of rq) # about_instance rq E w @ about_error E rq w err)) w w') w"
  proof (cases rq)
    case (ReconcilePerses req)
    then show ?thesis using perses_Reconcile_reports [OF assms, of cfg True req w] by (simp del: about_instance.simps)
  next
    case (ReconcileDashboard req)
    show ?thesis
      by (simp only: ReconcileDashboard handle.simps) (rule child_reports [OF dctl.Reconcile_reports [OF assms]]; simp)
  next
    case (ReconcileDatasource req)
    show ?thesis
      by (simp only: ReconcileDatasource handle.simps) (rule child_reports [OF sctl.Reconcile_reports [OF assms]]; simp)
  next
    case (ReconcileGlobalDatasource req)
    show ?thesis
      by (simp only: ReconcileGlobalDatasource handle.simps) (rule child_reports [OF gctl.Reconcile_reports [OF assms]]; simp)
  qed
  then show ?thesis by (rule wp_mono) (auto simp: reports_def)
qed

end
