(* ===== verification/OperatorWitnesses.thy ===== *)
theory OperatorWitnesses
  imports Completion Reporting Samples
begin

text \<open>
  The properties that span the controllers, applied to the operator at its start and to the cluster of
  theory \<open>Samples\<close>.
\<close>

section \<open>The operator\<close>

lemma sample_world_start: "sample_world = operator_start"
  by (simp add: sample_world_def operator_start_def)

definition sample_requests :: "request list" where
  "sample_requests = [ReconcilePerses (sample_key ''p''), ReconcileDashboard (sample_key ''d''),
     ReconcileDatasource (sample_key ''s''), ReconcileGlobalDatasource (sample_key ''g''), ReconcileDashboard (sample_key ''x'')]"

lemma operator_stays_in_order_witness:
  "wp (operate sample_env sample_cfg sample_requests) (\<lambda>rs w'. log_ok sample_env (calls w') \<and> factory_ok sample_env w' \<and>
     tables_ok w' \<and> length rs = 5) operator_start"
  by (rule wp_mono [OF operator_stays_in_order [where sel = None and watch_all = False and cluster = False]])
    (simp_all add: sample_requests_def)

lemma operator_status_refines_witness:
  "wp (operate sample_env sample_cfg sample_requests) (\<lambda>_ w'. \<exists>rt. w_tracker w' = Some rt) operator_start"
  by (rule wp_mono [OF operator_status_refines [unfolded Let_def]]) auto

lemma operator_gauge_refines_witness:
  "wp (operate sample_env sample_cfg sample_requests) (\<lambda>_ w'. \<exists>m. w_metrics w' = Some m) operator_start"
  by (rule wp_mono [OF operator_gauge_refines [unfolded Let_def]]) auto

text \<open>A datasource of the name of the dashboard, whose status the dashboard replaces.\<close>

lemma kinds_share_status_witness:
  "wp (handle sample_env sample_cfg (ReconcileDashboard (sample_key ''d'')))
     (\<lambda>r w'. \<forall>rt m. w_tracker w' = Some rt \<longrightarrow> w_metrics w' = Some m \<longrightarrow>
        snd (GetStatus ''mon/d'' rt) \<and> r = Some (Result_zero, RS_err (fst (GetStatus ''mon/d'' rt)))) sample_world"
proof (rule wp_mono [OF kinds_share_status [where a = "ReconcileDatasource (sample_key ''d'')"]])
  show "retry_law sample_env" "tables_ok sample_world" by simp_all
  show "request_key (ReconcileDatasource (sample_key ''d'')) = request_key (ReconcileDashboard (sample_key ''d''))" by simp
  have "read_error sample_env (ReconcileDashboard (sample_key ''d'')) sample_world = None" by (simp add: look_up_def)
  moreover have "status_key sample_env (ReconcileDatasource (sample_key ''d'')) = ''mon/d''"
    by (simp add: status_key_def sample_ops) (simp add: sample_key_def)
  ultimately show "\<forall>rt m. w_tracker w' = Some rt \<longrightarrow> w_metrics w' = Some m \<longrightarrow>
        snd (GetStatus ''mon/d'' rt) \<and> r = Some (Result_zero, RS_err (fst (GetStatus ''mon/d'' rt)))"
    if "\<forall>rt m. w_tracker w' = Some rt \<longrightarrow> w_metrics w' = Some m \<longrightarrow>
      (case read_error sample_env (ReconcileDashboard (sample_key ''d'')) sample_world of
        None \<Rightarrow> snd (GetStatus (status_key sample_env (ReconcileDatasource (sample_key ''d''))) rt) \<and>
          r = Some (Result_zero, RS_err (fst (GetStatus (status_key sample_env (ReconcileDatasource (sample_key ''d''))) rt)))
      | Some e \<Rightarrow> IsNotFound sample_env e \<longrightarrow>
          \<not> snd (GetStatus (status_key sample_env (ReconcileDatasource (sample_key ''d''))) rt) \<and>
          (\<forall>rk. count_of m rk (status_key sample_env (ReconcileDatasource (sample_key ''d''))) = None))" for r :: reconcile_result and w' :: world
    using that by simp
qed

lemma operator_delivers_witness:
  "wp (operate sample_env sample_cfg [ReconcileDashboard (sample_key ''d'')])
     (\<lambda>rs w'. rs = [Some (Result_zero, None)] \<and> dashboard_settled sample_env (sample_key ''d'') [] (calls w')) sample_world"
proof -
  let ?ops = "operate sample_env sample_cfg [ReconcileDashboard (sample_key ''d'')]"
  have "wp ?ops (\<lambda>rs _. rs = [Some (Result_zero, None)]) sample_world"
    by (simp add: wp_simps) (rule wp_mono [OF sample_dashboard_Reconcile], simp_all)
  moreover have "wp ?ops (\<lambda>rs w'. list_all2 (\<lambda>rq r. r = Some (Result_zero, None) \<longrightarrow> fulfilled sample_env rq [] (calls w'))
      [ReconcileDashboard (sample_key ''d'')] rs) sample_world"
    unfolding sample_world_start by (rule operator_delivers) simp
  ultimately have "wp ?ops (\<lambda>rs w'. rs = [Some (Result_zero, None)] \<and>
      list_all2 (\<lambda>rq r. r = Some (Result_zero, None) \<longrightarrow> fulfilled sample_env rq [] (calls w'))
      [ReconcileDashboard (sample_key ''d'')] rs) sample_world" by (simp only: wp_conj)
  then show ?thesis by (rule wp_mono) auto
qed

lemma availability_reaches_all_witness:
  "wp (do { reqs \<leftarrow> findDashboardsForPerses sample_env; rs \<leftarrow> operate sample_env sample_cfg (map ReconcileDashboard reqs);
        State_Monad.return (reqs, rs) })
     (\<lambda>(reqs, rs) w'. reqs = [sample_key ''d''] \<and> dashboard_settled sample_env (sample_key ''d'') [] (calls w')) sample_world"
proof -
  let ?m = "do { reqs \<leftarrow> findDashboardsForPerses sample_env; rs \<leftarrow> operate sample_env sample_cfg (map ReconcileDashboard reqs);
        State_Monad.return (reqs, rs) }"
  have listed: "listMeta sample_env h k = Inr [sample_meta ''d'']" "meta_key (sample_meta ''d'') = sample_key ''d''" for h k
    by (simp_all add: sample_env_def meta_key_def sample_key_def sample_meta_def)
  have "wp ?m (\<lambda>(reqs, rs) _. reqs = [sample_key ''d''] \<and> rs = [Some (Result_zero, None)]) sample_world"
    unfolding findDashboardsForPerses_def MetadataListToRequests_def
    by (simp add: wp_simps listed meta_key_def [symmetric]) (rule wp_mono [OF sample_dashboard_Reconcile], simp_all)
  moreover from availability_reaches_all [OF sample_retry_law sample_factory_ok]
  have "wp ?m (\<lambda>(reqs, rs) w'. reqs = (case listMeta sample_env (calls sample_world) DashboardKind of
         Inl _ \<Rightarrow> [] | Inr items \<Rightarrow> map meta_key items) \<and>
       (list_all (\<lambda>r. r = Some (Result_zero, None)) rs \<longrightarrow>
          list_all (\<lambda>req. dashboard_settled sample_env req (calls sample_world) (calls w')) reqs)) sample_world"
    unfolding list.pred_inject prod.case by blast
  ultimately have "wp ?m (\<lambda>r w'. (case r of (reqs, rs) \<Rightarrow> \<lambda>_. reqs = [sample_key ''d''] \<and> rs = [Some (Result_zero, None)]) w' \<and>
     (case r of (reqs, rs) \<Rightarrow> \<lambda>w'. reqs = (case listMeta sample_env (calls sample_world) DashboardKind of
         Inl _ \<Rightarrow> [] | Inr items \<Rightarrow> map meta_key items) \<and>
       (list_all (\<lambda>r. r = Some (Result_zero, None)) rs \<longrightarrow>
          list_all (\<lambda>req. dashboard_settled sample_env req (calls sample_world) (calls w')) reqs)) w') sample_world"
    by (simp only: wp_conj simp_thms)
  then show ?thesis by (rule wp_mono) (auto simp: sample_world_def listed)
qed

text \<open>An instance with a SQL database in an empty cluster: its chain gets to the end.\<close>

definition sql_perses :: perses where
  "sql_perses = sample_perses\<lparr>Spec := sample_spec\<lparr>Spec_Config :=
     sample_config\<lparr>Config_Database_SQL := Some (JObj []), Config_Database_File := None\<rparr>\<rparr>\<rparr>"

definition sql_env :: env where
  "sql_env = sample_env\<lparr>getPerses := \<lambda>h rd key. only_key ''p'' sql_perses key\<rparr>"

definition sql_world :: "world \<Rightarrow> bool" where
  "sql_world w \<longleftrightarrow> (\<exists>p. ctx_perses w = Some p \<and> same_but_annotations sql_perses p)"

lemma sql_world_kept: "sql_world w \<Longrightarrow> keeps_object w w' \<Longrightarrow> sql_world w'"
  unfolding sql_world_def keeps_object_def by (blast intro: same_but_annotations_trans)

lemma sql_retry_law: "retry_law sql_env"
  by (simp add: retry_law_def sql_env_def sample_env_def retries.last_try)

lemma sql_ops:
  "getPerses sql_env h rd (sample_key ''p'') = Inr sql_perses" "respond sql_env h c = None" "retryOnConflict sql_env f = f"
  "getService sql_env h rd k = Inl sample_not_found" "getConfigMap sql_env h rd k = Inl sample_not_found"
  "getDeployment sql_env h rd k = Inl sample_not_found" "getStatefulSet sql_env h rd k = Inl sample_not_found"
  "IsNotFound sql_env sample_not_found" "ContainsFinalizer sql_env p n = (n \<in> set (Finalizers p))"
  "DeepEqual_status sql_env = (=)" "json_Marshal sql_env vs = json_Marshal sample_env vs"
  "setControllerReference sql_env p md = Inr [JStr (Name p)]" "LabelSelectorAsSelector sql_env sel = None"
  by (simp_all add: sql_env_def sample_env_def only_key_def sample_not_found_def)

lemma sql_fields:
  "Finalizers sql_perses = []" "DeletionTimestamp sql_perses = None" "secret_refs sql_perses = []"
  "Status_Conditions (Status sql_perses) \<noteq> []" "volumes_valid sql_perses" "RequiresDeployment sql_perses"
  "\<not> RequiresStatefulSet sql_perses"
  by (simp_all add: sql_perses_def sample_perses_def perses.defs object_meta.defs sample_meta_def sample_spec_def sample_status_def
      sample_config_def secret_refs_def volumes_valid_def sample_volume_def sample_mount_def RequiresDeployment_def RequiresStatefulSet_def Let_def)

lemma reached_step:
  assumes "wp f (\<lambda>r w'. r = ContinueReconciling \<and> P w') w" and "\<And>w'. P w' \<Longrightarrow> \<exists>w1. reached fs w' = Some w1"
  shows "\<exists>w1. reached (f # fs) w = Some w1"
  using assms by (cases "run_state f w") (auto simp: wp_def go_def)

lemma sql_objects_reached:
  assumes "sql_world w"
  shows "\<exists>w1. reached [reconcileService sql_env, reconcileConfigMap sql_env, reconcileDeployment sql_env sample_cfg,
    reconcileStatefulSet sql_env sample_cfg] w = Some w1"
proof -
  have made: "\<exists>s. snd (createPersesService sql_env n p) = Inr s" "\<exists>c. createPersesConfigMap sql_env p = Inr c"
    for n p
    by (auto simp: createPersesService_def createPersesConfigMap_def sql_env_def sample_env_def Let_def split: option.splits)
  have made_deployment: "\<exists>d. snd (createPersesDeployment sql_env sample_cfg p) = Inr d" if "same_but_annotations sql_perses p" for p
  proof -
    obtain m q where q: "workload_annotations sql_env p = Inr (m, q)"
      by (cases "workload_annotations sql_env p")
        (auto simp: workload_annotations_def GetProvisioningHash_def sql_env_def sample_env_def Let_def split: option.splits if_splits)
    have "same_but_annotations sql_perses q"
      by (rule same_but_annotations_trans [OF that workload_annotations_keeps [OF q]])
    then have "Spec_Image (Spec q) = Some ''perses:v1''"
      by (auto simp: same_but_annotations_def sql_perses_def sample_spec_def)
    then have "ImageForPerses q (PersesImage sample_cfg) = Inr ''perses:v1''" by (simp add: ImageForPerses_def)
    then show ?thesis unfolding createPersesDeployment_def Let_def q by (simp add: sql_ops)
  qed
  have kept: "wp m (\<lambda>r w'. r = ContinueReconciling \<and> sql_world w') w"
    if "wp m (\<lambda>r _. r = ContinueReconciling) w" "along keeps_object m" "sql_world w" for m :: "sub_result go" and w
  proof -
    have "wp m (\<lambda>r w'. r = ContinueReconciling \<and> keeps_object w w') w" using that(1) alongD [OF that(2)] by (simp add: wp_conj)
    then show ?thesis
      by (rule wp_mono) (use that(3) sql_world_kept in blast)
  qed
  have flags: "RequiresDeployment p" "\<not> RequiresStatefulSet p" if "same_but_annotations sql_perses p" for p
    using same_but_annotations_fields(6,7) [OF that] sql_fields by simp_all
  have svc: "wp (reconcileService sql_env) (\<lambda>r w'. r = ContinueReconciling \<and> sql_world w') w" if w: "sql_world w" for w
  proof (rule kept [OF _ svc.reconcile_object w])
    obtain p where p: "ctx_perses w = Some p" using w by (auto simp: sql_world_def)
    obtain s where "snd (createPersesService sql_env (service_name p) p) = Inr s" using made(1) by blast
    from svc.reconcile_creates [OF p _ _ _ this] show "wp (reconcileService sql_env) (\<lambda>r _. r = ContinueReconciling) w"
      by (simp add: sql_ops wp_conj)
  qed
  have cm: "wp (reconcileConfigMap sql_env) (\<lambda>r w'. r = ContinueReconciling \<and> sql_world w') w" if w: "sql_world w" for w
  proof (rule kept [OF _ cm.reconcile_object w])
    obtain p where p: "ctx_perses w = Some p" using w by (auto simp: sql_world_def)
    obtain s where "snd (p, createPersesConfigMap sql_env p) = Inr s" using made(2) by auto
    from cm.reconcile_creates [OF p _ _ _ this] show "wp (reconcileConfigMap sql_env) (\<lambda>r _. r = ContinueReconciling) w"
      by (simp add: sql_ops wp_conj)
  qed
  have dep: "wp (reconcileDeployment sql_env sample_cfg) (\<lambda>r w'. r = ContinueReconciling \<and> sql_world w') w" if w: "sql_world w" for w
  proof (rule kept [OF _ dep.reconcile_object w])
    obtain p where p: "ctx_perses w = Some p" "RequiresDeployment p" and "same_but_annotations sql_perses p"
      using w flags(1) by (auto simp: sql_world_def)
    from made_deployment [OF this(3)] obtain s where "snd (createPersesDeployment sql_env sample_cfg p) = Inr s" by blast
    from dep.reconcile_creates [OF p _ _ this] show "wp (reconcileDeployment sql_env sample_cfg) (\<lambda>r _. r = ContinueReconciling) w"
      by (simp add: sql_ops wp_conj)
  qed
  have sts: "wp (reconcileStatefulSet sql_env sample_cfg) (\<lambda>r w'. r = ContinueReconciling \<and> sql_world w') w" if w: "sql_world w" for w
  proof (rule kept [OF _ sts.reconcile_object w])
    obtain p where p: "ctx_perses w = Some p" "\<not> RequiresStatefulSet p" using w flags(2) by (auto simp: sql_world_def)
    from sts.reconcile_ignores [OF p, of sql_env] show "wp (reconcileStatefulSet sql_env sample_cfg) (\<lambda>r _. r = ContinueReconciling) w"
      by (simp add: sql_ops wp_conj)
  qed
  show ?thesis
    by (rule reached_step [OF svc [OF assms]], rule reached_step [OF cm], assumption, rule reached_step [OF dep], assumption,
        rule reached_step [OF sts], assumption, simp)
qed
lemma sql_update_goes_on:
  assumes "\<And>p. along grows (f p)" and "\<And>p. along keeps_object (f p)" and "sql_world w"
  shows "wp (updatePersesStatus sql_env (sample_key ''p'') f) (\<lambda>r w'. r = ContinueReconciling \<and> sql_world w') w"
proof -
  have "wp (f sql_perses) (\<lambda>_ w'. sql_world w') (w\<lparr>calls := cs\<rparr>)" for cs
    by (rule wp_mono [OF alongD [OF assms(2)]]) (rule sql_world_kept [of "w\<lparr>calls := cs\<rparr>"], use assms(3) in \<open>simp_all add: sql_world_def\<close>)
  moreover have "sql_world (w\<lparr>calls := cs\<rparr>) = sql_world w" for w cs by (simp add: sql_world_def)
  ultimately show ?thesis
    using assms(3) unfolding updatePersesStatus_def perses_status_try_def Let_def
    by (auto simp: wp_simps sql_ops sql_world_def intro: wp_mono)
qed
text \<open>From the start of the chain with the object just read, its end is reached.\<close>

definition sql_start :: world where
  "sql_start = sample_world\<lparr>ctx_perses := Some sql_perses\<rparr>"

lemma sql_reached:
  "\<exists>w1. reached (butlast (perses_subreconcilers sql_env sample_cfg (sample_key ''p''))) sql_start = Some w1"
proof -
  let ?same = "\<lambda>w. ctx_perses w = Some sql_perses"
  have delete: "wp (handleDelete sql_env req) (\<lambda>r w'. r = ContinueReconciling \<and> ?same w') w" if "?same w" for w req
    using that by (simp add: handleDelete_def wp_simps sql_fields)
  have unknown: "wp (perses_setStatusToUnknown sql_env (sample_key ''p'')) (\<lambda>r w'. r = ContinueReconciling \<and> ?same w') w" if "?same w" for w
    using that by (simp add: perses_setStatusToUnknown_def updatePersesStatus_def perses_status_try_def wp_simps sql_ops sql_fields
        ContinueReconciling_def)
  have finalizer: "wp (removeFinalizer sql_env req) (\<lambda>r w'. r = ContinueReconciling \<and> ?same w') w" if "?same w" for w req
    using that by (simp add: removeFinalizer_def wp_simps sql_ops sql_fields)
  have volumes: "wp (validateVolumes sql_env req) (\<lambda>r w'. r = ContinueReconciling \<and> ?same w') w" if "?same w" for w req
  proof -
    have "find (\<lambda>m. Mount_Name m \<notin> set (map Volume_Name (Spec_Volumes (Spec sql_perses)))) (Spec_VolumeMounts (Spec sql_perses)) = None"
      using sql_fields(5) by (auto simp: find_None_iff volumes_valid_def)
    with that show ?thesis by (simp add: validateVolumes_def wp_simps Let_def)
  qed
  have provisioning: "wp (reconcileProvisioning sql_env (sample_key ''p'')) (\<lambda>r w'. r = ContinueReconciling \<and> sql_world w') w" if "?same w" for w
  proof -
    have "sql_world w" using that by (auto simp: sql_world_def)
    then have "wp (updatePersesStatus sql_env (sample_key ''p'') (set_provisioning [])) (\<lambda>r w'. r = ContinueReconciling \<and> sql_world w') w"
      by (intro sql_update_goes_on) (auto simp: set_provisioning_def intro!: along_intros)
    with that show ?thesis by (simp add: reconcileProvisioning_def wp_simps sql_fields)
  qed
  have start: "?same sql_start" by (simp add: sql_start_def)
  have "\<exists>w1. reached [handleDelete sql_env (sample_key ''p''), perses_setStatusToUnknown sql_env (sample_key ''p''),
      removeFinalizer sql_env (sample_key ''p''), validateVolumes sql_env (sample_key ''p''), reconcileProvisioning sql_env (sample_key ''p''),
      reconcileService sql_env, reconcileConfigMap sql_env, reconcileDeployment sql_env sample_cfg,
      reconcileStatefulSet sql_env sample_cfg] sql_start = Some w1"
    by (rule reached_step [OF delete [OF start]], rule reached_step [OF unknown], assumption, rule reached_step [OF finalizer], assumption,
        rule reached_step [OF volumes], assumption, rule reached_step [OF provisioning], assumption, rule sql_objects_reached)
  then show ?thesis unfolding perses_subreconcilers_def by (simp del: reached.simps)
qed

lemma complete_means_built_witness:
  "\<exists>w1. reached (butlast (perses_subreconcilers sql_env sample_cfg (sample_key ''p''))) sql_start = Some w1 \<and>
     all_built sql_env sample_cfg w1 \<and> ctx_valid w1"
  using complete_means_built [OF sql_retry_law, of sample_cfg "sample_key ''p''" sql_start] sql_reached by (auto simp: Let_def)

section \<open>The samples\<close>

text \<open>The Perses object \<open>mon/x\<close> is gone: one more operation, and its member of the gauge is removed.\<close>

lemma request_reports_witness:
  "wp (handle sample_env sample_cfg (ReconcilePerses (sample_key ''x''))) (\<lambda>_ w'. telemetry (calls w') =
     [Increment ReconcileOperations [(''controller'', ''perses'')],
      Remove PersesInstances [(''resource_namespace'', ''mon''), (''resource_name'', ''x'')]]) sample_world"
proof -
  have "calls sample_world = []" "w_metrics sample_world \<noteq> None" "NN_Namespace (sample_key n) = ''mon''" "NN_Name (sample_key n) = n" for n
    by (simp_all add: sample_world_def sample_key_def)
  then show ?thesis
    by (intro wp_mono [OF request_reports [OF sample_retry_law]])
      (auto simp: reported_samples_def operation_def about_error_def look_up_def)
qed

end
