(* ===== verification/MockApi.thy ===== *)
theory MockApi
  imports World "HOL-Library.Sublist"
begin

text \<open>
  The double of the Perses client that the tests of the controllers use
  (\<^verbatim>\<open>internal/perses/perses_mock_api.go\<close>): typed methods over \<open>mock.Mock\<close> of the testify library, and a server
  that answers validations. The state of all mocks and the library are parameters; \<open>None\<close> is a panic.
\<close>

section \<open>The library\<close>

text \<open>Every object with an embedded \<open>mock.Mock\<close> has one of its own, named by a number.\<close>

type_synonym mock_id = nat

text \<open>An implementation of an interface of the client: one of the mocks here, or another.\<close>

datatype implementation = Mocked mock_id | Foreign nat

text \<open>
  The values of type \<open>any\<close> that tests hand to \<open>Return\<close> and the methods to \<open>Called\<close>. A pointer to an object of
  the Perses model may be \<open>nil\<close> and still has its type; \<open>NilValue\<close> has none.
\<close>

datatype mock_value =
    NilValue
  | StringValue string
  | ErrorValue error
  | DashboardPtr "p_entity option"
  | DatasourcePtr "p_entity option"
  | GlobalDatasourcePtr "p_entity option"
  | SecretPtr "p_secret option"
  | GlobalSecretPtr "p_secret option"
  | ADashboardInterface implementation
  | ADatasourceInterface implementation
  | AGlobalDatasourceInterface implementation
  | ASecretInterface implementation
  | AGlobalSecretInterface implementation

type_synonym ('m, 'a) mocked = "'m \<Rightarrow> ('a \<times> 'm) option"

record 'm mock_lib =
  Called :: "mock_id \<Rightarrow> string \<Rightarrow> mock_value list \<Rightarrow> ('m, mock_value list) mocked"
  Arguments_Get :: "mock_value list \<Rightarrow> nat \<Rightarrow> mock_value option"
  Arguments_Error :: "mock_value list \<Rightarrow> nat \<Rightarrow> (error option) option"

text \<open>Documented of the library: \<open>Get\<close> returns the argument at an index, and \<open>Error\<close> the error there.\<close>

definition arguments_law :: "'m mock_lib \<Rightarrow> bool" where
  "arguments_law L \<longleftrightarrow>
     (\<forall>vs i. i < length vs \<longrightarrow> Arguments_Get L vs i = Some (vs ! i)) \<and>
     (\<forall>vs i. i < length vs \<longrightarrow> Arguments_Error L vs i =
        (case vs ! i of NilValue \<Rightarrow> Some None | ErrorValue e \<Rightarrow> Some (Some e) | _ \<Rightarrow> None))"

section \<open>Type assertions\<close>

definition as_Dashboard :: "mock_value \<Rightarrow> (p_entity option) option" where
  "as_Dashboard v = (case v of DashboardPtr x \<Rightarrow> Some x | _ \<Rightarrow> None)"

definition as_DashboardInterface :: "mock_value \<Rightarrow> implementation option" where
  "as_DashboardInterface v = (case v of ADashboardInterface i \<Rightarrow> Some i | _ \<Rightarrow> None)"

definition as_Datasource :: "mock_value \<Rightarrow> (p_entity option) option" where
  "as_Datasource v = (case v of DatasourcePtr x \<Rightarrow> Some x | _ \<Rightarrow> None)"

definition as_DatasourceInterface :: "mock_value \<Rightarrow> implementation option" where
  "as_DatasourceInterface v = (case v of ADatasourceInterface i \<Rightarrow> Some i | _ \<Rightarrow> None)"

definition as_GlobalDatasource :: "mock_value \<Rightarrow> (p_entity option) option" where
  "as_GlobalDatasource v = (case v of GlobalDatasourcePtr x \<Rightarrow> Some x | _ \<Rightarrow> None)"

definition as_GlobalDatasourceInterface :: "mock_value \<Rightarrow> implementation option" where
  "as_GlobalDatasourceInterface v = (case v of AGlobalDatasourceInterface i \<Rightarrow> Some i | _ \<Rightarrow> None)"

definition as_Secret :: "mock_value \<Rightarrow> (p_secret option) option" where
  "as_Secret v = (case v of SecretPtr x \<Rightarrow> Some x | _ \<Rightarrow> None)"

definition as_SecretInterface :: "mock_value \<Rightarrow> implementation option" where
  "as_SecretInterface v = (case v of ASecretInterface i \<Rightarrow> Some i | _ \<Rightarrow> None)"

definition as_GlobalSecret :: "mock_value \<Rightarrow> (p_secret option) option" where
  "as_GlobalSecret v = (case v of GlobalSecretPtr x \<Rightarrow> Some x | _ \<Rightarrow> None)"

definition as_GlobalSecretInterface :: "mock_value \<Rightarrow> implementation option" where
  "as_GlobalSecretInterface v = (case v of AGlobalSecretInterface i \<Rightarrow> Some i | _ \<Rightarrow> None)"

section \<open>Methods\<close>

text \<open>The three shapes of a method: one result that is asserted, two results with an error, an error only.\<close>

definition one_result :: "'m mock_lib \<Rightarrow> (mock_value \<Rightarrow> 'a option) \<Rightarrow> mock_id \<Rightarrow> string \<Rightarrow> mock_value list \<Rightarrow> ('m, 'a) mocked" where
  "one_result L assert d method vs m =
     Option.bind (Called L d method vs m) (\<lambda>(args, m').
     Option.bind (Option.bind (Arguments_Get L args 0) assert) (\<lambda>x. Some (x, m')))"

definition result_and_error ::
  "'m mock_lib \<Rightarrow> (mock_value \<Rightarrow> 'a option) \<Rightarrow> mock_id \<Rightarrow> string \<Rightarrow> mock_value list \<Rightarrow> ('m, 'a \<times> error option) mocked" where
  "result_and_error L assert d method vs m =
     Option.bind (Called L d method vs m) (\<lambda>(args, m').
     Option.bind (Option.bind (Arguments_Get L args 0) assert) (\<lambda>x.
     Option.bind (Arguments_Error L args 1) (\<lambda>err. Some ((x, err), m'))))"

definition error_only :: "'m mock_lib \<Rightarrow> mock_id \<Rightarrow> string \<Rightarrow> mock_value list \<Rightarrow> ('m, error option) mocked" where
  "error_only L d method vs m =
     Option.bind (Called L d method vs m) (\<lambda>(args, m').
     Option.bind (Arguments_Error L args 0) (\<lambda>err. Some (err, m')))"

record mock_client =
  Client_Mock :: mock_id
  restClient :: "rest_client option"

definition MockClient_RESTClient :: "mock_client \<Rightarrow> rest_client option" where
  "MockClient_RESTClient c = restClient c"

text \<open>The project of the mock: it always exists, and nothing is known of it.\<close>

definition project_Get :: "string \<Rightarrow> p_project option \<times> error option" where
  "project_Get name = (None, None)"

definition MockClient_Project :: "mock_client \<Rightarrow> string \<Rightarrow> p_project option \<times> error option" where
  "MockClient_Project c = project_Get"

definition MockClient_Dashboard :: "'m mock_lib \<Rightarrow> mock_client \<Rightarrow> string \<Rightarrow> ('m, implementation) mocked" where
  "MockClient_Dashboard L c project = one_result L as_DashboardInterface (Client_Mock c) ''Dashboard'' [StringValue project]"

definition MockClient_Datasource :: "'m mock_lib \<Rightarrow> mock_client \<Rightarrow> string \<Rightarrow> ('m, implementation) mocked" where
  "MockClient_Datasource L c project = one_result L as_DatasourceInterface (Client_Mock c) ''Datasource'' [StringValue project]"

definition MockClient_GlobalDatasource :: "'m mock_lib \<Rightarrow> mock_client \<Rightarrow> ('m, implementation) mocked" where
  "MockClient_GlobalDatasource L c = one_result L as_GlobalDatasourceInterface (Client_Mock c) ''GlobalDatasource'' []"

definition MockClient_Secret :: "'m mock_lib \<Rightarrow> mock_client \<Rightarrow> string \<Rightarrow> ('m, implementation) mocked" where
  "MockClient_Secret L c secretName = one_result L as_SecretInterface (Client_Mock c) ''Secret'' [StringValue secretName]"

definition MockClient_GlobalSecret :: "'m mock_lib \<Rightarrow> mock_client \<Rightarrow> ('m, implementation) mocked" where
  "MockClient_GlobalSecret L c = one_result L as_GlobalSecretInterface (Client_Mock c) ''GlobalSecret'' []"

definition MockDashboard_Get :: "'m mock_lib \<Rightarrow> mock_id \<Rightarrow> string \<Rightarrow> ('m, p_entity option \<times> error option) mocked" where
  "MockDashboard_Get L d name = result_and_error L as_Dashboard d ''Get'' [StringValue name]"

definition MockDashboard_Update ::
  "'m mock_lib \<Rightarrow> mock_id \<Rightarrow> p_entity option \<Rightarrow> ('m, p_entity option \<times> error option) mocked" where
  "MockDashboard_Update L d dashboard = result_and_error L as_Dashboard d ''Update'' [DashboardPtr dashboard]"

definition MockDashboard_Delete :: "'m mock_lib \<Rightarrow> mock_id \<Rightarrow> string \<Rightarrow> ('m, error option) mocked" where
  "MockDashboard_Delete L d name = error_only L d ''Delete'' [StringValue name]"

definition MockDashboard_Create ::
  "'m mock_lib \<Rightarrow> mock_id \<Rightarrow> p_entity option \<Rightarrow> ('m, p_entity option \<times> error option) mocked" where
  "MockDashboard_Create L d dashboard = result_and_error L as_Dashboard d ''Create'' [DashboardPtr dashboard]"

definition MockDatasource_Get :: "'m mock_lib \<Rightarrow> mock_id \<Rightarrow> string \<Rightarrow> ('m, p_entity option \<times> error option) mocked" where
  "MockDatasource_Get L d name = result_and_error L as_Datasource d ''Get'' [StringValue name]"

definition MockDatasource_Update ::
  "'m mock_lib \<Rightarrow> mock_id \<Rightarrow> p_entity option \<Rightarrow> ('m, p_entity option \<times> error option) mocked" where
  "MockDatasource_Update L d datasource = result_and_error L as_Datasource d ''Update'' [DatasourcePtr datasource]"

definition MockDatasource_Delete :: "'m mock_lib \<Rightarrow> mock_id \<Rightarrow> string \<Rightarrow> ('m, error option) mocked" where
  "MockDatasource_Delete L d name = error_only L d ''Delete'' [StringValue name]"

definition MockDatasource_Create ::
  "'m mock_lib \<Rightarrow> mock_id \<Rightarrow> p_entity option \<Rightarrow> ('m, p_entity option \<times> error option) mocked" where
  "MockDatasource_Create L d datasource = result_and_error L as_Datasource d ''Create'' [DatasourcePtr datasource]"

definition MockGlobalDatasource_Get :: "'m mock_lib \<Rightarrow> mock_id \<Rightarrow> string \<Rightarrow> ('m, p_entity option \<times> error option) mocked" where
  "MockGlobalDatasource_Get L d name = result_and_error L as_GlobalDatasource d ''Get'' [StringValue name]"

definition MockGlobalDatasource_Update ::
  "'m mock_lib \<Rightarrow> mock_id \<Rightarrow> p_entity option \<Rightarrow> ('m, p_entity option \<times> error option) mocked" where
  "MockGlobalDatasource_Update L d datasource = result_and_error L as_GlobalDatasource d ''Update'' [GlobalDatasourcePtr datasource]"

definition MockGlobalDatasource_Delete :: "'m mock_lib \<Rightarrow> mock_id \<Rightarrow> string \<Rightarrow> ('m, error option) mocked" where
  "MockGlobalDatasource_Delete L d name = error_only L d ''Delete'' [StringValue name]"

definition MockGlobalDatasource_Create ::
  "'m mock_lib \<Rightarrow> mock_id \<Rightarrow> p_entity option \<Rightarrow> ('m, p_entity option \<times> error option) mocked" where
  "MockGlobalDatasource_Create L d datasource = result_and_error L as_GlobalDatasource d ''Create'' [GlobalDatasourcePtr datasource]"

definition MockSecret_Create ::
  "'m mock_lib \<Rightarrow> mock_id \<Rightarrow> p_secret option \<Rightarrow> ('m, p_secret option \<times> error option) mocked" where
  "MockSecret_Create L d secret = result_and_error L as_Secret d ''Create'' [SecretPtr secret]"

definition MockSecret_Get :: "'m mock_lib \<Rightarrow> mock_id \<Rightarrow> string \<Rightarrow> ('m, p_secret option \<times> error option) mocked" where
  "MockSecret_Get L d name = result_and_error L as_Secret d ''Get'' [StringValue name]"

definition MockSecret_Delete :: "'m mock_lib \<Rightarrow> mock_id \<Rightarrow> string \<Rightarrow> ('m, error option) mocked" where
  "MockSecret_Delete L d name = error_only L d ''Delete'' [StringValue name]"

definition MockGlobalSecret_Create ::
  "'m mock_lib \<Rightarrow> mock_id \<Rightarrow> p_secret option \<Rightarrow> ('m, p_secret option \<times> error option) mocked" where
  "MockGlobalSecret_Create L d secret = result_and_error L as_GlobalSecret d ''Create'' [GlobalSecretPtr secret]"

definition MockGlobalSecret_Get :: "'m mock_lib \<Rightarrow> mock_id \<Rightarrow> string \<Rightarrow> ('m, p_secret option \<times> error option) mocked" where
  "MockGlobalSecret_Get L d name = result_and_error L as_GlobalSecret d ''Get'' [StringValue name]"

definition MockGlobalSecret_Delete :: "'m mock_lib \<Rightarrow> mock_id \<Rightarrow> string \<Rightarrow> ('m, error option) mocked" where
  "MockGlobalSecret_Delete L d name = error_only L d ''Delete'' [StringValue name]"

section \<open>The server of validations\<close>

text \<open>The status and the body of the answer to a request for a path.\<close>

definition validate_handler :: "string \<Rightarrow> string \<Rightarrow> int \<times> string" where
  "validate_handler validateErr path =
     (if prefix ''/api/validate/'' path
      then if validateErr \<noteq> [] then (400, validateErr) else (200, [])
      else (404, []))"

text \<open>\<open>url\<close> is where the new server listens; a panic if no client can be made for it.\<close>

definition newMockClientWithValidateServer ::
  "env \<Rightarrow> mock_id \<Rightarrow> string \<Rightarrow> string \<Rightarrow> (mock_client \<times> (string \<Rightarrow> int \<times> string)) option" where
  "newMockClientWithValidateServer E new url validateErr =
     (let server = validate_handler validateErr
      in case ParseURL E url of
           Inl err \<Rightarrow> None
         | Inr parsedURL \<Rightarrow>
             (case NewRESTClient E \<lparr>Rest_URL = parsedURL, Rest_Headers = [], Rest_TLSConfig = None, Rest_OAuth = None\<rparr> of
                Inl err \<Rightarrow> None
              | Inr rest \<Rightarrow> Some (\<lparr>Client_Mock = new, restClient = Some rest\<rparr>, server)))"

definition NewMockClientWithValidation :: "env \<Rightarrow> mock_id \<Rightarrow> string \<Rightarrow> (mock_client \<times> (string \<Rightarrow> int \<times> string)) option" where
  "NewMockClientWithValidation E new url = newMockClientWithValidateServer E new url []"

definition NewMockClientWithValidationError ::
  "env \<Rightarrow> mock_id \<Rightarrow> string \<Rightarrow> string \<Rightarrow> (mock_client \<times> (string \<Rightarrow> int \<times> string)) option" where
  "NewMockClientWithValidationError E new url errMsg = newMockClientWithValidateServer E new url errMsg"

section \<open>When a mocked method returns\<close>

text \<open>What a test gives \<open>Return\<close> for an error.\<close>

definition error_value :: "error option \<Rightarrow> mock_value" where
  "error_value e = (case e of None \<Rightarrow> NilValue | Some e \<Rightarrow> ErrorValue e)"

lemma Error_value:
  assumes "arguments_law L" and "i < length vs"
  shows "Arguments_Error L vs i = Some e \<longleftrightarrow> vs ! i = error_value e"
  using assms by (auto simp: arguments_law_def error_value_def split: mock_value.splits option.splits)

lemma Get_value: "arguments_law L \<Longrightarrow> i < length vs \<Longrightarrow> Arguments_Get L vs i = Some (vs ! i)"
  by (simp add: arguments_law_def)

text \<open>A type of values, with its assertion: the assertion gives what was put in, and panics on all else.\<close>

locale asserted =
  fixes assert :: "mock_value \<Rightarrow> 'a option" and inject :: "'a \<Rightarrow> mock_value"
  assumes assert_inject: "assert v = Some x \<longleftrightarrow> v = inject x"
begin

lemma one_result_returns:
  assumes "arguments_law L" and "Called L d f vs m = Some ([v], m1)"
  shows "one_result L assert d f vs m = Some (x, m2) \<longleftrightarrow> v = inject x \<and> m2 = m1"
  using assms by (auto simp: one_result_def Get_value assert_inject bind_eq_Some_conv)

lemma result_and_error_returns:
  assumes "arguments_law L" and "Called L d f vs m = Some ([v, u], m1)"
  shows "result_and_error L assert d f vs m = Some ((x, err), m2) \<longleftrightarrow> v = inject x \<and> u = error_value err \<and> m2 = m1"
  using assms by (auto simp: result_and_error_def Get_value Error_value assert_inject bind_eq_Some_conv)

text \<open>An untyped \<open>nil\<close> for the object is a panic, even when an error comes with it.\<close>

lemma untyped_nil_panics:
  assumes "arguments_law L" and "Called L d f vs m = Some ([NilValue, u], m1)" and "\<And>x. inject x \<noteq> NilValue"
  shows "result_and_error L assert d f vs m = None"
proof (rule ccontr)
  assume "result_and_error L assert d f vs m \<noteq> None"
  then obtain x err m2 where "result_and_error L assert d f vs m = Some ((x, err), m2)" by auto
  with result_and_error_returns [OF assms(1,2), of x err m2] assms(3) [of x] show False by auto
qed

end

interpretation db: asserted as_Dashboard DashboardPtr
  by unfold_locales (auto simp: as_Dashboard_def split: mock_value.splits)

interpretation dbi: asserted as_DashboardInterface ADashboardInterface
  by unfold_locales (auto simp: as_DashboardInterface_def split: mock_value.splits)

interpretation ds: asserted as_Datasource DatasourcePtr
  by unfold_locales (auto simp: as_Datasource_def split: mock_value.splits)

interpretation dsi: asserted as_DatasourceInterface ADatasourceInterface
  by unfold_locales (auto simp: as_DatasourceInterface_def split: mock_value.splits)

interpretation gds: asserted as_GlobalDatasource GlobalDatasourcePtr
  by unfold_locales (auto simp: as_GlobalDatasource_def split: mock_value.splits)

interpretation gdsi: asserted as_GlobalDatasourceInterface AGlobalDatasourceInterface
  by unfold_locales (auto simp: as_GlobalDatasourceInterface_def split: mock_value.splits)

interpretation sec: asserted as_Secret SecretPtr
  by unfold_locales (auto simp: as_Secret_def split: mock_value.splits)

interpretation seci: asserted as_SecretInterface ASecretInterface
  by unfold_locales (auto simp: as_SecretInterface_def split: mock_value.splits)

interpretation gsec: asserted as_GlobalSecret GlobalSecretPtr
  by unfold_locales (auto simp: as_GlobalSecret_def split: mock_value.splits)

interpretation gseci: asserted as_GlobalSecretInterface AGlobalSecretInterface
  by unfold_locales (auto simp: as_GlobalSecretInterface_def split: mock_value.splits)

lemma error_only_returns:
  assumes "arguments_law L" and "Called L d f vs m = Some ([u], m1)"
  shows "error_only L d f vs m = Some (err, m2) \<longleftrightarrow> u = error_value err \<and> m2 = m1"
  using assms by (auto simp: error_only_def Error_value bind_eq_Some_conv)

text \<open>
  A look-up that a test answers with a pointer and an error returns them, and so do the other methods; a
  look-up that it answers with an untyped \<open>nil\<close> panics, so that a mocked ``not found'' has to carry a typed
  pointer.
\<close>

lemma mocked_answers_return:
  assumes "arguments_law L"
  shows "Called L d ''Get'' [StringValue n] m = Some ([DashboardPtr x, error_value e], m') \<Longrightarrow> MockDashboard_Get L d n m = Some ((x, e), m')"
    and "Called L d ''Update'' [DashboardPtr y] m = Some ([DashboardPtr x, error_value e], m') \<Longrightarrow> MockDashboard_Update L d y m = Some ((x, e), m')"
    and "Called L d ''Create'' [DatasourcePtr y] m = Some ([DatasourcePtr x, error_value e], m') \<Longrightarrow> MockDatasource_Create L d y m = Some ((x, e), m')"
    and "Called L d ''Get'' [StringValue n] m = Some ([SecretPtr s, error_value e], m') \<Longrightarrow> MockSecret_Get L d n m = Some ((s, e), m')"
    and "Called L d ''Delete'' [StringValue n] m = Some ([error_value e], m') \<Longrightarrow> MockGlobalSecret_Delete L d n m = Some (e, m')"
    and "Called L d ''Get'' [StringValue n] m = Some ([NilValue, error_value e], m') \<Longrightarrow> MockDashboard_Get L d n m = None"
    and "Called L (Client_Mock c) ''Dashboard'' [StringValue ns] m = Some ([ADashboardInterface (Mocked d)], m') \<Longrightarrow>
      MockClient_Dashboard L c ns m = Some (Mocked d, m')"
  by (simp_all add: MockDashboard_Get_def MockDashboard_Update_def MockDatasource_Create_def MockSecret_Get_def
      MockGlobalSecret_Delete_def MockClient_Dashboard_def assms db.result_and_error_returns ds.result_and_error_returns
      sec.result_and_error_returns error_only_returns dbi.one_result_returns db.untyped_nil_panics)

section \<open>What the server accepts\<close>

text \<open>
  A client of the one kind gets every validation accepted, a client of the other kind gets the message; and
  a message that is empty means acceptance. The client always has the REST client that a validation needs.
\<close>

lemma mock_validation:
  assumes "newMockClientWithValidateServer E new url validateErr = Some (c, server)"
  shows "MockClient_RESTClient c \<noteq> None"
    and "server (''/api/validate/'' @ kind) = (if validateErr = [] then (200, []) else (400, validateErr))"
    and "\<not> prefix ''/api/validate/'' path \<Longrightarrow> server path = (404, [])"
  using assms by (auto simp: newMockClientWithValidateServer_def validate_handler_def MockClient_RESTClient_def Let_def split: sum.splits)

end
