(* ===== verification/Spec2Isabelle.thy ===== *)
theory Spec2Isabelle
  imports Witnesses OperatorWitnesses MockApi
begin

text \<open>
  A verification of the Perses operator (\<^verbatim>\<open>perses/perses-operator\<close>, Go).

  \<^bold>\<open>The program.\<close> The operator runs in a Kubernetes cluster and has four controllers. The Perses
  controller keeps a Service, a ConfigMap and a Deployment or StatefulSet in place for every Perses
  object; the controllers of dashboards, datasources and global datasources push these objects to the
  HTTP API of every available Perses server, through clients that a shared factory makes and caches.
  Every controller is a \<open>Reconcile\<close> function that the library calls again and again with the key of an
  object; it runs a list of sub-reconcilers, of which the first that fails or stops ends the run, and
  records the outcome in a tracker and in metrics. A webhook converts objects between the two versions
  of the API. \<^verbatim>\<open>main.go\<close> checks the settings and registers all of this with the manager.

  \<^bold>\<open>How it is modelled.\<close> A Go struct is a \<open>record\<close> (an embedded struct is the record it extends), an
  enum a \<open>datatype\<close>, a pointer an \<open>option\<close>, a map an association list with distinct keys (its order is
  the unspecified iteration order), an error a value of the datatype \<open>error\<close>, machine integers are
  words. Stateful code is in the state monad over the record \<open>world\<close> of theory \<open>World\<close>: the tracker,
  the metrics, the client factory, the Perses object that the controller's context carries, and the log
  of all calls that left the program, newest first. The services (Kubernetes API, Perses API, file
  system, clock) and the functions of third-party packages are the record \<open>env\<close>, an argument of every
  definition that needs one. An answer may depend on the whole log, so that the model covers every
  behaviour of the services, changes between two calls by others included. What a theorem needs to
  know of a library is a named hypothesis: \<open>retry_law\<close> (\<open>RetryOnConflict\<close> returns what one of its tries
  returned), \<open>conv_law\<close> (the conversions between values and pointers), \<open>selector_law\<close> (label selectors),
  \<open>libs_ok\<close> (the types of libraries copy themselves deeply), \<open>builder_law\<close> (\<open>SchemeBuilder\<close> runs its
  functions in order), \<open>webhook_law\<close> (which types a webhook converts), \<open>arguments_law\<close> (the results of mocks), and \<open>equality_law\<close> (semantic
  equality of strings, slices and maps). Theory \<open>Samples\<close> has an environment in which they hold.
  Reasoning is by weakest preconditions (\<open>wp\<close>); a reflexive and transitive relation that holds along
  every run of a function (\<open>along\<close>) carries most of the invariants.

  \<^bold>\<open>The theories\<close>, in the order of their imports:
  \<^item> \<open>Prelude\<close>: Go maps, strings, formatting and integers, with their lemmas. \<open>GoErrors\<close>: errors, reasons,
    \<open>errors.As\<close> (\<^verbatim>\<open>internal/perses/common/constants.go\<close>).
  \<^item> \<open>ApiTypes\<close> (\<^verbatim>\<open>api/v1alpha2\<close>) and \<open>KubeTypes\<close>: the custom resources, the Kubernetes objects and the
    entities of the Perses API.
  \<^item> \<open>ApiTypesV1\<close>, \<open>Conversion\<close>, \<open>RoundTrips\<close> (\<^verbatim>\<open>api/v1alpha1\<close>): the older version, all conversion
    functions, and what survives them. The locale \<open>round_trip\<close> lifts the contract of a pair of conversions
    to pointers and lists; every type is an instance.
  \<^item> \<open>GoHeap\<close>, \<open>CopySpec\<close>, \<open>CopyLibraries\<close>, \<open>DeepCopyV1alpha1\<close>, \<open>DeepCopyV1alpha2\<close>, \<open>Isolation\<close>
    (\<^verbatim>\<open>zz_generated.deepcopy.go\<close> of both versions and the hand-written \<open>DeepCopyInto\<close>): a heap of pointers,
    slices and maps with the statements of the generated code; what a copier promises (locales \<open>reader\<close>,
    \<open>part_copier\<close>, \<open>deep_copier\<close>) and that pointers, slices, maps and structs of copiers keep the promise;
    every type with its fields and its three functions; the copies of whole objects.
  \<^item> \<open>ApiPointers\<close> (the closures of \<open>RegisterConversions\<close>: a pointer of any type of the two versions, its type
    assertions) and \<open>Scheme\<close> (\<^verbatim>\<open>groupversion_info.go\<close>, \<open>RegisterConversions\<close>, the \<open>init\<close> functions): the conversion
    functions that the program would register, each with its two types and its error return, and what the scheme of
    the program holds. A library that enters types and conversions of its own into the scheme (\<open>AddToGroupVersion\<close>, client-go) is
    one opaque call.
  \<^item> \<open>Metrics\<close>, \<open>Tracker\<close> (\<^verbatim>\<open>internal/metrics\<close>) with the contracts \<open>keyed_counts\<close> and \<open>status_store\<close>;
    \<open>Observability\<close> refines both to abstract states over sequences of events (locale \<open>event_refinement\<close>);
    \<open>MetricsDocs\<close> (\<^verbatim>\<open>scripts/generate-metrics-docs\<close>) is the script that documents the metrics;
    \<open>Telemetry\<close> carries the discipline of the log to all controllers; \<open>Reporting\<close> has the samples that a request
    reports. The controllers name the members of the vectors through the accessors of \<open>Metrics\<close>; an accessor that
    panics is \<open>None\<close>, and \<open>the None\<close> has no known value, so that a sample with known labels comes from one that did not.
  \<^item> \<open>World\<close>: state, services, log, weakest preconditions, frames.
  \<^item> \<open>Subreconciler\<close> (\<^verbatim>\<open>internal/subreconciler\<close>), \<open>Common\<close>, \<open>PodParts\<close>, \<open>Secrets\<close>
    (\<^verbatim>\<open>internal/perses/common\<close>): results of a step; labels, images, tags; arguments, probes, security
    contexts, volumes and mounts; credentials from secrets and config maps.
  \<^item> \<open>ClientFactory\<close>, \<open>ClientCache\<close> (\<^verbatim>\<open>internal/perses/common/perses_client_factory.go\<close>): the construction
    of clients and the cache. \<open>ClientCache\<close> cuts \<open>CreateClient\<close> at its two critical sections and lets any
    number of goroutines interleave (an \<open>inductive\<close> reachability relation).
  \<^item> \<open>LogDiscipline\<close>: what every call in the log must be preceded by.
  \<^item> \<open>ChildSync\<close>, \<open>EntitySync\<close>, \<open>DashboardController\<close>, \<open>DatasourceController\<close>,
    \<open>GlobalDatasourceController\<close> (\<^verbatim>\<open>controllers/dashboards\<close>, \<^verbatim>\<open>controllers/datasources\<close>,
    \<^verbatim>\<open>controllers/globaldatasources\<close>): the loops over the instances and the end of \<open>Reconcile\<close>, shared by
    the three controllers, the contract of pushing one entity, and each controller with all its handlers.
  \<^item> \<open>Workloads\<close>, \<open>OwnedObjects\<close>, \<open>WorkloadProperties\<close>, \<open>PersesController\<close>, \<open>Provisioning\<close>
    (\<^verbatim>\<open>controllers/perses\<close>): the four sub-reconcilers of owned objects as they are written, the contract
    that they share (locale \<open>owned_object\<close>, whose reference \<open>object_reconcile\<close> is not code), the objects they build, and the Perses controller with its handlers for
    deletion, status, finalizer, volumes and provisioning secrets.
  \<^item> \<open>Startup\<close> (\<^verbatim>\<open>main.go\<close>, \<^verbatim>\<open>internal/cache\<close>, \<^verbatim>\<open>internal/tls\<close>, \<^verbatim>\<open>internal/openshift\<close>): cache options,
    TLS settings, the options of the manager, \<open>main\<close> with an exit after each registration. \<open>Watches\<close>: the set-up of the
    controllers (their \<open>SetupWithManager\<close>) and what the informer cache holds because of it.
  \<^item> \<open>Operator\<close>, \<open>Delivery\<close>, \<open>Completion\<close>: the program as a whole. \<open>Operator\<close> puts the four controllers on one
    world, with the tables and the client cache that \<^verbatim>\<open>main.go\<close> makes once, and runs histories of requests
    (\<open>operate\<close>) from the start (\<open>operator_start\<close>). \<open>Delivery\<close> says what a reconciliation without an error has achieved at
    the Perses servers, by locales for the steps that the three child controllers share (\<open>status_update\<close>,
    \<open>instance_removal\<close>, \<open>delivering_controller\<close>). \<open>Completion\<close> says what is in place when the status of a Perses
    object is set to complete.
  \<^item> \<open>Contexts\<close>: the values that the child controllers hand on in the context of a reconciliation.
  \<^item> \<open>Webhooks\<close> (\<^verbatim>\<open>api/v1alpha1/*_webhook.go\<close>, \<^verbatim>\<open>api/v1alpha2/conversion.go\<close>): hubs, spokes, that every kind
    with two versions is converted, and what has to be registered before the manager starts.
  \<^item> \<open>ReleaseScripts\<close> (\<^verbatim>\<open>scripts\<close>): the changelog and the images of a release, and the check of licenses.
    \<open>MockApi\<close> (\<^verbatim>\<open>internal/perses/perses_mock_api.go\<close>): the test double of the Perses client (locale \<open>asserted\<close>).
  \<^item> \<open>Samples\<close>, \<open>Witnesses\<close>, \<open>OperatorWitnesses\<close>: concrete objects and services, and each property with hypotheses applied to
    them.

  \<^bold>\<open>What is shown.\<close>
  \<^item> The operator: from its start and after any history of requests, the discipline below holds, the cache and the
    tables are well-formed and every request has returned; the tracker and the gauge implement the last outcomes of
    the whole history; a reconciliation that reports no error has delivered its object to every available
    instance, or deleted it everywhere; an instance that comes up gets all objects once they are reconciled; and a
    Perses object is marked complete only when everything that it calls for is in place.
  \<^item> Discipline: whatever the services answer, a reconciliation creates only what a look-up answered to be
    absent, updates only what differs, pushes to a Perses server only what that server just validated,
    reads from the informer cache only kinds whose objects the cache holds with all their fields, and reports the
    samples that belong to its outcome, under the declared labels.
  \<^item> Function: when a synchronisation continues, every available selected instance holds the object; the
    outcome that \<open>Reconcile\<close> returns is the one that is recorded; what is gone is forgotten; an instance that comes up
    wakes all that may be waiting for it, a secret the instances that are provisioned from it; what is being
    deleted is not built again; an owned object is written exactly when what the operator owns of it has drifted;
    provisioning secrets are read once each and recorded in a canonical order.
  \<^item> Well-formedness of what is built: mounts name volumes, the Service selects the pods, labels are valid and
    visible to the operator's own cache.
  \<^item> Concurrency: under every interleaving a client is used only for the instance and configuration it was
    made for.
  \<^item> Isolation: a deep copy equals the original and shares no memory with it. This is what allows the rest of
    the development to treat structs as values.
  \<^item> Start: the manager starts exactly when the settings are accepted and every registration that the kinds of the
    scheme ask for was made; a step that fails is the last one.
  \<^item> Conversion: the older version round-trips; exactly what the newer version loses.
  \<^item> Refinement: tracker and metrics implement their abstract states, over any events and for the operator.
  \<^item> Termination: the handlers are total functions of the model and \<open>Reconcile\<close> always yields a result and no
    \<open>nil\<close> dereference; the only loops are over finite lists and \<open>RetryOnConflict\<close>, which is the library's.
    There is no fuel anywhere.

  Some properties record behaviour that the code presumably does not intend: credentials of an unchanged
  datasource are not updated, annotations of a Service reach the pods, a recovered object stays counted
  as failed, a downgraded datasource loses its client, a failed look-up keeps an unwanted workload, the generated
  conversions are registered with a builder that nothing applies, the documentation of one metric lacks a label, an error
  of the deletion of a child object is not counted, a secret that is used for TLS or as a credential wakes nothing, and
  objects of different kinds with the same name share one status.

  \<^bold>\<open>Bounds.\<close> Counts in the metrics and durations are unbounded integers; they stay far below the range of
  Go's. Strings are bytes; case and space functions are those on ASCII. \<open>int\<close> is 64 bits wide.

  In \<open>GoHeap\<close> a slice is its array from the first to the last element; the deep copies do not reslice.
  The specifications of dashboards and datasources and the server configuration are values of the Perses
  packages: their types are parameters of the deep copies.

  \<^bold>\<open>Steps.\<close> In \<open>Operator\<close> each \<open>Reconcile\<close> is one step of a history; what the cluster does meanwhile is in the
  answers of the services. The state that concurrent reconciliations share while they run is the client cache, whose
  interleavings are the subject of \<open>ClientCache\<close>; tracker and metrics are written under their locks, in single
  operations on the key of the request.

  \<^bold>\<open>Not modelled.\<close> Sharing outside the deep copies (the one map that the program writes through an alias,
  the annotations of a Perses object, is written out in \<open>Workloads\<close>); what the libraries do with the
  registered types, watches, webhooks and collectors; Prometheus' own counters (their updates are calls
  in the log); log output; the loading of a file into the embedded configuration of a script.
\<close>

end
